(* ===== verification/Prelude.thy ===== *)
theory Prelude
  imports Main "HOL-Library.Word"
begin

text \<open>
  Shared vocabulary of the development: names for the integer widths of the Go code, Go's
  \<^verbatim>\<open>map[K]bool\<close> used as a set, early-return loops over errors, and the generic list facts
  that the component theories use. The three collections below gather the rewrite rules
  that the component proofs hand to \<^theory_text>\<open>simp add:\<close> and \<^theory_text>\<open>auto simp:\<close>.
\<close>

named_theorems go_map \<open>rewrite rules for Go maps used as sets\<close>
named_theorems state_sets \<open>what each operation on rule match states means as a set\<close>
named_theorems item_match \<open>when an item built by its constructor matches\<close>

type_synonym u8 = "8 word"
type_synonym u16 = "16 word"
type_synonym u32 = "32 word"
type_synonym u64 = "64 word"
type_synonym tag = string
type_synonym duration = int

section \<open>Go maps with boolean values\<close>

text \<open>
  A \<^verbatim>\<open>map[K]bool\<close> filled with \<^verbatim>\<open>m[k] = true\<close> in a loop, and read with \<^verbatim>\<open>m[k]\<close>: reading a
  missing key yields the zero value \<^verbatim>\<open>false\<close>.
\<close>

type_synonym 'k boolmap = "'k \<rightharpoonup> bool"

definition boolmap_get :: "'k boolmap \<Rightarrow> 'k \<Rightarrow> bool" where
  "boolmap_get m k = (case m k of None \<Rightarrow> False | Some b \<Rightarrow> b)"

definition boolmap_of :: "'k list \<Rightarrow> 'k boolmap" where
  "boolmap_of ks = foldl (\<lambda>m k. m(k \<mapsto> True)) Map.empty ks"

lemma boolmap_get_upd [go_map]:
  "boolmap_get (m(k \<mapsto> b)) x = (if x = k then b else boolmap_get m x)"
  by (simp add: boolmap_get_def)

lemma boolmap_get_empty [go_map]: "\<not> boolmap_get Map.empty x"
  by (simp add: boolmap_get_def)

lemma boolmap_get_foldl:
  "boolmap_get (foldl (\<lambda>m k. m(f k \<mapsto> True)) m ks) x = (x \<in> f ` set ks \<or> boolmap_get m x)"
  by (induction ks arbitrary: m) (auto simp: go_map)

lemma boolmap_get_of [go_map]: "boolmap_get (boolmap_of ks) x = (x \<in> set ks)"
  using boolmap_get_foldl [of "\<lambda>k. k" Map.empty ks x]
  by (simp add: boolmap_of_def go_map)

section \<open>Errors and early returns\<close>

text \<open>
  A Go function with result \<^verbatim>\<open>(T, error)\<close> returns a value of type \<open>'e + 'a\<close>, \<open>Inl\<close> being
  the error. The loop \<^verbatim>\<open>for i, x := range xs { y, err := f(x); if err != nil { return err }; ... }\<close>
  is \<open>map_err\<close>: it stops at the first error.
\<close>

fun map_err :: "('a \<Rightarrow> 'e + 'b) \<Rightarrow> 'a list \<Rightarrow> 'e + 'b list" where
  "map_err f [] = Inr []"
| "map_err f (x # xs) =
     (case f x of
        Inl e \<Rightarrow> Inl e
      | Inr y \<Rightarrow> (case map_err f xs of Inl e \<Rightarrow> Inl e | Inr ys \<Rightarrow> Inr (y # ys)))"

lemma map_err_cong [fundef_cong]:
  "xs = ys \<Longrightarrow> (\<And>x. x \<in> set ys \<Longrightarrow> f x = g x) \<Longrightarrow> map_err f xs = map_err g ys"
proof -
  have "(\<And>x. x \<in> set zs \<Longrightarrow> f x = g x) \<Longrightarrow> map_err f zs = map_err g zs" for zs
    by (induction zs) (simp_all split: sum.split)
  then show "xs = ys \<Longrightarrow> (\<And>x. x \<in> set ys \<Longrightarrow> f x = g x) \<Longrightarrow> map_err f xs = map_err g ys"
    by blast
qed

lemma map_err_Inr_iff:
  "map_err f xs = Inr ys \<longleftrightarrow> list_all2 (\<lambda>x y. f x = Inr y) xs ys"
proof (induction xs arbitrary: ys)
  case (Cons x xs)
  then show ?case
    by (cases ys; cases "f x"; cases "map_err f xs") auto
qed auto

lemma map_err_Inl:
  "map_err f xs = Inl e \<Longrightarrow> \<exists>x \<in> set xs. f x = Inl e"
  by (induction xs) (auto split: sum.splits)

lemma map_err_no_error:
  "\<forall>x \<in> set xs. \<exists>y. f x = Inr y \<Longrightarrow> \<exists>ys. map_err f xs = Inr ys"
  by (induction xs) (auto split: sum.splits)

text \<open>The same loop with the index of the element, which the error messages mention.\<close>

fun map_err_from :: "nat \<Rightarrow> (nat \<Rightarrow> 'a \<Rightarrow> 'e + 'b) \<Rightarrow> 'a list \<Rightarrow> 'e + 'b list" where
  "map_err_from i f [] = Inr []"
| "map_err_from i f (x # xs) =
     (case f i x of
        Inl e \<Rightarrow> Inl e
      | Inr y \<Rightarrow> (case map_err_from (Suc i) f xs of Inl e \<Rightarrow> Inl e | Inr ys \<Rightarrow> Inr (y # ys)))"

lemma map_err_from_cong [fundef_cong]:
  "i = j \<Longrightarrow> xs = ys \<Longrightarrow> (\<And>k x. x \<in> set ys \<Longrightarrow> f k x = g k x) \<Longrightarrow>
   map_err_from i f xs = map_err_from j g ys"
proof -
  have "(\<And>k x. x \<in> set zs \<Longrightarrow> f k x = g k x) \<Longrightarrow> map_err_from n f zs = map_err_from n g zs" for n zs
    by (induction zs arbitrary: n) (simp_all split: sum.split)
  then show "i = j \<Longrightarrow> xs = ys \<Longrightarrow> (\<And>k x. x \<in> set ys \<Longrightarrow> f k x = g k x) \<Longrightarrow>
      map_err_from i f xs = map_err_from j g ys"
    by blast
qed

lemma map_err_from_Inr_length:
  "map_err_from i f xs = Inr ys \<Longrightarrow> length ys = length xs"
  by (induction xs arbitrary: i ys) (auto split: sum.splits)

lemma map_err_from_Inr_nth:
  "map_err_from i f xs = Inr ys \<Longrightarrow> k < length xs \<Longrightarrow> f (i + k) (xs ! k) = Inr (ys ! k)"
  by (induction xs arbitrary: i ys k) (fastforce simp: nth_Cons split: sum.splits nat.splits)+

section \<open>Text\<close>

text \<open>\<^verbatim>\<open>strings.Join\<close> and the decimal form of an integer.\<close>

fun strings_Join :: "string list \<Rightarrow> string \<Rightarrow> string" where
  "strings_Join [] sep = []"
| "strings_Join [x] sep = x"
| "strings_Join (x # y # xs) sep = x @ sep @ strings_Join (y # xs) sep"

definition digit_char :: "nat \<Rightarrow> char" where
  "digit_char d = char_of (48 + d)"

fun itoa_nat :: "nat \<Rightarrow> string" where
  "itoa_nat n = (if n < 10 then [digit_char n] else itoa_nat (n div 10) @ [digit_char (n mod 10)])"

declare itoa_nat.simps [simp del]

definition itoa :: "int \<Rightarrow> string" where
  "itoa n = (if n < 0 then CHR ''-'' # itoa_nat (nat (- n)) else itoa_nat (nat n))"

text \<open>The lower-case hexadecimal form, as \<^verbatim>\<open>%x\<close> prints it.\<close>

fun hex_nat :: "nat \<Rightarrow> string" where
  "hex_nat n =
     (let d = n mod 16; c = (if d < 10 then char_of (48 + d) else char_of (87 + d))
      in if n < 16 then [c] else hex_nat (n div 16) @ [c])"

declare hex_nat.simps [simp del]

text \<open>
  \<^verbatim>\<open>strconv.ParseUint(s, 10, 16)\<close>: one or more decimal digits, nothing else, and a value that fits
  16 bits.
\<close>

definition is_digit :: "char \<Rightarrow> bool" where
  "is_digit c \<longleftrightarrow> 48 \<le> (of_char c :: nat) \<and> (of_char c :: nat) \<le> 57"

definition digits_value :: "string \<Rightarrow> nat" where
  "digits_value s = foldl (\<lambda>v c. 10 * v + (of_char c - 48)) 0 s"

definition ParseUint16 :: "string \<Rightarrow> u16 option" where
  "ParseUint16 s =
     (if s \<noteq> [] \<and> list_all is_digit s \<and> digits_value s < 65536
      then Some (of_nat (digits_value s)) else None)"

lemma of_char_digit: "d < 10 \<Longrightarrow> (of_char (digit_char d) :: nat) = 48 + d"
  by (simp add: digit_char_def)

lemma is_digit_digit_char: "d < 10 \<Longrightarrow> is_digit (digit_char d)"
  by (simp add: is_digit_def of_char_digit)

lemma itoa_nat_nonempty: "itoa_nat n \<noteq> []"
  by (subst itoa_nat.simps) simp

lemma itoa_nat_digits: "list_all is_digit (itoa_nat n)"
proof (induction n rule: itoa_nat.induct)
  case (1 n)
  then show ?case
    by (cases "n < 10") (simp_all add: itoa_nat.simps [of n] is_digit_digit_char)
qed

lemma digits_value_itoa_nat: "digits_value (itoa_nat n) = n"
proof (induction n rule: itoa_nat.induct)
  case (1 n)
  then show ?case
    by (cases "n < 10") (simp_all add: itoa_nat.simps [of n] digits_value_def of_char_digit)
qed

text \<open>Printing a 16-bit number and parsing it gives the number back.\<close>

lemma ParseUint16_itoa_nat: "ParseUint16 (itoa_nat (unat p)) = Some p"
  using unsigned_less [of p, where ?'a = nat]
  by (simp add: ParseUint16_def itoa_nat_nonempty itoa_nat_digits digits_value_itoa_nat)

section \<open>List facts\<close>

lemma foldl_rule:
  "P s0 \<Longrightarrow> (\<And>s x. x \<in> set xs \<Longrightarrow> P s \<Longrightarrow> P (f s x)) \<Longrightarrow> P (foldl f s0 xs)"
  by (induction xs arbitrary: s0) auto

text \<open>
  A list computed entry by entry satisfies a predicate somewhere exactly when the computation of
  some entry does.
\<close>

lemma list_all2_ex:
  assumes "list_all2 (\<lambda>x y. f x = g y) xs ys" "inj g"
  shows "(\<exists>y\<in>set ys. P y) \<longleftrightarrow> (\<exists>x\<in>set xs. \<exists>y. f x = g y \<and> P y)"
  using assms(1) by (induction rule: list_all2_induct) (use assms(2) in \<open>auto simp: inj_eq\<close>)

lemma map_err_ex:
  assumes "map_err f xs = Inr ys"
  shows "(\<exists>y\<in>set ys. P y) \<longleftrightarrow> (\<exists>x\<in>set xs. \<exists>y. f x = Inr y \<and> P y)"
  using assms by (intro list_all2_ex) (simp_all add: map_err_Inr_iff)

lemma length_filter_one:
  "distinct xs \<Longrightarrow> x \<in> set xs \<Longrightarrow> length (filter ((=) x) xs) = 1"
  by (induction xs) (auto simp: filter_empty_conv)

lemma remove1_split:
  "xs = us @ x # vs \<Longrightarrow> x \<notin> set us \<Longrightarrow> remove1 x xs = us @ vs"
  by (simp add: remove1_append)

end
