(* ===== verification/Net_Addr.thy ===== *)
theory Net_Addr
  imports Prelude
begin

unbundle bit_operations_syntax

text \<open>
  The part of Go's standard package \<^verbatim>\<open>net/netip\<close> that the modelled code calls. An address is invalid
  (the zero value carries the number 0; \<^verbatim>\<open>Next\<close> of an invalid address keeps counting), an IPv4
  address or an IPv6 address with a zone. A prefix stores \<^verbatim>\<open>bitsPlusOne\<close>, so that its zero value
  is invalid. Nothing here is a definition of the repository: these are the meanings of library
  calls, with the facts about them that the components use.
\<close>

datatype addr =
    AddrInvalid "128 word"
  | Addr4 u32
  | Addr6 "128 word" string

abbreviation AddrZero :: addr where "AddrZero \<equiv> AddrInvalid 0"

fun addr_IsValid :: "addr \<Rightarrow> bool" where
  "addr_IsValid (AddrInvalid _) = False"
| "addr_IsValid _ = True"

fun addr_Is4 :: "addr \<Rightarrow> bool" where
  "addr_Is4 (Addr4 _) = True"
| "addr_Is4 _ = False"

fun addr_Is6 :: "addr \<Rightarrow> bool" where
  "addr_Is6 (Addr6 _ _) = True"
| "addr_Is6 _ = False"

fun addr_BitLen :: "addr \<Rightarrow> nat" where
  "addr_BitLen (AddrInvalid _) = 0"
| "addr_BitLen (Addr4 _) = 32"
| "addr_BitLen (Addr6 _ _) = 128"

text \<open>\<^verbatim>\<open>Next\<close> returns the zero address on overflow.\<close>

fun addr_Next :: "addr \<Rightarrow> addr" where
  "addr_Next (AddrInvalid n) = AddrInvalid (n + 1)"
| "addr_Next (Addr4 a) = (if a + 1 = 0 then AddrZero else Addr4 (a + 1))"
| "addr_Next (Addr6 a z) = (if a + 1 = 0 then AddrZero else Addr6 (a + 1) z)"

text \<open>\<^verbatim>\<open>Unmap\<close> turns an IPv4-mapped IPv6 address into the IPv4 address.\<close>

fun addr_Unmap :: "addr \<Rightarrow> addr" where
  "addr_Unmap (Addr6 a z) =
     (if drop_bit 32 a = 0xffff then Addr4 (ucast a) else Addr6 a z)"
| "addr_Unmap a = a"

datatype prefix = Prefix (prefix_Addr: addr) (prefix_bitsPlusOne: nat)

abbreviation PrefixZero :: prefix where "PrefixZero \<equiv> Prefix AddrZero 0"

definition prefix_IsValid :: "prefix \<Rightarrow> bool" where
  "prefix_IsValid p \<longleftrightarrow> prefix_bitsPlusOne p > 0"

definition prefix_Bits :: "prefix \<Rightarrow> int" where
  "prefix_Bits p = int (prefix_bitsPlusOne p) - 1"

text \<open>\<^verbatim>\<open>PrefixFrom\<close> drops the zone and yields an invalid prefix for a length out of range.\<close>

fun addr_withoutZone :: "addr \<Rightarrow> addr" where
  "addr_withoutZone (Addr6 a z) = Addr6 a []"
| "addr_withoutZone a = a"

definition PrefixFrom :: "addr \<Rightarrow> int \<Rightarrow> prefix" where
  "PrefixFrom ip bits =
     (if addr_IsValid ip \<and> 0 \<le> bits \<and> bits \<le> int (addr_BitLen ip)
      then Prefix (addr_withoutZone ip) (nat bits + 1)
      else Prefix (addr_withoutZone ip) 0)"

text \<open>The prefixes the library can produce: the length fits the family and there is no zone.\<close>

fun prefix_wf :: "prefix \<Rightarrow> bool" where
  "prefix_wf (Prefix a n) =
     ((n = 0 \<or> addr_IsValid a \<and> n \<le> addr_BitLen a + 1) \<and> addr_withoutZone a = a)"

lemma PrefixFrom_wf: "prefix_wf (PrefixFrom a b)"
  by (cases a) (auto simp: PrefixFrom_def)

text \<open>Agreement of the leading bits of two words.\<close>

definition same_prefix :: "nat \<Rightarrow> 'a::len word \<Rightarrow> 'a word \<Rightarrow> bool" where
  "same_prefix b x y \<longleftrightarrow> drop_bit (LENGTH('a) - b) (x XOR y) = 0"

lemma same_prefix_refl [simp]: "same_prefix b x x"
  by (simp add: same_prefix_def)

lemma same_prefix_iff_drop:
  "same_prefix b x y \<longleftrightarrow> drop_bit (LENGTH('a) - b) x = drop_bit (LENGTH('a) - b) (y :: 'a::len word)"
  by (auto simp: same_prefix_def bit_eq_iff bit_simps)

fun prefix_Contains :: "prefix \<Rightarrow> addr \<Rightarrow> bool" where
  "prefix_Contains (Prefix (Addr4 p) (Suc b)) (Addr4 a) = same_prefix b a p"
| "prefix_Contains (Prefix (Addr6 p _) (Suc b)) (Addr6 a z) = (z = [] \<and> same_prefix b a p)"
| "prefix_Contains _ _ = False"

fun prefix_Overlaps :: "prefix \<Rightarrow> prefix \<Rightarrow> bool" where
  "prefix_Overlaps (Prefix (Addr4 p) (Suc b)) (Prefix (Addr4 q) (Suc c)) =
     same_prefix (min b c) p q"
| "prefix_Overlaps (Prefix (Addr6 p _) (Suc b)) (Prefix (Addr6 q _) (Suc c)) =
     same_prefix (min b c) p q"
| "prefix_Overlaps _ _ = False"

lemma prefix_Overlaps_sym: "prefix_Overlaps p q = prefix_Overlaps q p"
  by (induction p q rule: prefix_Overlaps.induct)
    (auto simp: same_prefix_iff_drop min.commute)

lemma prefix_Contains_valid: "prefix_Contains p a \<Longrightarrow> prefix_IsValid p \<and> addr_IsValid a"
  by (induction p a rule: prefix_Contains.induct) (auto simp: prefix_IsValid_def)

section \<open>Addresses and endpoints of the sing library\<close>

text \<open>
  \<^verbatim>\<open>M.Socksaddr\<close> of \<^verbatim>\<open>github.com/sagernet/sing\<close>: its three exported fields. Its methods are not
  defined in this repository; they are fields of the parameter \<open>lib\<close> of the theory
  \<open>Inbound_Context\<close>.
\<close>

record socksaddr =
  sa_Addr :: addr
  sa_Port :: u16
  sa_Fqdn :: string

definition socksaddr_zero :: socksaddr where
  "socksaddr_zero = \<lparr>sa_Addr = AddrZero, sa_Port = 0, sa_Fqdn = []\<rparr>"

end
