(* ===== verification/Inbound_Context.thy ===== *)
theory Inbound_Context
  imports Net_Addr
begin

text \<open>
  \<^verbatim>\<open>adapter/inbound.go\<close>: the per-connection metadata that rules read and actions write, and the
  addresses of a DNS response. Third-party code is a parameter of the model, the record \<open>lib\<close>;
  what the running system can be asked at match time (network interfaces, Wi-Fi state, the mode of
  the Clash API, routes preferred by an outbound) is the record \<open>net_env\<close>.
\<close>

section \<open>DNS messages\<close>

text \<open>
  The fields of \<^verbatim>\<open>dns.Msg\<close> (\<^verbatim>\<open>github.com/miekg/dns\<close>) that the code reads. Addresses inside records
  are raw \<^verbatim>\<open>net.IP\<close> byte slices.
\<close>

datatype svcb_value = SVCBIPv4Hint "u8 list list" | SVCBIPv6Hint "u8 list list" | SVCBOther string

datatype edns_option =
    EDNS0_SUBNET (sub_Family: u16) (sub_SourceNetmask: u8) (sub_Address: "u8 list")
  | EDNS0_PADDING "u8 list"
  | EDNS0_OTHER string

datatype rr_data =
    RR_A "u8 list"
  | RR_AAAA "u8 list"
  | RR_HTTPS "svcb_value list"
  | RR_SOA (soa_Minttl: u32)
  | RR_CNAME string
  | RR_TXT "string list"
  | RR_MX u16 string
  | RR_OPT "edns_option list"
  | RR_Other string

text \<open>A record with its header; of an \<^verbatim>\<open>OPT\<close> record the header's class is the UDP size.\<close>

datatype rr = RR (rr_Name: string) (rr_Rrtype: u16) (rr_Class: u16) (rr_Ttl: u32) (rr_data: rr_data)

datatype question = Question (q_Name: string) (q_Qtype: u16) (q_Qclass: u16)

record dns_msg =
  msg_Id :: u16
  msg_Response :: bool
  msg_Authoritative :: bool
  msg_RecursionDesired :: bool
  msg_RecursionAvailable :: bool
  msg_Rcode :: int
  msg_Question :: "question list"
  msg_Answer :: "rr list"
  msg_Ns :: "rr list"
  msg_Extra :: "rr list"

definition RcodeSuccess :: int where "RcodeSuccess = 0"

section \<open>Code outside the repository\<close>

text \<open>
  The first group are methods and functions of \<^verbatim>\<open>sagernet/sing\<close>, \<^verbatim>\<open>go4.org/netipx\<close> and
  \<^verbatim>\<open>miekg/dns\<close>; a compiled matcher or address set is the predicate it decides. The second
  group are text functions of Go's standard library whose inner workings no property depends
  on. \<open>lib_IsAndroid\<close> is the build constant \<^verbatim>\<open>C.IsAndroid\<close>.
\<close>

datatype ipset_op = AddPrefix prefix | AddAddr addr

record lib =
  lib_IsIP :: "socksaddr \<Rightarrow> bool"
  lib_IsIPv4 :: "socksaddr \<Rightarrow> bool"
  lib_IsIPv6 :: "socksaddr \<Rightarrow> bool"
  lib_IsDomain :: "socksaddr \<Rightarrow> bool"
  lib_IsSocksaddrValid :: "socksaddr \<Rightarrow> bool"
  lib_ParseSocksaddrHostPort :: "string \<Rightarrow> u16 \<Rightarrow> socksaddr"
  lib_IsDomainName :: "string \<Rightarrow> bool"
  lib_AddrFromIP :: "u8 list \<Rightarrow> addr"
  lib_IsPublicAddr :: "addr \<Rightarrow> bool"
  lib_NewMatcher :: "string list \<Rightarrow> string list \<Rightarrow> bool \<Rightarrow> string \<Rightarrow> bool"
  lib_NewAdGuardMatcher :: "string list \<Rightarrow> string \<Rightarrow> bool"
  lib_IPSet :: "ipset_op list \<Rightarrow> (addr \<Rightarrow> bool) option"
  lib_CanonicalName :: "string \<Rightarrow> string"
  lib_IsDuplicate :: "rr \<Rightarrow> rr \<Rightarrow> bool"
  lib_ToLower :: "string \<Rightarrow> string"
  lib_EqualFold :: "string \<Rightarrow> string \<Rightarrow> bool"
  lib_RegexpCompile :: "string \<Rightarrow> (string \<Rightarrow> bool) option"
  lib_ParsePrefix :: "string \<Rightarrow> prefix option"
  lib_ParseAddr :: "string \<Rightarrow> addr option"
  lib_ParseMACString :: "string \<Rightarrow> string option"
  lib_FilepathBase :: "string \<Rightarrow> string"
  lib_PrefixableBuild :: "string \<Rightarrow> prefix"
  lib_PrefixString :: "prefix \<Rightarrow> string"
  lib_AddrToString :: "addr \<Rightarrow> string"
  lib_SocksaddrAddrString :: "socksaddr \<Rightarrow> string"
  lib_TLSSpoofSupported :: bool
  lib_RRString :: "rr \<Rightarrow> string"
  lib_RcodeToString :: "int \<Rightarrow> string"
  lib_TypeToString :: "u16 \<Rightarrow> string option"
  lib_DurationString :: "duration \<Rightarrow> string"
  lib_IsAndroid :: bool

section \<open>The metadata of a connection\<close>

record connection_owner =
  UserId :: "32 word"
  UserName :: string
  ProcessPath :: string
  AndroidPackageNames :: "string list"

text \<open>
  \<^verbatim>\<open>InboundContext\<close>. \<open>SniffError\<close> keeps what the code asks of the error: whether there is one, and
  whether it is \<^verbatim>\<open>sniff.ErrNeedMoreData\<close>. A MAC address is its text form, \<^verbatim>\<open>nil\<close> being \<open>None\<close>.
\<close>

datatype sniff_error = ErrNeedMoreData | ErrSniff string

record inbound_context =
  Inbound :: string
  InboundType :: string
  IPVersion :: u8
  Network :: string
  Source :: socksaddr
  Destination :: socksaddr
  TunnelSource :: string
  TunnelDestination :: string
  User :: string
  Outbound :: string
  Protocol :: string
  Domain :: string
  Client :: string
  SnifferNames :: "string list"
  SniffError :: "sniff_error option"
  InboundDetour :: string
  LastInbound :: string
  OriginDestination :: socksaddr
  RouteOriginalDestination :: socksaddr
  UDPDisableDomainUnmapping :: bool
  UDPConnect :: bool
  UDPTimeout :: duration
  TLSFragment :: bool
  TLSFragmentFallbackDelay :: duration
  TLSRecordFragment :: bool
  TLSSpoof :: string
  TLSSpoofMethod :: int
  NetworkStrategy :: "int option"
  NetworkType :: "u8 list"
  FallbackNetworkType :: "u8 list"
  FallbackDelay :: duration
  DestinationAddresses :: "addr list"
  DNSResponse :: "dns_msg option"
  DestinationAddressMatchFromResponse :: bool
  ProcessInfo :: "connection_owner option"
  SourceMACAddress :: "string option"
  SourceHostname :: string
  QueryType :: u16
  FakeIP :: bool
  PreMatch :: bool
  IPCIDRMatchSource :: bool
  IPCIDRAcceptEmpty :: bool
  SourceAddressMatch :: bool
  SourcePortMatch :: bool
  DestinationAddressMatch :: bool
  DestinationPortMatch :: bool
  DidMatch :: bool
  IgnoreDestinationIPCIDRMatch :: bool
  RealOutbound :: string

definition ResetRuleMatchCache :: "inbound_context \<Rightarrow> inbound_context" where
  "ResetRuleMatchCache c = c\<lparr>
     SourceAddressMatch := False,
     SourcePortMatch := False,
     DestinationAddressMatch := False,
     DestinationPortMatch := False,
     DidMatch := False\<rparr>"

definition ResetRuleCache :: "inbound_context \<Rightarrow> inbound_context" where
  "ResetRuleCache c = ResetRuleMatchCache (c\<lparr>IPCIDRMatchSource := False, IPCIDRAcceptEmpty := False\<rparr>)"

definition SetRealOutbound :: "inbound_context \<Rightarrow> string \<Rightarrow> inbound_context" where
  "SetRealOutbound c t = c\<lparr>RealOutbound := t\<rparr>"

fun hintAddresses :: "lib \<Rightarrow> svcb_value \<Rightarrow> addr list" where
  "hintAddresses l (SVCBIPv4Hint ips) =
     filter addr_IsValid (map (\<lambda>ip. addr_Unmap (lib_AddrFromIP l ip)) ips)"
| "hintAddresses l (SVCBIPv6Hint ips) = filter addr_IsValid (map (lib_AddrFromIP l) ips)"
| "hintAddresses l (SVCBOther _) = []"

fun recordAddresses :: "lib \<Rightarrow> rr_data \<Rightarrow> addr list" where
  "recordAddresses l (RR_A ip) = filter addr_IsValid [lib_AddrFromIP l ip]"
| "recordAddresses l (RR_AAAA ip) = filter addr_IsValid [lib_AddrFromIP l ip]"
| "recordAddresses l (RR_HTTPS vs) = concat (map (hintAddresses l) vs)"
| "recordAddresses l _ = []"

definition DNSResponseAddresses :: "lib \<Rightarrow> dns_msg option \<Rightarrow> addr list" where
  "DNSResponseAddresses l response =
     (case response of
        None \<Rightarrow> []
      | Some m \<Rightarrow> if msg_Rcode m \<noteq> RcodeSuccess then []
                  else concat (map (\<lambda>r. recordAddresses l (rr_data r)) (msg_Answer m)))"

definition DNSResponseAddressesForMatch :: "lib \<Rightarrow> inbound_context \<Rightarrow> addr list" where
  "DNSResponseAddressesForMatch l c = DNSResponseAddresses l (DNSResponse c)"

section \<open>What the running system answers at match time\<close>

record network_interface =
  ni_Name :: string
  ni_Addresses :: "prefix list"
  ni_Type :: u8
  ni_Expensive :: bool
  ni_Constrained :: bool

record wifi_state =
  SSID :: string
  BSSID :: string

record net_env =
  env_DefaultNetworkInterface :: "network_interface option"
  env_Interfaces :: "(string \<times> prefix list) list"
  env_NetworkInterfaces :: "network_interface list"
  env_DefaultInterface :: "prefix list option"
  env_WIFIState :: wifi_state
  env_ClashMode :: string
  env_PreferredDomain :: "tag \<Rightarrow> inbound_context \<Rightarrow> string \<Rightarrow> bool"
  env_PreferredAddress :: "tag \<Rightarrow> inbound_context \<Rightarrow> addr \<Rightarrow> bool"
  env_TransportPreferredDomain :: "tag \<Rightarrow> string \<Rightarrow> bool"

section \<open>Facts\<close>

text \<open>Every address of a response is valid, and a failed response has none.\<close>

lemma recordAddresses_valid: "a \<in> set (recordAddresses l d) \<Longrightarrow> addr_IsValid a"
proof (cases d)
  case (RR_HTTPS vs)
  moreover have "b \<in> set (hintAddresses l v) \<Longrightarrow> addr_IsValid b" for b v
    by (cases v) auto
  ultimately show "a \<in> set (recordAddresses l d) \<Longrightarrow> addr_IsValid a" by auto
qed (auto split: if_splits)

lemma DNSResponseAddresses_valid: "a \<in> set (DNSResponseAddresses l r) \<Longrightarrow> addr_IsValid a"
  by (auto simp: DNSResponseAddresses_def recordAddresses_valid split: option.splits if_splits)

lemma Reset_idem [simp]:
  "ResetRuleMatchCache (ResetRuleMatchCache c) = ResetRuleMatchCache c"
  "ResetRuleCache (ResetRuleCache c) = ResetRuleCache c"
  "ResetRuleMatchCache (ResetRuleCache c) = ResetRuleCache c"
  by (simp_all add: ResetRuleMatchCache_def ResetRuleCache_def)

end
