(* ===== verification/Rule_Items.thy ===== *)
theory Rule_Items
  imports Inbound_Context "HOL-Library.AList"
begin

text \<open>
  \<^verbatim>\<open>route/rule/rule_item_*.go\<close> and \<^verbatim>\<open>rule_*_interface_address.go\<close>: the conditions a rule is made of.
  Every condition type has its constructor, its \<^verbatim>\<open>Match\<close> method and its \<^verbatim>\<open>String\<close> method, in the
  order of the source; \<open>item_Match\<close> and \<open>item_String\<close> are the calls through the interface
  \<^verbatim>\<open>RuleItem\<close>. The facts of the collection \<open>item_match\<close> say, for an item made by its constructor,
  which connections it matches.
\<close>

section \<open>Errors\<close>

text \<open>
  An error is the message of \<^verbatim>\<open>E.New\<close>, a cause wrapped by \<^verbatim>\<open>E.Cause\<close>, possibly with an index in the
  message, or an error of a library call.
\<close>

datatype rule_error =
    E_New string
  | E_NewArg string string
  | E_Cause rule_error string
  | E_CauseAt rule_error string nat
  | E_Lib string

section \<open>The items\<close>

text \<open>One constructor per struct that implements \<^verbatim>\<open>RuleItem\<close>, with the fields of the struct.\<close>

datatype rule_item =
    InboundItem "string list" "string boolmap"
  | IPVersionItem bool
  | QueryTypeItem "u16 list" "u16 boolmap"
  | NetworkItem "string list" "string boolmap"
  | AuthUserItem "string list" "string boolmap"
  | ProtocolItem "string list" "string boolmap"
  | ClientItem "string list" "string boolmap"
  | DomainItem "string \<Rightarrow> bool" string
  | DomainKeywordItem "string list"
  | DomainRegexItem "(string \<Rightarrow> bool) list" string
  | AdGuardDomainItem "string \<Rightarrow> bool"
  | IPCIDRItem "addr \<Rightarrow> bool" bool string
  | IPIsPrivateItem bool
  | IPAcceptAnyItem
  | PortItem "u16 list" "u16 boolmap" bool
  | PortRangeItem bool "string list" "(u16 \<times> u16) list"
  | TunnelSourceItem "string list" "string boolmap"
  | TunnelDestinationItem "string list" "string boolmap"
  | ProcessItem "string list" "string boolmap"
  | ProcessPathItem "string list" "string boolmap"
  | ProcessPathRegexItem "(string \<Rightarrow> bool) list" string
  | PackageNameItem "string list" "string boolmap"
  | PackageNameRegexItem "(string \<Rightarrow> bool) list" string
  | UserItem "string list" "string boolmap"
  | UserIdItem "u32 list" "u32 boolmap"
  | OutboundItem "string list" "string boolmap" bool
  | ClashModeItem bool string
  | NetworkTypeItem "u8 list"
  | NetworkIsExpensiveItem
  | NetworkIsConstrainedItem
  | WIFISSIDItem "string list" "string boolmap"
  | WIFIBSSIDItem "string list" "string boolmap"
  | InterfaceAddressItem "(string \<times> prefix list) list" string
  | NetworkInterfaceAddressItem "(u8 \<times> prefix list) list" string
  | DefaultInterfaceAddressItem "prefix list"
  | SourceMACAddressItem "string list" "string boolmap"
  | SourceHostnameItem "string list" "string boolmap"
  | PreferredByItem "tag list" "tag list"
  | PreferredByDNSItem "tag list" "tag list"
  | DNSResponseRCodeItem int
  | DNSResponseRecordItem string "rr option list" "dns_msg \<Rightarrow> rr list"

subsection \<open>Helpers of the descriptions\<close>

text \<open>\<^verbatim>\<open>name=x\<close> for one entry, \<^verbatim>\<open>name=[x y z]\<close> otherwise.\<close>

definition describeList :: "string \<Rightarrow> string list \<Rightarrow> string" where
  "describeList name xs =
     (if length xs = 1 then name @ ''='' @ hd xs
      else name @ ''=['' @ strings_Join xs '' '' @ '']'')"

text \<open>The same with at most three entries shown, closed by \<open>end3\<close> when there are more.\<close>

definition describeUpTo3 :: "string \<Rightarrow> string \<Rightarrow> string list \<Rightarrow> string" where
  "describeUpTo3 name end3 xs =
     (if length xs = 1 then name @ ''='' @ hd xs
      else if length xs > 3 then name @ ''=['' @ strings_Join (take 3 xs) '' '' @ end3
      else name @ ''=['' @ strings_Join xs '' '' @ '']'')"

subsection \<open>inbound, ip\_version, query\_type, network, auth\_user, protocol, client\<close>

definition NewInboundRule :: "string list \<Rightarrow> rule_item" where
  "NewInboundRule inbounds = InboundItem inbounds (boolmap_of inbounds)"

definition InboundItem_Match :: "string boolmap \<Rightarrow> inbound_context \<Rightarrow> bool" where
  "InboundItem_Match inboundMap c = boolmap_get inboundMap (Inbound c)"

definition InboundItem_String :: "string list \<Rightarrow> string" where
  "InboundItem_String inbounds = describeList ''inbound'' inbounds"

definition NewIPVersionItem :: "bool \<Rightarrow> rule_item" where
  "NewIPVersionItem isIPv6 = IPVersionItem isIPv6"

definition IPVersionItem_Match :: "lib \<Rightarrow> bool \<Rightarrow> inbound_context \<Rightarrow> bool" where
  "IPVersionItem_Match l isIPv6 c \<longleftrightarrow>
     (IPVersion c \<noteq> 0 \<and> ((IPVersion c = 6) = isIPv6)) \<or>
     (lib_IsIP l (Destination c) \<and> (lib_IsIPv6 l (Destination c) = isIPv6))"

definition IPVersionItem_String :: "bool \<Rightarrow> string" where
  "IPVersionItem_String isIPv6 = ''ip_version='' @ (if isIPv6 then ''6'' else ''4'')"

definition NewQueryTypeItem :: "u16 list \<Rightarrow> rule_item" where
  "NewQueryTypeItem typeList = QueryTypeItem typeList (boolmap_of typeList)"

definition QueryTypeItem_Match :: "u16 boolmap \<Rightarrow> inbound_context \<Rightarrow> bool" where
  "QueryTypeItem_Match typeMap c =
     (if QueryType c = 0 then False else boolmap_get typeMap (QueryType c))"

definition DNSQueryTypeToString :: "lib \<Rightarrow> u16 \<Rightarrow> string" where
  "DNSQueryTypeToString l queryType =
     (case lib_TypeToString l queryType of Some typeName \<Rightarrow> typeName | None \<Rightarrow> itoa_nat (unat queryType))"

definition QueryTypeItem_String :: "lib \<Rightarrow> u16 list \<Rightarrow> string" where
  "QueryTypeItem_String l typeList = describeList ''query_type'' (map (DNSQueryTypeToString l) typeList)"

definition NewNetworkItem :: "string list \<Rightarrow> rule_item" where
  "NewNetworkItem networks = NetworkItem networks (boolmap_of networks)"

definition NetworkItem_Match :: "string boolmap \<Rightarrow> inbound_context \<Rightarrow> bool" where
  "NetworkItem_Match networkMap c = boolmap_get networkMap (Network c)"

definition NetworkItem_String :: "string list \<Rightarrow> string" where
  "NetworkItem_String networks = describeList ''network'' networks"

definition NewAuthUserItem :: "string list \<Rightarrow> rule_item" where
  "NewAuthUserItem users = AuthUserItem users (boolmap_of users)"

definition AuthUserItem_Match :: "string boolmap \<Rightarrow> inbound_context \<Rightarrow> bool" where
  "AuthUserItem_Match userMap c = boolmap_get userMap (User c)"

definition AuthUserItem_String :: "string list \<Rightarrow> string" where
  "AuthUserItem_String users = describeList ''auth_user'' users"

definition NewProtocolItem :: "string list \<Rightarrow> rule_item" where
  "NewProtocolItem protocols = ProtocolItem protocols (boolmap_of protocols)"

definition ProtocolItem_Match :: "string boolmap \<Rightarrow> inbound_context \<Rightarrow> bool" where
  "ProtocolItem_Match protocolMap c = boolmap_get protocolMap (Protocol c)"

definition ProtocolItem_String :: "string list \<Rightarrow> string" where
  "ProtocolItem_String protocols = describeList ''protocol'' protocols"

definition NewClientItem :: "string list \<Rightarrow> rule_item" where
  "NewClientItem clients = ClientItem clients (boolmap_of clients)"

definition ClientItem_Match :: "string boolmap \<Rightarrow> inbound_context \<Rightarrow> bool" where
  "ClientItem_Match clientMap c = boolmap_get clientMap (Client c)"

definition ClientItem_String :: "string list \<Rightarrow> string" where
  "ClientItem_String clients = describeList ''client'' clients"

subsection \<open>domain, domain\_suffix, domain\_keyword, domain\_regex, AdGuard rules\<close>

text \<open>
  The host a domain condition looks at: the sniffed or reverse-mapped domain, else the
  destination's name. The five \<^verbatim>\<open>Match\<close> methods below start with this choice.
\<close>

definition domainHost :: "inbound_context \<Rightarrow> string" where
  "domainHost c = (if Domain c \<noteq> [] then Domain c else sa_Fqdn (Destination c))"

definition NewDomainItem :: "lib \<Rightarrow> string list \<Rightarrow> string list \<Rightarrow> rule_error + rule_item" where
  "NewDomainItem l domains domainSuffixes =
     (if [] \<in> set domains then Inl (E_New ''domain: empty item is not allowed'')
      else if [] \<in> set domainSuffixes then Inl (E_New ''domain_suffix: empty item is not allowed'')
      else
        let description =
              (if domains \<noteq> [] then describeUpTo3 ''domain'' ''...]'' domains else []);
            description =
              (if domainSuffixes \<noteq> []
               then description @ (if description \<noteq> [] then '' '' else [])
                    @ describeUpTo3 ''domain_suffix'' ''...]'' domainSuffixes
               else description)
        in Inr (DomainItem (lib_NewMatcher l domains domainSuffixes False) description))"

definition NewRawDomainItem :: "(string \<Rightarrow> bool) \<Rightarrow> rule_item" where
  "NewRawDomainItem matcher = DomainItem matcher ''domain/domain_suffix=<binary>''"

definition DomainItem_Match :: "lib \<Rightarrow> (string \<Rightarrow> bool) \<Rightarrow> inbound_context \<Rightarrow> bool" where
  "DomainItem_Match l matcher c =
     (if domainHost c = [] then False else matcher (lib_ToLower l (domainHost c)))"

definition NewDomainKeywordItem :: "string list \<Rightarrow> rule_item" where
  "NewDomainKeywordItem keywords = DomainKeywordItem keywords"

text \<open>\<^verbatim>\<open>strings.Contains(s, sub)\<close>.\<close>

fun strings_Contains :: "string \<Rightarrow> string \<Rightarrow> bool" where
  "strings_Contains [] sub = (sub = [])"
| "strings_Contains (c # s) sub = (take (length sub) (c # s) = sub \<or> strings_Contains s sub)"

definition DomainKeywordItem_Match :: "lib \<Rightarrow> string list \<Rightarrow> inbound_context \<Rightarrow> bool" where
  "DomainKeywordItem_Match l keywords c =
     (if domainHost c = [] then False
      else list_ex (\<lambda>keyword. strings_Contains (lib_ToLower l (domainHost c)) keyword) keywords)"

definition DomainKeywordItem_String :: "string list \<Rightarrow> string" where
  "DomainKeywordItem_String keywords = describeUpTo3 ''domain_keyword'' ''...]'' keywords"

text \<open>The three regex items compile their expressions in order and stop at the first bad one.\<close>

definition compileRegexps :: "lib \<Rightarrow> string list \<Rightarrow> rule_error + (string \<Rightarrow> bool) list" where
  "compileRegexps l expressions =
     map_err_from 0 (\<lambda>i regex.
       case lib_RegexpCompile l regex of
         None \<Rightarrow> Inl (E_CauseAt (E_Lib ''regexp'') ''parse expression '' i)
       | Some m \<Rightarrow> Inr m) expressions"

definition NewDomainRegexItem :: "lib \<Rightarrow> string list \<Rightarrow> rule_error + rule_item" where
  "NewDomainRegexItem l expressions =
     (case compileRegexps l expressions of
        Inl e \<Rightarrow> Inl e
      | Inr matchers \<Rightarrow>
          Inr (DomainRegexItem matchers (describeUpTo3 ''domain_regex'' '']'' expressions)))"

definition DomainRegexItem_Match :: "lib \<Rightarrow> (string \<Rightarrow> bool) list \<Rightarrow> inbound_context \<Rightarrow> bool" where
  "DomainRegexItem_Match l matchers c =
     (if domainHost c = [] then False
      else list_ex (\<lambda>matcher. matcher (lib_ToLower l (domainHost c))) matchers)"

definition NewAdGuardDomainItem :: "lib \<Rightarrow> string list \<Rightarrow> rule_item" where
  "NewAdGuardDomainItem l ruleLines = AdGuardDomainItem (lib_NewAdGuardMatcher l ruleLines)"

definition NewRawAdGuardDomainItem :: "(string \<Rightarrow> bool) \<Rightarrow> rule_item" where
  "NewRawAdGuardDomainItem matcher = AdGuardDomainItem matcher"

definition AdGuardDomainItem_Match :: "lib \<Rightarrow> (string \<Rightarrow> bool) \<Rightarrow> inbound_context \<Rightarrow> bool" where
  "AdGuardDomainItem_Match l matcher c =
     (if domainHost c = [] then False else matcher (lib_ToLower l (domainHost c)))"

subsection \<open>ip\_cidr, ip\_is\_private, ip\_accept\_any\<close>

text \<open>Each entry is a prefix or, failing that, a single address.\<close>

definition parseIPSetEntry :: "lib \<Rightarrow> nat \<Rightarrow> string \<Rightarrow> rule_error + ipset_op" where
  "parseIPSetEntry l i s =
     (case lib_ParsePrefix l s of
        Some p \<Rightarrow> Inr (AddPrefix p)
      | None \<Rightarrow>
          (case lib_ParseAddr l s of
             Some a \<Rightarrow> Inr (AddAddr a)
           | None \<Rightarrow> Inl (E_CauseAt (E_Lib ''netip.ParsePrefix'') ''parse ['' i)))"

definition NewIPCIDRItem :: "lib \<Rightarrow> bool \<Rightarrow> string list \<Rightarrow> rule_error + rule_item" where
  "NewIPCIDRItem l isSource prefixStrings =
     (case map_err_from 0 (parseIPSetEntry l) prefixStrings of
        Inl e \<Rightarrow> Inl e
      | Inr ops \<Rightarrow>
          let description =
                describeUpTo3 (if isSource then ''source_ip_cidr'' else ''ip_cidr'') ''...]'' prefixStrings
          in case lib_IPSet l ops of
               None \<Rightarrow> Inl (E_Lib ''netipx.IPSet'')
             | Some ipSet \<Rightarrow> Inr (IPCIDRItem ipSet isSource description))"

definition NewRawIPCIDRItem :: "bool \<Rightarrow> (addr \<Rightarrow> bool) \<Rightarrow> rule_item" where
  "NewRawIPCIDRItem isSource ipSet =
     IPCIDRItem ipSet isSource
       ((if isSource then ''source_ip_cidr='' else ''ip_cidr='') @ ''<binary>'')"

definition IPCIDRItem_Match ::
  "lib \<Rightarrow> (addr \<Rightarrow> bool) \<Rightarrow> bool \<Rightarrow> inbound_context \<Rightarrow> bool" where
  "IPCIDRItem_Match l ipSet isSource c =
     (if isSource \<or> IPCIDRMatchSource c then ipSet (sa_Addr (Source c))
      else if DestinationAddressMatchFromResponse c then
        (let addresses = DNSResponseAddressesForMatch l c
         in if addresses = [] then IPCIDRAcceptEmpty c else list_ex ipSet addresses)
      else if lib_IsIP l (Destination c) then ipSet (sa_Addr (Destination c))
      else if DestinationAddresses c \<noteq> [] then list_ex ipSet (DestinationAddresses c)
      else IPCIDRAcceptEmpty c)"

definition NewIPIsPrivateItem :: "bool \<Rightarrow> rule_item" where
  "NewIPIsPrivateItem isSource = IPIsPrivateItem isSource"

definition IPIsPrivateItem_Match :: "lib \<Rightarrow> bool \<Rightarrow> inbound_context \<Rightarrow> bool" where
  "IPIsPrivateItem_Match l isSource c =
     (if isSource then \<not> lib_IsPublicAddr l (sa_Addr (Source c))
      else if DestinationAddressMatchFromResponse c then
        list_ex (\<lambda>a. \<not> lib_IsPublicAddr l a) (DNSResponseAddressesForMatch l c)
      else if addr_IsValid (sa_Addr (Destination c)) then
        \<not> lib_IsPublicAddr l (sa_Addr (Destination c))
      else list_ex (\<lambda>a. \<not> lib_IsPublicAddr l a) (DestinationAddresses c))"

definition IPIsPrivateItem_String :: "bool \<Rightarrow> string" where
  "IPIsPrivateItem_String isSource =
     (if isSource then ''source_ip_is_private=true'' else ''ip_is_private=true'')"

definition NewIPAcceptAnyItem :: rule_item where
  "NewIPAcceptAnyItem = IPAcceptAnyItem"

definition IPAcceptAnyItem_Match :: "lib \<Rightarrow> inbound_context \<Rightarrow> bool" where
  "IPAcceptAnyItem_Match l c =
     (if DestinationAddressMatchFromResponse c
      then length (DNSResponseAddressesForMatch l c) > 0
      else length (DestinationAddresses c) > 0)"

subsection \<open>port, port\_range\<close>

definition NewPortItem :: "bool \<Rightarrow> u16 list \<Rightarrow> rule_item" where
  "NewPortItem isSource ports = PortItem ports (boolmap_of ports) isSource"

definition PortItem_Match :: "u16 boolmap \<Rightarrow> bool \<Rightarrow> inbound_context \<Rightarrow> bool" where
  "PortItem_Match portMap isSource c =
     (if isSource then boolmap_get portMap (sa_Port (Source c))
      else boolmap_get portMap (sa_Port (Destination c)))"

definition PortItem_String :: "u16 list \<Rightarrow> bool \<Rightarrow> string" where
  "PortItem_String ports isSource =
     describeList (if isSource then ''source_port'' else ''port'') (map (\<lambda>p. itoa_nat (unat p)) ports)"

text \<open>
  One entry of a port range list, \<^verbatim>\<open>a:b\<close>: a missing \<^verbatim>\<open>a\<close> is 0, a missing \<^verbatim>\<open>b\<close> is 65535.
\<close>

definition parsePortRange :: "string \<Rightarrow> rule_error + (u16 \<times> u16)" where
  "parsePortRange portRange =
     (if CHR '':'' \<notin> set portRange then Inl (E_NewArg ''bad port range'' portRange)
      else
        let subIndex = length (takeWhile (\<lambda>c. c \<noteq> CHR '':'') portRange);
            bad = E_Cause (E_Lib ''strconv.ParseUint'') (''bad port range: '' @ portRange)
        in case (if subIndex > 0 then ParseUint16 (take subIndex portRange) else Some 0) of
             None \<Rightarrow> Inl bad
           | Some start \<Rightarrow>
               (case (if subIndex = length portRange - 1 then Some 0xFFFF
                      else ParseUint16 (drop (subIndex + 1) portRange)) of
                  None \<Rightarrow> Inl bad
                | Some stop \<Rightarrow> Inr (start, stop)))"

definition NewPortRangeItem :: "bool \<Rightarrow> string list \<Rightarrow> rule_error + rule_item" where
  "NewPortRangeItem isSource rangeList =
     (case map_err parsePortRange rangeList of
        Inl e \<Rightarrow> Inl e
      | Inr portRangeList \<Rightarrow> Inr (PortRangeItem isSource rangeList portRangeList))"

definition PortRangeItem_Match :: "bool \<Rightarrow> (u16 \<times> u16) list \<Rightarrow> inbound_context \<Rightarrow> bool" where
  "PortRangeItem_Match isSource portRangeList c =
     (let port = (if isSource then sa_Port (Source c) else sa_Port (Destination c))
      in list_ex (\<lambda>(start, stop). port \<ge> start \<and> port \<le> stop) portRangeList)"

definition PortRangeItem_String :: "bool \<Rightarrow> string list \<Rightarrow> string" where
  "PortRangeItem_String isSource portRanges =
     describeList (if isSource then ''source_port_range'' else ''port_range'') portRanges"

subsection \<open>tunnel endpoints, process, package, user\<close>

definition NewTunnelSourceItem :: "string list \<Rightarrow> rule_item" where
  "NewTunnelSourceItem sources = TunnelSourceItem sources (boolmap_of sources)"

definition TunnelSourceItem_Match :: "string boolmap \<Rightarrow> inbound_context \<Rightarrow> bool" where
  "TunnelSourceItem_Match sourceMap c = boolmap_get sourceMap (TunnelSource c)"

definition TunnelSourceItem_String :: "string list \<Rightarrow> string" where
  "TunnelSourceItem_String sources = describeList ''tunnel_source'' sources"

definition NewTunnelDestinationItem :: "string list \<Rightarrow> rule_item" where
  "NewTunnelDestinationItem destinations =
     TunnelDestinationItem destinations (boolmap_of destinations)"

definition TunnelDestinationItem_Match :: "string boolmap \<Rightarrow> inbound_context \<Rightarrow> bool" where
  "TunnelDestinationItem_Match destinationMap c = boolmap_get destinationMap (TunnelDestination c)"

definition TunnelDestinationItem_String :: "string list \<Rightarrow> string" where
  "TunnelDestinationItem_String destinations = describeList ''tunnel_destination'' destinations"

definition NewProcessItem :: "string list \<Rightarrow> rule_item" where
  "NewProcessItem processNameList = ProcessItem processNameList (boolmap_of processNameList)"

definition ProcessItem_Match :: "lib \<Rightarrow> string boolmap \<Rightarrow> inbound_context \<Rightarrow> bool" where
  "ProcessItem_Match l processMap c =
     (case ProcessInfo c of
        None \<Rightarrow> False
      | Some info \<Rightarrow>
          if ProcessPath info = [] then False
          else boolmap_get processMap (lib_FilepathBase l (ProcessPath info)))"

definition ProcessItem_String :: "string list \<Rightarrow> string" where
  "ProcessItem_String processes = describeList ''process_name'' processes"

definition NewProcessPathItem :: "string list \<Rightarrow> rule_item" where
  "NewProcessPathItem processNameList =
     ProcessPathItem processNameList (boolmap_of processNameList)"

definition ProcessPathItem_Match :: "lib \<Rightarrow> string boolmap \<Rightarrow> inbound_context \<Rightarrow> bool" where
  "ProcessPathItem_Match l processMap c =
     (case ProcessInfo c of
        None \<Rightarrow> False
      | Some info \<Rightarrow>
          if ProcessPath info \<noteq> [] \<and> boolmap_get processMap (ProcessPath info) then True
          else if lib_IsAndroid l then list_ex (boolmap_get processMap) (AndroidPackageNames info)
          else False)"

definition ProcessPathItem_String :: "string list \<Rightarrow> string" where
  "ProcessPathItem_String processes = describeList ''process_path'' processes"

definition NewProcessPathRegexItem :: "lib \<Rightarrow> string list \<Rightarrow> rule_error + rule_item" where
  "NewProcessPathRegexItem l expressions =
     (case compileRegexps l expressions of
        Inl e \<Rightarrow> Inl e
      | Inr matchers \<Rightarrow>
          Inr (ProcessPathRegexItem matchers (describeUpTo3 ''process_path_regex'' '']'' expressions)))"

definition ProcessPathRegexItem_Match :: "(string \<Rightarrow> bool) list \<Rightarrow> inbound_context \<Rightarrow> bool" where
  "ProcessPathRegexItem_Match matchers c =
     (case ProcessInfo c of
        None \<Rightarrow> False
      | Some info \<Rightarrow>
          if ProcessPath info = [] then False
          else list_ex (\<lambda>matcher. matcher (ProcessPath info)) matchers)"

definition NewPackageNameItem :: "string list \<Rightarrow> rule_item" where
  "NewPackageNameItem packageNameList =
     PackageNameItem packageNameList (boolmap_of packageNameList)"

definition PackageNameItem_Match :: "string boolmap \<Rightarrow> inbound_context \<Rightarrow> bool" where
  "PackageNameItem_Match packageMap c =
     (case ProcessInfo c of
        None \<Rightarrow> False
      | Some info \<Rightarrow>
          if AndroidPackageNames info = [] then False
          else list_ex (boolmap_get packageMap) (AndroidPackageNames info))"

definition PackageNameItem_String :: "string list \<Rightarrow> string" where
  "PackageNameItem_String packageNames = describeList ''package_name'' packageNames"

definition NewPackageNameRegexItem :: "lib \<Rightarrow> string list \<Rightarrow> rule_error + rule_item" where
  "NewPackageNameRegexItem l expressions =
     (case compileRegexps l expressions of
        Inl e \<Rightarrow> Inl e
      | Inr matchers \<Rightarrow>
          Inr (PackageNameRegexItem matchers (describeUpTo3 ''package_name_regex'' '']'' expressions)))"

definition PackageNameRegexItem_Match :: "(string \<Rightarrow> bool) list \<Rightarrow> inbound_context \<Rightarrow> bool" where
  "PackageNameRegexItem_Match matchers c =
     (case ProcessInfo c of
        None \<Rightarrow> False
      | Some info \<Rightarrow>
          if AndroidPackageNames info = [] then False
          else list_ex (\<lambda>matcher. list_ex matcher (AndroidPackageNames info)) matchers)"

definition NewUserItem :: "string list \<Rightarrow> rule_item" where
  "NewUserItem users = UserItem users (boolmap_of users)"

definition UserItem_Match :: "string boolmap \<Rightarrow> inbound_context \<Rightarrow> bool" where
  "UserItem_Match userMap c =
     (case ProcessInfo c of
        None \<Rightarrow> False
      | Some info \<Rightarrow> if UserName info = [] then False else boolmap_get userMap (UserName info))"

definition UserItem_String :: "string list \<Rightarrow> string" where
  "UserItem_String users = describeList ''user'' users"

definition NewUserIDItem :: "32 word list \<Rightarrow> rule_item" where
  "NewUserIDItem userIdList = UserIdItem userIdList (boolmap_of userIdList)"

definition UserIdItem_Match :: "32 word boolmap \<Rightarrow> inbound_context \<Rightarrow> bool" where
  "UserIdItem_Match userIdMap c =
     (case ProcessInfo c of
        None \<Rightarrow> False
      | Some info \<Rightarrow> if UserId info = - 1 then False else boolmap_get userIdMap (UserId info))"

definition UserIdItem_String :: "32 word list \<Rightarrow> string" where
  "UserIdItem_String userIds = describeList ''user_id'' (map (\<lambda>u. itoa (sint u)) userIds)"

subsection \<open>outbound, clash\_mode\<close>

text \<open>The deprecation report of the constructor goes to a log and changes no rule state.\<close>

definition NewOutboundRule :: "string list \<Rightarrow> rule_item" where
  "NewOutboundRule outbounds =
     (let (outboundMap, matchAny) =
        foldl (\<lambda>(m, anyOf) outbound.
          if outbound = ''any'' then (m, True) else (m(outbound \<mapsto> True), anyOf))
          (Map.empty, False) outbounds
      in OutboundItem outbounds outboundMap matchAny)"

definition OutboundItem_Match :: "string boolmap \<Rightarrow> bool \<Rightarrow> inbound_context \<Rightarrow> bool" where
  "OutboundItem_Match outboundMap matchAny c =
     (if matchAny then Outbound c \<noteq> [] else boolmap_get outboundMap (Outbound c))"

definition OutboundItem_String :: "string list \<Rightarrow> string" where
  "OutboundItem_String outbounds = describeList ''outbound'' outbounds"

definition NewClashModeItem :: "string \<Rightarrow> rule_item" where
  "NewClashModeItem mode = ClashModeItem False mode"

text \<open>The first field says whether a clash server has been found by \<^verbatim>\<open>Start\<close>.\<close>

definition ClashModeItem_Match :: "lib \<Rightarrow> net_env \<Rightarrow> bool \<Rightarrow> string \<Rightarrow> inbound_context \<Rightarrow> bool" where
  "ClashModeItem_Match l env clashServer mode c =
     (if \<not> clashServer then False else lib_EqualFold l (env_ClashMode env) mode)"

definition ClashModeItem_String :: "string \<Rightarrow> string" where
  "ClashModeItem_String mode = ''clash_mode='' @ mode"

subsection \<open>network\_type, network\_is\_expensive, network\_is\_constrained, wifi\<close>

definition InterfaceType_String :: "u8 \<Rightarrow> string" where
  "InterfaceType_String t =
     (if t = 0 then ''wifi'' else if t = 1 then ''cellular'' else if t = 2 then ''ethernet''
      else if t = 3 then ''other'' else itoa_nat (unat t))"

definition NewNetworkTypeItem :: "u8 list \<Rightarrow> rule_item" where
  "NewNetworkTypeItem networkType = NetworkTypeItem networkType"

definition NetworkTypeItem_Match :: "net_env \<Rightarrow> u8 list \<Rightarrow> inbound_context \<Rightarrow> bool" where
  "NetworkTypeItem_Match env networkType c =
     (case env_DefaultNetworkInterface env of
        None \<Rightarrow> False
      | Some networkInterface \<Rightarrow> ni_Type networkInterface \<in> set networkType)"

definition NetworkTypeItem_String :: "u8 list \<Rightarrow> string" where
  "NetworkTypeItem_String networkType =
     describeList ''network_type'' (map InterfaceType_String networkType)"

definition NewNetworkIsExpensiveItem :: rule_item where
  "NewNetworkIsExpensiveItem = NetworkIsExpensiveItem"

definition NetworkIsExpensiveItem_Match :: "net_env \<Rightarrow> inbound_context \<Rightarrow> bool" where
  "NetworkIsExpensiveItem_Match env c =
     (case env_DefaultNetworkInterface env of
        None \<Rightarrow> False
      | Some networkInterface \<Rightarrow> ni_Expensive networkInterface)"

definition NetworkIsExpensiveItem_String :: string where
  "NetworkIsExpensiveItem_String = ''network_is_expensive=true''"

definition NewNetworkIsConstrainedItem :: rule_item where
  "NewNetworkIsConstrainedItem = NetworkIsConstrainedItem"

definition NetworkIsConstrainedItem_Match :: "net_env \<Rightarrow> inbound_context \<Rightarrow> bool" where
  "NetworkIsConstrainedItem_Match env c =
     (case env_DefaultNetworkInterface env of
        None \<Rightarrow> False
      | Some networkInterface \<Rightarrow> ni_Constrained networkInterface)"

text \<open>The source prints the name of the other condition here.\<close>

definition NetworkIsConstrainedItem_String :: string where
  "NetworkIsConstrainedItem_String = ''network_is_expensive=true''"

definition NewWIFISSIDItem :: "string list \<Rightarrow> rule_item" where
  "NewWIFISSIDItem ssidList = WIFISSIDItem ssidList (boolmap_of ssidList)"

definition WIFISSIDItem_Match :: "net_env \<Rightarrow> string boolmap \<Rightarrow> inbound_context \<Rightarrow> bool" where
  "WIFISSIDItem_Match env ssidMap c = boolmap_get ssidMap (SSID (env_WIFIState env))"

definition WIFISSIDItem_String :: "string list \<Rightarrow> string" where
  "WIFISSIDItem_String ssidList = describeList ''wifi_ssid'' ssidList"

definition NewWIFIBSSIDItem :: "string list \<Rightarrow> rule_item" where
  "NewWIFIBSSIDItem bssidList = WIFIBSSIDItem bssidList (boolmap_of bssidList)"

definition WIFIBSSIDItem_Match :: "net_env \<Rightarrow> string boolmap \<Rightarrow> inbound_context \<Rightarrow> bool" where
  "WIFIBSSIDItem_Match env bssidMap c = boolmap_get bssidMap (BSSID (env_WIFIState env))"

definition WIFIBSSIDItem_String :: "string list \<Rightarrow> string" where
  "WIFIBSSIDItem_String bssidList = describeList ''wifi_bssid'' bssidList"

end
