(* ===== verification/Rule_Action.thy ===== *)
theory Rule_Action
  imports Rule_Items
begin

text \<open>
  \<^verbatim>\<open>route/rule/rule_action.go\<close> with the option structs of \<^verbatim>\<open>option/rule_action.go\<close> it is built from
  and \<^verbatim>\<open>common/tlsspoof/spoof.go\<close>: the action values of route and DNS rules, their construction,
  their printed form, the flood control of \<^verbatim>\<open>reject\<close>, the sniffer table of \<^verbatim>\<open>sniff\<close> and the
  synthesised response of \<^verbatim>\<open>predefined\<close>.
\<close>

section \<open>Option structs\<close>

record raw_route_options =
  opt_OverrideAddress :: string
  opt_OverridePort :: u16
  opt_OverrideTunnelDestination :: string
  opt_NetworkStrategy :: "int option"
  opt_FallbackDelay :: u32
  opt_UDPDisableDomainUnmapping :: bool
  opt_UDPConnect :: bool
  opt_UDPTimeout :: duration
  opt_TLSFragment :: bool
  opt_TLSFragmentFallbackDelay :: duration
  opt_TLSRecordFragment :: bool
  opt_TLSSpoof :: string
  opt_TLSSpoofMethod :: string

text \<open>The zero value of the struct, which the decoder of \<^verbatim>\<open>route-options\<close> refuses.\<close>

definition raw_route_options_zero :: raw_route_options where
  "raw_route_options_zero =
     \<lparr> opt_OverrideAddress = [], opt_OverridePort = 0, opt_OverrideTunnelDestination = [],
       opt_NetworkStrategy = None, opt_FallbackDelay = 0, opt_UDPDisableDomainUnmapping = False,
       opt_UDPConnect = False, opt_UDPTimeout = 0, opt_TLSFragment = False,
       opt_TLSFragmentFallbackDelay = 0, opt_TLSRecordFragment = False, opt_TLSSpoof = [],
       opt_TLSSpoofMethod = [] \<rparr>"

record dns_route_options =
  opt_dns_Strategy :: u8
  opt_dns_Timeout :: duration
  opt_dns_DisableCache :: bool
  opt_dns_DisableOptimisticCache :: bool
  opt_dns_RewriteTTL :: "u32 option"
  opt_dns_ClientSubnet :: "string option"

record reject_options =
  opt_Method :: string
  opt_NoDrop :: bool
  opt_XDPBlock :: bool
  opt_BanDuration :: duration

text \<open>The fields of the dialer options that \<^verbatim>\<open>Descriptions\<close> and the decoder look at.\<close>

record direct_options =
  opt_Detour :: string
  opt_BindInterface :: string
  opt_Inet4BindAddress :: "addr option"
  opt_Inet6BindAddress :: "addr option"
  opt_RoutingMark :: u32
  opt_ReuseAddr :: bool
  opt_ConnectTimeout :: duration
  opt_TCPFastOpen :: bool
  opt_TCPMultiPath :: bool
  opt_UDPFragment :: "bool option"
  opt_DomainStrategy :: u8
  opt_dial_FallbackDelay :: duration

record resolve_options =
  opt_res_Server :: string
  opt_res_Timeout :: duration
  opt_res_Strategy :: u8
  opt_res_DisableCache :: bool
  opt_res_DisableOptimisticCache :: bool
  opt_res_RewriteTTL :: "u32 option"
  opt_res_ClientSubnet :: "string option"

record predefined_options =
  opt_Rcode :: "int option"
  opt_Answer :: "rr option list"
  opt_Ns :: "rr option list"
  opt_Extra :: "rr option list"

text \<open>
  \<^verbatim>\<open>option.RuleAction\<close> and \<^verbatim>\<open>option.DNSRuleAction\<close>: the name of the action with the options of that
  action. The Go structs hold the options of every action side by side and only those of the
  named one are read, so an action is one variant here; \<open>ActUnknown\<close> is any other name.
\<close>

datatype rule_action_options =
    ActNone
  | ActRoute string raw_route_options
  | ActRouteOptions raw_route_options
  | ActBypass string raw_route_options
  | ActDirect direct_options
  | ActReject reject_options
  | ActHijackDNS
  | ActSniff "string list" duration
  | ActResolve resolve_options
  | ActUnknown string

datatype dns_rule_action_options =
    DNSActNone
  | DNSActRoute string dns_route_options bool
  | DNSActEvaluate string dns_route_options
  | DNSActRespond
  | DNSActRouteOptions dns_route_options
  | DNSActReject reject_options
  | DNSActPredefined predefined_options
  | DNSActUnknown string

section \<open>Checks made when options are decoded\<close>

text \<open>
  The decoders call the JSON library first; \<open>decoded\<close> is what it returned.
\<close>

definition RouteOptionsActionOptions_UnmarshalJSON ::
  "rule_error + raw_route_options \<Rightarrow> rule_error + raw_route_options" where
  "RouteOptionsActionOptions_UnmarshalJSON decoded =
     (case decoded of
        Inl e \<Rightarrow> Inl e
      | Inr r \<Rightarrow>
          if r = raw_route_options_zero then Inl (E_New ''empty route option action'')
          else if opt_TLSFragment r \<and> opt_TLSRecordFragment r
          then Inl (E_New ''tls_fragment and tls_record_fragment are mutually exclusive'')
          else Inr r)"

definition dns_route_options_zero :: dns_route_options where
  "dns_route_options_zero =
     \<lparr> opt_dns_Strategy = 0, opt_dns_Timeout = 0, opt_dns_DisableCache = False,
       opt_dns_DisableOptimisticCache = False, opt_dns_RewriteTTL = None,
       opt_dns_ClientSubnet = None \<rparr>"

definition DNSRouteOptionsActionOptions_UnmarshalJSON ::
  "rule_error + dns_route_options \<Rightarrow> rule_error + dns_route_options" where
  "DNSRouteOptionsActionOptions_UnmarshalJSON decoded =
     (case decoded of
        Inl e \<Rightarrow> Inl e
      | Inr r \<Rightarrow>
          if r = dns_route_options_zero then Inl (E_New ''empty DNS route option action'') else Inr r)"

definition DirectActionOptions_UnmarshalJSON ::
  "rule_error + direct_options \<Rightarrow> rule_error + direct_options" where
  "DirectActionOptions_UnmarshalJSON decoded =
     (case decoded of
        Inl e \<Rightarrow> Inl e
      | Inr d \<Rightarrow>
          if opt_Detour d \<noteq> [] then Inl (E_New ''detour is not available in the current context'')
          else Inr d)"

definition RejectActionOptions_UnmarshalJSON ::
  "rule_error + reject_options \<Rightarrow> rule_error + reject_options" where
  "RejectActionOptions_UnmarshalJSON decoded =
     (case decoded of
        Inl e \<Rightarrow> Inl e
      | Inr r \<Rightarrow>
          (case (if opt_Method r = [] \<or> opt_Method r = ''default'' then Inr (r\<lparr>opt_Method := ''default''\<rparr>)
                 else if opt_Method r = ''drop'' \<or> opt_Method r = ''reply'' then Inr r
                 else Inl (E_NewArg ''unknown reject method: '' (opt_Method r))) of
             Inl e \<Rightarrow> Inl e
           | Inr r' \<Rightarrow>
               if opt_Method r' = ''drop'' \<and> opt_NoDrop r'
               then Inl (E_New ''no_drop is not available in current context'') else Inr r'))"

definition RejectActionOptions_MarshalJSON :: "reject_options \<Rightarrow> reject_options" where
  "RejectActionOptions_MarshalJSON r =
     (if opt_Method r = ''default'' then r\<lparr>opt_Method := []\<rparr> else r)"

section \<open>Action values\<close>

datatype spoof_method =
    MethodWrongSequence
  | MethodWrongChecksum
  | MethodWrongAcknowledgment
  | MethodWrongMD5Sig
  | MethodWrongTimestamp

definition ParseMethod :: "string \<Rightarrow> rule_error + spoof_method" where
  "ParseMethod s =
     (if s = [] \<or> s = ''wrong-sequence'' then Inr MethodWrongSequence
      else if s = ''wrong-checksum'' then Inr MethodWrongChecksum
      else if s = ''wrong-ack'' then Inr MethodWrongAcknowledgment
      else if s = ''wrong-md5'' then Inr MethodWrongMD5Sig
      else if s = ''wrong-timestamp'' then Inr MethodWrongTimestamp
      else Inl (E_NewArg ''tls_spoof: unknown method: '' s))"

text \<open>\<^verbatim>\<open>Method\<close> is an integer whose zero value is the first method.\<close>

definition ParseOptions :: "lib \<Rightarrow> string \<Rightarrow> string \<Rightarrow> rule_error + (string \<times> spoof_method)" where
  "ParseOptions l spoof method =
     (if spoof = [] then
        (if method \<noteq> [] then Inl (E_New ''spoof_method requires spoof'')
         else Inr ([], MethodWrongSequence))
      else if \<not> lib_TLSSpoofSupported l then Inl (E_New ''tls_spoof is not supported on this platform'')
      else case ParseMethod method of
             Inl e \<Rightarrow> Inl e
           | Inr parsedMethod \<Rightarrow> Inr (spoof, parsedMethod))"

fun Method_String :: "spoof_method \<Rightarrow> string" where
  "Method_String MethodWrongSequence = ''wrong-sequence''"
| "Method_String MethodWrongChecksum = ''wrong-checksum''"
| "Method_String MethodWrongAcknowledgment = ''wrong-ack''"
| "Method_String MethodWrongMD5Sig = ''wrong-md5''"
| "Method_String MethodWrongTimestamp = ''wrong-timestamp''"

text \<open>A nil slice is \<open>None\<close> in the two interface type lists, whose presence is tested against nil.\<close>

record route_options =
  ro_OverrideAddress :: socksaddr
  ro_OverridePort :: u16
  ro_OverrideTunnelDestination :: string
  ro_NetworkStrategy :: "int option"
  ro_NetworkType :: "u8 list option"
  ro_FallbackNetworkType :: "u8 list option"
  ro_FallbackDelay :: duration
  ro_UDPDisableDomainUnmapping :: bool
  ro_UDPConnect :: bool
  ro_UDPTimeout :: duration
  ro_TLSFragment :: bool
  ro_TLSFragmentFallbackDelay :: duration
  ro_TLSRecordFragment :: bool
  ro_TLSSpoof :: string
  ro_TLSSpoofMethod :: spoof_method

record dns_options =
  do_Strategy :: u8
  do_Timeout :: duration
  do_DisableCache :: bool
  do_DisableOptimisticCache :: bool
  do_RewriteTTL :: "u32 option"
  do_ClientSubnet :: prefix
  do_BypassIfFailed :: bool

record reject_action =
  rj_Method :: string
  rj_NoDrop :: bool
  rj_XDPBlock :: bool
  rj_BanDuration :: duration
  rj_dropCounter :: "int list"

datatype stream_sniffer =
    TLSClientHello | HTTPHost | StreamDomainNameQuery | BitTorrent | BitTorrentMessage
  | BitTorrentFAST | BitTorrentExtended | BitTorrentHTTP | BitTorrentSignature | SSH | RDP

datatype packet_sniffer =
    QUICClientHello | DomainNameQuery | STUNMessage | UTP | UDPTracker | BitTorrentDHTPacket
  | BitTorrentLSD | BitTorrentSignaturePacket | DTLSRecord | NTP

record sniff_action =
  sn_SnifferNames :: "string list"
  sn_StreamSniffers :: "stream_sniffer list"
  sn_PacketSniffers :: "packet_sniffer list"
  sn_Timeout :: duration
  sn_OverrideDestination :: bool

record resolve_action =
  rs_Server :: string
  rs_Timeout :: duration
  rs_Strategy :: u8
  rs_DisableCache :: bool
  rs_DisableOptimisticCache :: bool
  rs_RewriteTTL :: "u32 option"
  rs_ClientSubnet :: prefix

record predefined_action =
  pd_Rcode :: int
  pd_Answer :: "rr option list"
  pd_Ns :: "rr option list"
  pd_Extra :: "rr option list"

datatype rule_action =
    RuleActionRoute string route_options
  | RuleActionBypass string route_options
  | RuleActionRouteOptions route_options
  | RuleActionDNSRoute string dns_options
  | RuleActionEvaluate string dns_options
  | RuleActionRespond
  | RuleActionDNSRouteOptions dns_options
  | RuleActionDirect string
  | RuleActionReject reject_action
  | RuleActionHijackDNS
  | RuleActionSniff sniff_action
  | RuleActionResolve resolve_action
  | RuleActionPredefined predefined_action

fun action_Type :: "rule_action \<Rightarrow> string" where
  "action_Type (RuleActionRoute _ _) = ''route''"
| "action_Type (RuleActionBypass _ _) = ''bypass''"
| "action_Type (RuleActionRouteOptions _) = ''route-options''"
| "action_Type (RuleActionDNSRoute _ _) = ''route''"
| "action_Type (RuleActionEvaluate _ _) = ''evaluate''"
| "action_Type RuleActionRespond = ''respond''"
| "action_Type (RuleActionDNSRouteOptions _) = ''route-options''"
| "action_Type (RuleActionDirect _) = ''direct''"
| "action_Type (RuleActionReject _) = ''reject''"
| "action_Type RuleActionHijackDNS = ''hijack-dns''"
| "action_Type (RuleActionSniff _) = ''sniff''"
| "action_Type (RuleActionResolve _) = ''resolve''"
| "action_Type (RuleActionPredefined _) = ''predefined''"

section \<open>Construction\<close>

definition newRuleActionRouteOptions :: "lib \<Rightarrow> raw_route_options \<Rightarrow> rule_error + route_options" where
  "newRuleActionRouteOptions l options =
     (case ParseOptions l (opt_TLSSpoof options) (opt_TLSSpoofMethod options) of
        Inl e \<Rightarrow> Inl e
      | Inr (spoof, spoofMethod) \<Rightarrow>
          Inr \<lparr> ro_OverrideAddress = lib_ParseSocksaddrHostPort l (opt_OverrideAddress options) 0,
                ro_OverridePort = opt_OverridePort options,
                ro_OverrideTunnelDestination = opt_OverrideTunnelDestination options,
                ro_NetworkStrategy = opt_NetworkStrategy options,
                ro_NetworkType = None,
                ro_FallbackNetworkType = None,
                ro_FallbackDelay = uint (opt_FallbackDelay options),
                ro_UDPDisableDomainUnmapping = opt_UDPDisableDomainUnmapping options,
                ro_UDPConnect = opt_UDPConnect options,
                ro_UDPTimeout = opt_UDPTimeout options,
                ro_TLSFragment = opt_TLSFragment options,
                ro_TLSFragmentFallbackDelay = opt_TLSFragmentFallbackDelay options,
                ro_TLSRecordFragment = opt_TLSRecordFragment options,
                ro_TLSSpoof = spoof,
                ro_TLSSpoofMethod = spoofMethod \<rparr>)"

definition sniffersOf :: "string \<Rightarrow> rule_error + (stream_sniffer list \<times> packet_sniffer list)" where
  "sniffersOf name =
     (if name = ''tls'' then Inr ([TLSClientHello], [])
      else if name = ''http'' then Inr ([HTTPHost], [])
      else if name = ''quic'' then Inr ([], [QUICClientHello])
      else if name = ''dns'' then Inr ([StreamDomainNameQuery], [DomainNameQuery])
      else if name = ''stun'' then Inr ([], [STUNMessage])
      else if name = ''bittorrent'' then
        Inr ([BitTorrent, BitTorrentMessage, BitTorrentFAST, BitTorrentExtended, BitTorrentHTTP,
              BitTorrentSignature],
             [UTP, UDPTracker, BitTorrentDHTPacket, BitTorrentLSD, BitTorrentSignaturePacket])
      else if name = ''dtls'' then Inr ([], [DTLSRecord])
      else if name = ''ssh'' then Inr ([SSH], [])
      else if name = ''rdp'' then Inr ([RDP], [])
      else if name = ''ntp'' then Inr ([], [NTP])
      else Inl (E_NewArg ''unknown sniffer: '' name))"

text \<open>The loop of \<^verbatim>\<open>build\<close> appends in place and returns at the first unknown name.\<close>

fun sniff_build_loop :: "string list \<Rightarrow> sniff_action \<Rightarrow> rule_error option \<times> sniff_action" where
  "sniff_build_loop [] r = (None, r)"
| "sniff_build_loop (name # names) r =
     (case sniffersOf name of
        Inl e \<Rightarrow> (Some e, r)
      | Inr (ss, ps) \<Rightarrow>
          sniff_build_loop names
            (r\<lparr>sn_StreamSniffers := sn_StreamSniffers r @ ss,
               sn_PacketSniffers := sn_PacketSniffers r @ ps\<rparr>))"

definition RuleActionSniff_build :: "sniff_action \<Rightarrow> rule_error option \<times> sniff_action" where
  "RuleActionSniff_build r = sniff_build_loop (sn_SnifferNames r) r"

definition DomainStrategy_String :: "u8 \<Rightarrow> string option" where
  "DomainStrategy_String s =
     (if s = 0 then Some [] else if s = 1 then Some ''prefer_ipv4'' else if s = 2 then Some ''prefer_ipv6''
      else if s = 3 then Some ''ipv4_only'' else if s = 4 then Some ''ipv6_only'' else None)"

text \<open>\<^verbatim>\<open>Descriptions\<close> of the direct action; a strategy outside the enumeration panics, \<open>None\<close>.\<close>

definition DirectActionOptions_Descriptions :: "lib \<Rightarrow> direct_options \<Rightarrow> string list option" where
  "DirectActionOptions_Descriptions l d =
     (let before =
        (if opt_BindInterface d \<noteq> [] then [''bind_interface='' @ opt_BindInterface d] else []) @
        (case opt_Inet4BindAddress d of None \<Rightarrow> []
         | Some a \<Rightarrow> [''inet4_bind_address='' @ lib_AddrToString l a]) @
        (case opt_Inet6BindAddress d of None \<Rightarrow> []
         | Some a \<Rightarrow> [''inet6_bind_address='' @ lib_AddrToString l a]) @
        (if opt_RoutingMark d \<noteq> 0 then [''routing_mark=0x'' @ hex_nat (unat (opt_RoutingMark d))] else []) @
        (if opt_ReuseAddr d then [''reuse_addr''] else []) @
        (if opt_ConnectTimeout d \<noteq> 0
         then [''connect_timeout='' @ lib_DurationString l (opt_ConnectTimeout d)] else []) @
        (if opt_TCPFastOpen d then [''tcp_fast_open''] else []) @
        (if opt_TCPMultiPath d then [''tcp_multi_path''] else []) @
        (case opt_UDPFragment d of None \<Rightarrow> []
         | Some b \<Rightarrow> [''udp_fragment='' @ (if b then ''true'' else ''false'')]);
        after =
        (if opt_dial_FallbackDelay d \<noteq> 0
         then [''fallback_delay='' @ lib_DurationString l (opt_dial_FallbackDelay d)] else [])
      in if opt_DomainStrategy d = 0 then Some (before @ after)
         else case DomainStrategy_String (opt_DomainStrategy d) of
                None \<Rightarrow> None
              | Some s \<Rightarrow> Some (before @ [''domain_strategy='' @ s] @ after))"

text \<open>
  What a constructor of an action does: it returns an action (or nil), fails, or panics.
  \<open>newDialer\<close> stands for \<^verbatim>\<open>dialer.New\<close> of \<^verbatim>\<open>common/dialer\<close>; the dialer itself is not part of the model.
\<close>

datatype 'a outcome = Ret 'a | Err rule_error | Panic string

definition directDescription :: "string list \<Rightarrow> string" where
  "directDescription ds =
     (case ds of
        [] \<Rightarrow> []
      | [a] \<Rightarrow> ''('' @ a @ '')''
      | [a, b] \<Rightarrow> ''('' @ a @ '','' @ b @ '')''
      | a # b # c # rest \<Rightarrow> ''('' @ a @ '','' @ b @ '',...)'')"

definition newReject :: "reject_options \<Rightarrow> rule_action" where
  "newReject r =
     RuleActionReject
       \<lparr> rj_Method = opt_Method r, rj_NoDrop = opt_NoDrop r, rj_XDPBlock = opt_XDPBlock r,
         rj_BanDuration = opt_BanDuration r, rj_dropCounter = [] \<rparr>"

definition buildPrefix :: "lib \<Rightarrow> string option \<Rightarrow> prefix" where
  "buildPrefix l p = (case p of None \<Rightarrow> PrefixZero | Some s \<Rightarrow> lib_PrefixableBuild l s)"

fun NewRuleAction ::
  "lib \<Rightarrow> (direct_options \<Rightarrow> rule_error option) \<Rightarrow> rule_action_options \<Rightarrow> rule_action option outcome" where
  "NewRuleAction l newDialer ActNone = Ret None"
| "NewRuleAction l newDialer (ActRoute outbound options) =
     (case newRuleActionRouteOptions l options of
        Inl e \<Rightarrow> Err e
      | Inr routeOptions \<Rightarrow> Ret (Some (RuleActionRoute outbound routeOptions)))"
| "NewRuleAction l newDialer (ActRouteOptions options) =
     (case newRuleActionRouteOptions l options of
        Inl e \<Rightarrow> Err e
      | Inr routeOptions \<Rightarrow> Ret (Some (RuleActionRouteOptions routeOptions)))"
| "NewRuleAction l newDialer (ActBypass outbound options) =
     (case newRuleActionRouteOptions l options of
        Inl e \<Rightarrow> Err e
      | Inr routeOptions \<Rightarrow> Ret (Some (RuleActionBypass outbound routeOptions)))"
| "NewRuleAction l newDialer (ActDirect options) =
     (case newDialer options of
        Some e \<Rightarrow> Err e
      | None \<Rightarrow>
          (case DirectActionOptions_Descriptions l options of
             None \<Rightarrow> Panic ''unknown domain strategy''
           | Some descriptions \<Rightarrow> Ret (Some (RuleActionDirect (directDescription descriptions)))))"
| "NewRuleAction l newDialer (ActReject options) = Ret (Some (newReject options))"
| "NewRuleAction l newDialer ActHijackDNS = Ret (Some RuleActionHijackDNS)"
| "NewRuleAction l newDialer (ActSniff names timeout) =
     (case RuleActionSniff_build
        \<lparr> sn_SnifferNames = names, sn_StreamSniffers = [], sn_PacketSniffers = [],
          sn_Timeout = timeout, sn_OverrideDestination = False \<rparr> of
        (Some e, _) \<Rightarrow> Err e
      | (None, r) \<Rightarrow> Ret (Some (RuleActionSniff r)))"
| "NewRuleAction l newDialer (ActResolve options) =
     Ret (Some (RuleActionResolve
       \<lparr> rs_Server = opt_res_Server options, rs_Timeout = opt_res_Timeout options,
         rs_Strategy = opt_res_Strategy options, rs_DisableCache = opt_res_DisableCache options,
         rs_DisableOptimisticCache = opt_res_DisableOptimisticCache options,
         rs_RewriteTTL = opt_res_RewriteTTL options,
         rs_ClientSubnet = buildPrefix l (opt_res_ClientSubnet options) \<rparr>))"
| "NewRuleAction l newDialer (ActUnknown name) = Panic (''unknown rule action: '' @ name)"

definition dnsOptionsOf :: "lib \<Rightarrow> dns_route_options \<Rightarrow> bool \<Rightarrow> dns_options" where
  "dnsOptionsOf l options bypassIfFailed =
     \<lparr> do_Strategy = opt_dns_Strategy options, do_Timeout = opt_dns_Timeout options,
       do_DisableCache = opt_dns_DisableCache options,
       do_DisableOptimisticCache = opt_dns_DisableOptimisticCache options,
       do_RewriteTTL = opt_dns_RewriteTTL options,
       do_ClientSubnet = buildPrefix l (opt_dns_ClientSubnet options),
       do_BypassIfFailed = bypassIfFailed \<rparr>"

definition DNSRCode_Build :: "int option \<Rightarrow> int" where
  "DNSRCode_Build r = (case r of None \<Rightarrow> 0 | Some c \<Rightarrow> c)"

fun NewDNSRuleAction :: "lib \<Rightarrow> dns_rule_action_options \<Rightarrow> rule_action option outcome" where
  "NewDNSRuleAction l DNSActNone = Ret None"
| "NewDNSRuleAction l (DNSActRoute server options bypassIfFailed) =
     Ret (Some (RuleActionDNSRoute server (dnsOptionsOf l options bypassIfFailed)))"
| "NewDNSRuleAction l (DNSActEvaluate server options) =
     Ret (Some (RuleActionEvaluate server (dnsOptionsOf l options False)))"
| "NewDNSRuleAction l DNSActRespond = Ret (Some RuleActionRespond)"
| "NewDNSRuleAction l (DNSActRouteOptions options) =
     Ret (Some (RuleActionDNSRouteOptions (dnsOptionsOf l options False)))"
| "NewDNSRuleAction l (DNSActReject options) = Ret (Some (newReject options))"
| "NewDNSRuleAction l (DNSActPredefined options) =
     Ret (Some (RuleActionPredefined
       \<lparr> pd_Rcode = DNSRCode_Build (opt_Rcode options), pd_Answer = opt_Answer options,
         pd_Ns = opt_Ns options, pd_Extra = opt_Extra options \<rparr>))"
| "NewDNSRuleAction l (DNSActUnknown name) = Panic (''unknown rule action: '' @ name)"

section \<open>Printed form\<close>

definition NetworkStrategy_String :: "int \<Rightarrow> string" where
  "NetworkStrategy_String s =
     (if s = 0 then ''default'' else if s = 1 then ''fallback'' else if s = 2 then ''hybrid'' else itoa s)"

definition RouteOptions_Descriptions :: "lib \<Rightarrow> route_options \<Rightarrow> string list" where
  "RouteOptions_Descriptions l r =
     (if lib_IsSocksaddrValid l (ro_OverrideAddress r)
      then [''override-address='' @ lib_SocksaddrAddrString l (ro_OverrideAddress r)] else []) @
     (if ro_OverridePort r > 0 then [''override-port='' @ itoa_nat (unat (ro_OverridePort r))] else []) @
     (if ro_OverrideTunnelDestination r \<noteq> []
      then [''override-tunnel-destination='' @ ro_OverrideTunnelDestination r] else []) @
     (case ro_NetworkStrategy r of None \<Rightarrow> []
      | Some s \<Rightarrow> [''network-strategy='' @ NetworkStrategy_String s]) @
     (case ro_NetworkType r of None \<Rightarrow> []
      | Some ts \<Rightarrow> [''network-type='' @ strings_Join (map InterfaceType_String ts) '','']) @
     (case ro_FallbackNetworkType r of None \<Rightarrow> []
      | Some ts \<Rightarrow> [''fallback-network-type='' @ strings_Join (map InterfaceType_String ts) '','']) @
     (if ro_FallbackDelay r > 0
      then [''fallback-delay='' @ lib_DurationString l (ro_FallbackDelay r)] else []) @
     (if ro_UDPDisableDomainUnmapping r then [''udp-disable-domain-unmapping''] else []) @
     (if ro_UDPConnect r then [''udp-connect''] else []) @
     (if ro_UDPTimeout r > 0 then [''udp-timeout''] else []) @
     (if ro_TLSFragment r then [''tls-fragment''] else []) @
     (if ro_TLSFragmentFallbackDelay r > 0
      then [''tls-fragment-fallback-delay='' @ lib_DurationString l (ro_TLSFragmentFallbackDelay r)]
      else []) @
     (if ro_TLSRecordFragment r then [''tls-record-fragment''] else []) @
     (if ro_TLSSpoof r \<noteq> []
      then [''tls-spoof='' @ ro_TLSSpoof r, ''tls-spoof-method='' @ Method_String (ro_TLSSpoofMethod r)]
      else [])"

text \<open>The descriptions shared by \<^verbatim>\<open>formatDNSRouteAction\<close> and the DNS \<^verbatim>\<open>route-options\<close> action.\<close>

definition dnsOptionDescriptions :: "lib \<Rightarrow> dns_options \<Rightarrow> string list" where
  "dnsOptionDescriptions l options =
     (if do_DisableCache options then [''disable-cache''] else []) @
     (if do_DisableOptimisticCache options then [''disable-optimistic-cache''] else []) @
     (case do_RewriteTTL options of None \<Rightarrow> [] | Some t \<Rightarrow> [''rewrite-ttl='' @ itoa_nat (unat t)]) @
     (if do_Timeout options > 0 then [''timeout='' @ lib_DurationString l (do_Timeout options)] else []) @
     (if prefix_IsValid (do_ClientSubnet options)
      then [''client-subnet='' @ lib_PrefixString l (do_ClientSubnet options)] else [])"

definition formatDNSRouteAction :: "lib \<Rightarrow> string \<Rightarrow> string \<Rightarrow> dns_options \<Rightarrow> string" where
  "formatDNSRouteAction l action server options =
     action @ ''('' @ strings_Join (server # dnsOptionDescriptions l options) '','' @ '')''"

definition RuleActionReject_String :: "reject_action \<Rightarrow> string" where
  "RuleActionReject_String r =
     (if rj_Method r = ''default'' then (if rj_XDPBlock r then ''reject(xdp-block)'' else ''reject'')
      else if rj_XDPBlock r then ''reject('' @ rj_Method r @ '',xdp-block)''
      else ''reject('' @ rj_Method r @ '')'')"

definition RuleActionSniff_String :: "lib \<Rightarrow> sniff_action \<Rightarrow> string" where
  "RuleActionSniff_String l r =
     (if sn_SnifferNames r = [] \<and> sn_Timeout r = 0 then ''sniff''
      else if sn_SnifferNames r \<noteq> [] \<and> sn_Timeout r = 0
      then ''sniff('' @ strings_Join (sn_SnifferNames r) '','' @ '')''
      else if sn_SnifferNames r = [] \<and> sn_Timeout r > 0
      then ''sniff('' @ lib_DurationString l (sn_Timeout r) @ '')''
      else ''sniff('' @ strings_Join (sn_SnifferNames r) '','' @ '','' @
           lib_DurationString l (sn_Timeout r) @ '')'')"

text \<open>An unknown strategy panics, \<open>None\<close>.\<close>

definition RuleActionResolve_String :: "lib \<Rightarrow> resolve_action \<Rightarrow> string option" where
  "RuleActionResolve_String l r =
     (case (if rs_Strategy r \<noteq> 0 then map_option (\<lambda>s. [s]) (DomainStrategy_String (rs_Strategy r))
            else Some []) of
        None \<Rightarrow> None
      | Some strategy \<Rightarrow>
          let options =
            (if rs_Server r \<noteq> [] then [rs_Server r] else []) @ strategy @
            (if rs_DisableCache r then [''disable_cache''] else []) @
            (if rs_DisableOptimisticCache r then [''disable_optimistic_cache''] else []) @
            (case rs_RewriteTTL r of None \<Rightarrow> [] | Some t \<Rightarrow> [''rewrite_ttl='' @ itoa_nat (unat t)]) @
            (if rs_Timeout r > 0 then [''timeout='' @ lib_DurationString l (rs_Timeout r)] else []) @
            (if prefix_IsValid (rs_ClientSubnet r)
             then [''client_subnet='' @ lib_PrefixString l (rs_ClientSubnet r)] else [])
          in Some (if options = [] then ''resolve'' else ''resolve('' @ strings_Join options '','' @ '')''))"

text \<open>Calling a method on a nil record panics, \<open>None\<close>.\<close>

definition RuleActionPredefined_String :: "lib \<Rightarrow> predefined_action \<Rightarrow> string option" where
  "RuleActionPredefined_String l r =
     (let records = pd_Answer r @ pd_Ns r @ pd_Extra r
      in if None \<in> set records then None
         else Some (''predefined('' @
           strings_Join (lib_RcodeToString l (pd_Rcode r) # map (\<lambda>x. lib_RRString l (the x)) records) '',''
           @ '')''))"

fun action_String :: "lib \<Rightarrow> rule_action \<Rightarrow> string option" where
  "action_String l (RuleActionRoute outbound r) =
     Some (''route('' @ strings_Join (outbound # RouteOptions_Descriptions l r) '','' @ '')'')"
| "action_String l (RuleActionBypass outbound r) =
     Some (if outbound = [] then ''bypass()''
           else ''bypass('' @ strings_Join (outbound # RouteOptions_Descriptions l r) '','' @ '')'')"
| "action_String l (RuleActionRouteOptions r) =
     Some (''route-options('' @ strings_Join (RouteOptions_Descriptions l r) '','' @ '')'')"
| "action_String l (RuleActionDNSRoute server r) = Some (formatDNSRouteAction l ''route'' server r)"
| "action_String l (RuleActionEvaluate server r) = Some (formatDNSRouteAction l ''evaluate'' server r)"
| "action_String l RuleActionRespond = Some ''respond''"
| "action_String l (RuleActionDNSRouteOptions r) =
     Some (''route-options('' @ strings_Join (dnsOptionDescriptions l r) '','' @ '')'')"
| "action_String l (RuleActionDirect description) = Some (''direct'' @ description)"
| "action_String l (RuleActionReject r) = Some (RuleActionReject_String r)"
| "action_String l RuleActionHijackDNS = Some ''hijack-dns''"
| "action_String l (RuleActionSniff r) = Some (RuleActionSniff_String l r)"
| "action_String l (RuleActionResolve r) = RuleActionResolve_String l r"
| "action_String l (RuleActionPredefined r) = RuleActionPredefined_String l r"

section \<open>Rejecting\<close>

text \<open>
  The errors of \<^verbatim>\<open>reject\<close>: \<^verbatim>\<open>RejectedError\<close> wrapping a reset or a drop. \<open>now\<close> is the clock in
  nanoseconds; the method also returns the action with its new drop counter.
\<close>

datatype rejected = ErrReset | ErrDrop

definition drop_window :: int where "drop_window = 30 * 1000000000"

definition RuleActionReject_Error ::
  "int \<Rightarrow> reject_action \<Rightarrow> rejected option outcome \<times> reject_action" where
  "RuleActionReject_Error now r =
     (if rj_Method r = ''default'' then
        (if rj_NoDrop r then (Ret (Some ErrReset), r)
         else
           let dropCounter = filter (\<lambda>t. now - t \<le> drop_window) (rj_dropCounter r) @ [now];
               r' = r\<lparr>rj_dropCounter := dropCounter\<rparr>
           in if length dropCounter > 50 then (Ret (Some ErrDrop), r') else (Ret (Some ErrReset), r'))
      else if rj_Method r = ''drop'' then (Ret (Some ErrDrop), r)
      else if rj_Method r = ''reply'' then (Ret None, r)
      else (Panic (''unknown reject method: '' @ rj_Method r), r))"

text \<open>A sequence of rejections, one per clock reading.\<close>

fun reject_calls :: "int list \<Rightarrow> reject_action \<Rightarrow> rejected option outcome list \<times> reject_action" where
  "reject_calls [] r = ([], r)"
| "reject_calls (now # nows) r =
     (let (result, r') = RuleActionReject_Error now r; (results, r'') = reject_calls nows r'
      in (result # results, r''))"

section \<open>Predefined responses\<close>

text \<open>\<^verbatim>\<open>strings.HasSuffix\<close>.\<close>

definition HasSuffix :: "string \<Rightarrow> string \<Rightarrow> bool" where
  "HasSuffix s suffix \<longleftrightarrow> length suffix \<le> length s \<and> drop (length s - length suffix) s = suffix"

text \<open>
  A record whose name starts with \<^verbatim>\<open>*\<close> takes the name of the question when the rest is a suffix of
  it. A nil record panics, \<open>None\<close>.
\<close>

definition rewriteRecord :: "string \<Rightarrow> rr \<Rightarrow> rr" where
  "rewriteRecord qname it =
     (case rr_Name it of
        CHR ''*'' # rest \<Rightarrow> if HasSuffix qname rest then RR qname (rr_Rrtype it) (rr_Class it) (rr_Ttl it) (rr_data it) else it
      | _ \<Rightarrow> it)"

definition rewriteRecords :: "rr option list \<Rightarrow> question \<Rightarrow> rr list option" where
  "rewriteRecords records question =
     (if None \<in> set records then None
      else Some (map (\<lambda>it. rewriteRecord (q_Name question) (the it)) records))"

definition RuleActionPredefined_Response :: "predefined_action \<Rightarrow> dns_msg \<Rightarrow> dns_msg outcome" where
  "RuleActionPredefined_Response r request =
     (case msg_Question request of
        [] \<Rightarrow> Panic ''index out of range''
      | question # _ \<Rightarrow>
          (case (rewriteRecords (pd_Answer r) question, rewriteRecords (pd_Ns r) question,
                 rewriteRecords (pd_Extra r) question) of
             (Some answer, Some ns, Some extra) \<Rightarrow>
               Ret \<lparr> msg_Id = msg_Id request, msg_Response = True, msg_Authoritative = True,
                     msg_RecursionDesired = True, msg_RecursionAvailable = True,
                     msg_Rcode = pd_Rcode r, msg_Question = msg_Question request,
                     msg_Answer = answer, msg_Ns = ns, msg_Extra = extra \<rparr>
           | _ \<Rightarrow> Panic ''nil record''))"

end
