(* ===== verification/Rule_Options.thy ===== *)
theory Rule_Options
  imports Rule_Action
begin

text \<open>
  The option structs of rules: \<^verbatim>\<open>option/rule.go\<close>, \<^verbatim>\<open>option/rule_dns.go\<close> and the headless rules of
  \<^verbatim>\<open>option/rule_set.go\<close>, with their validity checks. A nil and an empty list are the same value here;
  a map of interface addresses is the list of its entries; address prefixes are kept in their
  textual form until a rule item builds them.
\<close>

section \<open>Condition structs\<close>

record raw_default_rule =
  r_Inbound :: "string list"
  r_IPVersion :: int
  r_Network :: "string list"
  r_AuthUser :: "string list"
  r_Protocol :: "string list"
  r_Client :: "string list"
  r_Domain :: "string list"
  r_DomainSuffix :: "string list"
  r_DomainKeyword :: "string list"
  r_DomainRegex :: "string list"
  r_Geosite :: "string list"
  r_SourceGeoIP :: "string list"
  r_GeoIP :: "string list"
  r_SourceIPCIDR :: "string list"
  r_SourceIPIsPrivate :: bool
  r_IPCIDR :: "string list"
  r_IPIsPrivate :: bool
  r_SourcePort :: "u16 list"
  r_SourcePortRange :: "string list"
  r_Port :: "u16 list"
  r_PortRange :: "string list"
  r_ProcessName :: "string list"
  r_ProcessPath :: "string list"
  r_ProcessPathRegex :: "string list"
  r_PackageName :: "string list"
  r_PackageNameRegex :: "string list"
  r_User :: "string list"
  r_UserID :: "32 word list"
  r_ClashMode :: string
  r_NetworkType :: "u8 list"
  r_NetworkIsExpensive :: bool
  r_NetworkIsConstrained :: bool
  r_WIFISSID :: "string list"
  r_WIFIBSSID :: "string list"
  r_InterfaceAddress :: "(string \<times> string list) list"
  r_NetworkInterfaceAddress :: "(u8 \<times> string list) list"
  r_DefaultInterfaceAddress :: "string list"
  r_SourceMACAddress :: "string list"
  r_SourceHostname :: "string list"
  r_PreferredBy :: "string list"
  r_RuleSet :: "string list"
  r_RuleSetIPCIDRMatchSource :: bool
  r_Invert :: bool
  r_Deprecated_RulesetIPCIDRMatchSource :: bool
  r_TunnelSource :: "string list"
  r_TunnelDestination :: "string list"

definition raw_default_rule_zero :: raw_default_rule where
  "raw_default_rule_zero =
     \<lparr> r_Inbound = [], r_IPVersion = 0, r_Network = [], r_AuthUser = [], r_Protocol = [],
       r_Client = [], r_Domain = [], r_DomainSuffix = [], r_DomainKeyword = [],
       r_DomainRegex = [], r_Geosite = [], r_SourceGeoIP = [], r_GeoIP = [],
       r_SourceIPCIDR = [], r_SourceIPIsPrivate = False, r_IPCIDR = [], r_IPIsPrivate = False,
       r_SourcePort = [], r_SourcePortRange = [], r_Port = [], r_PortRange = [],
       r_ProcessName = [], r_ProcessPath = [], r_ProcessPathRegex = [], r_PackageName = [],
       r_PackageNameRegex = [], r_User = [], r_UserID = [], r_ClashMode = [],
       r_NetworkType = [], r_NetworkIsExpensive = False, r_NetworkIsConstrained = False,
       r_WIFISSID = [], r_WIFIBSSID = [], r_InterfaceAddress = [],
       r_NetworkInterfaceAddress = [], r_DefaultInterfaceAddress = [], r_SourceMACAddress = [],
       r_SourceHostname = [], r_PreferredBy = [], r_RuleSet = [],
       r_RuleSetIPCIDRMatchSource = False, r_Invert = False,
       r_Deprecated_RulesetIPCIDRMatchSource = False, r_TunnelSource = [],
       r_TunnelDestination = [] \<rparr>"

record raw_default_dns_rule =
  d_Inbound :: "string list"
  d_IPVersion :: int
  d_QueryType :: "u16 list"
  d_Network :: "string list"
  d_AuthUser :: "string list"
  d_Protocol :: "string list"
  d_Domain :: "string list"
  d_DomainSuffix :: "string list"
  d_DomainKeyword :: "string list"
  d_DomainRegex :: "string list"
  d_SourceIPCIDR :: "string list"
  d_SourceIPIsPrivate :: bool
  d_SourcePort :: "u16 list"
  d_SourcePortRange :: "string list"
  d_Port :: "u16 list"
  d_PortRange :: "string list"
  d_ProcessName :: "string list"
  d_ProcessPath :: "string list"
  d_ProcessPathRegex :: "string list"
  d_PackageName :: "string list"
  d_PackageNameRegex :: "string list"
  d_User :: "string list"
  d_UserID :: "32 word list"
  d_Outbound :: "string list"
  d_ClashMode :: string
  d_NetworkType :: "u8 list"
  d_NetworkIsExpensive :: bool
  d_NetworkIsConstrained :: bool
  d_WIFISSID :: "string list"
  d_WIFIBSSID :: "string list"
  d_InterfaceAddress :: "(string \<times> string list) list"
  d_NetworkInterfaceAddress :: "(u8 \<times> string list) list"
  d_DefaultInterfaceAddress :: "string list"
  d_SourceMACAddress :: "string list"
  d_SourceHostname :: "string list"
  d_PreferredBy :: "string list"
  d_RuleSet :: "string list"
  d_RuleSetIPCIDRMatchSource :: bool
  d_MatchResponse :: bool
  d_IPCIDR :: "string list"
  d_IPIsPrivate :: bool
  d_IPAcceptAny :: bool
  d_ResponseRcode :: "int option"
  d_ResponseAnswer :: "rr option list"
  d_ResponseNs :: "rr option list"
  d_ResponseExtra :: "rr option list"
  d_Invert :: bool
  d_Geosite :: "string list"
  d_SourceGeoIP :: "string list"
  d_GeoIP :: "string list"
  d_RuleSetIPCIDRAcceptEmpty :: bool
  d_Deprecated_RulesetIPCIDRMatchSource :: bool
  d_TunnelSource :: "string list"
  d_TunnelDestination :: "string list"

definition raw_default_dns_rule_zero :: raw_default_dns_rule where
  "raw_default_dns_rule_zero =
     \<lparr> d_Inbound = [], d_IPVersion = 0, d_QueryType = [], d_Network = [], d_AuthUser = [],
       d_Protocol = [], d_Domain = [], d_DomainSuffix = [], d_DomainKeyword = [],
       d_DomainRegex = [], d_SourceIPCIDR = [], d_SourceIPIsPrivate = False, d_SourcePort = [],
       d_SourcePortRange = [], d_Port = [], d_PortRange = [], d_ProcessName = [],
       d_ProcessPath = [], d_ProcessPathRegex = [], d_PackageName = [],
       d_PackageNameRegex = [], d_User = [], d_UserID = [], d_Outbound = [], d_ClashMode = [],
       d_NetworkType = [], d_NetworkIsExpensive = False, d_NetworkIsConstrained = False,
       d_WIFISSID = [], d_WIFIBSSID = [], d_InterfaceAddress = [],
       d_NetworkInterfaceAddress = [], d_DefaultInterfaceAddress = [], d_SourceMACAddress = [],
       d_SourceHostname = [], d_PreferredBy = [], d_RuleSet = [],
       d_RuleSetIPCIDRMatchSource = False, d_MatchResponse = False, d_IPCIDR = [],
       d_IPIsPrivate = False, d_IPAcceptAny = False, d_ResponseRcode = None,
       d_ResponseAnswer = [], d_ResponseNs = [], d_ResponseExtra = [], d_Invert = False,
       d_Geosite = [], d_SourceGeoIP = [], d_GeoIP = [], d_RuleSetIPCIDRAcceptEmpty = False,
       d_Deprecated_RulesetIPCIDRMatchSource = False, d_TunnelSource = [],
       d_TunnelDestination = [] \<rparr>"

record default_headless_rule =
  h_QueryType :: "u16 list"
  h_Network :: "string list"
  h_Domain :: "string list"
  h_DomainSuffix :: "string list"
  h_DomainKeyword :: "string list"
  h_DomainRegex :: "string list"
  h_SourceIPCIDR :: "string list"
  h_IPCIDR :: "string list"
  h_SourcePort :: "u16 list"
  h_SourcePortRange :: "string list"
  h_Port :: "u16 list"
  h_PortRange :: "string list"
  h_ProcessName :: "string list"
  h_ProcessPath :: "string list"
  h_ProcessPathRegex :: "string list"
  h_PackageName :: "string list"
  h_PackageNameRegex :: "string list"
  h_NetworkType :: "u8 list"
  h_NetworkIsExpensive :: bool
  h_NetworkIsConstrained :: bool
  h_WIFISSID :: "string list"
  h_WIFIBSSID :: "string list"
  h_NetworkInterfaceAddress :: "(u8 \<times> string list) list"
  h_DefaultInterfaceAddress :: "string list"
  h_Invert :: bool
  h_DomainMatcher :: "(string \<Rightarrow> bool) option"
  h_SourceIPSet :: "(addr \<Rightarrow> bool) option"
  h_IPSet :: "(addr \<Rightarrow> bool) option"
  h_AdGuardDomain :: "string list"
  h_AdGuardDomainMatcher :: "(string \<Rightarrow> bool) option"
  h_TunnelSource :: "string list"
  h_TunnelDestination :: "string list"

definition default_headless_rule_zero :: default_headless_rule where
  "default_headless_rule_zero =
     \<lparr> h_QueryType = [], h_Network = [], h_Domain = [], h_DomainSuffix = [],
       h_DomainKeyword = [], h_DomainRegex = [], h_SourceIPCIDR = [], h_IPCIDR = [],
       h_SourcePort = [], h_SourcePortRange = [], h_Port = [], h_PortRange = [],
       h_ProcessName = [], h_ProcessPath = [], h_ProcessPathRegex = [], h_PackageName = [],
       h_PackageNameRegex = [], h_NetworkType = [], h_NetworkIsExpensive = False,
       h_NetworkIsConstrained = False, h_WIFISSID = [], h_WIFIBSSID = [],
       h_NetworkInterfaceAddress = [], h_DefaultInterfaceAddress = [], h_Invert = False,
       h_DomainMatcher = None, h_SourceIPSet = None, h_IPSet = None, h_AdGuardDomain = [],
       h_AdGuardDomainMatcher = None, h_TunnelSource = [], h_TunnelDestination = [] \<rparr>"

section \<open>Rules\<close>

text \<open>
  A rule of the configuration: default or logical. \<open>typed\<close> says whether the field \<^verbatim>\<open>type\<close> of a
  default rule holds the word \<^verbatim>\<open>default\<close> or is empty, which the validity check of a nested
  rule distinguishes; \<open>Unknown\<close> is any other type.
\<close>

datatype ('d, 'a) rule_options =
    OptDefault (opt_typed: bool) (opt_conditions: 'd) (opt_action: 'a)
  | OptLogical (opt_mode: string) (opt_rules: "('d, 'a) rule_options list") (opt_inverted: bool)
      (opt_action: 'a)
  | OptUnknown (opt_type: string)

type_synonym route_rule_options = "(raw_default_rule, rule_action_options) rule_options"
type_synonym dns_rule_options = "(raw_default_dns_rule, dns_rule_action_options) rule_options"
type_synonym headless_rule_options = "(default_headless_rule, unit) rule_options"

text \<open>\<^verbatim>\<open>IsValid\<close> of the default rules: some field other than \<^verbatim>\<open>invert\<close> is set.\<close>

definition DefaultRule_IsValid :: "raw_default_rule \<Rightarrow> rule_action_options \<Rightarrow> bool" where
  "DefaultRule_IsValid r a \<longleftrightarrow> \<not> (r = raw_default_rule_zero\<lparr>r_Invert := r_Invert r\<rparr> \<and> a = ActNone)"

definition DefaultDNSRule_IsValid :: "raw_default_dns_rule \<Rightarrow> dns_rule_action_options \<Rightarrow> bool" where
  "DefaultDNSRule_IsValid r a \<longleftrightarrow>
     \<not> (r = raw_default_dns_rule_zero\<lparr>d_Invert := d_Invert r\<rparr> \<and> a = DNSActNone)"

definition DefaultHeadlessRule_IsValid :: "default_headless_rule \<Rightarrow> bool" where
  "DefaultHeadlessRule_IsValid r \<longleftrightarrow> \<not> (r = default_headless_rule_zero\<lparr>h_Invert := h_Invert r\<rparr>)"

text \<open>
  \<^verbatim>\<open>IsValid\<close> of a nested rule, \<open>None\<close> when it panics: an unknown type always does, an empty
  type only when the struct's method does not accept it (\<open>emptyTypeOk\<close>). The conjunction over the
  rules stops at the first invalid one.
\<close>

function (sequential) Rule_IsValid ::
  "bool \<Rightarrow> ('d \<Rightarrow> 'a \<Rightarrow> bool) \<Rightarrow> ('d, 'a) rule_options \<Rightarrow> bool option"
and Rules_AllValid ::
  "bool \<Rightarrow> ('d \<Rightarrow> 'a \<Rightarrow> bool) \<Rightarrow> ('d, 'a) rule_options list \<Rightarrow> bool option" where
  "Rule_IsValid emptyTypeOk valid (OptDefault typed d a) =
     (if typed \<or> emptyTypeOk then Some (valid d a) else None)"
| "Rule_IsValid emptyTypeOk valid (OptLogical mode rules inverted a) =
     (if rules = [] then Some False else Rules_AllValid emptyTypeOk valid rules)"
| "Rule_IsValid emptyTypeOk valid (OptUnknown t) = None"
| "Rules_AllValid emptyTypeOk valid [] = Some True"
| "Rules_AllValid emptyTypeOk valid (r # rs) =
     (case Rule_IsValid emptyTypeOk valid r of
        None \<Rightarrow> None
      | Some False \<Rightarrow> Some False
      | Some True \<Rightarrow> Rules_AllValid emptyTypeOk valid rs)"
  by pat_completeness auto
termination
  by (relation "measure (\<lambda>p. case p of Inl (_, _, r) \<Rightarrow> size r
       | Inr (_, _, rs) \<Rightarrow> size_list size rs)") auto

definition LogicalRule_IsValid ::
  "bool \<Rightarrow> ('d \<Rightarrow> 'a \<Rightarrow> bool) \<Rightarrow> ('d, 'a) rule_options list \<Rightarrow> bool option" where
  "LogicalRule_IsValid emptyTypeOk valid rules =
     (if rules = [] then Some False else Rules_AllValid emptyTypeOk valid rules)"

end
