(* ===== verification/Match_State.thy ===== *)
theory Match_State
  imports Prelude
begin

unbundle bit_operations_syntax

text \<open>
  \<^verbatim>\<open>route/rule/match_state.go\<close>: the bit sets in which rule evaluation records which of the four
  address and port conditions a rule has met so far. A \<^emph>\<open>state\<close> is a byte with one bit per
  condition; a \<^emph>\<open>state set\<close> is a 16-bit word with one bit per possible state. The definitions
  keep both widths. The lemmas read a state set as the set of states it holds and show that every
  operation is the set operation it stands for; the rule evaluator relies on them through
  the locale \<open>match_states\<close> only.
\<close>

section \<open>The code\<close>

type_synonym ruleMatchState = u8
type_synonym ruleMatchStateSet = u16

definition ruleMatchSourceAddress :: ruleMatchState where "ruleMatchSourceAddress = push_bit 0 1"
definition ruleMatchSourcePort :: ruleMatchState where "ruleMatchSourcePort = push_bit 1 1"
definition ruleMatchDestinationAddress :: ruleMatchState where "ruleMatchDestinationAddress = push_bit 2 1"
definition ruleMatchDestinationPort :: ruleMatchState where "ruleMatchDestinationPort = push_bit 3 1"

definition singleRuleMatchState :: "ruleMatchState \<Rightarrow> ruleMatchStateSet" where
  "singleRuleMatchState state = push_bit (unat state) 1"

definition emptyRuleMatchState :: ruleMatchStateSet where
  "emptyRuleMatchState = singleRuleMatchState 0"

definition isEmpty :: "ruleMatchStateSet \<Rightarrow> bool" where
  "isEmpty s \<longleftrightarrow> s = 0"

definition contains :: "ruleMatchStateSet \<Rightarrow> ruleMatchState \<Rightarrow> bool" where
  "contains s state \<longleftrightarrow> s AND push_bit (unat state) 1 \<noteq> 0"

definition add :: "ruleMatchStateSet \<Rightarrow> ruleMatchState \<Rightarrow> ruleMatchStateSet" where
  "add s state = s OR singleRuleMatchState state"

definition merge :: "ruleMatchStateSet \<Rightarrow> ruleMatchStateSet \<Rightarrow> ruleMatchStateSet" where
  "merge s other = s OR other"

text \<open>The loop range \<^verbatim>\<open>for state := ruleMatchState(0); state < 16; state++\<close>.\<close>

definition stateRange :: "ruleMatchState list" where
  "stateRange = map of_nat [0..<16]"

definition combine :: "ruleMatchStateSet \<Rightarrow> ruleMatchStateSet \<Rightarrow> ruleMatchStateSet" where
  "combine s other =
     (if isEmpty s \<or> isEmpty other then 0
      else foldl (\<lambda>combined left.
             if \<not> contains s left then combined
             else foldl (\<lambda>combined right.
                    if \<not> contains other right then combined
                    else add combined (left OR right)) combined stateRange) 0 stateRange)"

definition withBase :: "ruleMatchStateSet \<Rightarrow> ruleMatchState \<Rightarrow> ruleMatchStateSet" where
  "withBase s base =
     (if isEmpty s then 0
      else foldl (\<lambda>result state.
             if \<not> contains s state then result else add result (state OR base)) 0 stateRange)"

definition filterStates :: "ruleMatchStateSet \<Rightarrow> (ruleMatchState \<Rightarrow> bool) \<Rightarrow> ruleMatchStateSet" where
  "filterStates s allowed =
     foldl (\<lambda>filtered state.
       if \<not> contains s state then filtered
       else if allowed state then add filtered state else filtered) 0 stateRange"

text \<open>\<^verbatim>\<open>ruleMatchState.has\<close>, declared at the end of \<^verbatim>\<open>rule_abstract.go\<close>.\<close>

definition has :: "ruleMatchState \<Rightarrow> ruleMatchState \<Rightarrow> bool" where
  "has s target \<longleftrightarrow> s AND target \<noteq> 0"

section \<open>The interface the evaluator relies on\<close>

text \<open>
  A type of state sets with an abstraction \<open>states\<close> to sets of states; \<open>valid\<close> says which states
  can be members. Two sets with the same members are equal, so equality tests of the
  code (\<^verbatim>\<open>stateSet == emptyRuleMatchState()\<close>) are tests on the members.
\<close>

locale match_states =
  fixes valid :: "'x \<Rightarrow> bool"
    and join :: "'x \<Rightarrow> 'x \<Rightarrow> 'x"
    and states :: "'s \<Rightarrow> 'x set"
    and none :: 's
    and single :: "'x \<Rightarrow> 's"
    and union :: "'s \<Rightarrow> 's \<Rightarrow> 's"
    and product :: "'s \<Rightarrow> 's \<Rightarrow> 's"
    and with_base :: "'s \<Rightarrow> 'x \<Rightarrow> 's"
    and select :: "'s \<Rightarrow> ('x \<Rightarrow> bool) \<Rightarrow> 's"
  assumes valid_join: "valid x \<Longrightarrow> valid y \<Longrightarrow> valid (join x y)"
    and states_valid: "x \<in> states s \<Longrightarrow> valid x"
    and states_ext: "states s = states t \<Longrightarrow> s = t"
    and states_none: "states none = {}"
    and states_single: "valid x \<Longrightarrow> states (single x) = {x}"
    and states_union: "states (union s t) = states s \<union> states t"
    and states_product: "states (product s t) = {join x y |x y. x \<in> states s \<and> y \<in> states t}"
    and states_with_base: "valid b \<Longrightarrow> states (with_base s b) = (\<lambda>x. join x b) ` states s"
    and states_select: "states (select s P) = {x \<in> states s. P x}"
begin

lemma none_iff: "s = none \<longleftrightarrow> states s = {}"
  using states_ext states_none by auto

lemma single_not_none: "valid x \<Longrightarrow> single x \<noteq> none"
  by (simp add: none_iff states_single)

lemma union_none_iff: "union s t = none \<longleftrightarrow> s = none \<and> t = none"
  by (simp add: none_iff states_union)

lemma product_none_iff: "product s t = none \<longleftrightarrow> s = none \<or> t = none"
  by (auto simp: none_iff states_product)

lemma with_base_none_iff: "valid b \<Longrightarrow> with_base s b = none \<longleftrightarrow> s = none"
  by (simp add: none_iff states_with_base)

lemma states_union_foldl:
  "states (foldl (\<lambda>s x. union s (f x)) s0 xs) = states s0 \<union> (\<Union>x\<in>set xs. states (f x))"
  by (induction xs arbitrary: s0) (auto simp: states_union)

lemma union_foldl_none_iff:
  "foldl (\<lambda>s x. union s (f x)) none xs = none \<longleftrightarrow> (\<forall>x\<in>set xs. f x = none)"
  by (simp add: none_iff states_union_foldl states_none)

end

section \<open>The code meets the interface\<close>

text \<open>The members of a state set.\<close>

definition states :: "ruleMatchStateSet \<Rightarrow> ruleMatchState set" where
  "states s = {x. contains s x}"

definition validState :: "ruleMatchState \<Rightarrow> bool" where
  "validState x \<longleftrightarrow> x < 16"

lemma contains_bit: "contains s x \<longleftrightarrow> bit s (unat x)"
  unfolding contains_def by (rule bit_iff_and_push_bit_not_eq_0 [symmetric])

lemma contains_states: "contains s x \<longleftrightarrow> x \<in> states s"
  by (simp add: states_def)

lemma unat_less_16: "validState x \<longleftrightarrow> unat x < 16"
  by (simp add: validState_def word_less_nat_alt)

lemma contains_valid: "contains s x \<Longrightarrow> validState x"
  using bit_imp_le_length [of s "unat x"] by (simp add: contains_bit unat_less_16)

lemma set_stateRange: "set stateRange = {x. validState x}"
proof -
  have "x \<in> of_nat ` {0..<16}" if "unat x < 16" for x :: ruleMatchState
    using that by (intro image_eqI [of _ _ "unat x"]) simp_all
  moreover have "unat (of_nat n :: ruleMatchState) < 16" if "n < 16" for n
    using that by (simp add: unat_of_nat)
  ultimately show ?thesis by (auto simp: stateRange_def unat_less_16)
qed

lemma validState_or: "validState x \<Longrightarrow> validState y \<Longrightarrow> validState (x OR y)"
proof -
  have "\<forall>x \<in> set stateRange. \<forall>y \<in> set stateRange. x OR y < 16"
    by (simp add: stateRange_def upt_rec)
  then show "validState x \<Longrightarrow> validState y \<Longrightarrow> validState (x OR y)"
    by (simp add: set_stateRange validState_def)
qed

lemma states_singleRuleMatchState [state_sets]:
  "validState x \<Longrightarrow> states (singleRuleMatchState x) = {x}"
  by (auto simp: states_def contains_bit singleRuleMatchState_def bit_simps unat_less_16
      dest: word_unat_eq_iff [THEN iffD2])

lemma states_zero [state_sets]: "states 0 = {}"
  by (simp add: states_def contains_bit)

lemma states_merge [state_sets]: "states (merge s t) = states s \<union> states t"
  by (auto simp: states_def contains_bit merge_def bit_simps)

lemma states_add [state_sets]: "validState x \<Longrightarrow> states (add s x) = insert x (states s)"
  using states_merge [of s "singleRuleMatchState x"]
  by (simp add: add_def merge_def states_singleRuleMatchState)

lemma states_subset_range: "states s \<subseteq> set stateRange"
  by (auto simp: states_def set_stateRange dest: contains_valid)

text \<open>A loop over the states that adds a set of new states per visited state.\<close>

lemma states_foldl_add:
  assumes "\<And>c x. x \<in> set xs \<Longrightarrow> states (f c x) = states c \<union> g x"
  shows "states (foldl f c xs) = states c \<union> (\<Union>x\<in>set xs. g x)"
  using assms by (induction xs arbitrary: c) auto

lemma states_combine [state_sets]:
  "states (combine s t) = {x OR y |x y. x \<in> states s \<and> y \<in> states t}"
proof (cases "isEmpty s \<or> isEmpty t")
  case True
  then show ?thesis by (auto simp: combine_def isEmpty_def state_sets)
next
  case False
  let ?inner = "\<lambda>left combined right.
    if \<not> contains t right then combined else add combined (left OR right)"
  have inner: "states (foldl (?inner left) c stateRange)
      = states c \<union> (\<Union>right\<in>set stateRange. {left OR right |_::unit. contains t right})"
    if "left \<in> set stateRange" for left c
    using that by (intro states_foldl_add)
      (auto simp: set_stateRange states_add validState_or)
  have "states (foldl (\<lambda>combined left. if \<not> contains s left then combined
             else foldl (?inner left) combined stateRange) 0 stateRange)
      = states 0 \<union> (\<Union>left\<in>set stateRange. {left OR right |right. contains s left \<and>
            right \<in> set stateRange \<and> contains t right})"
    by (intro states_foldl_add) (auto simp: inner)
  with False show ?thesis
    using states_subset_range [of s] states_subset_range [of t]
    by (fastforce simp: combine_def states_zero contains_states)
qed

lemma states_withBase [state_sets]:
  assumes "validState b"
  shows "states (withBase s b) = (\<lambda>x. x OR b) ` states s"
proof (cases "isEmpty s")
  case True
  then show ?thesis by (simp add: withBase_def isEmpty_def state_sets)
next
  case False
  have "states (foldl (\<lambda>result x. if \<not> contains s x then result else add result (x OR b)) 0 stateRange)
      = states 0 \<union> (\<Union>x\<in>set stateRange. {x OR b |_::unit. contains s x})"
    using assms by (intro states_foldl_add) (auto simp: set_stateRange states_add validState_or)
  with False show ?thesis
    using states_subset_range [of s] by (auto simp: withBase_def states_zero contains_states)
qed

lemma states_filterStates [state_sets]: "states (filterStates s P) = {x \<in> states s. P x}"
proof -
  have "states (filterStates s P)
      = states 0 \<union> (\<Union>x\<in>set stateRange. {x |_::unit. contains s x \<and> P x})"
    unfolding filterStates_def
    by (intro states_foldl_add) (auto simp: set_stateRange states_add)
  then show ?thesis
    using states_subset_range [of s] by (auto simp: states_zero contains_states)
qed

lemma states_inject: "states s = states t \<Longrightarrow> s = t"
proof (rule bit_eqI)
  fix n assume eq: "states s = states t" and "possible_bit TYPE(16 word) n"
  then have n: "n < 16" by simp
  then have u: "unat (of_nat n :: ruleMatchState) = n" by (simp add: unat_of_nat)
  from eq have "contains s (of_nat n) = contains t (of_nat n)" by (auto simp: states_def)
  then show "bit s n = bit t n" by (simp add: contains_bit u)
qed

interpretation ms: match_states validState "(OR)" states 0 singleRuleMatchState merge combine
  withBase filterStates
proof unfold_locales
  show "validState x" if "x \<in> states s" for x s
    using that contains_valid by (simp add: states_def)
qed (auto simp: state_sets validState_or dest: states_inject)

lemma validState_zero [simp]: "validState 0"
  by (simp add: validState_def)

lemma isEmpty_states: "isEmpty s \<longleftrightarrow> states s = {}"
  by (simp add: isEmpty_def ms.none_iff)

lemma states_emptyRuleMatchState [state_sets]: "states emptyRuleMatchState = {0}"
  by (simp add: emptyRuleMatchState_def state_sets)

lemma states_base [state_sets]:
  "validState b \<Longrightarrow> states (withBase emptyRuleMatchState b) = {b}"
  by (simp add: state_sets)

lemma base_set_eq: "validState b \<Longrightarrow> withBase emptyRuleMatchState b = singleRuleMatchState b"
  by (rule states_inject) (simp add: state_sets)

section \<open>The four condition bits\<close>

lemma condition_bits_valid [simp]:
  "validState ruleMatchSourceAddress" "validState ruleMatchSourcePort"
  "validState ruleMatchDestinationAddress" "validState ruleMatchDestinationPort"
  by (simp_all add: validState_def ruleMatchSourceAddress_def ruleMatchSourcePort_def
      ruleMatchDestinationAddress_def ruleMatchDestinationPort_def)

lemmas condition_bits = ruleMatchSourceAddress_def ruleMatchSourcePort_def
  ruleMatchDestinationAddress_def ruleMatchDestinationPort_def

lemma has_or: "has (x OR y) t \<longleftrightarrow> has x t \<or> has y t"
  by (simp add: has_def bit.conj_disj_distrib2 or_eq_0_iff)

end
