(* ===== verification/Rule_Item_Match.thy ===== *)
theory Rule_Item_Match
  imports Rule_Items
begin

text \<open>
  The remaining items of \<^verbatim>\<open>route/rule\<close> (interface addresses, source device, preferred routes, DNS
  response), the calls through the interface \<^verbatim>\<open>RuleItem\<close> and the \<^verbatim>\<open>Start\<close> methods.
\<close>

section \<open>The remaining items\<close>

subsection \<open>interface addresses\<close>

text \<open>
  A Go map filled from the entries of a configuration object is an association list without
  duplicate keys; the matching loops over it are conjunctions, so their result does not depend on
  the order of iteration.
\<close>

definition NewInterfaceAddressItem :: "lib \<Rightarrow> (string \<times> string list) list \<Rightarrow> rule_item" where
  "NewInterfaceAddressItem l entries =
     InterfaceAddressItem
       (foldl (\<lambda>m (key, value). AList.update key (map (lib_PrefixableBuild l) value) m) [] entries)
       (''interface_address=['' @
        strings_Join (map (\<lambda>(key, value). key @ ''='' @
          strings_Join (map (\<lambda>p. lib_PrefixString l (lib_PrefixableBuild l p)) value) '','') entries)
          '' '' @ '']'')"

definition InterfaceAddressItem_Match ::
  "net_env \<Rightarrow> (string \<times> prefix list) list \<Rightarrow> inbound_context \<Rightarrow> bool" where
  "InterfaceAddressItem_Match env interfaceAddresses c =
     list_all (\<lambda>(ifName, addresses).
       case find (\<lambda>it. fst it = ifName) (env_Interfaces env) of
         None \<Rightarrow> False
       | Some iface \<Rightarrow>
           fst iface \<noteq> [] \<and>
           \<not> list_all (\<lambda>address. list_all (\<lambda>it. \<not> prefix_Overlaps address it) (snd iface)) addresses)
       interfaceAddresses"

definition NewNetworkInterfaceAddressItem :: "lib \<Rightarrow> (u8 \<times> string list) list \<Rightarrow> rule_item" where
  "NewNetworkInterfaceAddressItem l entries =
     NetworkInterfaceAddressItem
       (foldl (\<lambda>m (key, value). AList.update key (map (lib_PrefixableBuild l) value) m) [] entries)
       (''network_interface_address=['' @
        strings_Join (map (\<lambda>(key, value). InterfaceType_String key @ ''='' @
          strings_Join (map (\<lambda>p. lib_PrefixString l (lib_PrefixableBuild l p)) value) '','') entries)
          '' '' @ '']'')"

definition NetworkInterfaceAddressItem_Match ::
  "net_env \<Rightarrow> (u8 \<times> prefix list) list \<Rightarrow> inbound_context \<Rightarrow> bool" where
  "NetworkInterfaceAddressItem_Match env interfaceAddresses c =
     list_all (\<lambda>(ifType, addresses).
       list_ex (\<lambda>networkInterface.
         ni_Type networkInterface = ifType \<and>
         list_ex (\<lambda>it. list_ex (\<lambda>p. prefix_Overlaps p it) addresses) (ni_Addresses networkInterface))
         (env_NetworkInterfaces env))
       interfaceAddresses"

definition NewDefaultInterfaceAddressItem :: "lib \<Rightarrow> string list \<Rightarrow> rule_item" where
  "NewDefaultInterfaceAddressItem l interfaceAddresses =
     DefaultInterfaceAddressItem (map (lib_PrefixableBuild l) interfaceAddresses)"

definition DefaultInterfaceAddressItem_Match ::
  "net_env \<Rightarrow> prefix list \<Rightarrow> inbound_context \<Rightarrow> bool" where
  "DefaultInterfaceAddressItem_Match env interfaceAddresses c =
     (case env_DefaultInterface env of
        None \<Rightarrow> False
      | Some addresses \<Rightarrow>
          list_all (\<lambda>address. \<not> list_all (\<lambda>it. \<not> prefix_Overlaps address it) addresses)
            interfaceAddresses)"

definition DefaultInterfaceAddressItem_String :: "lib \<Rightarrow> prefix list \<Rightarrow> string" where
  "DefaultInterfaceAddressItem_String l interfaceAddresses =
     describeUpTo3 ''default_interface_address'' ''...]''
       (map (lib_PrefixString l) interfaceAddresses)"

subsection \<open>source\_mac\_address, source\_hostname\<close>

definition NewSourceMACAddressItem :: "lib \<Rightarrow> string list \<Rightarrow> rule_item" where
  "NewSourceMACAddressItem l addressList =
     SourceMACAddressItem addressList
       (foldl (\<lambda>m address.
          case lib_ParseMACString l address of
            Some parsed \<Rightarrow> m(parsed \<mapsto> True)
          | None \<Rightarrow> m(address \<mapsto> True)) Map.empty addressList)"

definition SourceMACAddressItem_Match :: "string boolmap \<Rightarrow> inbound_context \<Rightarrow> bool" where
  "SourceMACAddressItem_Match addressMap c =
     (case SourceMACAddress c of
        None \<Rightarrow> False
      | Some address \<Rightarrow> boolmap_get addressMap address)"

definition SourceMACAddressItem_String :: "string list \<Rightarrow> string" where
  "SourceMACAddressItem_String addresses = describeList ''source_mac_address'' addresses"

definition NewSourceHostnameItem :: "string list \<Rightarrow> rule_item" where
  "NewSourceHostnameItem hostnameList =
     SourceHostnameItem hostnameList (boolmap_of hostnameList)"

definition SourceHostnameItem_Match :: "string boolmap \<Rightarrow> inbound_context \<Rightarrow> bool" where
  "SourceHostnameItem_Match hostnameMap c =
     (if SourceHostname c = [] then False else boolmap_get hostnameMap (SourceHostname c))"

definition SourceHostnameItem_String :: "string list \<Rightarrow> string" where
  "SourceHostnameItem_String hostnames = describeList ''source_hostname'' hostnames"

subsection \<open>preferred\_by\<close>

text \<open>
  What \<^verbatim>\<open>Start\<close> finds in the service registry: whether there is a clash server, and for an outbound
  or DNS transport tag its type and whether it implements the preferred-routes interface.
\<close>

record services =
  svc_ClashServer :: bool
  svc_Outbound :: "tag \<Rightarrow> (string \<times> bool) option"
  svc_Transport :: "tag \<Rightarrow> (string \<times> bool) option"

definition ClashModeItem_Start :: "services \<Rightarrow> string \<Rightarrow> rule_item" where
  "ClashModeItem_Start svc mode = ClashModeItem (svc_ClashServer svc) mode"

definition NewPreferredByItem :: "tag list \<Rightarrow> rule_item" where
  "NewPreferredByItem outboundTags = PreferredByItem outboundTags []"

definition PreferredByItem_Start :: "services \<Rightarrow> tag list \<Rightarrow> tag list \<Rightarrow> rule_error + rule_item" where
  "PreferredByItem_Start svc outboundTags outbounds =
     (case map_err (\<lambda>outboundTag.
        case svc_Outbound svc outboundTag of
          None \<Rightarrow> Inl (E_NewArg ''outbound not found: '' outboundTag)
        | Some (outboundType, withRoutes) \<Rightarrow>
            if \<not> withRoutes
            then Inl (E_NewArg ''outbound type does not support preferred routes: '' outboundType)
            else Inr outboundTag) outboundTags of
        Inl e \<Rightarrow> Inl e
      | Inr started \<Rightarrow> Inr (PreferredByItem outboundTags (outbounds @ started)))"

definition PreferredByItem_Match ::
  "lib \<Rightarrow> net_env \<Rightarrow> tag list \<Rightarrow> inbound_context \<Rightarrow> bool" where
  "PreferredByItem_Match l env outbounds c =
     (if domainHost c \<noteq> [] \<and>
         list_ex (\<lambda>outbound. env_PreferredDomain env outbound c (domainHost c)) outbounds then True
      else if lib_IsIP l (Destination c) \<and>
         list_ex (\<lambda>outbound. env_PreferredAddress env outbound c (sa_Addr (Destination c))) outbounds
      then True
      else list_ex (\<lambda>address. list_ex (\<lambda>outbound. env_PreferredAddress env outbound c address) outbounds)
             (DestinationAddresses c))"

definition PreferredByItem_String :: "tag list \<Rightarrow> string" where
  "PreferredByItem_String outboundTags = describeList ''preferred_by'' outboundTags"

definition NewPreferredByDNSItem :: "tag list \<Rightarrow> rule_item" where
  "NewPreferredByDNSItem transportTags = PreferredByDNSItem transportTags []"

definition PreferredByDNSItem_Start ::
  "services \<Rightarrow> tag list \<Rightarrow> tag list \<Rightarrow> rule_error + rule_item" where
  "PreferredByDNSItem_Start svc transportTags transports =
     (case map_err (\<lambda>transportTag.
        case svc_Transport svc transportTag of
          None \<Rightarrow> Inl (E_NewArg ''DNS server not found: '' transportTag)
        | Some (transportType, withPreferredDomain) \<Rightarrow>
            if \<not> withPreferredDomain
            then Inl (E_NewArg ''DNS server type does not support preferred_by: '' transportType)
            else Inr transportTag) transportTags of
        Inl e \<Rightarrow> Inl e
      | Inr started \<Rightarrow> Inr (PreferredByDNSItem transportTags (transports @ started)))"

definition PreferredByDNSItem_Match ::
  "lib \<Rightarrow> net_env \<Rightarrow> tag list \<Rightarrow> inbound_context \<Rightarrow> bool" where
  "PreferredByDNSItem_Match l env transports c =
     (if domainHost c = [] then False
      else list_ex (\<lambda>transport.
             env_TransportPreferredDomain env transport (lib_CanonicalName l (domainHost c))) transports)"

definition PreferredByDNSItem_String :: "tag list \<Rightarrow> string" where
  "PreferredByDNSItem_String transportTags = describeList ''preferred_by'' transportTags"

subsection \<open>response\_rcode, response\_answer, response\_ns, response\_extra\<close>

definition NewDNSResponseRCodeItem :: "int \<Rightarrow> rule_item" where
  "NewDNSResponseRCodeItem rcode = DNSResponseRCodeItem rcode"

definition DNSResponseRCodeItem_Match :: "int \<Rightarrow> inbound_context \<Rightarrow> bool" where
  "DNSResponseRCodeItem_Match rcode c =
     (case DNSResponse c of None \<Rightarrow> False | Some response \<Rightarrow> msg_Rcode response = rcode)"

definition DNSResponseRCodeItem_String :: "lib \<Rightarrow> int \<Rightarrow> string" where
  "DNSResponseRCodeItem_String l rcode = ''response_rcode='' @ lib_RcodeToString l rcode"

text \<open>\<^verbatim>\<open>DNSRecordOptions.Match\<close> of \<^verbatim>\<open>option/dns_record.go\<close>; the record of an option may be absent.\<close>

definition DNSRecordOptions_Match :: "lib \<Rightarrow> rr option \<Rightarrow> rr \<Rightarrow> bool" where
  "DNSRecordOptions_Match l expected record =
     (case expected of None \<Rightarrow> False | Some r \<Rightarrow> lib_IsDuplicate l r record)"

definition NewDNSResponseRecordItem ::
  "string \<Rightarrow> rr option list \<Rightarrow> (dns_msg \<Rightarrow> rr list) \<Rightarrow> rule_item" where
  "NewDNSResponseRecordItem field records selector = DNSResponseRecordItem field records selector"

definition DNSResponseRecordItem_Match ::
  "lib \<Rightarrow> rr option list \<Rightarrow> (dns_msg \<Rightarrow> rr list) \<Rightarrow> inbound_context \<Rightarrow> bool" where
  "DNSResponseRecordItem_Match l expectedRecords selector c =
     (case DNSResponse c of
        None \<Rightarrow> False
      | Some response \<Rightarrow>
          list_ex (\<lambda>expected. list_ex (DNSRecordOptions_Match l expected) (selector response))
            expectedRecords)"

definition DNSResponseRecordItem_String :: "lib \<Rightarrow> string \<Rightarrow> rr option list \<Rightarrow> string" where
  "DNSResponseRecordItem_String l field records =
     field @ ''=['' @
     strings_Join (map (lib_RRString l) (concat (map (\<lambda>r. case r of None \<Rightarrow> [] | Some x \<Rightarrow> [x]) records))) '' ''
     @ '']''"

definition dnsResponseAnswers :: "dns_msg \<Rightarrow> rr list" where
  "dnsResponseAnswers message = msg_Answer message"

definition dnsResponseNS :: "dns_msg \<Rightarrow> rr list" where
  "dnsResponseNS message = msg_Ns message"

definition dnsResponseExtra :: "dns_msg \<Rightarrow> rr list" where
  "dnsResponseExtra message = msg_Extra message"

section \<open>The interface\<close>

fun item_Match :: "lib \<Rightarrow> net_env \<Rightarrow> rule_item \<Rightarrow> inbound_context \<Rightarrow> bool" where
  "item_Match l env (InboundItem _ m) c = InboundItem_Match m c"
| "item_Match l env (IPVersionItem v6) c = IPVersionItem_Match l v6 c"
| "item_Match l env (QueryTypeItem _ m) c = QueryTypeItem_Match m c"
| "item_Match l env (NetworkItem _ m) c = NetworkItem_Match m c"
| "item_Match l env (AuthUserItem _ m) c = AuthUserItem_Match m c"
| "item_Match l env (ProtocolItem _ m) c = ProtocolItem_Match m c"
| "item_Match l env (ClientItem _ m) c = ClientItem_Match m c"
| "item_Match l env (DomainItem matcher _) c = DomainItem_Match l matcher c"
| "item_Match l env (DomainKeywordItem ks) c = DomainKeywordItem_Match l ks c"
| "item_Match l env (DomainRegexItem ms _) c = DomainRegexItem_Match l ms c"
| "item_Match l env (AdGuardDomainItem matcher) c = AdGuardDomainItem_Match l matcher c"
| "item_Match l env (IPCIDRItem s src _) c = IPCIDRItem_Match l s src c"
| "item_Match l env (IPIsPrivateItem src) c = IPIsPrivateItem_Match l src c"
| "item_Match l env IPAcceptAnyItem c = IPAcceptAnyItem_Match l c"
| "item_Match l env (PortItem _ m src) c = PortItem_Match m src c"
| "item_Match l env (PortRangeItem src _ rs) c = PortRangeItem_Match src rs c"
| "item_Match l env (TunnelSourceItem _ m) c = TunnelSourceItem_Match m c"
| "item_Match l env (TunnelDestinationItem _ m) c = TunnelDestinationItem_Match m c"
| "item_Match l env (ProcessItem _ m) c = ProcessItem_Match l m c"
| "item_Match l env (ProcessPathItem _ m) c = ProcessPathItem_Match l m c"
| "item_Match l env (ProcessPathRegexItem ms _) c = ProcessPathRegexItem_Match ms c"
| "item_Match l env (PackageNameItem _ m) c = PackageNameItem_Match m c"
| "item_Match l env (PackageNameRegexItem ms _) c = PackageNameRegexItem_Match ms c"
| "item_Match l env (UserItem _ m) c = UserItem_Match m c"
| "item_Match l env (UserIdItem _ m) c = UserIdItem_Match m c"
| "item_Match l env (OutboundItem _ m anyOf) c = OutboundItem_Match m anyOf c"
| "item_Match l env (ClashModeItem server mode) c = ClashModeItem_Match l env server mode c"
| "item_Match l env (NetworkTypeItem ts) c = NetworkTypeItem_Match env ts c"
| "item_Match l env NetworkIsExpensiveItem c = NetworkIsExpensiveItem_Match env c"
| "item_Match l env NetworkIsConstrainedItem c = NetworkIsConstrainedItem_Match env c"
| "item_Match l env (WIFISSIDItem _ m) c = WIFISSIDItem_Match env m c"
| "item_Match l env (WIFIBSSIDItem _ m) c = WIFIBSSIDItem_Match env m c"
| "item_Match l env (InterfaceAddressItem m _) c = InterfaceAddressItem_Match env m c"
| "item_Match l env (NetworkInterfaceAddressItem m _) c = NetworkInterfaceAddressItem_Match env m c"
| "item_Match l env (DefaultInterfaceAddressItem ps) c = DefaultInterfaceAddressItem_Match env ps c"
| "item_Match l env (SourceMACAddressItem _ m) c = SourceMACAddressItem_Match m c"
| "item_Match l env (SourceHostnameItem _ m) c = SourceHostnameItem_Match m c"
| "item_Match l env (PreferredByItem _ os) c = PreferredByItem_Match l env os c"
| "item_Match l env (PreferredByDNSItem _ ts) c = PreferredByDNSItem_Match l env ts c"
| "item_Match l env (DNSResponseRCodeItem rc) c = DNSResponseRCodeItem_Match rc c"
| "item_Match l env (DNSResponseRecordItem _ rs sel) c = DNSResponseRecordItem_Match l rs sel c"

fun item_String :: "lib \<Rightarrow> rule_item \<Rightarrow> string" where
  "item_String l (InboundItem xs _) = InboundItem_String xs"
| "item_String l (IPVersionItem v6) = IPVersionItem_String v6"
| "item_String l (QueryTypeItem ts _) = QueryTypeItem_String l ts"
| "item_String l (NetworkItem xs _) = NetworkItem_String xs"
| "item_String l (AuthUserItem xs _) = AuthUserItem_String xs"
| "item_String l (ProtocolItem xs _) = ProtocolItem_String xs"
| "item_String l (ClientItem xs _) = ClientItem_String xs"
| "item_String l (DomainItem _ description) = description"
| "item_String l (DomainKeywordItem ks) = DomainKeywordItem_String ks"
| "item_String l (DomainRegexItem _ description) = description"
| "item_String l (AdGuardDomainItem _) = ''!adguard_domain_rules=<binary>''"
| "item_String l (IPCIDRItem _ _ description) = description"
| "item_String l (IPIsPrivateItem src) = IPIsPrivateItem_String src"
| "item_String l IPAcceptAnyItem = ''ip_accept_any=true''"
| "item_String l (PortItem ports _ src) = PortItem_String ports src"
| "item_String l (PortRangeItem src rs _) = PortRangeItem_String src rs"
| "item_String l (TunnelSourceItem xs _) = TunnelSourceItem_String xs"
| "item_String l (TunnelDestinationItem xs _) = TunnelDestinationItem_String xs"
| "item_String l (ProcessItem xs _) = ProcessItem_String xs"
| "item_String l (ProcessPathItem xs _) = ProcessPathItem_String xs"
| "item_String l (ProcessPathRegexItem _ description) = description"
| "item_String l (PackageNameItem xs _) = PackageNameItem_String xs"
| "item_String l (PackageNameRegexItem _ description) = description"
| "item_String l (UserItem xs _) = UserItem_String xs"
| "item_String l (UserIdItem xs _) = UserIdItem_String xs"
| "item_String l (OutboundItem xs _ _) = OutboundItem_String xs"
| "item_String l (ClashModeItem _ mode) = ClashModeItem_String mode"
| "item_String l (NetworkTypeItem ts) = NetworkTypeItem_String ts"
| "item_String l NetworkIsExpensiveItem = NetworkIsExpensiveItem_String"
| "item_String l NetworkIsConstrainedItem = NetworkIsConstrainedItem_String"
| "item_String l (WIFISSIDItem xs _) = WIFISSIDItem_String xs"
| "item_String l (WIFIBSSIDItem xs _) = WIFIBSSIDItem_String xs"
| "item_String l (InterfaceAddressItem _ description) = description"
| "item_String l (NetworkInterfaceAddressItem _ description) = description"
| "item_String l (DefaultInterfaceAddressItem ps) = DefaultInterfaceAddressItem_String l ps"
| "item_String l (SourceMACAddressItem xs _) = SourceMACAddressItem_String xs"
| "item_String l (SourceHostnameItem xs _) = SourceHostnameItem_String xs"
| "item_String l (PreferredByItem ts _) = PreferredByItem_String ts"
| "item_String l (PreferredByDNSItem ts _) = PreferredByDNSItem_String ts"
| "item_String l (DNSResponseRCodeItem rc) = DNSResponseRCodeItem_String l rc"
| "item_String l (DNSResponseRecordItem field rs _) = DNSResponseRecordItem_String l field rs"

text \<open>The items whose \<^verbatim>\<open>Start\<close> does something; the rule calls it through a type switch.\<close>

fun item_Start :: "services \<Rightarrow> rule_item \<Rightarrow> rule_error + rule_item" where
  "item_Start svc (ClashModeItem _ mode) = Inr (ClashModeItem_Start svc mode)"
| "item_Start svc (PreferredByItem ts os) = PreferredByItem_Start svc ts os"
| "item_Start svc (PreferredByDNSItem ts xs) = PreferredByDNSItem_Start svc ts xs"
| "item_Start svc item = Inr item"

end
