(* ===== verification/Rule_Abstract.thy ===== *)
theory Rule_Abstract
  imports Match_State Rule_Item_Match Rule_Action
begin

unbundle bit_operations_syntax

text \<open>
  \<^verbatim>\<open>route/rule/rule_abstract.go\<close>, \<^verbatim>\<open>rule_item_rule_set.go\<close> and the matching half of
  \<^verbatim>\<open>rule_set_local.go\<close> and \<^verbatim>\<open>rule_set_remote.go\<close>: default rules, logical rules and rule-set items,
  and how they are evaluated to a set of match states.

  Evaluation takes the context by pointer and writes \<^verbatim>\<open>DidMatch\<close>; the definitions return the
  written context. Nested rules get a copy, so what they write is dropped. The mutable object
  \<^verbatim>\<open>RuleSetItem\<close> of a rule is both its field \<^verbatim>\<open>ruleSetItem\<close> and an entry of \<^verbatim>\<open>allItems\<close>; the entry
  is the reference \<open>RuleSetRef\<close> here.
\<close>

section \<open>Default rules\<close>

datatype any_item = Plain rule_item | RuleSetRef

record 'rs abstractDefaultRule =
  items :: "rule_item list"
  sourceAddressItems :: "rule_item list"
  sourcePortItems :: "rule_item list"
  destinationAddressItems :: "rule_item list"
  destinationIPCIDRItems :: "rule_item list"
  destinationPortItems :: "rule_item list"
  allItems :: "any_item list"
  ruleSetItem :: "'rs option"
  invert :: bool
  action :: "rule_action option"

type_synonym matcher = "rule_item \<Rightarrow> inbound_context \<Rightarrow> bool"

definition matchAnyItem :: "matcher \<Rightarrow> rule_item list \<Rightarrow> inbound_context \<Rightarrow> bool" where
  "matchAnyItem m its c = list_ex (\<lambda>it. m it c) its"

definition destinationIPCIDRMatchesSource :: "'rs abstractDefaultRule \<Rightarrow> inbound_context \<Rightarrow> bool" where
  "destinationIPCIDRMatchesSource r c \<longleftrightarrow>
     \<not> IgnoreDestinationIPCIDRMatch c \<and> IPCIDRMatchSource c \<and> length (destinationIPCIDRItems r) > 0"

definition destinationIPCIDRMatchesDestination ::
  "'rs abstractDefaultRule \<Rightarrow> inbound_context \<Rightarrow> bool" where
  "destinationIPCIDRMatchesDestination r c \<longleftrightarrow>
     \<not> IgnoreDestinationIPCIDRMatch c \<and> \<not> IPCIDRMatchSource c \<and> length (destinationIPCIDRItems r) > 0"

definition requiresSourceAddressMatch :: "'rs abstractDefaultRule \<Rightarrow> inbound_context \<Rightarrow> bool" where
  "requiresSourceAddressMatch r c \<longleftrightarrow>
     length (sourceAddressItems r) > 0 \<or> destinationIPCIDRMatchesSource r c"

definition requiresDestinationAddressMatch ::
  "'rs abstractDefaultRule \<Rightarrow> inbound_context \<Rightarrow> bool" where
  "requiresDestinationAddressMatch r c \<longleftrightarrow>
     length (destinationAddressItems r) > 0 \<or> destinationIPCIDRMatchesDestination r c"

definition invertedFailure :: "'rs abstractDefaultRule \<Rightarrow> ruleMatchState \<Rightarrow> ruleMatchStateSet" where
  "invertedFailure r base = (if invert r then withBase emptyRuleMatchState base else 0)"

text \<open>
  The step \<^verbatim>\<open>if len(items) > 0 { metadata.DidMatch = true; if matchAnyItem(...) { state |= bit } }\<close>
  that the evaluator performs for each of the four groups.
\<close>

definition evalGroup ::
  "matcher \<Rightarrow> rule_item list \<Rightarrow> ruleMatchState \<Rightarrow> inbound_context \<times> ruleMatchState
   \<Rightarrow> inbound_context \<times> ruleMatchState" where
  "evalGroup m its bt p =
     (case p of (c, state) \<Rightarrow>
        if length its > 0 then
          (let c = c\<lparr>DidMatch := True\<rparr> in (c, if matchAnyItem m its c then state OR bt else state))
        else (c, state))"

text \<open>The step for the address conditions that a rule-set may redirect to the source.\<close>

definition evalIPCIDR ::
  "matcher \<Rightarrow> ('rs abstractDefaultRule \<Rightarrow> inbound_context \<Rightarrow> bool) \<Rightarrow> 'rs abstractDefaultRule
   \<Rightarrow> ruleMatchState \<Rightarrow> inbound_context \<times> ruleMatchState \<Rightarrow> inbound_context \<times> ruleMatchState" where
  "evalIPCIDR m applies r bt p =
     (case p of (c, state) \<Rightarrow>
        if applies r c \<and> \<not> has state bt then
          (let c = c\<lparr>DidMatch := True\<rparr>
           in (c, if matchAnyItem m (destinationIPCIDRItems r) c then state OR bt else state))
        else if applies r c then (c\<lparr>DidMatch := True\<rparr>, state)
        else (c, state))"

text \<open>The loop over the remaining items, left at the first that does not match.\<close>

fun evalItems :: "matcher \<Rightarrow> rule_item list \<Rightarrow> inbound_context \<Rightarrow> bool \<times> inbound_context" where
  "evalItems m [] c = (True, c)"
| "evalItems m (item # rest) c =
     (let c = c\<lparr>DidMatch := True\<rparr> in if \<not> m item c then (False, c) else evalItems m rest c)"

text \<open>
  \<open>rsm\<close> evaluates the rule-set item of the rule (\<^verbatim>\<open>matchRuleItemStatesWithBase\<close> of \<^verbatim>\<open>match_state.go\<close>,
  whose argument is always the \<^verbatim>\<open>RuleSetItem\<close>).
\<close>

definition abstractDefaultRule_matchStatesWithBase ::
  "matcher \<Rightarrow> ('rs \<Rightarrow> inbound_context \<Rightarrow> ruleMatchState \<Rightarrow> ruleMatchStateSet)
   \<Rightarrow> 'rs abstractDefaultRule \<Rightarrow> inbound_context \<Rightarrow> ruleMatchState
   \<Rightarrow> ruleMatchStateSet \<times> inbound_context" where
  "abstractDefaultRule_matchStatesWithBase m rsm r c inheritedBase =
     (if length (allItems r) = 0 then (withBase emptyRuleMatchState inheritedBase, c)
      else
        let evaluationBase = (if invert r then 0 else inheritedBase);
            p = evalGroup m (sourceAddressItems r) ruleMatchSourceAddress (c, evaluationBase);
            p = evalIPCIDR m destinationIPCIDRMatchesSource r ruleMatchSourceAddress p;
            p = evalGroup m (sourcePortItems r) ruleMatchSourcePort p;
            p = evalGroup m (destinationAddressItems r) ruleMatchDestinationAddress p;
            p = evalIPCIDR m destinationIPCIDRMatchesDestination r ruleMatchDestinationAddress p;
            (c, baseState) = evalGroup m (destinationPortItems r) ruleMatchDestinationPort p;
            (itemsMatch, c) = evalItems m (items r) c
        in if \<not> itemsMatch then (invertedFailure r inheritedBase, c)
           else
             let (stateSet, c) =
                   (case ruleSetItem r of
                      Some item \<Rightarrow>
                        (let c = c\<lparr>DidMatch := True\<rparr> in (rsm item c baseState, c))
                    | None \<Rightarrow> (singleRuleMatchState baseState, c));
                 stateSet = filterStates stateSet (\<lambda>state.
                   \<not> (requiresSourceAddressMatch r c \<and> \<not> has state ruleMatchSourceAddress) \<and>
                   \<not> (length (sourcePortItems r) > 0 \<and> \<not> has state ruleMatchSourcePort) \<and>
                   \<not> (requiresDestinationAddressMatch r c \<and> \<not> has state ruleMatchDestinationAddress) \<and>
                   \<not> (length (destinationPortItems r) > 0 \<and> \<not> has state ruleMatchDestinationPort))
             in if isEmpty stateSet then (invertedFailure r inheritedBase, c)
                else if invert r then
                  (if IgnoreDestinationIPCIDRMatch c \<and> stateSet = emptyRuleMatchState \<and>
                      \<not> DidMatch c \<and> length (destinationIPCIDRItems r) > 0
                   then (withBase emptyRuleMatchState inheritedBase, c) else (0, c))
                else (stateSet, c))"

section \<open>Logical rules and rule trees\<close>

text \<open>
  A rule is a default rule or a logical rule over nested rules. \<open>'d\<close> is the type of the
  default rules: headless rules have no rule-set item, route and DNS rules do.
\<close>

datatype 'd rule_tree =
    DefaultRule 'd
  | LogicalRule (tree_rules: "'d rule_tree list") (tree_mode: string) (tree_invert: bool)
      (tree_action: "rule_action option")

type_synonym evaluator = "inbound_context \<Rightarrow> ruleMatchState \<Rightarrow> ruleMatchStateSet"

fun evalAnd ::
  "evaluator list \<Rightarrow> inbound_context \<Rightarrow> ruleMatchState \<Rightarrow> ruleMatchStateSet \<Rightarrow> ruleMatchStateSet option" where
  "evalAnd [] c base stateSet = Some stateSet"
| "evalAnd (rule # rules) c base stateSet =
     (let nestedStateSet = rule (ResetRuleCache c) base
      in if isEmpty nestedStateSet then None
         else evalAnd rules c base (combine stateSet nestedStateSet))"

definition evalOr :: "evaluator list \<Rightarrow> inbound_context \<Rightarrow> ruleMatchState \<Rightarrow> ruleMatchStateSet" where
  "evalOr rules c base = foldl (\<lambda>stateSet rule. merge stateSet (rule (ResetRuleCache c) base)) 0 rules"

definition abstractLogicalRule_matchStatesWithBase ::
  "evaluator list \<Rightarrow> string \<Rightarrow> bool \<Rightarrow> evaluator" where
  "abstractLogicalRule_matchStatesWithBase rules mode inverted c base =
     (let evaluationBase = (if inverted then 0 else base);
          failure = (if inverted then withBase emptyRuleMatchState base else 0)
      in if mode = ''and'' then
           (case evalAnd rules c evaluationBase (withBase emptyRuleMatchState evaluationBase) of
              None \<Rightarrow> failure
            | Some stateSet \<Rightarrow> if inverted then 0 else stateSet)
         else
           (let stateSet = evalOr rules c evaluationBase
            in if isEmpty stateSet then failure else if inverted then 0 else stateSet))"

text \<open>
  \<^verbatim>\<open>matchHeadlessRuleStatesWithBase\<close>: every rule type implements \<^verbatim>\<open>matchStatesWithBase\<close>, so the type
  switch always takes its first branch.
\<close>

fun tree_matchStatesWithBase :: "('d \<Rightarrow> evaluator) \<Rightarrow> 'd rule_tree \<Rightarrow> evaluator" where
  "tree_matchStatesWithBase f (DefaultRule d) c base = f d c base"
| "tree_matchStatesWithBase f (LogicalRule rules mode inverted act) c base =
     abstractLogicalRule_matchStatesWithBase (map (tree_matchStatesWithBase f) rules) mode inverted c base"

section \<open>Rule-sets\<close>

text \<open>
  Headless rules have no rule-set item; their field is never set.
  Rule-set objects live in a store under their tag, and an item's \<^verbatim>\<open>setList\<close> holds the tags of the
  objects it has acquired.
\<close>

type_synonym headless_rule = "unit abstractDefaultRule rule_tree"

record rule_set_metadata =
  ContainsProcessRule :: bool
  ContainsWIFIRule :: bool
  ContainsIPCIDRRule :: bool
  ContainsDNSQueryTypeRule :: bool
  ContainsNonIPCIDRRule :: bool

record rule_set =
  rs_rules :: "headless_rule list"
  rs_metadata :: rule_set_metadata
  rs_refs :: int

type_synonym rule_set_store = "tag \<Rightarrow> rule_set option"

record rule_set_item =
  rsi_tagList :: "tag list"
  rsi_setList :: "tag list"
  rsi_ipCidrMatchSource :: bool
  rsi_ipCidrAcceptEmpty :: bool

definition headless_default :: "matcher \<Rightarrow> unit abstractDefaultRule \<Rightarrow> evaluator" where
  "headless_default m r c base =
     fst (abstractDefaultRule_matchStatesWithBase m (\<lambda>_ _ _. 0) r c base)"

definition headless_matchStatesWithBase :: "matcher \<Rightarrow> headless_rule \<Rightarrow> evaluator" where
  "headless_matchStatesWithBase m = tree_matchStatesWithBase (headless_default m)"

definition RuleSet_matchStatesWithBase :: "matcher \<Rightarrow> headless_rule list \<Rightarrow> evaluator" where
  "RuleSet_matchStatesWithBase m rules c base =
     foldl (\<lambda>stateSet rule.
       merge stateSet (headless_matchStatesWithBase m rule (ResetRuleMatchCache c) base)) 0 rules"

text \<open>An acquired object is always in the store; a missing one holds no rules.\<close>

definition store_rules :: "rule_set_store \<Rightarrow> tag \<Rightarrow> headless_rule list" where
  "store_rules store t = (case store t of None \<Rightarrow> [] | Some rs \<Rightarrow> rs_rules rs)"

definition RuleSetItem_matchStatesWithBase :: "matcher \<Rightarrow> rule_set_store \<Rightarrow> rule_set_item \<Rightarrow> evaluator" where
  "RuleSetItem_matchStatesWithBase m store r c base =
     foldl (\<lambda>stateSet t.
       merge stateSet
         (RuleSet_matchStatesWithBase m (store_rules store t)
            ((ResetRuleMatchCache c)\<lparr>IPCIDRMatchSource := rsi_ipCidrMatchSource r,
                                     IPCIDRAcceptEmpty := rsi_ipCidrAcceptEmpty r\<rparr>) base))
       0 (rsi_setList r)"

section \<open>Route rules\<close>

type_synonym default_rule = "rule_set_item abstractDefaultRule"
type_synonym route_rule = "default_rule rule_tree"

definition default_matchStatesWithBase ::
  "matcher \<Rightarrow> rule_set_store \<Rightarrow> default_rule \<Rightarrow> inbound_context \<Rightarrow> ruleMatchState
   \<Rightarrow> ruleMatchStateSet \<times> inbound_context" where
  "default_matchStatesWithBase m store =
     abstractDefaultRule_matchStatesWithBase m (RuleSetItem_matchStatesWithBase m store)"

definition route_matchStatesWithBase :: "matcher \<Rightarrow> rule_set_store \<Rightarrow> route_rule \<Rightarrow> evaluator" where
  "route_matchStatesWithBase m store =
     tree_matchStatesWithBase (\<lambda>r c base. fst (default_matchStatesWithBase m store r c base))"

text \<open>
  \<^verbatim>\<open>Match\<close> of a rule, with the context as the rule leaves it: only a default rule writes to the
  context it is given.
\<close>

fun rule_Match :: "matcher \<Rightarrow> rule_set_store \<Rightarrow> route_rule \<Rightarrow> inbound_context \<Rightarrow> bool \<times> inbound_context" where
  "rule_Match m store (DefaultRule r) c =
     (let (stateSet, c') = default_matchStatesWithBase m store r c 0 in (\<not> isEmpty stateSet, c'))"
| "rule_Match m store rule c = (\<not> isEmpty (route_matchStatesWithBase m store rule c 0), c)"

fun rule_action_of :: "'rs abstractDefaultRule rule_tree \<Rightarrow> rule_action option" where
  "rule_action_of (DefaultRule r) = action r"
| "rule_action_of (LogicalRule _ _ _ act) = act"

section \<open>Printed form\<close>

definition RuleSetItem_String :: "rule_set_item \<Rightarrow> string" where
  "RuleSetItem_String r = describeList ''rule_set'' (rsi_tagList r)"

definition abstractDefaultRule_String :: "lib \<Rightarrow> string \<Rightarrow> 'rs abstractDefaultRule \<Rightarrow> string" where
  "abstractDefaultRule_String l ruleSetString r =
     (let body = strings_Join (map (\<lambda>it. case it of Plain i \<Rightarrow> item_String l i | RuleSetRef \<Rightarrow> ruleSetString)
            (allItems r)) '' ''
      in if \<not> invert r then body else ''!('' @ body @ '')'')"

fun route_rule_String :: "lib \<Rightarrow> route_rule \<Rightarrow> string" where
  "route_rule_String l (DefaultRule r) =
     abstractDefaultRule_String l
       (case ruleSetItem r of None \<Rightarrow> [] | Some i \<Rightarrow> RuleSetItem_String i) r"
| "route_rule_String l (LogicalRule rules mode inverted act) =
     (let op = (if mode = ''and'' then ''&&'' else if mode = ''or'' then ''||'' else []);
          body = strings_Join (map (route_rule_String l) rules) ('' '' @ op @ '' '')
      in if \<not> inverted then body else ''!('' @ body @ '')'')"

end
