(* ===== verification/Rule_Build.thy ===== *)
theory Rule_Build
  imports Rule_Options Rule_Abstract
begin

text \<open>
  Building rules from their options: \<^verbatim>\<open>route/rule/rule_default.go\<close>, \<^verbatim>\<open>rule_dns.go\<close>,
  \<^verbatim>\<open>rule_headless.go\<close>, \<^verbatim>\<open>rule_nested_action.go\<close> and the metadata of \<^verbatim>\<open>rule_set.go\<close>.

  Each constructor is a sequence of \<^verbatim>\<open>if\<close> statements that append an item to a group and to
  \<^verbatim>\<open>allItems\<close>, or return an error. A statement is a \<open>build_step\<close> here and \<open>assemble\<close> runs the
  sequence.
\<close>

section \<open>Steps\<close>

datatype item_group = GItems | GSrcAddr | GSrcPort | GDstAddr | GDstIP | GDstPort

type_synonym build_step = "rule_error + (item_group \<times> rule_item) option"

text \<open>\<^verbatim>\<open>if cond { item := ...; append }\<close> with an infallible and with a fallible constructor.\<close>

definition put :: "bool \<Rightarrow> item_group \<Rightarrow> rule_item \<Rightarrow> build_step" where
  "put cond g item = (if cond then Inr (Some (g, item)) else Inr None)"

definition putErr ::
  "bool \<Rightarrow> item_group \<Rightarrow> (rule_error \<Rightarrow> rule_error) \<Rightarrow> rule_error + rule_item \<Rightarrow> build_step" where
  "putErr cond g wrap r =
     (if cond then (case r of Inl e \<Rightarrow> Inl (wrap e) | Inr item \<Rightarrow> Inr (Some (g, item))) else Inr None)"

definition refuse :: "bool \<Rightarrow> string \<Rightarrow> build_step" where
  "refuse cond message = (if cond then Inl (E_New message) else Inr None)"

abbreviation cause :: "string \<Rightarrow> rule_error \<Rightarrow> rule_error" where
  "cause name e \<equiv> E_Cause e name"

fun addItem :: "item_group \<Rightarrow> rule_item \<Rightarrow> 'rs abstractDefaultRule \<Rightarrow> 'rs abstractDefaultRule" where
  "addItem GItems i r = r\<lparr>items := items r @ [i], allItems := allItems r @ [Plain i]\<rparr>"
| "addItem GSrcAddr i r =
     r\<lparr>sourceAddressItems := sourceAddressItems r @ [i], allItems := allItems r @ [Plain i]\<rparr>"
| "addItem GSrcPort i r =
     r\<lparr>sourcePortItems := sourcePortItems r @ [i], allItems := allItems r @ [Plain i]\<rparr>"
| "addItem GDstAddr i r =
     r\<lparr>destinationAddressItems := destinationAddressItems r @ [i], allItems := allItems r @ [Plain i]\<rparr>"
| "addItem GDstIP i r =
     r\<lparr>destinationIPCIDRItems := destinationIPCIDRItems r @ [i], allItems := allItems r @ [Plain i]\<rparr>"
| "addItem GDstPort i r =
     r\<lparr>destinationPortItems := destinationPortItems r @ [i], allItems := allItems r @ [Plain i]\<rparr>"

fun assemble :: "build_step list \<Rightarrow> 'rs abstractDefaultRule \<Rightarrow> rule_error + 'rs abstractDefaultRule" where
  "assemble [] r = Inr r"
| "assemble (Inl e # steps) r = Inl e"
| "assemble (Inr None # steps) r = assemble steps r"
| "assemble (Inr (Some (g, i)) # steps) r = assemble steps (addItem g i r)"

definition emptyRule :: "bool \<Rightarrow> rule_action option \<Rightarrow> 'rs abstractDefaultRule" where
  "emptyRule inverted act =
     \<lparr> items = [], sourceAddressItems = [], sourcePortItems = [], destinationAddressItems = [],
       destinationIPCIDRItems = [], destinationPortItems = [], allItems = [], ruleSetItem = None,
       invert = inverted, action = act \<rparr>"

definition ipVersionStep :: "int \<Rightarrow> build_step" where
  "ipVersionStep v =
     (if v > 0 then
        (if v = 4 \<or> v = 6 then Inr (Some (GItems, NewIPVersionItem (v = 6)))
         else Inl (E_NewArg ''invalid ip version: '' (itoa v)))
      else Inr None)"

definition NewRuleSetItem :: "tag list \<Rightarrow> bool \<Rightarrow> bool \<Rightarrow> rule_set_item" where
  "NewRuleSetItem tagList matchSource acceptEmpty =
     \<lparr> rsi_tagList = tagList, rsi_setList = [], rsi_ipCidrMatchSource = matchSource,
       rsi_ipCidrAcceptEmpty = acceptEmpty \<rparr>"

definition removedGeosite :: string where
  "removedGeosite = ''geosite database is deprecated in sing-box 1.8.0 and removed in sing-box 1.12.0''"

definition removedGeoIP :: string where
  "removedGeoIP = ''geoip database is deprecated in sing-box 1.8.0 and removed in sing-box 1.12.0''"

definition removedMatchSource :: string where
  "removedMatchSource =
     ''rule_set_ipcidr_match_source is deprecated in sing-box 1.10.0 and removed in sing-box 1.11.0''"

section \<open>Route rules\<close>

definition defaultRule_connection :: "raw_default_rule \<Rightarrow> build_step list" where
  "defaultRule_connection o1 =
     [put (r_Inbound o1 \<noteq> []) GItems (NewInboundRule (r_Inbound o1)),
      ipVersionStep (r_IPVersion o1),
      put (r_Network o1 \<noteq> []) GItems (NewNetworkItem (r_Network o1)),
      put (r_AuthUser o1 \<noteq> []) GItems (NewAuthUserItem (r_AuthUser o1)),
      put (r_Protocol o1 \<noteq> []) GItems (NewProtocolItem (r_Protocol o1)),
      put (r_Client o1 \<noteq> []) GItems (NewClientItem (r_Client o1))]"

definition defaultRule_addresses :: "lib \<Rightarrow> raw_default_rule \<Rightarrow> build_step list" where
  "defaultRule_addresses l o1 =
     [putErr (r_Domain o1 \<noteq> [] \<or> r_DomainSuffix o1 \<noteq> []) GDstAddr id
        (NewDomainItem l (r_Domain o1) (r_DomainSuffix o1)),
      put (r_DomainKeyword o1 \<noteq> []) GDstAddr (NewDomainKeywordItem (r_DomainKeyword o1)),
      putErr (r_DomainRegex o1 \<noteq> []) GDstAddr id (NewDomainRegexItem l (r_DomainRegex o1)),
      refuse (r_Geosite o1 \<noteq> []) removedGeosite,
      refuse (r_SourceGeoIP o1 \<noteq> []) removedGeoIP,
      refuse (r_GeoIP o1 \<noteq> []) removedGeoIP,
      putErr (r_SourceIPCIDR o1 \<noteq> []) GSrcAddr (cause ''source_ip_cidr'')
        (NewIPCIDRItem l True (r_SourceIPCIDR o1)),
      put (r_SourceIPIsPrivate o1) GSrcAddr (NewIPIsPrivateItem True),
      putErr (r_IPCIDR o1 \<noteq> []) GDstIP (cause ''ipcidr'') (NewIPCIDRItem l False (r_IPCIDR o1)),
      put (r_IPIsPrivate o1) GDstIP (NewIPIsPrivateItem False)]"

definition defaultRule_ports :: "raw_default_rule \<Rightarrow> build_step list" where
  "defaultRule_ports o1 =
     [put (r_SourcePort o1 \<noteq> []) GSrcPort (NewPortItem True (r_SourcePort o1)),
      putErr (r_SourcePortRange o1 \<noteq> []) GSrcPort (cause ''source_port_range'')
        (NewPortRangeItem True (r_SourcePortRange o1)),
      put (r_Port o1 \<noteq> []) GDstPort (NewPortItem False (r_Port o1)),
      putErr (r_PortRange o1 \<noteq> []) GDstPort (cause ''port_range'')
        (NewPortRangeItem False (r_PortRange o1))]"

definition defaultRule_process :: "lib \<Rightarrow> raw_default_rule \<Rightarrow> build_step list" where
  "defaultRule_process l o1 =
     [put (r_TunnelSource o1 \<noteq> []) GItems (NewTunnelSourceItem (r_TunnelSource o1)),
      put (r_TunnelDestination o1 \<noteq> []) GItems (NewTunnelDestinationItem (r_TunnelDestination o1)),
      put (r_ProcessName o1 \<noteq> []) GItems (NewProcessItem (r_ProcessName o1)),
      put (r_ProcessPath o1 \<noteq> []) GItems (NewProcessPathItem (r_ProcessPath o1)),
      putErr (r_ProcessPathRegex o1 \<noteq> []) GItems (cause ''process_path_regex'')
        (NewProcessPathRegexItem l (r_ProcessPathRegex o1)),
      put (r_PackageName o1 \<noteq> []) GItems (NewPackageNameItem (r_PackageName o1)),
      putErr (r_PackageNameRegex o1 \<noteq> []) GItems (cause ''package_name_regex'')
        (NewPackageNameRegexItem l (r_PackageNameRegex o1)),
      put (r_User o1 \<noteq> []) GItems (NewUserItem (r_User o1)),
      put (r_UserID o1 \<noteq> []) GItems (NewUserIDItem (r_UserID o1))]"

definition defaultRule_environment :: "lib \<Rightarrow> raw_default_rule \<Rightarrow> build_step list" where
  "defaultRule_environment l o1 =
     [put (r_ClashMode o1 \<noteq> []) GItems (NewClashModeItem (r_ClashMode o1)),
      put (r_NetworkType o1 \<noteq> []) GItems (NewNetworkTypeItem (r_NetworkType o1)),
      put (r_NetworkIsExpensive o1) GItems NewNetworkIsExpensiveItem,
      put (r_NetworkIsConstrained o1) GItems NewNetworkIsConstrainedItem,
      put (r_WIFISSID o1 \<noteq> []) GItems (NewWIFISSIDItem (r_WIFISSID o1)),
      put (r_WIFIBSSID o1 \<noteq> []) GItems (NewWIFIBSSIDItem (r_WIFIBSSID o1)),
      put (r_InterfaceAddress o1 \<noteq> []) GItems (NewInterfaceAddressItem l (r_InterfaceAddress o1)),
      put (r_NetworkInterfaceAddress o1 \<noteq> []) GItems
        (NewNetworkInterfaceAddressItem l (r_NetworkInterfaceAddress o1)),
      put (r_DefaultInterfaceAddress o1 \<noteq> []) GItems
        (NewDefaultInterfaceAddressItem l (r_DefaultInterfaceAddress o1)),
      put (r_SourceMACAddress o1 \<noteq> []) GItems (NewSourceMACAddressItem l (r_SourceMACAddress o1)),
      put (r_SourceHostname o1 \<noteq> []) GItems (NewSourceHostnameItem (r_SourceHostname o1)),
      put (r_PreferredBy o1 \<noteq> []) GItems (NewPreferredByItem (r_PreferredBy o1))]"

definition defaultRule_steps :: "lib \<Rightarrow> raw_default_rule \<Rightarrow> build_step list" where
  "defaultRule_steps l o1 =
     defaultRule_connection o1 @ defaultRule_addresses l o1 @ defaultRule_ports o1 @
     defaultRule_process l o1 @ defaultRule_environment l o1"

text \<open>The last statement of the constructor: the rule-set item.\<close>

definition withRuleSet ::
  "tag list \<Rightarrow> bool \<Rightarrow> bool \<Rightarrow> bool \<Rightarrow> default_rule \<Rightarrow> rule_error + default_rule" where
  "withRuleSet tags deprecatedMatchSource matchSource acceptEmpty r =
     (if tags \<noteq> [] then
        (if deprecatedMatchSource then Inl (E_New removedMatchSource)
         else Inr (r\<lparr>ruleSetItem := Some (NewRuleSetItem tags matchSource acceptEmpty),
                     allItems := allItems r @ [RuleSetRef]\<rparr>))
      else Inr r)"

definition liftErr :: "rule_error + 'a \<Rightarrow> 'a outcome" where
  "liftErr r = (case r of Inl e \<Rightarrow> Err e | Inr x \<Rightarrow> Ret x)"

definition NewDefaultRule ::
  "lib \<Rightarrow> (direct_options \<Rightarrow> rule_error option) \<Rightarrow> raw_default_rule \<Rightarrow> rule_action_options
   \<Rightarrow> default_rule outcome" where
  "NewDefaultRule l newDialer o1 a =
     (case NewRuleAction l newDialer a of
        Panic msg \<Rightarrow> Panic msg
      | Err e \<Rightarrow> Err (E_Cause e ''action'')
      | Ret act \<Rightarrow>
          (case assemble (defaultRule_steps l o1) (emptyRule (r_Invert o1) act) of
             Inl e \<Rightarrow> Err e
           | Inr rule \<Rightarrow>
               liftErr (withRuleSet (r_RuleSet o1) (r_Deprecated_RulesetIPCIDRMatchSource o1)
                 (r_RuleSetIPCIDRMatchSource o1) False rule)))"

text \<open>\<^verbatim>\<open>rule_nested_action.go\<close>; \<open>noAction\<close> tells the zero value of an action.\<close>

fun ruleHasConfiguredAction :: "('a \<Rightarrow> bool) \<Rightarrow> ('d, 'a) rule_options \<Rightarrow> bool" where
  "ruleHasConfiguredAction noAction (OptDefault _ _ a) = (\<not> noAction a)"
| "ruleHasConfiguredAction noAction (OptLogical _ _ _ a) = (\<not> noAction a)"
| "ruleHasConfiguredAction noAction (OptUnknown _) = False"

function (sequential) validateNoNestedRuleActions ::
  "('a \<Rightarrow> bool) \<Rightarrow> string \<Rightarrow> ('d, 'a) rule_options \<Rightarrow> bool \<Rightarrow> rule_error option"
and validateNestedList ::
  "('a \<Rightarrow> bool) \<Rightarrow> string \<Rightarrow> ('d, 'a) rule_options list \<Rightarrow> nat \<Rightarrow> rule_error option" where
  "validateNoNestedRuleActions noAction msg (OptLogical mode rules inverted a) nested =
     (if nested \<and> \<not> noAction a then Some (E_New msg) else validateNestedList noAction msg rules 0)"
| "validateNoNestedRuleActions noAction msg rule nested =
     (if nested \<and> ruleHasConfiguredAction noAction rule then Some (E_New msg) else None)"
| "validateNestedList noAction msg [] i = None"
| "validateNestedList noAction msg (r # rs) i =
     (case validateNoNestedRuleActions noAction msg r True of
        Some e \<Rightarrow> Some (E_CauseAt e ''sub rule['' i)
      | None \<Rightarrow> validateNestedList noAction msg rs (Suc i))"
  by pat_completeness auto
termination
  by (relation "measure (\<lambda>p. case p of Inl (_, _, r, _) \<Rightarrow> size r
       | Inr (_, _, rs, _) \<Rightarrow> size_list size rs)") auto

definition nestedActionMessage :: string where
  "nestedActionMessage = ''rule action is not supported in nested rules''"

definition isNoAction :: "rule_action_options \<Rightarrow> bool" where
  "isNoAction a = (case a of ActNone \<Rightarrow> True | _ \<Rightarrow> False)"

text \<open>The check of a missing outbound: the action is absent or \<^verbatim>\<open>route\<close> without a tag.\<close>

definition missingOutbound :: "rule_action_options \<Rightarrow> bool" where
  "missingOutbound a = (case a of ActNone \<Rightarrow> True | ActRoute outbound _ \<Rightarrow> outbound = [] | _ \<Rightarrow> False)"

function (sequential) NewRule ::
  "lib \<Rightarrow> (direct_options \<Rightarrow> rule_error option) \<Rightarrow> route_rule_options \<Rightarrow> bool \<Rightarrow> route_rule outcome"
and NewSubRules ::
  "lib \<Rightarrow> (direct_options \<Rightarrow> rule_error option) \<Rightarrow> route_rule_options list \<Rightarrow> nat
   \<Rightarrow> route_rule list outcome" where
  "NewRule l newDialer (OptDefault typed o1 a) checkOutbound =
     (if \<not> DefaultRule_IsValid o1 a then Err (E_New ''missing conditions'')
      else if missingOutbound a \<and> checkOutbound then Err (E_New ''missing outbound field'')
      else case NewDefaultRule l newDialer o1 a of
             Ret r \<Rightarrow> Ret (DefaultRule r)
           | Err e \<Rightarrow> Err e
           | Panic msg \<Rightarrow> Panic msg)"
| "NewRule l newDialer (OptLogical mode rules inverted a) checkOutbound =
     (case LogicalRule_IsValid False DefaultRule_IsValid rules of
        None \<Rightarrow> Panic ''unknown rule type''
      | Some False \<Rightarrow> Err (E_New ''missing conditions'')
      | Some True \<Rightarrow>
          if missingOutbound a \<and> checkOutbound then Err (E_New ''missing outbound field'')
          else case NewRuleAction l newDialer a of
                 Panic msg \<Rightarrow> Panic msg
               | Err e \<Rightarrow> Err (E_Cause e ''action'')
               | Ret act \<Rightarrow>
                   if mode \<noteq> ''and'' \<and> mode \<noteq> ''or'' then Err (E_NewArg ''unknown logical mode: '' mode)
                   else case NewSubRules l newDialer rules 0 of
                          Ret subRules \<Rightarrow> Ret (LogicalRule subRules mode inverted act)
                        | Err e \<Rightarrow> Err e
                        | Panic msg \<Rightarrow> Panic msg)"
| "NewRule l newDialer (OptUnknown t) checkOutbound = Err (E_NewArg ''unknown rule type: '' t)"
| "NewSubRules l newDialer [] i = Ret []"
| "NewSubRules l newDialer (o1 # os) i =
     (case validateNoNestedRuleActions isNoAction nestedActionMessage o1 True of
        Some e \<Rightarrow> Err (E_CauseAt e ''sub rule['' i)
      | None \<Rightarrow>
          (case NewRule l newDialer o1 False of
             Panic msg \<Rightarrow> Panic msg
           | Err e \<Rightarrow> Err (E_CauseAt e ''sub rule['' i)
           | Ret r \<Rightarrow>
               (case NewSubRules l newDialer os (Suc i) of
                  Panic msg \<Rightarrow> Panic msg
                | Err e \<Rightarrow> Err e
                | Ret rs \<Rightarrow> Ret (r # rs))))"
  by pat_completeness auto
termination
  by (relation "measure (\<lambda>p. case p of Inl (_, _, r, _) \<Rightarrow> size r
       | Inr (_, _, rs, _) \<Rightarrow> size_list size rs)") auto

end
