(* ===== verification/Rule_DNS.thy ===== *)
theory Rule_DNS
  imports Rule_Build
begin

text \<open>
  \<^verbatim>\<open>route/rule/rule_dns.go\<close>: DNS rules. They share the evaluator with the route rules and add
  matching against a DNS response, in the current form (\<^verbatim>\<open>match_response\<close>) and in the legacy form
  (a first pass that ignores address conditions and a second pass on the response).
\<close>

section \<open>Construction\<close>

record dns_default_rule =
  dr_rule :: default_rule
  dr_matchResponse :: bool

type_synonym dns_rule = "dns_default_rule rule_tree"

definition dnsRule_connection :: "raw_default_dns_rule \<Rightarrow> build_step list" where
  "dnsRule_connection o1 =
     [put (d_Inbound o1 \<noteq> []) GItems (NewInboundRule (d_Inbound o1)),
      ipVersionStep (d_IPVersion o1),
      put (d_QueryType o1 \<noteq> []) GItems (NewQueryTypeItem (d_QueryType o1)),
      put (d_Network o1 \<noteq> []) GItems (NewNetworkItem (d_Network o1)),
      put (d_AuthUser o1 \<noteq> []) GItems (NewAuthUserItem (d_AuthUser o1)),
      put (d_Protocol o1 \<noteq> []) GItems (NewProtocolItem (d_Protocol o1))]"

definition dnsRule_addresses :: "lib \<Rightarrow> raw_default_dns_rule \<Rightarrow> build_step list" where
  "dnsRule_addresses l o1 =
     [putErr (d_Domain o1 \<noteq> [] \<or> d_DomainSuffix o1 \<noteq> []) GDstAddr id
        (NewDomainItem l (d_Domain o1) (d_DomainSuffix o1)),
      put (d_DomainKeyword o1 \<noteq> []) GDstAddr (NewDomainKeywordItem (d_DomainKeyword o1)),
      putErr (d_DomainRegex o1 \<noteq> []) GDstAddr (cause ''domain_regex'')
        (NewDomainRegexItem l (d_DomainRegex o1)),
      refuse (d_Geosite o1 \<noteq> []) removedGeosite,
      refuse (d_SourceGeoIP o1 \<noteq> []) removedGeoIP,
      refuse (d_GeoIP o1 \<noteq> []) removedGeoIP,
      putErr (d_SourceIPCIDR o1 \<noteq> []) GSrcAddr (cause ''source_ip_cidr'')
        (NewIPCIDRItem l True (d_SourceIPCIDR o1)),
      putErr (d_IPCIDR o1 \<noteq> []) GDstIP (cause ''ip_cidr'') (NewIPCIDRItem l False (d_IPCIDR o1)),
      put (d_SourceIPIsPrivate o1) GSrcAddr (NewIPIsPrivateItem True),
      put (d_IPIsPrivate o1) GDstIP (NewIPIsPrivateItem False),
      put (d_IPAcceptAny o1) GDstIP NewIPAcceptAnyItem]"

definition dnsRule_response :: "raw_default_dns_rule \<Rightarrow> build_step list" where
  "dnsRule_response o1 =
     [(case d_ResponseRcode o1 of
         None \<Rightarrow> Inr None
       | Some rcode \<Rightarrow> put True GItems (NewDNSResponseRCodeItem rcode)),
      put (d_ResponseAnswer o1 \<noteq> []) GItems
        (NewDNSResponseRecordItem ''response_answer'' (d_ResponseAnswer o1) dnsResponseAnswers),
      put (d_ResponseNs o1 \<noteq> []) GItems
        (NewDNSResponseRecordItem ''response_ns'' (d_ResponseNs o1) dnsResponseNS),
      put (d_ResponseExtra o1 \<noteq> []) GItems
        (NewDNSResponseRecordItem ''response_extra'' (d_ResponseExtra o1) dnsResponseExtra)]"

definition dnsRule_process :: "lib \<Rightarrow> raw_default_dns_rule \<Rightarrow> build_step list" where
  "dnsRule_process l o1 =
     [put (d_SourcePort o1 \<noteq> []) GSrcPort (NewPortItem True (d_SourcePort o1)),
      putErr (d_SourcePortRange o1 \<noteq> []) GSrcPort (cause ''source_port_range'')
        (NewPortRangeItem True (d_SourcePortRange o1)),
      put (d_Port o1 \<noteq> []) GDstPort (NewPortItem False (d_Port o1)),
      putErr (d_PortRange o1 \<noteq> []) GDstPort (cause ''port_range'')
        (NewPortRangeItem False (d_PortRange o1)),
      put (d_TunnelSource o1 \<noteq> []) GItems (NewTunnelSourceItem (d_TunnelSource o1)),
      put (d_TunnelDestination o1 \<noteq> []) GItems (NewTunnelDestinationItem (d_TunnelDestination o1)),
      put (d_ProcessName o1 \<noteq> []) GItems (NewProcessItem (d_ProcessName o1)),
      put (d_ProcessPath o1 \<noteq> []) GItems (NewProcessPathItem (d_ProcessPath o1)),
      putErr (d_ProcessPathRegex o1 \<noteq> []) GItems (cause ''process_path_regex'')
        (NewProcessPathRegexItem l (d_ProcessPathRegex o1)),
      put (d_PackageName o1 \<noteq> []) GItems (NewPackageNameItem (d_PackageName o1)),
      putErr (d_PackageNameRegex o1 \<noteq> []) GItems (cause ''package_name_regex'')
        (NewPackageNameRegexItem l (d_PackageNameRegex o1)),
      put (d_User o1 \<noteq> []) GItems (NewUserItem (d_User o1)),
      put (d_UserID o1 \<noteq> []) GItems (NewUserIDItem (d_UserID o1)),
      put (d_Outbound o1 \<noteq> []) GItems (NewOutboundRule (d_Outbound o1))]"

definition dnsRule_environment :: "lib \<Rightarrow> raw_default_dns_rule \<Rightarrow> build_step list" where
  "dnsRule_environment l o1 =
     [put (d_ClashMode o1 \<noteq> []) GItems (NewClashModeItem (d_ClashMode o1)),
      put (d_NetworkType o1 \<noteq> []) GItems (NewNetworkTypeItem (d_NetworkType o1)),
      put (d_NetworkIsExpensive o1) GItems NewNetworkIsExpensiveItem,
      put (d_NetworkIsConstrained o1) GItems NewNetworkIsConstrainedItem,
      put (d_WIFISSID o1 \<noteq> []) GItems (NewWIFISSIDItem (d_WIFISSID o1)),
      put (d_WIFIBSSID o1 \<noteq> []) GItems (NewWIFIBSSIDItem (d_WIFIBSSID o1)),
      put (d_InterfaceAddress o1 \<noteq> []) GItems (NewInterfaceAddressItem l (d_InterfaceAddress o1)),
      put (d_NetworkInterfaceAddress o1 \<noteq> []) GItems
        (NewNetworkInterfaceAddressItem l (d_NetworkInterfaceAddress o1)),
      put (d_DefaultInterfaceAddress o1 \<noteq> []) GItems
        (NewDefaultInterfaceAddressItem l (d_DefaultInterfaceAddress o1)),
      put (d_SourceMACAddress o1 \<noteq> []) GItems (NewSourceMACAddressItem l (d_SourceMACAddress o1)),
      put (d_SourceHostname o1 \<noteq> []) GItems (NewSourceHostnameItem (d_SourceHostname o1))]"

text \<open>In legacy mode the deprecated switch is reported to the log and accepted.\<close>

definition NewDefaultDNSRule ::
  "lib \<Rightarrow> raw_default_dns_rule \<Rightarrow> dns_rule_action_options \<Rightarrow> bool \<Rightarrow> dns_default_rule outcome" where
  "NewDefaultDNSRule l o1 a legacyDNSMode =
     (case NewDNSRuleAction l a of
        Panic msg \<Rightarrow> Panic msg
      | Err e \<Rightarrow> Err e
      | Ret act \<Rightarrow>
          (case assemble (dnsRule_connection o1 @ dnsRule_addresses l o1 @ dnsRule_response o1 @
                          dnsRule_process l o1 @ dnsRule_environment l o1 @
                          [refuse (d_RuleSetIPCIDRAcceptEmpty o1 \<and> \<not> legacyDNSMode)
                             ''rule_set_ip_cidr_accept_empty is deprecated''])
                  (emptyRule (d_Invert o1) act) of
             Inl e \<Rightarrow> Err e
           | Inr rule \<Rightarrow>
               (case withRuleSet (d_RuleSet o1) (d_Deprecated_RulesetIPCIDRMatchSource o1)
                       (d_RuleSetIPCIDRMatchSource o1) (d_RuleSetIPCIDRAcceptEmpty o1) rule of
                  Inl e \<Rightarrow> Err e
                | Inr rule' \<Rightarrow> Ret \<lparr> dr_rule = rule', dr_matchResponse = d_MatchResponse o1 \<rparr>)))"

definition validateDNSRuleAction :: "dns_rule_action_options \<Rightarrow> rule_error option" where
  "validateDNSRuleAction a =
     (case a of
        DNSActReject r \<Rightarrow>
          if opt_Method r = ''reply''
          then Some (E_New ''reject method reply is not supported for DNS rules'') else None
      | _ \<Rightarrow> None)"

definition isNoDNSAction :: "dns_rule_action_options \<Rightarrow> bool" where
  "isNoDNSAction a = (case a of DNSActNone \<Rightarrow> True | _ \<Rightarrow> False)"

definition isEvaluate :: "dns_rule_action_options \<Rightarrow> bool" where
  "isEvaluate a = (case a of DNSActEvaluate _ _ \<Rightarrow> True | _ \<Rightarrow> False)"

definition missingServer :: "dns_rule_action_options \<Rightarrow> bool" where
  "missingServer a =
     (case a of DNSActNone \<Rightarrow> True | DNSActRoute server _ _ \<Rightarrow> server = []
      | DNSActEvaluate server _ \<Rightarrow> server = [] | _ \<Rightarrow> False)"

text \<open>The checks of \<^verbatim>\<open>NewDNSRule\<close> on the action, the same for both rule types.\<close>

definition checkDNSAction :: "dns_rule_action_options \<Rightarrow> bool \<Rightarrow> rule_error option" where
  "checkDNSAction a checkServer =
     (if \<not> checkServer \<and> isEvaluate a
      then Some (E_NewArg ''evaluate'' '' is only allowed on top-level DNS rules'')
      else case validateDNSRuleAction a of
             Some e \<Rightarrow> Some e
           | None \<Rightarrow> if missingServer a \<and> checkServer then Some (E_New ''missing server field'') else None)"

definition nestedDNSActionMessage :: string where
  "nestedDNSActionMessage = ''DNS rule action is not supported in nested rules''"

function (sequential) NewDNSRule :: "lib \<Rightarrow> dns_rule_options \<Rightarrow> bool \<Rightarrow> bool \<Rightarrow> dns_rule outcome"
and NewSubDNSRules :: "lib \<Rightarrow> dns_rule_options list \<Rightarrow> bool \<Rightarrow> nat \<Rightarrow> dns_rule list outcome" where
  "NewDNSRule l (OptDefault typed o1 a) checkServer legacyDNSMode =
     (if \<not> DefaultDNSRule_IsValid o1 a then Err (E_New ''missing conditions'')
      else case checkDNSAction a checkServer of
             Some e \<Rightarrow> Err e
           | None \<Rightarrow>
               (case NewDefaultDNSRule l o1 a legacyDNSMode of
                  Ret r \<Rightarrow> Ret (DefaultRule r)
                | Err e \<Rightarrow> Err e
                | Panic msg \<Rightarrow> Panic msg))"
| "NewDNSRule l (OptLogical mode rules inverted a) checkServer legacyDNSMode =
     (case LogicalRule_IsValid False DefaultDNSRule_IsValid rules of
        None \<Rightarrow> Panic ''unknown DNS rule type''
      | Some False \<Rightarrow> Err (E_New ''missing conditions'')
      | Some True \<Rightarrow>
          (case checkDNSAction a checkServer of
             Some e \<Rightarrow> Err e
           | None \<Rightarrow>
               (case NewDNSRuleAction l a of
                  Panic msg \<Rightarrow> Panic msg
                | Err e \<Rightarrow> Err e
                | Ret act \<Rightarrow>
                    if mode \<noteq> ''and'' \<and> mode \<noteq> ''or'' then Err (E_NewArg ''unknown logical mode: '' mode)
                    else case NewSubDNSRules l rules legacyDNSMode 0 of
                           Ret rs \<Rightarrow> Ret (LogicalRule rs mode inverted act)
                         | Err e \<Rightarrow> Err e
                         | Panic msg \<Rightarrow> Panic msg)))"
| "NewDNSRule l (OptUnknown t) checkServer legacyDNSMode = Err (E_NewArg ''unknown rule type: '' t)"
| "NewSubDNSRules l [] legacyDNSMode i = Ret []"
| "NewSubDNSRules l (o1 # os) legacyDNSMode i =
     (case validateNoNestedRuleActions isNoDNSAction nestedDNSActionMessage o1 True of
        Some e \<Rightarrow> Err (E_CauseAt e ''sub rule['' i)
      | None \<Rightarrow>
          (case NewDNSRule l o1 False legacyDNSMode of
             Panic msg \<Rightarrow> Panic msg
           | Err e \<Rightarrow> Err (E_CauseAt e ''sub rule['' i)
           | Ret r \<Rightarrow>
               (case NewSubDNSRules l os legacyDNSMode (Suc i) of
                  Panic msg \<Rightarrow> Panic msg
                | Err e \<Rightarrow> Err e
                | Ret rs \<Rightarrow> Ret (r # rs))))"
  by pat_completeness auto
termination
  by (relation "measure (\<lambda>p. case p of Inl (_, r, _, _) \<Rightarrow> size r
       | Inr (_, rs, _, _) \<Rightarrow> size_list size rs)") auto

section \<open>Matching\<close>

definition ContainsDestinationIPCIDRRule :: "rule_set_store \<Rightarrow> rule_set_item \<Rightarrow> bool" where
  "ContainsDestinationIPCIDRRule store r =
     (if rsi_ipCidrMatchSource r then False
      else list_ex (\<lambda>t. case store t of None \<Rightarrow> False | Some rs \<Rightarrow> ContainsIPCIDRRule (rs_metadata rs))
             (rsi_setList r))"

fun WithAddressLimit :: "rule_set_store \<Rightarrow> dns_rule \<Rightarrow> bool" where
  "WithAddressLimit store (DefaultRule r) =
     (if length (destinationIPCIDRItems (dr_rule r)) > 0 then True
      else case ruleSetItem (dr_rule r) of
             Some item \<Rightarrow> ContainsDestinationIPCIDRRule store item
           | None \<Rightarrow> False)"
| "WithAddressLimit store (LogicalRule rules _ _ _) = list_ex (WithAddressLimit store) rules"

definition dns_matchStates :: "matcher \<Rightarrow> rule_set_store \<Rightarrow> dns_default_rule \<Rightarrow> evaluator" where
  "dns_matchStates m store r c base = fst (default_matchStatesWithBase m store (dr_rule r) c base)"

definition DefaultDNSRule_matchStatesForMatch ::
  "matcher \<Rightarrow> rule_set_store \<Rightarrow> dns_default_rule \<Rightarrow> inbound_context \<Rightarrow> ruleMatchStateSet" where
  "DefaultDNSRule_matchStatesForMatch m store r c =
     (if dr_matchResponse r then
        (if DNSResponse c = None then invertedFailure (dr_rule r) 0
         else dns_matchStates m store r (c\<lparr>DestinationAddressMatchFromResponse := True\<rparr>) 0)
      else dns_matchStates m store r c 0)"

text \<open>
  \<^verbatim>\<open>LogicalDNSRule.matchStatesForMatch\<close> over the results of the nested rules.
\<close>

fun dnsAnd :: "(inbound_context \<Rightarrow> ruleMatchStateSet) list \<Rightarrow> inbound_context \<Rightarrow> ruleMatchStateSet
    \<Rightarrow> ruleMatchStateSet option" where
  "dnsAnd [] c stateSet = Some stateSet"
| "dnsAnd (rule # rules) c stateSet =
     (let nestedStateSet = rule (ResetRuleCache c)
      in if isEmpty nestedStateSet then None else dnsAnd rules c (combine stateSet nestedStateSet))"

definition LogicalDNSRule_matchStatesForMatch ::
  "(inbound_context \<Rightarrow> ruleMatchStateSet) list \<Rightarrow> string \<Rightarrow> bool \<Rightarrow> inbound_context \<Rightarrow> ruleMatchStateSet" where
  "LogicalDNSRule_matchStatesForMatch rules mode inverted c =
     (let failure = (if inverted then emptyRuleMatchState else 0)
      in if mode = ''and'' then
           (case dnsAnd rules c emptyRuleMatchState of
              None \<Rightarrow> failure
            | Some stateSet \<Rightarrow> if inverted then 0 else stateSet)
         else
           (let stateSet = foldl (\<lambda>s rule. merge s (rule (ResetRuleCache c))) 0 rules
            in if isEmpty stateSet then failure else if inverted then 0 else stateSet))"

fun dns_matchStatesForMatch ::
  "matcher \<Rightarrow> rule_set_store \<Rightarrow> dns_rule \<Rightarrow> inbound_context \<Rightarrow> ruleMatchStateSet" where
  "dns_matchStatesForMatch m store (DefaultRule r) c = DefaultDNSRule_matchStatesForMatch m store r c"
| "dns_matchStatesForMatch m store (LogicalRule rules mode inverted act) c =
     LogicalDNSRule_matchStatesForMatch (map (dns_matchStatesForMatch m store) rules) mode inverted c"

definition DNSRule_Match :: "matcher \<Rightarrow> rule_set_store \<Rightarrow> dns_rule \<Rightarrow> inbound_context \<Rightarrow> bool" where
  "DNSRule_Match m store rule c = (\<not> isEmpty (dns_matchStatesForMatch m store rule c))"

text \<open>The legacy passes. The first sets the context's flag for its duration.\<close>

fun LegacyPreMatch :: "matcher \<Rightarrow> rule_set_store \<Rightarrow> dns_rule \<Rightarrow> inbound_context \<Rightarrow> bool" where
  "LegacyPreMatch m store (DefaultRule r) c =
     (if dr_matchResponse r then False
      else \<not> isEmpty (dns_matchStates m store r (c\<lparr>IgnoreDestinationIPCIDRMatch := True\<rparr>) 0))"
| "LegacyPreMatch m store rule c =
     (\<not> isEmpty (tree_matchStatesWithBase (dns_matchStates m store) rule
                   (c\<lparr>IgnoreDestinationIPCIDRMatch := True\<rparr>) 0))"

definition MatchAddressLimit ::
  "matcher \<Rightarrow> rule_set_store \<Rightarrow> dns_rule \<Rightarrow> inbound_context \<Rightarrow> dns_msg option \<Rightarrow> bool" where
  "MatchAddressLimit m store rule c response =
     (\<not> isEmpty (tree_matchStatesWithBase (dns_matchStates m store) rule
        (c\<lparr>DNSResponse := response, DestinationAddressMatchFromResponse := True\<rparr>) 0))"

fun dns_action_of :: "dns_rule \<Rightarrow> rule_action option" where
  "dns_action_of (DefaultRule r) = action (dr_rule r)"
| "dns_action_of (LogicalRule _ _ _ act) = act"

definition BypassIfFailed :: "dns_rule \<Rightarrow> bool" where
  "BypassIfFailed rule =
     (case dns_action_of rule of Some (RuleActionDNSRoute _ opts) \<Rightarrow> do_BypassIfFailed opts | _ \<Rightarrow> False)"

end
