(* ===== verification/Rule_Headless.thy ===== *)
theory Rule_Headless
  imports Rule_Build
begin

text \<open>
  \<^verbatim>\<open>route/rule/rule_headless.go\<close> and \<^verbatim>\<open>rule_set.go\<close>: the rules inside rule-sets, built from their
  options, the metadata computed from those options, and the address sets extracted from the
  built rules.
\<close>

section \<open>Headless rules\<close>

definition headlessRule_destination :: "lib \<Rightarrow> default_headless_rule \<Rightarrow> build_step list" where
  "headlessRule_destination l o1 =
     [put (h_QueryType o1 \<noteq> []) GItems (NewQueryTypeItem (h_QueryType o1)),
      put (h_Network o1 \<noteq> []) GItems (NewNetworkItem (h_Network o1)),
      (if h_Domain o1 \<noteq> [] \<or> h_DomainSuffix o1 \<noteq> []
       then putErr True GDstAddr id (NewDomainItem l (h_Domain o1) (h_DomainSuffix o1))
       else case h_DomainMatcher o1 of
              None \<Rightarrow> Inr None
            | Some matcher \<Rightarrow> put True GDstAddr (NewRawDomainItem matcher)),
      put (h_DomainKeyword o1 \<noteq> []) GDstAddr (NewDomainKeywordItem (h_DomainKeyword o1)),
      putErr (h_DomainRegex o1 \<noteq> []) GDstAddr (cause ''domain_regex'')
        (NewDomainRegexItem l (h_DomainRegex o1)),
      (if h_SourceIPCIDR o1 \<noteq> []
       then putErr True GSrcAddr (cause ''source_ip_cidr'') (NewIPCIDRItem l True (h_SourceIPCIDR o1))
       else case h_SourceIPSet o1 of
              None \<Rightarrow> Inr None
            | Some ipSet \<Rightarrow> put True GSrcAddr (NewRawIPCIDRItem True ipSet)),
      (if h_IPCIDR o1 \<noteq> []
       then putErr True GDstIP (cause ''ipcidr'') (NewIPCIDRItem l False (h_IPCIDR o1))
       else case h_IPSet o1 of
              None \<Rightarrow> Inr None
            | Some ipSet \<Rightarrow> put True GDstIP (NewRawIPCIDRItem False ipSet))]"

definition headlessRule_process :: "lib \<Rightarrow> default_headless_rule \<Rightarrow> build_step list" where
  "headlessRule_process l o1 =
     [put (h_SourcePort o1 \<noteq> []) GSrcPort (NewPortItem True (h_SourcePort o1)),
      putErr (h_SourcePortRange o1 \<noteq> []) GSrcPort (cause ''source_port_range'')
        (NewPortRangeItem True (h_SourcePortRange o1)),
      put (h_Port o1 \<noteq> []) GDstPort (NewPortItem False (h_Port o1)),
      putErr (h_PortRange o1 \<noteq> []) GDstPort (cause ''port_range'')
        (NewPortRangeItem False (h_PortRange o1)),
      put (h_TunnelSource o1 \<noteq> []) GItems (NewTunnelSourceItem (h_TunnelSource o1)),
      put (h_TunnelDestination o1 \<noteq> []) GItems (NewTunnelDestinationItem (h_TunnelDestination o1)),
      put (h_ProcessName o1 \<noteq> []) GItems (NewProcessItem (h_ProcessName o1)),
      put (h_ProcessPath o1 \<noteq> []) GItems (NewProcessPathItem (h_ProcessPath o1)),
      putErr (h_ProcessPathRegex o1 \<noteq> []) GItems (cause ''process_path_regex'')
        (NewProcessPathRegexItem l (h_ProcessPathRegex o1)),
      put (h_PackageName o1 \<noteq> []) GItems (NewPackageNameItem (h_PackageName o1)),
      putErr (h_PackageNameRegex o1 \<noteq> []) GItems (cause ''package_name_regex'')
        (NewPackageNameRegexItem l (h_PackageNameRegex o1))]"

text \<open>Conditions on the network are only built when there is a network manager.\<close>

definition headlessRule_network :: "lib \<Rightarrow> bool \<Rightarrow> default_headless_rule \<Rightarrow> build_step list" where
  "headlessRule_network l networkManager o1 =
     (if networkManager then
        [put (h_NetworkType o1 \<noteq> []) GItems (NewNetworkTypeItem (h_NetworkType o1)),
         put (h_NetworkIsExpensive o1) GItems NewNetworkIsExpensiveItem,
         put (h_NetworkIsConstrained o1) GItems NewNetworkIsConstrainedItem,
         put (h_WIFISSID o1 \<noteq> []) GItems (NewWIFISSIDItem (h_WIFISSID o1)),
         put (h_WIFIBSSID o1 \<noteq> []) GItems (NewWIFIBSSIDItem (h_WIFIBSSID o1)),
         put (h_NetworkInterfaceAddress o1 \<noteq> []) GItems
           (NewNetworkInterfaceAddressItem l (h_NetworkInterfaceAddress o1)),
         put (h_DefaultInterfaceAddress o1 \<noteq> []) GItems
           (NewDefaultInterfaceAddressItem l (h_DefaultInterfaceAddress o1))]
      else [])"

definition headlessRule_adguard :: "lib \<Rightarrow> default_headless_rule \<Rightarrow> build_step list" where
  "headlessRule_adguard l o1 =
     [(if h_AdGuardDomain o1 \<noteq> []
       then put True GDstAddr (NewAdGuardDomainItem l (h_AdGuardDomain o1))
       else case h_AdGuardDomainMatcher o1 of
              None \<Rightarrow> Inr None
            | Some matcher \<Rightarrow> put True GDstAddr (NewRawAdGuardDomainItem matcher))]"

definition NewDefaultHeadlessRule ::
  "lib \<Rightarrow> bool \<Rightarrow> default_headless_rule \<Rightarrow> rule_error + unit abstractDefaultRule" where
  "NewDefaultHeadlessRule l networkManager o1 =
     assemble (headlessRule_destination l o1 @ headlessRule_process l o1 @
               headlessRule_network l networkManager o1 @ headlessRule_adguard l o1)
       (emptyRule (h_Invert o1) None)"

abbreviation headlessValid :: "default_headless_rule \<Rightarrow> unit \<Rightarrow> bool" where
  "headlessValid d u \<equiv> DefaultHeadlessRule_IsValid d"

function (sequential) NewHeadlessRule ::
  "lib \<Rightarrow> bool \<Rightarrow> headless_rule_options \<Rightarrow> headless_rule outcome"
and NewSubHeadlessRules ::
  "lib \<Rightarrow> bool \<Rightarrow> headless_rule_options list \<Rightarrow> nat \<Rightarrow> headless_rule list outcome" where
  "NewHeadlessRule l nm (OptDefault typed o1 a) =
     (if \<not> DefaultHeadlessRule_IsValid o1 then Err (E_New ''missing conditions'')
      else case NewDefaultHeadlessRule l nm o1 of Inl e \<Rightarrow> Err e | Inr r \<Rightarrow> Ret (DefaultRule r))"
| "NewHeadlessRule l nm (OptLogical mode rules inverted a) =
     (case LogicalRule_IsValid True headlessValid rules of
        None \<Rightarrow> Panic ''unknown rule type''
      | Some False \<Rightarrow> Err (E_New ''missing conditions'')
      | Some True \<Rightarrow>
          if mode \<noteq> ''and'' \<and> mode \<noteq> ''or'' then Err (E_NewArg ''unknown logical mode: '' mode)
          else case NewSubHeadlessRules l nm rules 0 of
                 Ret rs \<Rightarrow> Ret (LogicalRule rs mode inverted None)
               | Err e \<Rightarrow> Err e
               | Panic msg \<Rightarrow> Panic msg)"
| "NewHeadlessRule l nm (OptUnknown t) = Err (E_NewArg ''unknown rule type: '' t)"
| "NewSubHeadlessRules l nm [] i = Ret []"
| "NewSubHeadlessRules l nm (o1 # os) i =
     (case NewHeadlessRule l nm o1 of
        Panic msg \<Rightarrow> Panic msg
      | Err e \<Rightarrow> Err (E_CauseAt e ''sub rule['' i)
      | Ret r \<Rightarrow>
          (case NewSubHeadlessRules l nm os (Suc i) of
             Panic msg \<Rightarrow> Panic msg
           | Err e \<Rightarrow> Err e
           | Ret rs \<Rightarrow> Ret (r # rs)))"
  by pat_completeness auto
termination
  by (relation "measure (\<lambda>p. case p of Inl (_, _, r) \<Rightarrow> size r
       | Inr (_, _, rs, _) \<Rightarrow> size_list size rs)") auto

section \<open>Metadata of a rule-set\<close>

text \<open>
  The search only enters rules whose type field holds \<^verbatim>\<open>default\<close> or \<^verbatim>\<open>logical\<close>.
\<close>

fun HasHeadlessRule1 :: "(default_headless_rule \<Rightarrow> bool) \<Rightarrow> headless_rule_options \<Rightarrow> bool" where
  "HasHeadlessRule1 cond (OptDefault typed d _) = (typed \<and> cond d)"
| "HasHeadlessRule1 cond (OptLogical _ rules _ _) = list_ex (HasHeadlessRule1 cond) rules"
| "HasHeadlessRule1 cond (OptUnknown _) = False"

definition HasHeadlessRule :: "headless_rule_options list \<Rightarrow> (default_headless_rule \<Rightarrow> bool) \<Rightarrow> bool" where
  "HasHeadlessRule rules cond = list_ex (HasHeadlessRule1 cond) rules"

definition isProcessHeadlessRule :: "default_headless_rule \<Rightarrow> bool" where
  "isProcessHeadlessRule r \<longleftrightarrow>
     h_ProcessName r \<noteq> [] \<or> h_ProcessPath r \<noteq> [] \<or> h_ProcessPathRegex r \<noteq> [] \<or>
     h_PackageName r \<noteq> [] \<or> h_PackageNameRegex r \<noteq> []"

definition isWIFIHeadlessRule :: "default_headless_rule \<Rightarrow> bool" where
  "isWIFIHeadlessRule r \<longleftrightarrow> h_WIFISSID r \<noteq> [] \<or> h_WIFIBSSID r \<noteq> []"

definition isIPCIDRHeadlessRule :: "default_headless_rule \<Rightarrow> bool" where
  "isIPCIDRHeadlessRule r \<longleftrightarrow> h_IPCIDR r \<noteq> [] \<or> h_IPSet r \<noteq> None"

definition isDNSQueryTypeHeadlessRule :: "default_headless_rule \<Rightarrow> bool" where
  "isDNSQueryTypeHeadlessRule r \<longleftrightarrow> h_QueryType r \<noteq> []"

definition isNonIPCIDRHeadlessRule :: "default_headless_rule \<Rightarrow> bool" where
  "isNonIPCIDRHeadlessRule r \<longleftrightarrow>
     \<not> (r = default_headless_rule_zero\<lparr>h_IPCIDR := h_IPCIDR r, h_IPSet := h_IPSet r, h_Invert := h_Invert r\<rparr>)"

definition buildRuleSetMetadata :: "headless_rule_options list \<Rightarrow> rule_set_metadata" where
  "buildRuleSetMetadata rules =
     \<lparr> ContainsProcessRule = HasHeadlessRule rules isProcessHeadlessRule,
       ContainsWIFIRule = HasHeadlessRule rules isWIFIHeadlessRule,
       ContainsIPCIDRRule = HasHeadlessRule rules isIPCIDRHeadlessRule,
       ContainsDNSQueryTypeRule = HasHeadlessRule rules isDNSQueryTypeHeadlessRule,
       ContainsNonIPCIDRRule = HasHeadlessRule rules isNonIPCIDRHeadlessRule \<rparr>"

section \<open>Address sets of built rules\<close>

fun extractIPSetFromRule :: "headless_rule \<Rightarrow> (addr \<Rightarrow> bool) list" where
  "extractIPSetFromRule (DefaultRule r) =
     concat (map (\<lambda>it. case it of IPCIDRItem ipSet _ _ \<Rightarrow> [ipSet] | _ \<Rightarrow> []) (destinationIPCIDRItems r))"
| "extractIPSetFromRule (LogicalRule rules _ _ _) = concat (map extractIPSetFromRule rules)"

end
