(* ===== verification/Rule_Set.thy ===== *)
theory Rule_Set
  imports Rule_Headless
begin

text \<open>
  Rule-set objects and the rules that hold them: \<^verbatim>\<open>rule_set_local.go\<close>, \<^verbatim>\<open>rule_set_remote.go\<close>,
  \<^verbatim>\<open>rule_set_updater.go\<close>, the \<^verbatim>\<open>Start\<close>/\<^verbatim>\<open>Close\<close> half of \<^verbatim>\<open>rule_item_rule_set.go\<close> and
  \<^verbatim>\<open>rule_abstract.go\<close>.

  Rule-sets are reference counted: a rule-set item takes a reference to each of its rule-sets when it
  starts and returns them when it closes; a count below zero panics, which is the value \<open>None\<close>.
\<close>

section \<open>Reference counts\<close>

definition IncRef :: "rule_set_store \<Rightarrow> tag \<Rightarrow> rule_set_store" where
  "IncRef store t =
     (case store t of None \<Rightarrow> store | Some rs \<Rightarrow> store(t \<mapsto> rs\<lparr>rs_refs := rs_refs rs + 1\<rparr>))"

definition DecRef :: "rule_set_store \<Rightarrow> tag \<Rightarrow> rule_set_store option" where
  "DecRef store t =
     (case store t of
        None \<Rightarrow> Some store
      | Some rs \<Rightarrow>
          if rs_refs rs - 1 < 0 then None else Some (store(t \<mapsto> rs\<lparr>rs_refs := rs_refs rs - 1\<rparr>)))"

definition RuleSet_Cleanup :: "rule_set \<Rightarrow> rule_set" where
  "RuleSet_Cleanup rs = (if rs_refs rs = 0 then rs\<lparr>rs_rules := []\<rparr> else rs)"

definition RuleSet_Close :: "rule_set \<Rightarrow> rule_set" where
  "RuleSet_Close rs = rs\<lparr>rs_rules := []\<rparr>"

fun decRefs :: "rule_set_store \<Rightarrow> tag list \<Rightarrow> rule_set_store option" where
  "decRefs store [] = Some store"
| "decRefs store (t # ts) = (case DecRef store t of None \<Rightarrow> None | Some store' \<Rightarrow> decRefs store' ts)"

definition RuleSetItem_Close ::
  "rule_set_store \<Rightarrow> rule_set_item \<Rightarrow> (rule_set_store \<times> rule_set_item) option" where
  "RuleSetItem_Close store r =
     (case decRefs store (rsi_setList r) of
        None \<Rightarrow> None
      | Some store' \<Rightarrow> Some (store', r\<lparr>rsi_setList := []\<rparr>))"

text \<open>The loop of \<^verbatim>\<open>Start\<close>: acquire the tags in order; on a missing one release what was acquired.\<close>

fun acquire ::
  "tag list \<Rightarrow> rule_set_store \<Rightarrow> rule_set_item \<Rightarrow>
   (rule_error option \<times> rule_set_store \<times> rule_set_item) option" where
  "acquire [] store r = Some (None, store, r)"
| "acquire (t # ts) store r =
     (case store t of
        None \<Rightarrow>
          (case RuleSetItem_Close store r of
             None \<Rightarrow> None
           | Some (store', r') \<Rightarrow> Some (Some (E_NewArg ''rule-set not found: '' t), store', r'))
      | Some _ \<Rightarrow> acquire ts (IncRef store t) (r\<lparr>rsi_setList := rsi_setList r @ [t]\<rparr>))"

definition RuleSetItem_Start ::
  "rule_set_store \<Rightarrow> rule_set_item \<Rightarrow> (rule_error option \<times> rule_set_store \<times> rule_set_item) option" where
  "RuleSetItem_Start store r =
     (case RuleSetItem_Close store r of
        None \<Rightarrow> None
      | Some (store', r') \<Rightarrow> acquire (rsi_tagList r) store' r')"

section \<open>Starting and closing rules\<close>

text \<open>
  \<^verbatim>\<open>Start\<close> of a default rule calls \<^verbatim>\<open>Start\<close> on the items of \<^verbatim>\<open>allItems\<close> in order. The items are shared
  with the groups, so a started item is started in its group as well; \<open>startGroups\<close> replaces them
  there. A failed start leaves the groups as they are: the caller gives the rule up.
\<close>

definition startItem :: "services \<Rightarrow> rule_item \<Rightarrow> rule_item" where
  "startItem svc i = (case item_Start svc i of Inl _ \<Rightarrow> i | Inr i' \<Rightarrow> i')"

fun startAll ::
  "services \<Rightarrow> any_item list \<Rightarrow> rule_set_store \<Rightarrow> rule_set_item option
   \<Rightarrow> (rule_error option \<times> rule_set_store \<times> rule_set_item option) option" where
  "startAll svc [] store rsi = Some (None, store, rsi)"
| "startAll svc (Plain i # its) store rsi =
     (case item_Start svc i of
        Inl e \<Rightarrow> Some (Some e, store, rsi)
      | Inr _ \<Rightarrow> startAll svc its store rsi)"
| "startAll svc (RuleSetRef # its) store rsi =
     (case rsi of
        None \<Rightarrow> startAll svc its store rsi
      | Some r \<Rightarrow>
          (case RuleSetItem_Start store r of
             None \<Rightarrow> None
           | Some (Some e, store', r') \<Rightarrow> Some (Some e, store', Some r')
           | Some (None, store', r') \<Rightarrow> startAll svc its store' (Some r')))"

definition startGroups :: "services \<Rightarrow> 'rs abstractDefaultRule \<Rightarrow> 'rs abstractDefaultRule" where
  "startGroups svc r =
     r\<lparr>items := map (startItem svc) (items r),
       sourceAddressItems := map (startItem svc) (sourceAddressItems r),
       sourcePortItems := map (startItem svc) (sourcePortItems r),
       destinationAddressItems := map (startItem svc) (destinationAddressItems r),
       destinationIPCIDRItems := map (startItem svc) (destinationIPCIDRItems r),
       destinationPortItems := map (startItem svc) (destinationPortItems r),
       allItems := map (\<lambda>it. case it of Plain i \<Rightarrow> Plain (startItem svc i) | RuleSetRef \<Rightarrow> RuleSetRef) (allItems r)\<rparr>"

definition abstractDefaultRule_Start ::
  "services \<Rightarrow> rule_set_store \<Rightarrow> default_rule \<Rightarrow> (rule_error option \<times> rule_set_store \<times> default_rule) option" where
  "abstractDefaultRule_Start svc store r =
     (case startAll svc (allItems r) store (ruleSetItem r) of
        None \<Rightarrow> None
      | Some (Some e, store', rsi) \<Rightarrow> Some (Some e, store', r\<lparr>ruleSetItem := rsi\<rparr>)
      | Some (None, store', rsi) \<Rightarrow> Some (None, store', (startGroups svc r)\<lparr>ruleSetItem := rsi\<rparr>))"

text \<open>\<^verbatim>\<open>common.Close\<close> closes the items that can be closed: the rule-set item.\<close>

fun closeAll ::
  "any_item list \<Rightarrow> rule_set_store \<Rightarrow> rule_set_item option \<Rightarrow> (rule_set_store \<times> rule_set_item option) option" where
  "closeAll [] store rsi = Some (store, rsi)"
| "closeAll (Plain i # its) store rsi = closeAll its store rsi"
| "closeAll (RuleSetRef # its) store rsi =
     (case rsi of
        None \<Rightarrow> closeAll its store rsi
      | Some r \<Rightarrow>
          (case RuleSetItem_Close store r of
             None \<Rightarrow> None
           | Some (store', r') \<Rightarrow> closeAll its store' (Some r')))"

definition abstractDefaultRule_Close ::
  "rule_set_store \<Rightarrow> default_rule \<Rightarrow> (rule_set_store \<times> default_rule) option" where
  "abstractDefaultRule_Close store r =
     (case closeAll (allItems r) store (ruleSetItem r) of
        None \<Rightarrow> None
      | Some (store', rsi) \<Rightarrow> Some (store', r\<lparr>ruleSetItem := rsi\<rparr>))"

text \<open>Logical rules start and close their nested rules in order; the first error ends a start.\<close>

function (sequential) rule_Start ::
  "services \<Rightarrow> rule_set_store \<Rightarrow> route_rule \<Rightarrow> (rule_error option \<times> rule_set_store \<times> route_rule) option"
and rules_Start ::
  "services \<Rightarrow> rule_set_store \<Rightarrow> route_rule list \<Rightarrow> (rule_error option \<times> rule_set_store \<times> route_rule list) option" where
  "rule_Start svc store (DefaultRule r) =
     (case abstractDefaultRule_Start svc store r of
        None \<Rightarrow> None
      | Some (e, store', r') \<Rightarrow> Some (e, store', DefaultRule r'))"
| "rule_Start svc store (LogicalRule rules mode inverted act) =
     (case rules_Start svc store rules of
        None \<Rightarrow> None
      | Some (e, store', rules') \<Rightarrow> Some (e, store', LogicalRule rules' mode inverted act))"
| "rules_Start svc store [] = Some (None, store, [])"
| "rules_Start svc store (r # rs) =
     (case rule_Start svc store r of
        None \<Rightarrow> None
      | Some (Some e, store', r') \<Rightarrow> Some (Some e, store', r' # rs)
      | Some (None, store', r') \<Rightarrow>
          (case rules_Start svc store' rs of
             None \<Rightarrow> None
           | Some (e, store'', rs') \<Rightarrow> Some (e, store'', r' # rs')))"
  by pat_completeness auto
termination
  by (relation "measure (\<lambda>p. case p of Inl (_, _, r) \<Rightarrow> size r
       | Inr (_, _, rs) \<Rightarrow> size_list size rs)") auto

function (sequential) rule_Close ::
  "rule_set_store \<Rightarrow> route_rule \<Rightarrow> (rule_set_store \<times> route_rule) option"
and rules_Close ::
  "rule_set_store \<Rightarrow> route_rule list \<Rightarrow> (rule_set_store \<times> route_rule list) option" where
  "rule_Close store (DefaultRule r) =
     (case abstractDefaultRule_Close store r of
        None \<Rightarrow> None
      | Some (store', r') \<Rightarrow> Some (store', DefaultRule r'))"
| "rule_Close store (LogicalRule rules mode inverted act) =
     (case rules_Close store rules of
        None \<Rightarrow> None
      | Some (store', rules') \<Rightarrow> Some (store', LogicalRule rules' mode inverted act))"
| "rules_Close store [] = Some (store, [])"
| "rules_Close store (r # rs) =
     (case rule_Close store r of
        None \<Rightarrow> None
      | Some (store', r') \<Rightarrow>
          (case rules_Close store' rs of
             None \<Rightarrow> None
           | Some (store'', rs') \<Rightarrow> Some (store'', r' # rs')))"
  by pat_completeness auto
termination
  by (relation "measure (\<lambda>p. case p of Inl (_, r) \<Rightarrow> size r
       | Inr (_, rs) \<Rightarrow> size_list size rs)") auto

section \<open>Loading rules\<close>

fun buildRules :: "lib \<Rightarrow> bool \<Rightarrow> headless_rule_options list \<Rightarrow> nat \<Rightarrow> headless_rule list outcome" where
  "buildRules l nm [] i = Ret []"
| "buildRules l nm (o1 # os) i =
     (case NewHeadlessRule l nm o1 of
        Panic msg \<Rightarrow> Panic msg
      | Err e \<Rightarrow> Err (E_CauseAt e ''parse rule_set.rules.['' i)
      | Ret r \<Rightarrow>
          (case buildRules l nm os (Suc i) of
             Ret rs \<Rightarrow> Ret (r # rs)
           | Err e \<Rightarrow> Err e
           | Panic msg \<Rightarrow> Panic msg))"

text \<open>
  \<open>validator\<close> stands for the DNS router's check of a metadata change
  (\<^verbatim>\<open>validateRuleSetMetadataUpdate\<close>), or accepts everything when there is none. Nothing of the rule-set
  changes unless every rule is built and the change is accepted.
\<close>

definition reloadRules ::
  "lib \<Rightarrow> bool \<Rightarrow> (rule_set_metadata \<Rightarrow> rule_error option) \<Rightarrow> headless_rule_options list \<Rightarrow> rule_set
   \<Rightarrow> rule_set outcome" where
  "reloadRules l nm validator os rs =
     (case buildRules l nm os 0 of
        Panic msg \<Rightarrow> Panic msg
      | Err e \<Rightarrow> Err e
      | Ret rules \<Rightarrow>
          (case validator (buildRuleSetMetadata os) of
             Some e \<Rightarrow> Err e
           | None \<Rightarrow> Ret (rs\<lparr>rs_rules := rules, rs_metadata := buildRuleSetMetadata os\<rparr>)))"

section \<open>Remote rule-sets\<close>

text \<open>
  The state of a remote rule-set beyond its rules, and the saved copy in the cache file. Times are
  nanoseconds; the zero time is \<open>None\<close>. \<open>content\<close> is the downloaded file.
\<close>

record 'c saved_binary =
  sv_LastUpdated :: int
  sv_Content :: 'c
  sv_LastEtag :: string

record 'c remote_rule_set =
  rm_set :: rule_set
  rm_lastUpdated :: "int option"
  rm_lastEtag :: string
  rm_updateInterval :: int
  rm_cache :: "'c saved_binary option"

definition updateIntervalOf :: "duration \<Rightarrow> duration" where
  "updateIntervalOf configured =
     (if configured > 0 then configured else 24 * 3600 * 1000000000)"

text \<open>What the HTTP client delivers.\<close>

datatype 'c http_response =
    HTTPFailed rule_error
  | HTTPStatus int
  | HTTPNotModified
  | HTTPOk "rule_error + 'c" string

text \<open>
  \<open>load\<close> is \<^verbatim>\<open>loadBytes\<close> on the rule-set: decode, upgrade, then the same loading as above. \<open>saves\<close> says
  whether writing to the cache file succeeds; an error there is only logged. \<open>cached\<close> says whether
  there is a cache file.
\<close>

definition RemoteRuleSet_fetch ::
  "('c \<Rightarrow> rule_set \<Rightarrow> rule_set outcome) \<Rightarrow> bool \<Rightarrow> bool \<Rightarrow> int \<Rightarrow> 'c http_response
   \<Rightarrow> 'c remote_rule_set \<Rightarrow> rule_error option outcome \<times> 'c remote_rule_set" where
  "RemoteRuleSet_fetch load cached saves now response s =
     (case response of
        HTTPFailed e \<Rightarrow> (Ret (Some e), s)
      | HTTPStatus code \<Rightarrow> (Ret (Some (E_NewArg ''unexpected status: '' (itoa code))), s)
      | HTTPNotModified \<Rightarrow>
          (let s = s\<lparr>rm_lastUpdated := Some now\<rparr>
           in case rm_cache s of
                Some saved \<Rightarrow>
                  (Ret None, if cached \<and> saves then s\<lparr>rm_cache := Some (saved\<lparr>sv_LastUpdated := now\<rparr>)\<rparr> else s)
              | None \<Rightarrow> (Ret None, s))
      | HTTPOk body etag \<Rightarrow>
          (case body of
             Inl e \<Rightarrow> (Ret (Some e), s)
           | Inr content \<Rightarrow>
               (case load content (rm_set s) of
                  Panic msg \<Rightarrow> (Panic msg, s)
                | Err e \<Rightarrow> (Ret (Some e), s)
                | Ret rs \<Rightarrow>
                    (let s = s\<lparr>rm_set := rs,
                               rm_lastEtag := (if etag \<noteq> [] then etag else rm_lastEtag s),
                               rm_lastUpdated := Some now\<rparr>
                     in (Ret None,
                         if cached \<and> saves
                         then s\<lparr>rm_cache := Some \<lparr> sv_LastUpdated = now, sv_Content = content,
                                                   sv_LastEtag = rm_lastEtag s \<rparr>\<rparr>
                         else s)))))"

definition RemoteRuleSet_updateOnce ::
  "('c \<Rightarrow> rule_set \<Rightarrow> rule_set outcome) \<Rightarrow> bool \<Rightarrow> bool \<Rightarrow> int \<Rightarrow> 'c http_response
   \<Rightarrow> 'c remote_rule_set \<Rightarrow> 'c remote_rule_set outcome" where
  "RemoteRuleSet_updateOnce load cached saves now response s =
     (case RemoteRuleSet_fetch load cached saves now response s of
        (Panic msg, _) \<Rightarrow> Panic msg
      | (Err e, s') \<Rightarrow> Ret s'
      | (Ret (Some e), s') \<Rightarrow> Ret s'
      | (Ret None, s') \<Rightarrow>
          if rs_refs (rm_set s') = 0 then Ret (s'\<lparr>rm_set := (rm_set s')\<lparr>rs_rules := []\<rparr>\<rparr>) else Ret s')"

text \<open>
  \<^verbatim>\<open>StartContext\<close>: restore the saved copy, and fetch when there is none. A failed first download is
  logged and does not fail the start.
\<close>

definition RemoteRuleSet_StartContext ::
  "('c \<Rightarrow> rule_set \<Rightarrow> rule_set outcome) \<Rightarrow> rule_error option \<Rightarrow> bool \<Rightarrow> bool \<Rightarrow> int \<Rightarrow> 'c http_response
   \<Rightarrow> 'c remote_rule_set \<Rightarrow> 'c remote_rule_set outcome" where
  "RemoteRuleSet_StartContext load transportError cached saves now response s =
     (case transportError of
        Some e \<Rightarrow> Err (E_Cause e ''create rule-set http client'')
      | None \<Rightarrow>
          (case (case (if cached then rm_cache s else None) of
                   None \<Rightarrow> Ret s
                 | Some saved \<Rightarrow>
                     (case load (sv_Content saved) (rm_set s) of
                        Panic msg \<Rightarrow> Panic msg
                      | Err e \<Rightarrow> Err (E_Cause e ''restore cached rule-set'')
                      | Ret rs \<Rightarrow> Ret (s\<lparr>rm_set := rs, rm_lastUpdated := Some (sv_LastUpdated saved),
                                         rm_lastEtag := sv_LastEtag saved\<rparr>))) of
             Panic msg \<Rightarrow> Panic msg
           | Err e \<Rightarrow> Err e
           | Ret s \<Rightarrow>
               if rm_lastUpdated s = None then
                 (case RemoteRuleSet_fetch load cached saves now response s of
                    (Panic msg, _) \<Rightarrow> Panic msg
                  | (_, s') \<Rightarrow> Ret s')
               else Ret s))"

section \<open>The updater\<close>

text \<open>One pass of \<^verbatim>\<open>loopUpdate\<close>: which rule-sets are due, and their next times.\<close>

definition nextUpdate1 :: "int \<Rightarrow> int \<Rightarrow> int \<Rightarrow> bool \<times> int" where
  "nextUpdate1 now nextUpdate interval =
     (if now < nextUpdate then (False, nextUpdate) else (True, now + interval))"

definition updaterPass :: "int \<Rightarrow> int list \<Rightarrow> int list \<Rightarrow> bool list \<times> int list" where
  "updaterPass now nextUpdates intervals =
     (let rs = map2 (nextUpdate1 now) nextUpdates intervals in (map fst rs, map snd rs))"

text \<open>\<open>now\<close> is the clock of \<^verbatim>\<open>time.Until\<close>; an empty list would panic.\<close>

definition waitUntilNext :: "int \<Rightarrow> int list \<Rightarrow> int option" where
  "waitUntilNext now nextUpdates =
     (case nextUpdates of
        [] \<Rightarrow> None
      | n0 # ns \<Rightarrow>
          (let next = foldl (\<lambda>next nextUpdate. if nextUpdate < next then nextUpdate else next) n0 ns;
               wait = next - now
           in Some (if wait < 0 then 0 else wait)))"

end
