(* ===== verification/Rule_Item_Facts.thy ===== *)
theory Rule_Item_Facts
  imports Rule_Item_Match
begin

text \<open>
  Which connections each condition matches, for an item made by its constructor (collection
  \<open>item_match\<close>), and which configured lists the fallible constructors accept.
\<close>

section \<open>What the items match\<close>

text \<open>Conditions that look one value up in a set of configured values.\<close>

lemma list_items_match [item_match]:
  "item_Match l env (NewInboundRule xs) c \<longleftrightarrow> Inbound c \<in> set xs"
  "item_Match l env (NewNetworkItem xs) c \<longleftrightarrow> Network c \<in> set xs"
  "item_Match l env (NewAuthUserItem xs) c \<longleftrightarrow> User c \<in> set xs"
  "item_Match l env (NewProtocolItem xs) c \<longleftrightarrow> Protocol c \<in> set xs"
  "item_Match l env (NewClientItem xs) c \<longleftrightarrow> Client c \<in> set xs"
  "item_Match l env (NewTunnelSourceItem xs) c \<longleftrightarrow> TunnelSource c \<in> set xs"
  "item_Match l env (NewTunnelDestinationItem xs) c \<longleftrightarrow> TunnelDestination c \<in> set xs"
  "item_Match l env (NewWIFISSIDItem xs) c \<longleftrightarrow> SSID (env_WIFIState env) \<in> set xs"
  "item_Match l env (NewWIFIBSSIDItem xs) c \<longleftrightarrow> BSSID (env_WIFIState env) \<in> set xs"
  by (simp_all add: NewInboundRule_def InboundItem_Match_def NewNetworkItem_def
      NetworkItem_Match_def NewAuthUserItem_def AuthUserItem_Match_def NewProtocolItem_def
      ProtocolItem_Match_def NewClientItem_def ClientItem_Match_def NewTunnelSourceItem_def
      TunnelSourceItem_Match_def NewTunnelDestinationItem_def TunnelDestinationItem_Match_def
      NewWIFISSIDItem_def WIFISSIDItem_Match_def NewWIFIBSSIDItem_def WIFIBSSIDItem_Match_def
      go_map)

lemma guarded_list_items_match [item_match]:
  "item_Match l env (NewQueryTypeItem ts) c \<longleftrightarrow> QueryType c \<noteq> 0 \<and> QueryType c \<in> set ts"
  "item_Match l env (NewSourceHostnameItem xs) c \<longleftrightarrow> SourceHostname c \<noteq> [] \<and> SourceHostname c \<in> set xs"
  "item_Match l env (NewPortItem src ps) c \<longleftrightarrow>
     sa_Port (if src then Source c else Destination c) \<in> set ps"
  by (auto simp: NewQueryTypeItem_def QueryTypeItem_Match_def NewSourceHostnameItem_def
      SourceHostnameItem_Match_def NewPortItem_def PortItem_Match_def go_map)

text \<open>Process conditions: nothing matches without process information.\<close>

lemma process_items_match [item_match]:
  "item_Match l env (NewProcessItem xs) c \<longleftrightarrow>
     (\<exists>i. ProcessInfo c = Some i \<and> ProcessPath i \<noteq> [] \<and> lib_FilepathBase l (ProcessPath i) \<in> set xs)"
  "item_Match l env (NewProcessPathItem xs) c \<longleftrightarrow>
     (\<exists>i. ProcessInfo c = Some i \<and>
        (ProcessPath i \<noteq> [] \<and> ProcessPath i \<in> set xs \<or>
         lib_IsAndroid l \<and> set (AndroidPackageNames i) \<inter> set xs \<noteq> {}))"
  "item_Match l env (NewPackageNameItem xs) c \<longleftrightarrow>
     (\<exists>i. ProcessInfo c = Some i \<and> set (AndroidPackageNames i) \<inter> set xs \<noteq> {})"
  "item_Match l env (NewUserItem xs) c \<longleftrightarrow>
     (\<exists>i. ProcessInfo c = Some i \<and> UserName i \<noteq> [] \<and> UserName i \<in> set xs)"
  "item_Match l env (NewUserIDItem ids) c \<longleftrightarrow>
     (\<exists>i. ProcessInfo c = Some i \<and> UserId i \<noteq> - 1 \<and> UserId i \<in> set ids)"
  by (auto simp: NewProcessItem_def ProcessItem_Match_def NewProcessPathItem_def
      ProcessPathItem_Match_def NewPackageNameItem_def PackageNameItem_Match_def NewUserItem_def
      UserItem_Match_def NewUserIDItem_def UserIdItem_Match_def go_map list_ex_iff
      split: option.splits)

text \<open>Host name conditions.\<close>

lemma strings_Contains_iff: "strings_Contains s sub \<longleftrightarrow> (\<exists>a b. s = a @ sub @ b)"
proof (induction s)
  case (Cons c s)
  have "(\<exists>a b. c # s = a @ sub @ b) \<longleftrightarrow> (\<exists>b. c # s = sub @ b) \<or> (\<exists>a b. s = a @ sub @ b)"
    by (metis append_Cons append_Nil neq_Nil_conv list.inject)
  moreover have "(\<exists>b. c # s = sub @ b) \<longleftrightarrow> take (length sub) (c # s) = sub"
    by (metis append_eq_conv_conj append_take_drop_id)
  ultimately show ?case using Cons.IH by simp
qed simp

lemma keyword_item_match [item_match]:
  "item_Match l env (NewDomainKeywordItem ks) c \<longleftrightarrow>
     domainHost c \<noteq> [] \<and> (\<exists>k\<in>set ks. \<exists>a b. lib_ToLower l (domainHost c) = a @ k @ b)"
  by (simp add: NewDomainKeywordItem_def DomainKeywordItem_Match_def list_ex_iff
      strings_Contains_iff)

lemma domain_item_match [item_match]:
  assumes "NewDomainItem l ds ss = Inr item"
  shows "item_Match l env item c \<longleftrightarrow>
    domainHost c \<noteq> [] \<and> lib_NewMatcher l ds ss False (lib_ToLower l (domainHost c))"
  using assms by (auto simp: NewDomainItem_def DomainItem_Match_def Let_def split: if_splits)

lemma NewDomainItem_Inl_iff: "(\<exists>e. NewDomainItem l ds ss = Inl e) \<longleftrightarrow> [] \<in> set ds \<union> set ss"
  by (auto simp: NewDomainItem_def Let_def)

lemma compileRegexps_Inr:
  assumes "compileRegexps l es = Inr ms"
  shows "list_ex (\<lambda>m. m s) ms \<longleftrightarrow> (\<exists>e\<in>set es. \<exists>m. lib_RegexpCompile l e = Some m \<and> m s)"
proof -
  have len: "length ms = length es"
    using assms unfolding compileRegexps_def by (rule map_err_from_Inr_length)
  have "lib_RegexpCompile l (es ! i) = Some (ms ! i)" if "i < length es" for i
    using map_err_from_Inr_nth [OF assms [unfolded compileRegexps_def] that]
    by (auto split: option.splits)
  with len have "list_all2 (\<lambda>e m. lib_RegexpCompile l e = Some m) es ms"
    by (simp add: list_all2_conv_all_nth)
  from list_all2_ex [OF this] show ?thesis
    by (simp add: list_ex_iff)
qed

lemma domain_regex_item_match [item_match]:
  assumes "NewDomainRegexItem l es = Inr item"
  shows "item_Match l env item c \<longleftrightarrow> domainHost c \<noteq> [] \<and>
    (\<exists>e\<in>set es. \<exists>m. lib_RegexpCompile l e = Some m \<and> m (lib_ToLower l (domainHost c)))"
proof (cases "compileRegexps l es")
  case (Inr ms)
  with assms compileRegexps_Inr [OF Inr, of "lib_ToLower l (domainHost c)"] show ?thesis
    by (auto simp: NewDomainRegexItem_def DomainRegexItem_Match_def split: if_splits)
qed (use assms in \<open>simp add: NewDomainRegexItem_def\<close>)

lemma process_path_regex_item_match [item_match]:
  assumes "NewProcessPathRegexItem l es = Inr item"
  shows "item_Match l env item c \<longleftrightarrow> (\<exists>i. ProcessInfo c = Some i \<and> ProcessPath i \<noteq> [] \<and>
    (\<exists>e\<in>set es. \<exists>m. lib_RegexpCompile l e = Some m \<and> m (ProcessPath i)))"
proof (cases "compileRegexps l es")
  case (Inr ms)
  with assms compileRegexps_Inr [OF Inr, of "ProcessPath (the (ProcessInfo c))"] show ?thesis
    by (cases "ProcessInfo c")
       (auto simp: NewProcessPathRegexItem_def ProcessPathRegexItem_Match_def split: if_splits)
qed (use assms in \<open>simp add: NewProcessPathRegexItem_def\<close>)

lemma package_name_regex_item_match [item_match]:
  assumes "NewPackageNameRegexItem l es = Inr item"
  shows "item_Match l env item c \<longleftrightarrow> (\<exists>i. ProcessInfo c = Some i \<and>
    (\<exists>n\<in>set (AndroidPackageNames i). \<exists>e\<in>set es. \<exists>m. lib_RegexpCompile l e = Some m \<and> m n))"
proof (cases "compileRegexps l es")
  case (Inr ms)
  have swap: "list_ex (\<lambda>m. list_ex m ns) ms \<longleftrightarrow> (\<exists>n\<in>set ns. list_ex (\<lambda>m. m n) ms)" for ns
    by (auto simp: list_ex_iff)
  from Inr assms obtain d where item: "item = PackageNameRegexItem ms d"
    by (auto simp: NewPackageNameRegexItem_def)
  show ?thesis
  proof (cases "ProcessInfo c")
    case (Some a)
    have "item_Match l env item c \<longleftrightarrow> (\<exists>n\<in>set (AndroidPackageNames a). list_ex (\<lambda>m. m n) ms)"
      by (auto simp: item PackageNameRegexItem_Match_def Some swap)
    also have "\<dots> \<longleftrightarrow> (\<exists>n\<in>set (AndroidPackageNames a). \<exists>e\<in>set es. \<exists>m. lib_RegexpCompile l e = Some m \<and> m n)"
      by (simp only: compileRegexps_Inr [OF Inr])
    finally show ?thesis by (simp only: Some option.inject ex_simps simp_thms)
  qed (simp add: item PackageNameRegexItem_Match_def)
qed (use assms in \<open>simp add: NewPackageNameRegexItem_def\<close>)

text \<open>Address conditions, without the response and rule-set switches of the context.\<close>

lemma cidr_item_match [item_match]:
  assumes "NewIPCIDRItem l src ps = Inr item"
  shows "\<exists>ops ipSet. map_err_from 0 (parseIPSetEntry l) ps = Inr ops \<and> lib_IPSet l ops = Some ipSet \<and>
    item_Match l env item c = IPCIDRItem_Match l ipSet src c"
  using assms by (auto simp: NewIPCIDRItem_def Let_def split: sum.splits option.splits)

lemma source_cidr_match [simp]: "IPCIDRItem_Match l s True c = s (sa_Addr (Source c))"
  by (simp add: IPCIDRItem_Match_def)

lemma private_items_match [item_match]:
  "item_Match l env (NewIPIsPrivateItem True) c \<longleftrightarrow> \<not> lib_IsPublicAddr l (sa_Addr (Source c))"
  "\<not> DestinationAddressMatchFromResponse c \<Longrightarrow> item_Match l env (NewIPIsPrivateItem False) c \<longleftrightarrow>
     (if addr_IsValid (sa_Addr (Destination c)) then \<not> lib_IsPublicAddr l (sa_Addr (Destination c))
      else \<exists>a\<in>set (DestinationAddresses c). \<not> lib_IsPublicAddr l a)"
  by (simp_all add: NewIPIsPrivateItem_def IPIsPrivateItem_Match_def list_ex_iff)

lemma any_map_foldl:
  "foldl (\<lambda>(m, anyOf) x. if x = a then (m, True) else (m(x \<mapsto> True), anyOf)) (m, b) xs =
   (foldl (\<lambda>m x. m(x \<mapsto> True)) m (filter (\<lambda>x. x \<noteq> a) xs), b \<or> a \<in> set xs)"
  by (induction xs arbitrary: m b) auto

lemma outbound_item_match [item_match]:
  "item_Match l env (NewOutboundRule os) c \<longleftrightarrow>
     (if ''any'' \<in> set os then Outbound c \<noteq> [] else Outbound c \<in> set os)"
proof -
  have "item_Match l env (NewOutboundRule os) c =
    OutboundItem_Match (foldl (\<lambda>m x. m(x \<mapsto> True)) Map.empty (filter (\<lambda>x. x \<noteq> ''any'') os))
      (''any'' \<in> set os) c"
    unfolding NewOutboundRule_def any_map_foldl by simp
  then show ?thesis
    unfolding OutboundItem_Match_def boolmap_of_def [symmetric] boolmap_get_of by auto
qed

text \<open>
  Port ranges: a list is accepted exactly when every entry parses, the resulting item matches
  the ports inside one of the ranges, and an entry printed from two port numbers parses back.
\<close>

lemma port_range_item_match [item_match]:
  assumes "NewPortRangeItem src rs = Inr item"
  shows "item_Match l env item c \<longleftrightarrow>
    (\<exists>r\<in>set rs. \<exists>a b. parsePortRange r = Inr (a, b) \<and>
       a \<le> sa_Port (if src then Source c else Destination c) \<and>
       sa_Port (if src then Source c else Destination c) \<le> b)"
proof -
  from assms obtain ps where ps: "map_err parsePortRange rs = Inr ps" "item = PortRangeItem src rs ps"
    by (auto simp: NewPortRangeItem_def split: sum.splits)
  from map_err_ex [OF ps(1)] show ?thesis
    by (simp add: ps(2) PortRangeItem_Match_def Let_def list_ex_iff split_beta)
qed

lemma NewPortRangeItem_Inl_iff:
  "(\<exists>e. NewPortRangeItem src rs = Inl e) \<longleftrightarrow> (\<exists>r\<in>set rs. \<exists>e. parsePortRange r = Inl e)"
proof (cases "map_err parsePortRange rs")
  case (Inl e)
  then show ?thesis using map_err_Inl [OF Inl] by (auto simp: NewPortRangeItem_def)
next
  case (Inr ps)
  then have "\<exists>p. parsePortRange r = Inr p" if "r \<in> set rs" for r
    using that by (auto simp: map_err_Inr_iff list_all2_conv_all_nth in_set_conv_nth)
  with Inr show ?thesis by (fastforce simp: NewPortRangeItem_def)
qed

lemma no_colon_digits: "list_all is_digit s \<Longrightarrow> CHR '':'' \<notin> set s"
  by (auto simp: list_all_iff is_digit_def)

lemma takeWhile_no_colon:
  "CHR '':'' \<notin> set s \<Longrightarrow> takeWhile (\<lambda>c. c \<noteq> CHR '':'') (s @ CHR '':'' # t) = s"
  by (induction s) auto

lemmas port_text = takeWhile_no_colon [OF no_colon_digits [OF itoa_nat_digits]]
  ParseUint16_itoa_nat itoa_nat_nonempty

lemma parsePortRange_print:
  "parsePortRange (itoa_nat (unat a) @ '':'' @ itoa_nat (unat b)) = Inr (a, b)"
  "parsePortRange ('':'' @ itoa_nat (unat b)) = Inr (0, b)"
  "parsePortRange (itoa_nat (unat a) @ '':'') = Inr (a, 0xFFFF)"
  by (simp_all add: parsePortRange_def Let_def port_text)

end
