(* ===== verification/Rule_Semantics.thy ===== *)
theory Rule_Semantics
  imports Rule_Abstract Rule_Item_Facts
begin

unbundle bit_operations_syntax

text \<open>
  What rules match. A default rule is summarised by three observations: the condition bits its own
  items meet (\<open>got\<close>), the bits it requires (\<open>needs\<close>) and whether its other items all match (\<open>own\<close>).
  The evaluator of \<open>Rule_Abstract\<close> is shown to compute the set of states these determine; logical
  rules are Boolean combinations, inherited conditions are never lost, and a rule-set behaves as
  the documentation says: each of its rules merged into the including rule, any of them enough.
\<close>

section \<open>Observations on a default rule\<close>

abbreviation seen :: "inbound_context \<Rightarrow> inbound_context" where
  "seen c \<equiv> c\<lparr>DidMatch := True\<rparr>"

definition bitIf :: "bool \<Rightarrow> ruleMatchState \<Rightarrow> ruleMatchState" where
  "bitIf b bt = (if b then bt else 0)"

definition got :: "matcher \<Rightarrow> 'rs abstractDefaultRule \<Rightarrow> inbound_context \<Rightarrow> ruleMatchState" where
  "got m r c =
     bitIf (matchAnyItem m (sourceAddressItems r) (seen c)) ruleMatchSourceAddress OR
     bitIf (destinationIPCIDRMatchesSource r c \<and> matchAnyItem m (destinationIPCIDRItems r) (seen c))
       ruleMatchSourceAddress OR
     bitIf (matchAnyItem m (sourcePortItems r) (seen c)) ruleMatchSourcePort OR
     bitIf (matchAnyItem m (destinationAddressItems r) (seen c)) ruleMatchDestinationAddress OR
     bitIf (destinationIPCIDRMatchesDestination r c \<and> matchAnyItem m (destinationIPCIDRItems r) (seen c))
       ruleMatchDestinationAddress OR
     bitIf (matchAnyItem m (destinationPortItems r) (seen c)) ruleMatchDestinationPort"

definition needs :: "'rs abstractDefaultRule \<Rightarrow> inbound_context \<Rightarrow> ruleMatchState \<Rightarrow> bool" where
  "needs r c state \<longleftrightarrow>
     (requiresSourceAddressMatch r c \<longrightarrow> has state ruleMatchSourceAddress) \<and>
     (sourcePortItems r \<noteq> [] \<longrightarrow> has state ruleMatchSourcePort) \<and>
     (requiresDestinationAddressMatch r c \<longrightarrow> has state ruleMatchDestinationAddress) \<and>
     (destinationPortItems r \<noteq> [] \<longrightarrow> has state ruleMatchDestinationPort)"

definition own :: "matcher \<Rightarrow> 'rs abstractDefaultRule \<Rightarrow> inbound_context \<Rightarrow> bool" where
  "own m r c \<longleftrightarrow> (\<forall>item\<in>set (items r). m item (seen c))"

text \<open>Whether the evaluation has set \<^verbatim>\<open>DidMatch\<close> when it reaches its end.\<close>

definition touched :: "'rs abstractDefaultRule \<Rightarrow> inbound_context \<Rightarrow> bool" where
  "touched r c \<longleftrightarrow> DidMatch c \<or> requiresSourceAddressMatch r c \<or> sourcePortItems r \<noteq> [] \<or>
     requiresDestinationAddressMatch r c \<or> destinationPortItems r \<noteq> [] \<or> items r \<noteq> [] \<or>
     ruleSetItem r \<noteq> None"

section \<open>The evaluator computes them\<close>

lemma matchAnyItem_Nil [simp]: "\<not> matchAnyItem m [] c"
  by (simp add: matchAnyItem_def)

lemma condition_bit_cases:
  "bt \<in> {ruleMatchSourceAddress, ruleMatchSourcePort, ruleMatchDestinationAddress, ruleMatchDestinationPort}
   \<Longrightarrow> \<exists>k<4. bt = push_bit k 1"
  by (auto simp: condition_bits intro: exI [of _ 0] exI [of _ 1] exI [of _ 2] exI [of _ 3])

lemma has_push_bit: "has s (push_bit k 1) \<longleftrightarrow> bit s k"
  unfolding has_def by (rule bit_iff_and_push_bit_not_eq_0 [symmetric])

lemma or_has_bit: "has s (push_bit k 1) \<Longrightarrow> s OR push_bit k 1 = s"
  unfolding has_push_bit by (rule bit_eqI) (auto simp: bit_simps)

lemma or_bit [simp]:
  "has s ruleMatchSourceAddress \<Longrightarrow> s OR ruleMatchSourceAddress = s"
  "has s ruleMatchDestinationAddress \<Longrightarrow> s OR ruleMatchDestinationAddress = s"
  unfolding condition_bits by (rule or_has_bit, assumption)+

lemma evalGroup_eq:
  "evalGroup m its bt (c, s) =
     (c\<lparr>DidMatch := DidMatch c \<or> its \<noteq> []\<rparr>, s OR bitIf (matchAnyItem m its (seen c)) bt)"
  by (cases "its = []") (simp_all add: evalGroup_def bitIf_def Let_def)

lemma evalIPCIDR_eq:
  assumes "\<And>c b. applies r (c\<lparr>DidMatch := b\<rparr>) = applies r c"
    and "has s bt \<Longrightarrow> s OR bt = s"
  shows "evalIPCIDR m applies r bt (c, s) =
     (c\<lparr>DidMatch := DidMatch c \<or> applies r c\<rparr>,
      s OR bitIf (applies r c \<and> matchAnyItem m (destinationIPCIDRItems r) (seen c)) bt)"
  using assms(2)
  by (cases "applies r c"; cases "has s bt") (simp_all add: evalIPCIDR_def bitIf_def Let_def)

lemma evalItems_eq:
  "evalItems m its c =
     (\<forall>i\<in>set its. m i (seen c), c\<lparr>DidMatch := DidMatch c \<or> its \<noteq> []\<rparr>)"
proof (induction its arbitrary: c)
  case (Cons i its)
  then show ?case by (cases "m i (seen c)") (simp_all add: Let_def)
qed simp

lemma matches_DidMatch [simp]:
  "destinationIPCIDRMatchesSource r (c\<lparr>DidMatch := b\<rparr>) = destinationIPCIDRMatchesSource r c"
  "destinationIPCIDRMatchesDestination r (c\<lparr>DidMatch := b\<rparr>) = destinationIPCIDRMatchesDestination r c"
  "requiresSourceAddressMatch r (c\<lparr>DidMatch := b\<rparr>) = requiresSourceAddressMatch r c"
  "requiresDestinationAddressMatch r (c\<lparr>DidMatch := b\<rparr>) = requiresDestinationAddressMatch r c"
  by (simp_all add: destinationIPCIDRMatchesSource_def destinationIPCIDRMatchesDestination_def
      requiresSourceAddressMatch_def requiresDestinationAddressMatch_def)

lemma needs_DidMatch [simp]: "needs r (c\<lparr>DidMatch := b\<rparr>) s = needs r c s"
  by (simp add: needs_def)

lemma got_DidMatch [simp]: "got m r (c\<lparr>DidMatch := b\<rparr>) = got m r c"
  by (simp add: got_def)

lemma validState_bitIf [simp]: "validState bt \<Longrightarrow> validState (bitIf b bt)"
  by (simp add: bitIf_def)

lemma validState_got [simp]: "validState (got m r c)"
  by (simp add: got_def validState_or)

text \<open>The states of a rule after its own items, before the requirements are checked.\<close>

definition reached ::
  "matcher \<Rightarrow> ('rs \<Rightarrow> evaluator) \<Rightarrow> 'rs abstractDefaultRule \<Rightarrow> inbound_context \<Rightarrow> ruleMatchState
   \<Rightarrow> ruleMatchState set" where
  "reached m rsm r c b =
     (case ruleSetItem r of
        None \<Rightarrow> {b OR got m r c}
      | Some item \<Rightarrow> states (rsm item (seen c) (b OR got m r c)))"

definition accepted ::
  "matcher \<Rightarrow> ('rs \<Rightarrow> evaluator) \<Rightarrow> 'rs abstractDefaultRule \<Rightarrow> inbound_context \<Rightarrow> ruleMatchState
   \<Rightarrow> ruleMatchState set" where
  "accepted m rsm r c b = (if own m r c then {s \<in> reached m rsm r c b. needs r c s} else {})"

text \<open>
  The evaluator written over the observations: one equation for the result, used by every
  proof below.
\<close>

lemmas evalIPCIDR_eqs =
  evalIPCIDR_eq [of destinationIPCIDRMatchesSource, OF matches_DidMatch(1) or_bit(1)]
  evalIPCIDR_eq [of destinationIPCIDRMatchesDestination, OF matches_DidMatch(2) or_bit(2)]

definition touchedGroups :: "'rs abstractDefaultRule \<Rightarrow> inbound_context \<Rightarrow> bool" where
  "touchedGroups r c \<longleftrightarrow> DidMatch c \<or> sourceAddressItems r \<noteq> [] \<or>
     destinationIPCIDRMatchesSource r c \<or> sourcePortItems r \<noteq> [] \<or> destinationAddressItems r \<noteq> [] \<or>
     destinationIPCIDRMatchesDestination r c \<or> destinationPortItems r \<noteq> []"

lemma touched_groups:
  "touched r c \<longleftrightarrow> (touchedGroups r c \<or> items r \<noteq> []) \<or> ruleSetItem r \<noteq> None"
  by (auto simp: touched_def touchedGroups_def requiresSourceAddressMatch_def
      requiresDestinationAddressMatch_def)

lemma groups_eq:
  "evalGroup m (destinationPortItems r) ruleMatchDestinationPort
      (evalIPCIDR m destinationIPCIDRMatchesDestination r ruleMatchDestinationAddress
        (evalGroup m (destinationAddressItems r) ruleMatchDestinationAddress
          (evalGroup m (sourcePortItems r) ruleMatchSourcePort
            (evalIPCIDR m destinationIPCIDRMatchesSource r ruleMatchSourceAddress
              (evalGroup m (sourceAddressItems r) ruleMatchSourceAddress (c, e)))))) =
   (c\<lparr>DidMatch := touchedGroups r c\<rparr>, e OR got m r c)"
  by (simp add: evalGroup_eq evalIPCIDR_eqs got_def or.assoc)
     (rule arg_cong [where f = "\<lambda>b. c\<lparr>DidMatch := b\<rparr>"], auto simp: touchedGroups_def)

lemma filter_needs:
  "(\<lambda>state.
     \<not> (requiresSourceAddressMatch r c \<and> \<not> has state ruleMatchSourceAddress) \<and>
     \<not> (length (sourcePortItems r) > 0 \<and> \<not> has state ruleMatchSourcePort) \<and>
     \<not> (requiresDestinationAddressMatch r c \<and> \<not> has state ruleMatchDestinationAddress) \<and>
     \<not> (length (destinationPortItems r) > 0 \<and> \<not> has state ruleMatchDestinationPort)) = needs r c"
  by (auto simp: needs_def fun_eq_iff)

text \<open>The state set a rule has before its requirements are checked.\<close>

definition ruleSetStates ::
  "matcher \<Rightarrow> ('rs \<Rightarrow> evaluator) \<Rightarrow> 'rs abstractDefaultRule \<Rightarrow> inbound_context \<Rightarrow> ruleMatchState
   \<Rightarrow> ruleMatchStateSet" where
  "ruleSetStates m rsm r c b =
     (case ruleSetItem r of
        Some item \<Rightarrow> rsm item (seen c) (b OR got m r c)
      | None \<Rightarrow> singleRuleMatchState (b OR got m r c))"

lemma states_ruleSetStates: "validState b \<Longrightarrow> states (ruleSetStates m rsm r c b) = reached m rsm r c b"
  by (simp add: ruleSetStates_def reached_def states_singleRuleMatchState validState_or
      split: option.split)

lemma matchStatesWithBase_run:
  assumes "allItems r \<noteq> []" and e_def: "e = (if invert r then 0 else inherited)"
  shows "abstractDefaultRule_matchStatesWithBase m rsm r c inherited =
    (if \<not> own m r c then (invertedFailure r inherited, c\<lparr>DidMatch := touchedGroups r c \<or> items r \<noteq> []\<rparr>)
     else let c' = c\<lparr>DidMatch := touched r c\<rparr>; F = filterStates (ruleSetStates m rsm r c e) (needs r c)
     in if isEmpty F then (invertedFailure r inherited, c')
        else if invert r then
          (if IgnoreDestinationIPCIDRMatch c \<and> F = emptyRuleMatchState \<and> \<not> touched r c \<and>
              destinationIPCIDRItems r \<noteq> []
           then (withBase emptyRuleMatchState inherited, c') else (0, c'))
        else (F, c'))"
proof -
  let ?c1 = "c\<lparr>DidMatch := touchedGroups r c \<or> items r \<noteq> []\<rparr>"
  have its: "evalItems m (items r) (c\<lparr>DidMatch := touchedGroups r c\<rparr>) = (own m r c, ?c1)"
    by (simp add: evalItems_eq own_def)
  have ruleSet: "(case ruleSetItem r of
      None \<Rightarrow> (singleRuleMatchState (e OR got m r c), ?c1)
    | Some item \<Rightarrow> (rsm item (seen ?c1) (e OR got m r c), seen ?c1)) =
    (ruleSetStates m rsm r c e, c\<lparr>DidMatch := touched r c\<rparr>)"
  proof (cases "ruleSetItem r")
    case None
    then have "touched r c = (touchedGroups r c \<or> items r \<noteq> [])" using touched_groups by blast
    with None show ?thesis by (simp only: ruleSetStates_def option.case)
  qed (simp add: ruleSetStates_def touched_groups)
  have needs: "needs r (c\<lparr>DidMatch := touched r c\<rparr>) = needs r c"
    by (rule ext) simp
  show ?thesis
    using assms(1)
    unfolding abstractDefaultRule_matchStatesWithBase_def Let_def groups_eq case_prod_conv
      e_def [symmetric] its ruleSet filter_needs needs
    by simp
qed

text \<open>One equation for the states of the result, used by every proof below.\<close>

lemma matchStatesWithBase_eq:
  assumes "allItems r \<noteq> []" "validState b" and e_def: "e = (if invert r then 0 else b)"
  shows "states (fst (abstractDefaultRule_matchStatesWithBase m rsm r c b)) =
    (if accepted m rsm r c e = {} then (if invert r then {b} else {})
     else if \<not> invert r then accepted m rsm r c b
     else if IgnoreDestinationIPCIDRMatch c \<and> accepted m rsm r c 0 = {0} \<and> \<not> touched r c \<and>
       destinationIPCIDRItems r \<noteq> [] then {b} else {})"
proof (cases "own m r c")
  case False
  then show ?thesis
    using assms(1,2)
    by (simp add: matchStatesWithBase_run [OF _ e_def] accepted_def invertedFailure_def state_sets)
next
  case True
  let ?F = "filterStates (ruleSetStates m rsm r c e) (needs r c)"
  have F: "states ?F = accepted m rsm r c e"
    using True assms(2) by (simp add: accepted_def states_filterStates states_ruleSetStates e_def)
  have F0: "?F = emptyRuleMatchState \<longleftrightarrow> accepted m rsm r c e = {0}"
    using ms.states_ext states_emptyRuleMatchState F by metis
  show ?thesis
    using assms(1,2) True
    by (simp add: matchStatesWithBase_run [OF _ e_def] Let_def isEmpty_states F F0
        invertedFailure_def states_zero states_base) (simp add: e_def)
qed

section \<open>Condition bits\<close>

lemma has_bitIf: "has (bitIf b x) t \<longleftrightarrow> b \<and> has x t"
  by (simp add: bitIf_def has_def)

lemma has_bits [simp]:
  "has ruleMatchSourceAddress ruleMatchSourceAddress" "has ruleMatchSourcePort ruleMatchSourcePort"
  "has ruleMatchDestinationAddress ruleMatchDestinationAddress"
  "has ruleMatchDestinationPort ruleMatchDestinationPort"
  "\<not> has ruleMatchSourceAddress ruleMatchSourcePort" "\<not> has ruleMatchSourceAddress ruleMatchDestinationAddress"
  "\<not> has ruleMatchSourceAddress ruleMatchDestinationPort" "\<not> has ruleMatchSourcePort ruleMatchSourceAddress"
  "\<not> has ruleMatchSourcePort ruleMatchDestinationAddress" "\<not> has ruleMatchSourcePort ruleMatchDestinationPort"
  "\<not> has ruleMatchDestinationAddress ruleMatchSourceAddress" "\<not> has ruleMatchDestinationAddress ruleMatchSourcePort"
  "\<not> has ruleMatchDestinationAddress ruleMatchDestinationPort" "\<not> has ruleMatchDestinationPort ruleMatchSourceAddress"
  "\<not> has ruleMatchDestinationPort ruleMatchSourcePort" "\<not> has ruleMatchDestinationPort ruleMatchDestinationAddress"
  by (simp_all add: has_def condition_bits)

lemma has_zero [simp]: "\<not> has 0 t"
  by (simp add: has_def)

lemma has_got:
  "has (got m r c) ruleMatchSourceAddress \<longleftrightarrow>
     matchAnyItem m (sourceAddressItems r) (seen c) \<or>
     destinationIPCIDRMatchesSource r c \<and> matchAnyItem m (destinationIPCIDRItems r) (seen c)"
  "has (got m r c) ruleMatchSourcePort \<longleftrightarrow> matchAnyItem m (sourcePortItems r) (seen c)"
  "has (got m r c) ruleMatchDestinationAddress \<longleftrightarrow>
     matchAnyItem m (destinationAddressItems r) (seen c) \<or>
     destinationIPCIDRMatchesDestination r c \<and> matchAnyItem m (destinationIPCIDRItems r) (seen c)"
  "has (got m r c) ruleMatchDestinationPort \<longleftrightarrow> matchAnyItem m (destinationPortItems r) (seen c)"
  by (simp_all add: got_def has_or has_bitIf)

text \<open>Inclusion of states.\<close>

definition sub :: "ruleMatchState \<Rightarrow> ruleMatchState \<Rightarrow> bool" where
  "sub x y \<longleftrightarrow> x OR y = y"

lemma sub_bits: "sub x y \<longleftrightarrow> (\<forall>n. bit x n \<longrightarrow> bit y n)"
  by (simp add: sub_def bit_eq_iff bit_simps) (use bit_imp_le_length [of x] in auto)

lemma sub_refl [simp]: "sub x x" and sub_zero [simp]: "sub 0 x"
  by (simp_all add: sub_bits)

lemma sub_or: "sub x (x OR y)" "sub x (y OR x)"
  by (simp_all add: sub_bits bit_simps)

lemma sub_trans: "sub x y \<Longrightarrow> sub y z \<Longrightarrow> sub x z"
  by (simp add: sub_bits)

lemma sub_or_mono: "sub x y \<Longrightarrow> sub x' y' \<Longrightarrow> sub (x OR x') (y OR y')"
  by (auto simp: sub_bits bit_simps)

lemma has_sub: "sub x y \<Longrightarrow> has x t \<Longrightarrow> has y t"
  unfolding sub_def by (metis has_or)

lemma needs_sub: "needs r c x \<Longrightarrow> sub x y \<Longrightarrow> needs r c y"
  by (auto simp: needs_def dest: has_sub)

section \<open>The contract of a state evaluator\<close>

text \<open>
  What a nested rule promises to the rule that includes it: the states it yields contain the
  inherited state, and inheriting more never loses a match.
\<close>

locale state_evaluator =
  fixes eval :: evaluator
  assumes keeps_base: "validState b \<Longrightarrow> s \<in> states (eval c b) \<Longrightarrow> sub b s"
    and grows: "validState b \<Longrightarrow> validState b' \<Longrightarrow> sub b b' \<Longrightarrow> s \<in> states (eval c b) \<Longrightarrow>
      \<exists>s'\<in>states (eval c b'). sub s s'"
begin

lemma matches_mono:
  assumes "validState b" "validState b'" "sub b b'" "\<not> isEmpty (eval c b)"
  shows "\<not> isEmpty (eval c b')"
  using assms grows [of b b'] by (auto simp: isEmpty_states)

lemma matches_from_zero: "validState b \<Longrightarrow> \<not> isEmpty (eval c 0) \<Longrightarrow> \<not> isEmpty (eval c b)"
  using matches_mono [of 0 b] by simp

end

text \<open>Default rules meet the contract when their rule-set item does.\<close>

lemma accepted_keeps:
  assumes "\<And>i. state_evaluator (rsm i)" "validState b" "s \<in> accepted m rsm r c b"
  shows "sub b s"
proof (cases "ruleSetItem r")
  case None
  with assms(3) show ?thesis by (auto simp: accepted_def reached_def sub_or split: if_splits)
next
  case (Some i)
  with assms(3) have "s \<in> states (rsm i (seen c) (b OR got m r c))"
    by (auto simp: accepted_def reached_def split: if_splits)
  with state_evaluator.keeps_base [OF assms(1)] assms(2) have "sub (b OR got m r c) s"
    by (simp add: validState_or)
  then show ?thesis using sub_or(1) sub_trans by blast
qed

lemma accepted_grows:
  assumes "\<And>i. state_evaluator (rsm i)" "validState b" "validState b'" "sub b b'"
    and "s \<in> accepted m rsm r c b"
  shows "\<exists>s'\<in>accepted m rsm r c b'. sub s s'"
proof -
  have up: "sub (b OR got m r c) (b' OR got m r c)" using assms(4) by (simp add: sub_or_mono)
  from assms(5) have s: "s \<in> reached m rsm r c b" "needs r c s" and own: "own m r c"
    by (auto simp: accepted_def split: if_splits)
  have "\<exists>s'\<in>reached m rsm r c b'. sub s s'"
  proof (cases "ruleSetItem r")
    case None
    with s up show ?thesis by (simp add: reached_def)
  next
    case (Some i)
    with s state_evaluator.grows [OF assms(1) _ _ up] assms(2,3) show ?thesis
      by (auto simp: reached_def validState_or)
  qed
  with s own needs_sub show ?thesis by (fastforce simp: accepted_def)
qed

lemma default_state_evaluator:
  assumes rsm: "\<And>i. state_evaluator (rsm i)"
  shows "state_evaluator (\<lambda>c b. fst (abstractDefaultRule_matchStatesWithBase m rsm r c b))"
proof (cases "allItems r = []")
  case True
  then have "fst (abstractDefaultRule_matchStatesWithBase m rsm r c b) = withBase emptyRuleMatchState b"
    for c b by (simp add: abstractDefaultRule_matchStatesWithBase_def)
  then show ?thesis by unfold_locales (auto simp: states_base)
next
  case False
  note eq = matchStatesWithBase_eq [OF False _ refl]
  have keeps: "validState b \<Longrightarrow> s \<in> accepted m rsm r c b \<Longrightarrow> sub b s" for b s c
    by (rule accepted_keeps) (rule rsm)
  have grows: "validState b \<Longrightarrow> validState b' \<Longrightarrow> sub b b' \<Longrightarrow> s \<in> accepted m rsm r c b \<Longrightarrow>
    \<exists>s'\<in>accepted m rsm r c b'. sub s s'" for b b' s c
    by (rule accepted_grows) (rule rsm)
  show ?thesis
  proof
    fix b s c assume "validState b" and s: "s \<in> states (fst (abstractDefaultRule_matchStatesWithBase m rsm r c b))"
    with eq [of b m rsm c] keeps show "sub b s" by (auto split: if_splits)
  next
    fix b b' s c
    assume v: "validState b" "validState b'" "sub b b'"
      and s: "s \<in> states (fst (abstractDefaultRule_matchStatesWithBase m rsm r c b))"
    show "\<exists>s'\<in>states (fst (abstractDefaultRule_matchStatesWithBase m rsm r c b')). sub s s'"
    proof (cases "invert r")
      case True
      with s v show ?thesis unfolding eq [OF v(1)] eq [OF v(2)] by (auto split: if_splits)
    next
      case False
      with s have "s \<in> accepted m rsm r c b" unfolding eq [OF v(1)] by (auto split: if_splits)
      with grows [OF v] obtain s' where "s' \<in> accepted m rsm r c b'" "sub s s'" by blast
      with False show ?thesis unfolding eq [OF v(2)] by auto
    qed
  qed
qed

text \<open>Unions of evaluators, as rule-sets and \<^verbatim>\<open>or\<close> rules form them.\<close>

lemma merge_state_evaluator:
  assumes "\<And>x. x \<in> set xs \<Longrightarrow> state_evaluator (\<lambda>c b. f x (g c) b)"
  shows "state_evaluator (\<lambda>c b. foldl (\<lambda>s x. merge s (f x (g c) b)) 0 xs)"
proof
  fix b s c assume "validState b" "s \<in> states (foldl (\<lambda>s x. merge s (f x (g c) b)) 0 xs)"
  then show "sub b s"
    using state_evaluator.keeps_base [OF assms] by (auto simp: ms.states_union_foldl states_zero)
next
  fix b b' s c
  assume v: "validState b" "validState b'" "sub b b'"
    and "s \<in> states (foldl (\<lambda>s x. merge s (f x (g c) b)) 0 xs)"
  then obtain x where "x \<in> set xs" "s \<in> states (f x (g c) b)"
    by (auto simp: ms.states_union_foldl states_zero)
  with state_evaluator.grows [OF assms v] obtain s' where "s' \<in> states (f x (g c) b')" "sub s s'"
    by blast
  with \<open>x \<in> set xs\<close> show "\<exists>s'\<in>states (foldl (\<lambda>s x. merge s (f x (g c) b')) 0 xs). sub s s'"
    by (auto simp: ms.states_union_foldl)
qed

lemma state_evaluator_comp: "state_evaluator f \<Longrightarrow> state_evaluator (\<lambda>c b. f (g c) b)"
  by unfold_locales (auto dest: state_evaluator.keeps_base state_evaluator.grows)

text \<open>The conjunction loop: it fails exactly when a nested rule has no state.\<close>

lemma evalAnd_None_iff: "evalAnd rules c b S = None \<longleftrightarrow> (\<exists>r\<in>set rules. isEmpty (r (ResetRuleCache c) b))"
  by (induction rules arbitrary: S) (auto simp: Let_def)

lemma evalAnd_Some:
  "evalAnd rules c b S = Some T \<Longrightarrow> \<not> isEmpty S \<Longrightarrow> \<not> isEmpty T"
  by (induction rules arbitrary: S)
     (auto simp: Let_def isEmpty_def ms.product_none_iff split: if_splits)

lemma evalAnd_keeps:
  "evalAnd rules c b S = Some T \<Longrightarrow> \<forall>s\<in>states S. sub b s \<Longrightarrow> s \<in> states T \<Longrightarrow> sub b s"
proof (induction rules arbitrary: S)
  case (Cons r rules)
  then have "evalAnd rules c b (combine S (r (ResetRuleCache c) b)) = Some T"
    by (auto simp: Let_def split: if_splits)
  moreover have "\<forall>s\<in>states (combine S (r (ResetRuleCache c) b)). sub b s"
    using Cons.prems(2) sub_or(1) sub_trans by (fastforce simp: states_combine)
  ultimately show ?case using Cons.IH Cons.prems(3) by blast
qed auto

lemma evalAnd_grows:
  assumes "\<forall>r\<in>set rules. state_evaluator r" "validState b" "validState b'" "sub b b'"
  shows "evalAnd rules c b S = Some T \<Longrightarrow> \<forall>s\<in>states S. \<exists>s'\<in>states S'. sub s s' \<Longrightarrow>
    \<exists>T'. evalAnd rules c b' S' = Some T' \<and> (\<forall>s\<in>states T. \<exists>s'\<in>states T'. sub s s')"
  using assms(1)
proof (induction rules arbitrary: S S')
  case (Cons r rules)
  let ?n = "r (ResetRuleCache c)"
  from Cons.prems(1) have ne: "\<not> isEmpty (?n b)" and rest: "evalAnd rules c b (combine S (?n b)) = Some T"
    by (auto simp: Let_def split: if_splits)
  have r: "state_evaluator r" using Cons.prems(3) by simp
  have ne': "\<not> isEmpty (?n b')" by (rule state_evaluator.matches_mono [OF r assms(2-4) ne])
  have "\<forall>s\<in>states (combine S (?n b)). \<exists>s'\<in>states (combine S' (?n b')). sub s s'"
    using Cons.prems(2) state_evaluator.grows [OF r assms(2-4)] sub_or_mono
    by (fastforce simp: states_combine)
  with Cons.IH [OF rest] Cons.prems(3) ne' show ?case by (simp add: Let_def)
qed auto

lemma logical_and:
  "abstractLogicalRule_matchStatesWithBase rules ''and'' False c b =
     (case evalAnd rules c b (withBase emptyRuleMatchState b) of None \<Rightarrow> 0 | Some T \<Rightarrow> T)"
  by (simp add: abstractLogicalRule_matchStatesWithBase_def split: option.split)

lemma logical_or:
  "mode \<noteq> ''and'' \<Longrightarrow> abstractLogicalRule_matchStatesWithBase rules mode False = evalOr rules"
  by (auto simp: abstractLogicalRule_matchStatesWithBase_def Let_def fun_eq_iff isEmpty_def)

text \<open>An inverted logical rule yields its inherited state exactly when the plain rule has no match.\<close>

lemma logical_inverted:
  assumes "validState b"
  shows "states (abstractLogicalRule_matchStatesWithBase rules mode True c b) =
    (if isEmpty (abstractLogicalRule_matchStatesWithBase rules mode False c 0) then {b} else {})"
proof (cases "mode = ''and''")
  case True
  have "\<not> isEmpty (withBase emptyRuleMatchState 0)" by (simp add: isEmpty_states states_base)
  then have "evalAnd rules c 0 (withBase emptyRuleMatchState 0) = Some T \<Longrightarrow> \<not> isEmpty T" for T
    using evalAnd_Some by blast
  with True assms show ?thesis
    by (cases "evalAnd rules c 0 (withBase emptyRuleMatchState 0)")
       (auto simp: abstractLogicalRule_matchStatesWithBase_def states_base states_zero isEmpty_states)
next
  case False
  with assms show ?thesis
    by (auto simp: abstractLogicalRule_matchStatesWithBase_def Let_def states_base states_zero isEmpty_states)
qed

lemma logical_state_evaluator:
  assumes rules: "\<forall>r\<in>set rules. state_evaluator r"
  shows "state_evaluator (abstractLogicalRule_matchStatesWithBase rules mode inverted)"
proof (cases inverted)
  case True
  then show ?thesis by unfold_locales (auto simp: logical_inverted split: if_splits)
next
  case inv: False
  show ?thesis
  proof (cases "mode = ''and''")
    case True
    show ?thesis
    proof
      fix b s c assume "validState b"
        and "s \<in> states (abstractLogicalRule_matchStatesWithBase rules mode inverted c b)"
      with True inv obtain T where "evalAnd rules c b (withBase emptyRuleMatchState b) = Some T" "s \<in> states T"
        by (auto simp: logical_and states_zero split: option.splits)
      with evalAnd_keeps \<open>validState b\<close> show "sub b s" by (fastforce simp: states_base)
    next
      fix b b' s c assume v: "validState b" "validState b'" "sub b b'"
        and "s \<in> states (abstractLogicalRule_matchStatesWithBase rules mode inverted c b)"
      with True inv obtain T where
        T: "evalAnd rules c b (withBase emptyRuleMatchState b) = Some T" "s \<in> states T"
        by (auto simp: logical_and states_zero split: option.splits)
      from v have "\<forall>s\<in>states (withBase emptyRuleMatchState b).
          \<exists>s'\<in>states (withBase emptyRuleMatchState b'). sub s s'" by (simp add: states_base)
      from evalAnd_grows [OF rules v T(1) this] T(2) True inv
      show "\<exists>s'\<in>states (abstractLogicalRule_matchStatesWithBase rules mode inverted c b'). sub s s'"
        by (auto simp: logical_and)
    qed
  next
    case False
    have "state_evaluator (evalOr rules)"
      unfolding evalOr_def
      by (rule merge_state_evaluator [where f = "\<lambda>x. x"]) (rule state_evaluator_comp, use rules in blast)
    with False inv show ?thesis by (simp add: logical_or)
  qed
qed

lemma tree_state_evaluator:
  assumes "\<And>d. state_evaluator (f d)"
  shows "state_evaluator (tree_matchStatesWithBase f rule)"
proof (induction rule)
  case (DefaultRule d)
  have "tree_matchStatesWithBase f (DefaultRule d) = f d" by (simp add: fun_eq_iff)
  with assms show ?case by simp
next
  case (LogicalRule rules mode inverted act)
  then have "state_evaluator (abstractLogicalRule_matchStatesWithBase
    (map (tree_matchStatesWithBase f) rules) mode inverted)"
    by (intro logical_state_evaluator) auto
  moreover have "tree_matchStatesWithBase f (LogicalRule rules mode inverted act) =
    abstractLogicalRule_matchStatesWithBase (map (tree_matchStatesWithBase f) rules) mode inverted"
    by (simp add: fun_eq_iff)
  ultimately show ?case by simp
qed

section \<open>The rules of the program meet the contract\<close>

lemma no_rule_set_evaluator: "state_evaluator (\<lambda>_ _. 0)"
  by unfold_locales (simp_all add: states_zero)

interpretation hd: state_evaluator "headless_matchStatesWithBase m rule" for m rule
  unfolding headless_matchStatesWithBase_def
  by (rule tree_state_evaluator)
     (simp add: headless_default_def [abs_def] default_state_evaluator no_rule_set_evaluator)

interpretation rs: state_evaluator "RuleSet_matchStatesWithBase m rules" for m rules
  unfolding RuleSet_matchStatesWithBase_def
  by (rule merge_state_evaluator [where f = "headless_matchStatesWithBase m"])
     (rule state_evaluator_comp, rule hd.state_evaluator_axioms)

interpretation ri: state_evaluator "RuleSetItem_matchStatesWithBase m store item" for m store item
  unfolding RuleSetItem_matchStatesWithBase_def
  by (rule merge_state_evaluator [where f = "\<lambda>t. RuleSet_matchStatesWithBase m (store_rules store t)"])
     (rule state_evaluator_comp, rule rs.state_evaluator_axioms)

interpretation rt: state_evaluator "route_matchStatesWithBase m store rule" for m store rule
  unfolding route_matchStatesWithBase_def default_matchStatesWithBase_def
  by (rule tree_state_evaluator) (simp add: default_state_evaluator ri.state_evaluator_axioms)

section \<open>Boolean reading of rules\<close>

text \<open>
  The documented condition of a default rule: every group that is configured has a matching item,
  where the destination address conditions form one group, and every other item matches.
\<close>

definition groupHolds :: "matcher \<Rightarrow> rule_item list \<Rightarrow> inbound_context \<Rightarrow> bool" where
  "groupHolds m its c \<longleftrightarrow> its = [] \<or> (\<exists>it\<in>set its. m it c)"

definition documentedMatch :: "matcher \<Rightarrow> 'rs abstractDefaultRule \<Rightarrow> inbound_context \<Rightarrow> bool" where
  "documentedMatch m r c \<longleftrightarrow>
     groupHolds m (destinationAddressItems r @ destinationIPCIDRItems r) c \<and>
     groupHolds m (destinationPortItems r) c \<and>
     groupHolds m (sourceAddressItems r) c \<and>
     groupHolds m (sourcePortItems r) c \<and>
     (\<forall>it\<in>set (items r). m it c)"

text \<open>A context in which a route rule is evaluated: the router has just reset it.\<close>

definition freshContext :: "inbound_context \<Rightarrow> bool" where
  "freshContext c \<longleftrightarrow> ResetRuleCache c = c \<and> \<not> IgnoreDestinationIPCIDRMatch c"

lemma freshContext_flags:
  assumes "freshContext c"
  shows "\<not> IPCIDRMatchSource c" "\<not> IPCIDRAcceptEmpty c" "\<not> DidMatch c" "\<not> IgnoreDestinationIPCIDRMatch c"
proof -
  from assms have eq: "ResetRuleCache c = c" by (simp add: freshContext_def)
  have "\<not> IPCIDRMatchSource (ResetRuleCache c)" "\<not> IPCIDRAcceptEmpty (ResetRuleCache c)"
    "\<not> DidMatch (ResetRuleCache c)"
    by (simp_all add: ResetRuleCache_def ResetRuleMatchCache_def)
  then show "\<not> IPCIDRMatchSource c" "\<not> IPCIDRAcceptEmpty c" "\<not> DidMatch c" by (simp_all add: eq)
  show "\<not> IgnoreDestinationIPCIDRMatch c" using assms by (simp add: freshContext_def)
qed

lemma freshContext_Reset [simp]: "freshContext c \<Longrightarrow> ResetRuleCache c = c"
  by (simp add: freshContext_def)

lemma observed_documented:
  assumes "freshContext c"
  shows "own m r c \<and> needs r c (got m r c) \<longleftrightarrow> documentedMatch m r (seen c)"
  using freshContext_flags [OF assms]
  by (auto simp: own_def needs_def has_got documentedMatch_def groupHolds_def matchAnyItem_def
      requiresSourceAddressMatch_def requiresDestinationAddressMatch_def
      destinationIPCIDRMatchesSource_def destinationIPCIDRMatchesDestination_def list_ex_iff)

lemma default_match_eq:
  assumes "allItems r \<noteq> []" "\<not> IgnoreDestinationIPCIDRMatch c"
  shows "isEmpty (fst (abstractDefaultRule_matchStatesWithBase m rsm r c 0)) \<longleftrightarrow>
    (invert r \<longleftrightarrow> accepted m rsm r c 0 \<noteq> {})"
  using assms by (simp add: isEmpty_states matchStatesWithBase_eq [OF _ _ refl])

lemma accepted_plain:
  assumes "ruleSetItem r = None" "freshContext c"
  shows "accepted m rsm r c 0 \<noteq> {} \<longleftrightarrow> documentedMatch m r (seen c)"
  using assms by (auto simp: accepted_def reached_def observed_documented [symmetric])

text \<open>Logical rules are the Boolean operations on their nested rules.\<close>

lemma logical_match_eq:
  "isEmpty (abstractLogicalRule_matchStatesWithBase rules mode inverted c 0) \<longleftrightarrow>
     (inverted \<longleftrightarrow>
       (if mode = ''and'' then \<forall>r\<in>set rules. \<not> isEmpty (r (ResetRuleCache c) 0)
        else \<exists>r\<in>set rules. \<not> isEmpty (r (ResetRuleCache c) 0)))"
proof -
  have "\<not> isEmpty (withBase emptyRuleMatchState 0)" by (simp add: isEmpty_states states_base)
  then have T: "evalAnd rules c 0 (withBase emptyRuleMatchState 0) = Some T \<Longrightarrow> \<not> isEmpty T" for T
    using evalAnd_Some by blast
  have "isEmpty (abstractLogicalRule_matchStatesWithBase rules ''and'' False c 0) \<longleftrightarrow>
    \<not> (\<forall>r\<in>set rules. \<not> isEmpty (r (ResetRuleCache c) 0))"
    using T evalAnd_None_iff [of rules c 0 "withBase emptyRuleMatchState 0"]
    by (auto simp: logical_and isEmpty_def [of 0] split: option.split)
  moreover have "isEmpty (evalOr rules c 0) \<longleftrightarrow> (\<forall>r\<in>set rules. isEmpty (r (ResetRuleCache c) 0))"
    by (simp add: evalOr_def isEmpty_def ms.union_foldl_none_iff)
  ultimately have plain: "isEmpty (abstractLogicalRule_matchStatesWithBase rules mode False c 0) \<longleftrightarrow>
    \<not> (if mode = ''and'' then \<forall>r\<in>set rules. \<not> isEmpty (r (ResetRuleCache c) 0)
        else \<exists>r\<in>set rules. \<not> isEmpty (r (ResetRuleCache c) 0))"
    by (simp add: logical_or)
  have "isEmpty (abstractLogicalRule_matchStatesWithBase rules mode True c 0) \<longleftrightarrow>
    \<not> isEmpty (abstractLogicalRule_matchStatesWithBase rules mode False c 0)"
    by (simp add: isEmpty_states [of "abstractLogicalRule_matchStatesWithBase rules mode True c 0"]
        logical_inverted)
  with plain show ?thesis by (cases inverted) simp_all
qed

text \<open>A whole rule tree read as a Boolean formula over its default rules.\<close>

fun treeHolds :: "('d \<Rightarrow> inbound_context \<Rightarrow> bool) \<Rightarrow> 'd rule_tree \<Rightarrow> inbound_context \<Rightarrow> bool" where
  "treeHolds h (DefaultRule d) c = h d c"
| "treeHolds h (LogicalRule rules mode inverted act) c \<longleftrightarrow>
     inverted \<noteq>
       (if mode = ''and'' then \<forall>r\<in>set rules. treeHolds h r (ResetRuleCache c)
        else \<exists>r\<in>set rules. treeHolds h r (ResetRuleCache c))"

lemma tree_match_eq:
  "\<not> isEmpty (tree_matchStatesWithBase f rule c 0) \<longleftrightarrow> treeHolds (\<lambda>d c. \<not> isEmpty (f d c 0)) rule c"
proof (induction rule arbitrary: c)
  case (LogicalRule rules mode inverted act)
  then show ?case by (auto simp: logical_match_eq)
qed simp

lemma treeHolds_cong:
  assumes "P c" "\<And>c. P c \<Longrightarrow> P (ResetRuleCache c)"
    and "\<And>d c. d \<in> set_rule_tree rule \<Longrightarrow> P c \<Longrightarrow> h d c = h' d c"
  shows "treeHolds h rule c = treeHolds h' rule c"
  using assms
proof (induction rule arbitrary: c)
  case (LogicalRule rules mode inverted act)
  have "treeHolds h r (ResetRuleCache c) = treeHolds h' r (ResetRuleCache c)" if r: "r \<in> set rules" for r
  proof (rule LogicalRule.IH [OF r _ LogicalRule.prems(2)])
    show "P (ResetRuleCache c)" using LogicalRule.prems by blast
    show "h d c' = h' d c'" if "d \<in> set_rule_tree r" "P c'" for d c'
      by (rule LogicalRule.prems(3)) (use r that in auto)
  qed
  then show ?case by simp
qed simp

end
