(* ===== verification/Rule_Merge.thy ===== *)
theory Rule_Merge
  imports Rule_Semantics
begin

unbundle bit_operations_syntax

text \<open>
  Rule-sets. The documentation of the route rules says that each branch of an included rule-set can
  be considered merged into the including rule, while different branches keep OR semantics. The
  first part makes the merged rule explicit and proves that evaluation through the bit sets of
  inherited match states has exactly this meaning. The second part concerns the switches
  \<^verbatim>\<open>rule_set_ip_cidr_match_source\<close> and \<^verbatim>\<open>rule_set_ip_cidr_accept_empty\<close>, which reach the default rules
  of a rule-set but not the rules nested in its logical rules.
\<close>

section \<open>The merged rule\<close>

definition mergeRule :: "'rs abstractDefaultRule \<Rightarrow> unit abstractDefaultRule \<Rightarrow> unit abstractDefaultRule" where
  "mergeRule r d =
     \<lparr> items = items r @ items d,
       sourceAddressItems = sourceAddressItems r @ sourceAddressItems d,
       sourcePortItems = sourcePortItems r @ sourcePortItems d,
       destinationAddressItems = destinationAddressItems r @ destinationAddressItems d,
       destinationIPCIDRItems = destinationIPCIDRItems r @ destinationIPCIDRItems d,
       destinationPortItems = destinationPortItems r @ destinationPortItems d,
       allItems = allItems r @ allItems d, ruleSetItem = None, invert = False, action = None \<rparr>"

lemma matchAnyItem_append: "matchAnyItem m (xs @ ys) c \<longleftrightarrow> matchAnyItem m xs c \<or> matchAnyItem m ys c"
  by (simp add: matchAnyItem_def)

lemma merge_own: "own m (mergeRule r d) c \<longleftrightarrow> own m r c \<and> own m d c"
  by (auto simp: own_def mergeRule_def)

lemma merge_needs: "needs (mergeRule r d) c s \<longleftrightarrow> needs r c s \<and> needs d c s"
  by (auto simp: needs_def mergeRule_def requiresSourceAddressMatch_def
      requiresDestinationAddressMatch_def destinationIPCIDRMatchesSource_def
      destinationIPCIDRMatchesDestination_def)

lemma merge_has_got:
  assumes "t \<in> {ruleMatchSourceAddress, ruleMatchSourcePort, ruleMatchDestinationAddress, ruleMatchDestinationPort}"
  shows "has (got m (mergeRule r d) c) t \<longleftrightarrow> has (got m r c OR got m d c) t"
proof -
  have ip: "destinationIPCIDRItems d = [] \<Longrightarrow> \<not> matchAnyItem m (destinationIPCIDRItems d) (seen c)"
    "destinationIPCIDRItems r = [] \<Longrightarrow> \<not> matchAnyItem m (destinationIPCIDRItems r) (seen c)"
    by simp_all
  from assms ip show ?thesis
    by (auto simp: has_or has_got matchAnyItem_append mergeRule_def
        destinationIPCIDRMatchesSource_def destinationIPCIDRMatchesDestination_def)
qed

lemma needs_has_cong:
  assumes "\<And>t. t \<in> {ruleMatchSourceAddress, ruleMatchSourcePort, ruleMatchDestinationAddress,
    ruleMatchDestinationPort} \<Longrightarrow> has x t = has y t"
  shows "needs r c x = needs r c y"
  using assms by (simp add: needs_def)

lemma merge_needs_got:
  "needs q c' (got m (mergeRule r d) c) = needs q c' (got m r c OR got m d c)"
  by (rule needs_has_cong) (rule merge_has_got)

lemma merge_holds:
  "own m (mergeRule r d) c \<and> needs (mergeRule r d) c (got m (mergeRule r d) c) \<longleftrightarrow>
   own m r c \<and> own m d c \<and> needs r c (got m r c OR got m d c) \<and> needs d c (got m r c OR got m d c)"
  by (simp add: merge_own merge_needs merge_needs_got)

section \<open>Evaluation through a rule-set\<close>

text \<open>The context in which the rules of a rule-set see the connection.\<close>

definition rsContext :: "rule_set_item \<Rightarrow> inbound_context \<Rightarrow> inbound_context" where
  "rsContext i c = ResetRuleMatchCache
     ((ResetRuleMatchCache c)\<lparr>IPCIDRMatchSource := rsi_ipCidrMatchSource i,
                              IPCIDRAcceptEmpty := rsi_ipCidrAcceptEmpty i\<rparr>)"

lemma rsContext_DidMatch [simp]: "rsContext i (c\<lparr>DidMatch := b\<rparr>) = rsContext i c"
  by (simp add: rsContext_def ResetRuleMatchCache_def)

lemma rsContext_fresh:
  assumes "freshContext c" "\<not> rsi_ipCidrMatchSource i" "\<not> rsi_ipCidrAcceptEmpty i"
  shows "rsContext i c = c"
proof -
  have "rsContext i c = ResetRuleCache c"
    using assms(2,3) by (simp add: rsContext_def ResetRuleCache_def ResetRuleMatchCache_def)
  with assms(1) show ?thesis by simp
qed

lemma states_RuleSetItem:
  "states (RuleSetItem_matchStatesWithBase m store i c b) =
     (\<Union>t\<in>set (rsi_setList i). \<Union>h\<in>set (store_rules store t).
        states (headless_matchStatesWithBase m h (rsContext i c) b))"
  by (simp add: RuleSetItem_matchStatesWithBase_def RuleSet_matchStatesWithBase_def
      ms.states_union_foldl states_zero rsContext_def)

text \<open>A plain default rule of a rule-set adds its own conditions to the inherited ones.\<close>

lemma headless_plain_states:
  assumes "validState b" "allItems d \<noteq> []" "\<not> invert d" "ruleSetItem d = None"
  shows "states (headless_matchStatesWithBase m (DefaultRule d) c b) =
    (if own m d c \<and> needs d c (b OR got m d c) then {b OR got m d c} else {})"
  using assms
  by (auto simp: headless_matchStatesWithBase_def headless_default_def matchStatesWithBase_eq [OF _ _ refl]
      accepted_def reached_def)

text \<open>An inverted one passes the inherited conditions on when it does not match by itself.\<close>

lemma headless_inverted_states:
  assumes "validState b" "allItems d \<noteq> []" "invert d" "ruleSetItem d = None"
    "\<not> IgnoreDestinationIPCIDRMatch c"
  shows "states (headless_matchStatesWithBase m (DefaultRule d) c b) =
    (if own m d c \<and> needs d c (got m d c) then {} else {b})"
  using assms
  by (simp add: headless_matchStatesWithBase_def headless_default_def matchStatesWithBase_eq [OF _ _ refl]
      accepted_def reached_def)

text \<open>Rule-sets whose rules are all plain default rules.\<close>

definition plainHeadless :: "headless_rule \<Rightarrow> bool" where
  "plainHeadless h \<longleftrightarrow> (case h of
     DefaultRule d \<Rightarrow> allItems d \<noteq> [] \<and> \<not> invert d \<and> ruleSetItem d = None
   | LogicalRule _ _ _ _ \<Rightarrow> False)"

lemma accepted_rule_set:
  assumes item: "ruleSetItem r = Some i"
    and plain: "\<And>t h. t \<in> set (rsi_setList i) \<Longrightarrow> h \<in> set (store_rules store t) \<Longrightarrow> plainHeadless h"
  shows "accepted m (RuleSetItem_matchStatesWithBase m store) r c 0 \<noteq> {} \<longleftrightarrow>
    (\<exists>t\<in>set (rsi_setList i). \<exists>d. DefaultRule d \<in> set (store_rules store t) \<and>
       own m r c \<and> own m d (rsContext i c) \<and>
       needs r c (got m r c OR got m d (rsContext i c)) \<and>
       needs d (rsContext i c) (got m r c OR got m d (rsContext i c)))"
proof -
  have branch: "states (headless_matchStatesWithBase m h (rsContext i c) (got m r c)) =
      (case h of DefaultRule d \<Rightarrow>
         if own m d (rsContext i c) \<and> needs d (rsContext i c) (got m r c OR got m d (rsContext i c))
         then {got m r c OR got m d (rsContext i c)} else {} | _ \<Rightarrow> {})"
    "\<exists>d. h = DefaultRule d"
    if "t \<in> set (rsi_setList i)" "h \<in> set (store_rules store t)" for t h
    using plain [OF that] by (auto simp: plainHeadless_def headless_plain_states split: rule_tree.splits)
  show ?thesis
    unfolding accepted_def reached_def item option.case states_RuleSetItem rsContext_DidMatch or.left_neutral
    using branch by (fastforce split: if_splits)
qed

text \<open>
  In a fresh context, with the two switches off, the branch condition is the documented condition
  of the merged rule.
\<close>

lemma branch_is_merge:
  assumes "freshContext c"
  shows "own m r c \<and> own m d c \<and> needs r c (got m r c OR got m d c) \<and> needs d c (got m r c OR got m d c) \<longleftrightarrow>
    documentedMatch m (mergeRule r d) (seen c)"
  using merge_holds [of m r d c] observed_documented [OF assms, of m "mergeRule r d"] by simp

section \<open>The rule-set switches and logical rules\<close>

lemma logical_resets:
  "abstractLogicalRule_matchStatesWithBase rules mode inverted (c\<lparr>IPCIDRMatchSource := x, IPCIDRAcceptEmpty := y\<rparr>) b =
   abstractLogicalRule_matchStatesWithBase rules mode inverted c b"
proof -
  have reset: "ResetRuleCache (c\<lparr>IPCIDRMatchSource := x, IPCIDRAcceptEmpty := y\<rparr>) = ResetRuleCache c"
    by (simp add: ResetRuleCache_def ResetRuleMatchCache_def)
  have "evalAnd rules (c\<lparr>IPCIDRMatchSource := x, IPCIDRAcceptEmpty := y\<rparr>) b' S = evalAnd rules c b' S" for b' S
    by (induction rules arbitrary: S) (simp_all add: reset Let_def)
  then show ?thesis
    by (simp add: abstractLogicalRule_matchStatesWithBase_def evalOr_def reset)
qed

lemma rsContext_switches:
  "rsContext (i\<lparr>rsi_ipCidrMatchSource := x, rsi_ipCidrAcceptEmpty := y\<rparr>) c =
   (rsContext i c)\<lparr>IPCIDRMatchSource := x, IPCIDRAcceptEmpty := y\<rparr>"
  by (simp add: rsContext_def ResetRuleMatchCache_def)

end
