(* ===== verification/Rule_Set_Facts.thy ===== *)
theory Rule_Set_Facts
  imports Rule_Set Rule_Merge
begin

text \<open>
  Facts on rule-set objects: reference counts always equal the number of references that items
  hold, so starting and closing rules never panics and closing returns every reference; a failed
  reload changes nothing; the updater's waiting time is never negative and never zero right after
  a pass.
\<close>

section \<open>Reference counting\<close>

definition refs :: "rule_set_store \<Rightarrow> tag \<Rightarrow> int" where
  "refs store t = (case store t of None \<Rightarrow> 0 | Some rs \<Rightarrow> rs_refs rs)"

text \<open>
  The invariant: \<open>ext\<close> counts the references of other holders, \<open>f\<close> those of the item or rule at
  hand; only existing rule-sets are held.
\<close>

definition tracked :: "rule_set_store \<Rightarrow> (tag \<Rightarrow> int) \<Rightarrow> (tag \<Rightarrow> nat) \<Rightarrow> bool" where
  "tracked store ext f \<longleftrightarrow>
     (\<forall>t. (f t > 0 \<longrightarrow> store t \<noteq> None) \<and> (store t \<noteq> None \<longrightarrow> refs store t = ext t + int (f t)) \<and> 0 \<le> ext t)"

lemma trackedD:
  assumes "tracked store ext f"
  shows "f t > 0 \<Longrightarrow> store t \<noteq> None" "store t \<noteq> None \<Longrightarrow> refs store t = ext t + int (f t)" "0 \<le> ext t"
  using assms by (simp_all add: tracked_def)

lemma IncRef_tracked:
  assumes "tracked store ext f" "store t \<noteq> None"
  shows "tracked (IncRef store t) ext (f(t := Suc (f t)))" "dom (IncRef store t) = dom store"
  using assms by (auto simp: tracked_def IncRef_def refs_def dom_def split: option.splits)

lemma DecRef_tracked:
  assumes "tracked store ext f" "f t > 0"
  shows "\<exists>store'. DecRef store t = Some store' \<and> tracked store' ext (f(t := f t - 1)) \<and> dom store' = dom store"
proof -
  obtain rs where rs: "store t = Some rs" using trackedD(1) [OF assms] by auto
  then have "rs_refs rs = ext t + int (f t)" "0 \<le> ext t"
    using trackedD(2,3) [OF assms(1), of t] by (simp_all add: refs_def)
  with assms rs show ?thesis by (auto simp: tracked_def DecRef_def refs_def dom_def)
qed

lemma decRefs_tracked:
  "tracked store ext (\<lambda>t. f t + count_list ts t) \<Longrightarrow>
   \<exists>store'. decRefs store ts = Some store' \<and> tracked store' ext f \<and> dom store' = dom store"
proof (induction ts arbitrary: store)
  case (Cons t ts)
  let ?g = "\<lambda>x. f x + count_list (t # ts) x"
  have eq: "?g(t := ?g t - 1) = (\<lambda>x. f x + count_list ts x)" by auto
  have "?g t > 0" by simp
  from DecRef_tracked [OF Cons.prems this] obtain s1 where
    s1: "DecRef store t = Some s1" "tracked s1 ext (\<lambda>x. f x + count_list ts x)" "dom s1 = dom store"
    unfolding eq by blast
  from Cons.IH [OF s1(2)] s1 show ?case by auto
qed simp

definition heldBy :: "rule_set_item option \<Rightarrow> tag \<Rightarrow> nat" where
  "heldBy rsi t = (case rsi of None \<Rightarrow> 0 | Some r \<Rightarrow> count_list (rsi_setList r) t)"

lemma heldBy_simps [simp]:
  "heldBy None = (\<lambda>_. 0)" "heldBy (Some r) = count_list (rsi_setList r)"
  by (auto simp: heldBy_def)

lemma RuleSetItem_Close_tracked:
  assumes "tracked store ext (\<lambda>t. f t + heldBy (Some r) t)"
  shows "\<exists>store'. RuleSetItem_Close store r = Some (store', r\<lparr>rsi_setList := []\<rparr>) \<and>
    tracked store' ext f \<and> dom store' = dom store"
  using decRefs_tracked [of store ext f "rsi_setList r"] assms by (auto simp: RuleSetItem_Close_def)

lemma acquire_tracked:
  "tracked store ext (\<lambda>t. f t + heldBy (Some r) t) \<Longrightarrow>
   \<exists>e store' r'. acquire ts store r = Some (e, store', r') \<and>
     tracked store' ext (\<lambda>t. f t + heldBy (Some r') t) \<and> dom store' = dom store \<and>
     (e = None \<longrightarrow> r' = r\<lparr>rsi_setList := rsi_setList r @ ts\<rparr>) \<and>
     (e \<noteq> None \<longrightarrow> r' = r\<lparr>rsi_setList := []\<rparr>) \<and>
     (e = None \<longleftrightarrow> set ts \<subseteq> dom store)"
proof (induction ts arbitrary: store r)
  case (Cons t ts)
  show ?case
  proof (cases "store t")
    case None
    with RuleSetItem_Close_tracked [OF Cons.prems] show ?thesis by auto
  next
    case (Some rs)
    let ?r = "r\<lparr>rsi_setList := rsi_setList r @ [t]\<rparr>"
    let ?f = "\<lambda>x. f x + heldBy (Some r) x"
    have upd: "?f(t := Suc (?f t)) = (\<lambda>x. f x + heldBy (Some ?r) x)" by auto
    from Some have "store t \<noteq> None" by simp
    from IncRef_tracked [OF Cons.prems this] have
      inc: "tracked (IncRef store t) ext (\<lambda>x. f x + heldBy (Some ?r) x)" "dom (IncRef store t) = dom store"
      unfolding upd by blast+
    from Cons.IH [OF inc(1)] inc(2) Some show ?thesis by auto
  qed
qed auto

lemma RuleSetItem_Start_tracked:
  assumes "tracked store ext (\<lambda>t. f t + heldBy (Some r) t)"
  shows "\<exists>e store' r'. RuleSetItem_Start store r = Some (e, store', r') \<and>
    tracked store' ext (\<lambda>t. f t + heldBy (Some r') t) \<and> dom store' = dom store \<and>
    (e = None \<longrightarrow> r' = r\<lparr>rsi_setList := rsi_tagList r\<rparr>) \<and>
    (e \<noteq> None \<longrightarrow> r' = r\<lparr>rsi_setList := []\<rparr>) \<and>
    (e = None \<longleftrightarrow> set (rsi_tagList r) \<subseteq> dom store)"
proof -
  from RuleSetItem_Close_tracked [OF assms] obtain s1 where
    s1: "RuleSetItem_Close store r = Some (s1, r\<lparr>rsi_setList := []\<rparr>)" "tracked s1 ext f" "dom s1 = dom store"
    by blast
  then have "tracked s1 ext (\<lambda>t. f t + heldBy (Some (r\<lparr>rsi_setList := []\<rparr>)) t)" by simp
  from acquire_tracked [OF this, of "rsi_tagList r"] s1 show ?thesis
    by (auto simp: RuleSetItem_Start_def)
qed

lemma startAll_tracked:
  "tracked store ext (\<lambda>t. f t + heldBy rsi t) \<Longrightarrow>
   \<exists>e store' rsi'. startAll svc its store rsi = Some (e, store', rsi') \<and>
     tracked store' ext (\<lambda>t. f t + heldBy rsi' t) \<and> dom store' = dom store"
proof (induction its arbitrary: store rsi)
  case (Cons it its)
  show ?case
  proof (cases it)
    case (Plain i)
    with Cons show ?thesis by (cases "item_Start svc i") auto
  next
    case ref: RuleSetRef
    show ?thesis
    proof (cases rsi)
      case None
      with ref Cons show ?thesis by auto
    next
      case (Some r)
      with Cons.prems have "tracked store ext (\<lambda>t. f t + heldBy (Some r) t)" by simp
      from RuleSetItem_Start_tracked [OF this] obtain e s1 r1 where
        s1: "RuleSetItem_Start store r = Some (e, s1, r1)"
          "tracked s1 ext (\<lambda>t. f t + heldBy (Some r1) t)" "dom s1 = dom store" by blast
      from Cons.IH [OF s1(2)] s1 ref Some show ?thesis by (cases e) auto
    qed
  qed
qed auto

lemma closeAll_tracked:
  "tracked store ext (\<lambda>t. f t + heldBy rsi t) \<Longrightarrow>
   \<exists>store' rsi'. closeAll its store rsi = Some (store', rsi') \<and>
     tracked store' ext (\<lambda>t. f t + heldBy rsi' t) \<and> dom store' = dom store \<and>
     ((rsi = None \<or> rsi_setList (the rsi) = [] \<or> RuleSetRef \<in> set its) \<longrightarrow>
      (rsi' = None \<or> rsi_setList (the rsi') = []))"
proof (induction its arbitrary: store rsi)
  case (Cons it its)
  show ?case
  proof (cases it)
    case (Plain i)
    with Cons show ?thesis by auto
  next
    case ref: RuleSetRef
    show ?thesis
    proof (cases rsi)
      case None
      with ref Cons.IH [of store None] Cons.prems show ?thesis by auto
    next
      case (Some r)
      with Cons.prems have "tracked store ext (\<lambda>t. f t + heldBy (Some r) t)" by simp
      from RuleSetItem_Close_tracked [OF this] obtain s1 where
        s1: "RuleSetItem_Close store r = Some (s1, r\<lparr>rsi_setList := []\<rparr>)" "tracked s1 ext f"
          "dom s1 = dom store" by blast
      then have "tracked s1 ext (\<lambda>t. f t + heldBy (Some (r\<lparr>rsi_setList := []\<rparr>)) t)" by simp
      from Cons.IH [OF this] s1 ref Some show ?thesis by auto
    qed
  qed
qed (auto simp: heldBy_def)

section \<open>Whole rules\<close>

fun held :: "route_rule \<Rightarrow> tag \<Rightarrow> nat" where
  "held (DefaultRule r) t = heldBy (ruleSetItem r) t"
| "held (LogicalRule rules _ _ _) t = sum_list (map (\<lambda>r. held r t) rules)"

definition heldList :: "route_rule list \<Rightarrow> tag \<Rightarrow> nat" where
  "heldList rules t = sum_list (map (\<lambda>r. held r t) rules)"

lemma heldList_simps [simp]:
  "heldList [] = (\<lambda>_. 0)" "heldList (r # rs) t = held r t + heldList rs t"
  "held (LogicalRule rules mode inverted act) = heldList rules"
  by (auto simp: heldList_def fun_eq_iff)

declare held.simps(2) [simp del]

text \<open>A rule with a rule-set item lists it in \<^verbatim>\<open>allItems\<close>, so closing reaches it.\<close>

definition closable :: "route_rule \<Rightarrow> bool" where
  "closable rule \<longleftrightarrow> (\<forall>r\<in>set_rule_tree rule. ruleSetItem r \<noteq> None \<longrightarrow> RuleSetRef \<in> set (allItems r))"

lemma start_tracked:
  "tracked store ext (\<lambda>t. f t + held rule t) \<Longrightarrow>
   \<exists>e store' rule'. rule_Start svc store rule = Some (e, store', rule') \<and>
     tracked store' ext (\<lambda>t. f t + held rule' t) \<and> dom store' = dom store"
  "tracked store ext (\<lambda>t. f t + heldList rules t) \<Longrightarrow>
   \<exists>e store' rules'. rules_Start svc store rules = Some (e, store', rules') \<and>
     tracked store' ext (\<lambda>t. f t + heldList rules' t) \<and> dom store' = dom store"
proof (induction svc store rule and svc store rules arbitrary: f and f rule: rule_Start_rules_Start.induct)
  case (1 svc store r)
  then have "tracked store ext (\<lambda>t. f t + heldBy (ruleSetItem r) t)" by simp
  from startAll_tracked [OF this, of svc "allItems r"] obtain e s1 rsi1 where
    "startAll svc (allItems r) store (ruleSetItem r) = Some (e, s1, rsi1)"
    "tracked s1 ext (\<lambda>t. f t + heldBy rsi1 t)" "dom s1 = dom store" by blast
  then show ?case by (cases e) (simp_all add: abstractDefaultRule_Start_def)
next
  case (2 svc store rules mode inverted act)
  then show ?case by (fastforce split: option.splits)
next
  case (3 svc store)
  then show ?case by auto
next
  case (4 svc store r rs)
  then have "tracked store ext (\<lambda>t. (f t + heldList rs t) + held r t)" by (simp add: add_ac)
  from "4.IH"(1) [OF this] obtain e s1 r1 where
    s1: "rule_Start svc store r = Some (e, s1, r1)"
      "tracked s1 ext (\<lambda>t. (f t + heldList rs t) + held r1 t)" "dom s1 = dom store" by blast
  then have t1: "tracked s1 ext (\<lambda>t. (f t + held r1 t) + heldList rs t)" by (simp add: add_ac)
  show ?case
  proof (cases e)
    case (Some err)
    with s1 t1 show ?thesis by (auto simp: add_ac)
  next
    case None
    from "4.IH"(2) [OF s1(1) refl None refl t1] obtain e2 s2 rs2 where
      "rules_Start svc s1 rs = Some (e2, s2, rs2)"
      "tracked s2 ext (\<lambda>t. (f t + held r1 t) + heldList rs2 t)" "dom s2 = dom s1" by blast
    with s1 None show ?thesis by (auto simp: add_ac)
  qed
qed

text \<open>Closing a closable rule returns everything it holds.\<close>

lemma close_tracked:
  "tracked store ext (\<lambda>t. f t + held rule t) \<Longrightarrow> closable rule \<Longrightarrow>
   \<exists>store' rule'. rule_Close store rule = Some (store', rule') \<and>
     tracked store' ext f \<and> held rule' = (\<lambda>_. 0) \<and> dom store' = dom store"
  "tracked store ext (\<lambda>t. f t + heldList rules t) \<Longrightarrow> \<forall>r\<in>set rules. closable r \<Longrightarrow>
   \<exists>store' rules'. rules_Close store rules = Some (store', rules') \<and>
     tracked store' ext f \<and> heldList rules' = (\<lambda>_. 0) \<and> dom store' = dom store"
proof (induction store rule and store rules arbitrary: f and f rule: rule_Close_rules_Close.induct)
  case (1 store r)
  then have "tracked store ext (\<lambda>t. f t + heldBy (ruleSetItem r) t)" by simp
  from closeAll_tracked [OF this, of "allItems r"] "1.prems"(2) obtain s1 rsi1 where
    c: "closeAll (allItems r) store (ruleSetItem r) = Some (s1, rsi1)"
      "tracked s1 ext (\<lambda>t. f t + heldBy rsi1 t)" "dom s1 = dom store"
      "rsi1 = None \<or> rsi_setList (the rsi1) = []"
    by (auto simp: closable_def)
  then have "heldBy rsi1 = (\<lambda>_. 0)" by (cases rsi1) (auto simp: fun_eq_iff)
  with c show ?case by (auto simp: abstractDefaultRule_Close_def fun_eq_iff)
next
  case (2 store rules mode inverted act)
  from "2.prems"(2) have "\<forall>r\<in>set rules. closable r" by (auto simp: closable_def)
  moreover from "2.prems"(1) have "tracked store ext (\<lambda>t. f t + heldList rules t)" by simp
  ultimately show ?case using "2.IH" by fastforce
next
  case (3 store)
  then show ?case by auto
next
  case (4 store r rs)
  then have "tracked store ext (\<lambda>t. (f t + heldList rs t) + held r t)" by (simp add: add_ac)
  with "4.IH"(1) "4.prems"(2) obtain s1 r1 where
    s1: "rule_Close store r = Some (s1, r1)" "tracked s1 ext (\<lambda>t. f t + heldList rs t)"
      "held r1 = (\<lambda>_. 0)" "dom s1 = dom store" by force
  from "4.IH"(2) [OF s1(1) refl s1(2)] "4.prems"(2) obtain s2 rs2 where
    "rules_Close s1 rs = Some (s2, rs2)" "tracked s2 ext f" "heldList rs2 = (\<lambda>_. 0)" "dom s2 = dom s1"
    by auto
  with s1 show ?case by (auto simp: fun_eq_iff)
qed

text \<open>Starting keeps rules closable.\<close>

lemma startAll_rsi:
  "startAll svc its store rsi = Some (e, store', rsi') \<Longrightarrow> (rsi' = None) = (rsi = None)"
  by (induction svc its store rsi arbitrary: rsi' rule: startAll.induct)
     (auto split: sum.splits option.splits prod.splits)

lemma start_closable:
  "rule_Start svc store rule = Some (e, store', rule') \<Longrightarrow> closable rule \<Longrightarrow> closable rule'"
  "rules_Start svc store rules = Some (e, store', rules') \<Longrightarrow> \<forall>r\<in>set rules. closable r \<Longrightarrow>
     \<forall>r\<in>set rules'. closable r"
proof (induction svc store rule and svc store rules arbitrary: e store' rule' and e store' rules'
    rule: rule_Start_rules_Start.induct)
  case (1 svc store r)
  have ref: "RuleSetRef \<in> set (allItems r) \<Longrightarrow>
    RuleSetRef \<in> (\<lambda>it. case it of Plain i \<Rightarrow> Plain (startItem svc i) | RuleSetRef \<Rightarrow> RuleSetRef) ` set (allItems r)"
    by (rule image_eqI [of _ _ RuleSetRef]) auto
  from 1 show ?case
    by (auto simp: abstractDefaultRule_Start_def closable_def startGroups_def
        dest!: startAll_rsi intro: ref split: option.splits prod.splits)
next
  case (2 svc store rules mode inverted act)
  from "2.prems"(1) obtain s1 rules1 where
    r: "rules_Start svc store rules = Some (e, s1, rules1)" "rule' = LogicalRule rules1 mode inverted act"
    by (auto split: option.splits)
  have "\<forall>r\<in>set rules. closable r" using "2.prems"(2) by (auto simp: closable_def)
  with "2.IH" [OF r(1)] r(2) show ?case by (auto simp: closable_def)
next
  case (4 svc store r rs)
  from "4.prems"(1) obtain e1 s1 r1 where r1: "rule_Start svc store r = Some (e1, s1, r1)"
    by (auto split: option.splits)
  have c1: "closable r1" using "4.IH"(1) [OF r1] "4.prems"(2) by simp
  show ?case
  proof (cases e1)
    case (Some err)
    with "4.prems" r1 c1 show ?thesis by auto
  next
    case None
    with "4.prems"(1) r1 obtain rs2 e2 s2 where
      r2: "rules_Start svc s1 rs = Some (e2, s2, rs2)" "rules' = r1 # rs2"
      by (auto split: option.splits)
    from "4.IH"(2) [OF r1 refl None refl r2(1)] "4.prems"(2) r2(2) c1 show ?thesis by simp
  qed
qed auto

lemma tracked_fresh:
  "tracked store (\<lambda>_. 0) (heldList rules) \<longleftrightarrow>
   (\<forall>t. heldList rules t > 0 \<longrightarrow> store t \<noteq> None) \<and> (\<forall>t rs. store t = Some rs \<longrightarrow> rs_refs rs = int (heldList rules t))"
  by (auto simp: tracked_def refs_def split: option.splits)

section \<open>Reloading and updating\<close>

lemma reloadRules_cases:
  "reloadRules l nm validator os rs = Ret rs' \<Longrightarrow>
   rs_metadata rs' = buildRuleSetMetadata os \<and> rs_refs rs' = rs_refs rs \<and>
   buildRules l nm os 0 = Ret (rs_rules rs') \<and> validator (buildRuleSetMetadata os) = None"
  by (auto simp: reloadRules_def split: outcome.splits option.splits)

lemma min_fold: "foldl (\<lambda>next u. if u < next then u else next) (n0 :: int) ns = Min (set (n0 # ns))"
proof -
  have "(\<lambda>u next. if u < next then u else next) = (min :: int \<Rightarrow> _)"
    by (auto simp: fun_eq_iff min_def)
  then show ?thesis by (simp only: foldl_conv_fold Min.set_eq_fold)
qed

lemma waitUntilNext_Min:
  assumes "ns \<noteq> []"
  shows "waitUntilNext now ns = Some (max 0 (Min (set ns) - now))"
proof -
  have clamp: "(if w < 0 then 0 else w) = max 0 w" for w :: int by (simp add: max_def)
  from assms obtain n0 ns' where "ns = n0 # ns'" by (cases ns) auto
  then show ?thesis by (simp only: waitUntilNext_def list.case Let_def min_fold clamp)
qed

lemma updaterPass_future:
  assumes "length ns = length is" "\<forall>i\<in>set is. 0 < i"
  shows "\<forall>n\<in>set (snd (updaterPass now ns is)). now < n"
  using assms
  by (induction ns "is" rule: list_induct2) (auto simp: updaterPass_def nextUpdate1_def Let_def)

end
