(* ===== verification/Rule_Build_Facts.thy ===== *)
theory Rule_Build_Facts
  imports Rule_DNS Rule_Set_Facts
begin

text \<open>
  From options to behaviour: what the constructors of rules build, which options they refuse, and
  the documented formula of a default rule written over the option fields themselves.
\<close>

section \<open>Running the steps\<close>

definition picked :: "build_step list \<Rightarrow> (item_group \<times> rule_item) list" where
  "picked steps = concat (map (\<lambda>s. case s of Inr (Some p) \<Rightarrow> [p] | _ \<Rightarrow> []) steps)"

definition inGroup :: "item_group \<Rightarrow> build_step list \<Rightarrow> rule_item list" where
  "inGroup g steps = map snd (filter (\<lambda>p. fst p = g) (picked steps))"

lemma picked_simps [simp]:
  "picked [] = []" "picked (Inl e # steps) = picked steps" "picked (Inr None # steps) = picked steps"
  "picked (Inr (Some p) # steps) = p # picked steps"
  by (simp_all add: picked_def)

lemma inGroup_simps [simp]:
  "inGroup g [] = []" "inGroup g (Inl e # steps) = inGroup g steps" "inGroup g (Inr None # steps) = inGroup g steps"
  "inGroup g (Inr (Some (g', i)) # steps) = (if g' = g then i # inGroup g steps else inGroup g steps)"
  by (simp_all add: inGroup_def)

lemma assemble_Inr:
  "assemble steps r = Inr r' \<Longrightarrow>
   items r' = items r @ inGroup GItems steps \<and>
   sourceAddressItems r' = sourceAddressItems r @ inGroup GSrcAddr steps \<and>
   sourcePortItems r' = sourcePortItems r @ inGroup GSrcPort steps \<and>
   destinationAddressItems r' = destinationAddressItems r @ inGroup GDstAddr steps \<and>
   destinationIPCIDRItems r' = destinationIPCIDRItems r @ inGroup GDstIP steps \<and>
   destinationPortItems r' = destinationPortItems r @ inGroup GDstPort steps \<and>
   allItems r' = allItems r @ map (Plain \<circ> snd) (picked steps) \<and>
   ruleSetItem r' = ruleSetItem r \<and> invert r' = invert r \<and> action r' = action r"
proof (induction steps r rule: assemble.induct)
  case (4 g i steps r)
  then show ?case by (cases g) auto
qed auto

lemma assemble_Inl_iff: "assemble steps r = Inl e \<longleftrightarrow> find isl steps = Some (Inl e)"
  by (induction steps r rule: assemble.induct) auto

lemma assemble_not_isl: "assemble steps r = Inr r' \<Longrightarrow> s \<in> set steps \<Longrightarrow> \<not> isl s"
  by (induction steps r rule: assemble.induct) auto

text \<open>A step puts an item with property \<open>P\<close> into group \<open>g\<close>.\<close>

definition hit :: "(rule_item \<Rightarrow> bool) \<Rightarrow> item_group \<Rightarrow> build_step \<Rightarrow> bool" where
  "hit P g s \<longleftrightarrow> (\<exists>i. s = Inr (Some (g, i)) \<and> P i)"

lemma hit_simps [simp]:
  "\<not> hit P g (Inl e)" "\<not> hit P g (Inr None)" "hit P g (Inr (Some (g', i))) \<longleftrightarrow> g' = g \<and> P i"
  by (auto simp: hit_def)

lemma ex_inGroup: "(\<exists>i\<in>set (inGroup g steps). P i) \<longleftrightarrow> list_ex (hit P g) steps"
proof (induction steps)
  case (Cons s steps)
  consider e where "s = Inl e" | "s = Inr None" | g' i where "s = Inr (Some (g', i))"
    by (metis old.prod.exhaust option.exhaust sum.exhaust)
  then show ?case using Cons by cases auto
qed simp

lemma inGroup_Nil: "inGroup g steps = [] \<longleftrightarrow> \<not> list_ex (hit (\<lambda>_. True) g) steps"
  using ex_inGroup [of g steps "\<lambda>_. True"] by (cases "inGroup g steps") auto

lemma hit_put: "hit P g (put cond g' i) \<longleftrightarrow> cond \<and> g' = g \<and> P i"
  by (auto simp: hit_def put_def)

lemma hit_putErr: "hit P g (putErr cond g' w r) \<longleftrightarrow> cond \<and> g' = g \<and> (\<exists>i. r = Inr i \<and> P i)"
  by (auto simp: hit_def putErr_def split: sum.splits)

lemma hit_refuse [simp]: "\<not> hit P g (refuse cond msg)"
  by (simp add: hit_def refuse_def)

lemma hit_ipVersion:
  "hit P g (ipVersionStep v) \<longleftrightarrow> (v = 4 \<or> v = 6) \<and> g = GItems \<and> P (NewIPVersionItem (v = 6))"
  by (auto simp: hit_def ipVersionStep_def)

lemmas hits = hit_put hit_putErr hit_ipVersion

lemma isl_put [simp]: "\<not> isl (put cond g i)" by (simp add: put_def)

lemma isl_putErr: "isl (putErr cond g w r) \<longleftrightarrow> cond \<and> isl r"
  by (auto simp: putErr_def split: sum.splits)

lemma isl_refuse: "isl (refuse cond msg) \<longleftrightarrow> cond"
  by (simp add: refuse_def)

lemma isl_ipVersion: "isl (ipVersionStep v) \<longleftrightarrow> v > 0 \<and> v \<noteq> 4 \<and> v \<noteq> 6"
  by (auto simp: ipVersionStep_def)

lemmas isls = isl_putErr isl_refuse isl_ipVersion

section \<open>The formula over the options\<close>

text \<open>The documented condition of a rule assembled from an empty one.\<close>

lemma documented_assembled:
  assumes "assemble steps (emptyRule inverted act) = Inr r"
  shows "documentedMatch m r c \<longleftrightarrow>
    (list_ex (hit (\<lambda>_. True) GDstAddr) steps \<or> list_ex (hit (\<lambda>_. True) GDstIP) steps \<longrightarrow>
       list_ex (hit (\<lambda>i. m i c) GDstAddr) steps \<or> list_ex (hit (\<lambda>i. m i c) GDstIP) steps) \<and>
    (list_ex (hit (\<lambda>_. True) GDstPort) steps \<longrightarrow> list_ex (hit (\<lambda>i. m i c) GDstPort) steps) \<and>
    (list_ex (hit (\<lambda>_. True) GSrcAddr) steps \<longrightarrow> list_ex (hit (\<lambda>i. m i c) GSrcAddr) steps) \<and>
    (list_ex (hit (\<lambda>_. True) GSrcPort) steps \<longrightarrow> list_ex (hit (\<lambda>i. m i c) GSrcPort) steps) \<and>
    \<not> list_ex (hit (\<lambda>i. \<not> m i c) GItems) steps"
proof -
  have all: "(\<forall>i\<in>set (inGroup g steps). m i c) \<longleftrightarrow> \<not> list_ex (hit (\<lambda>i. \<not> m i c) g) steps" for g
    using ex_inGroup [of g steps "\<lambda>i. \<not> m i c"] by blast
  have one: "groupHolds m (inGroup g steps) c \<longleftrightarrow>
      (list_ex (hit (\<lambda>_. True) g) steps \<longrightarrow> list_ex (hit (\<lambda>i. m i c) g) steps)" for g
    unfolding groupHolds_def inGroup_Nil ex_inGroup by blast
  have two: "groupHolds m (inGroup g steps @ inGroup g' steps) c \<longleftrightarrow>
      (list_ex (hit (\<lambda>_. True) g) steps \<or> list_ex (hit (\<lambda>_. True) g') steps \<longrightarrow>
       list_ex (hit (\<lambda>i. m i c) g) steps \<or> list_ex (hit (\<lambda>i. m i c) g') steps)" for g g'
    unfolding groupHolds_def append_is_Nil_conv set_append bex_Un inGroup_Nil ex_inGroup by blast
  from assemble_Inr [OF assms] show ?thesis
    by (simp only: documentedMatch_def emptyRule_def one two all append_Nil
        abstractDefaultRule.select_convs)
qed

text \<open>The conditions of a configured route rule, field by field.\<close>

definition connectionSpec :: "lib \<Rightarrow> raw_default_rule \<Rightarrow> inbound_context \<Rightarrow> bool" where
  "connectionSpec l o1 c \<longleftrightarrow>
     (r_Inbound o1 \<noteq> [] \<longrightarrow> Inbound c \<in> set (r_Inbound o1)) \<and>
     (r_IPVersion o1 > 0 \<longrightarrow> IPVersionItem_Match l (r_IPVersion o1 = 6) c) \<and>
     (r_Network o1 \<noteq> [] \<longrightarrow> Network c \<in> set (r_Network o1)) \<and>
     (r_AuthUser o1 \<noteq> [] \<longrightarrow> User c \<in> set (r_AuthUser o1)) \<and>
     (r_Protocol o1 \<noteq> [] \<longrightarrow> Protocol c \<in> set (r_Protocol o1)) \<and>
     (r_Client o1 \<noteq> [] \<longrightarrow> Client c \<in> set (r_Client o1))"

definition ipSetOf :: "lib \<Rightarrow> string list \<Rightarrow> (addr \<Rightarrow> bool) option" where
  "ipSetOf l prefixes =
     (case map_err_from 0 (parseIPSetEntry l) prefixes of Inl _ \<Rightarrow> None | Inr ops \<Rightarrow> lib_IPSet l ops)"

definition destinationSpec :: "lib \<Rightarrow> raw_default_rule \<Rightarrow> inbound_context \<Rightarrow> bool" where
  "destinationSpec l o1 c \<longleftrightarrow>
     (r_Domain o1 \<noteq> [] \<or> r_DomainSuffix o1 \<noteq> [] \<or> r_DomainKeyword o1 \<noteq> [] \<or> r_DomainRegex o1 \<noteq> [] \<or>
      r_IPCIDR o1 \<noteq> [] \<or> r_IPIsPrivate o1 \<longrightarrow>
      (r_Domain o1 \<noteq> [] \<or> r_DomainSuffix o1 \<noteq> []) \<and> domainHost c \<noteq> [] \<and>
        lib_NewMatcher l (r_Domain o1) (r_DomainSuffix o1) False (lib_ToLower l (domainHost c)) \<or>
      domainHost c \<noteq> [] \<and> (\<exists>k\<in>set (r_DomainKeyword o1). \<exists>a b. lib_ToLower l (domainHost c) = a @ k @ b) \<or>
      domainHost c \<noteq> [] \<and>
        (\<exists>e\<in>set (r_DomainRegex o1). \<exists>p. lib_RegexpCompile l e = Some p \<and> p (lib_ToLower l (domainHost c))) \<or>
      r_IPCIDR o1 \<noteq> [] \<and>
        (\<exists>ipSet. ipSetOf l (r_IPCIDR o1) = Some ipSet \<and> IPCIDRItem_Match l ipSet False c) \<or>
      r_IPIsPrivate o1 \<and> IPIsPrivateItem_Match l False c)"

definition sourceSpec :: "lib \<Rightarrow> raw_default_rule \<Rightarrow> inbound_context \<Rightarrow> bool" where
  "sourceSpec l o1 c \<longleftrightarrow>
     (r_SourceIPCIDR o1 \<noteq> [] \<or> r_SourceIPIsPrivate o1 \<longrightarrow>
      r_SourceIPCIDR o1 \<noteq> [] \<and>
        (\<exists>ipSet. ipSetOf l (r_SourceIPCIDR o1) = Some ipSet \<and> ipSet (sa_Addr (Source c))) \<or>
      r_SourceIPIsPrivate o1 \<and> \<not> lib_IsPublicAddr l (sa_Addr (Source c)))"

definition portIn :: "u16 list \<Rightarrow> string list \<Rightarrow> u16 \<Rightarrow> bool" where
  "portIn ports ranges p \<longleftrightarrow>
     p \<in> set ports \<or> (\<exists>r\<in>set ranges. \<exists>a b. parsePortRange r = Inr (a, b) \<and> a \<le> p \<and> p \<le> b)"

definition portSpec :: "raw_default_rule \<Rightarrow> inbound_context \<Rightarrow> bool" where
  "portSpec o1 c \<longleftrightarrow>
     (r_SourcePort o1 \<noteq> [] \<or> r_SourcePortRange o1 \<noteq> [] \<longrightarrow>
      portIn (r_SourcePort o1) (r_SourcePortRange o1) (sa_Port (Source c))) \<and>
     (r_Port o1 \<noteq> [] \<or> r_PortRange o1 \<noteq> [] \<longrightarrow>
      portIn (r_Port o1) (r_PortRange o1) (sa_Port (Destination c)))"

definition processSpec :: "lib \<Rightarrow> raw_default_rule \<Rightarrow> inbound_context \<Rightarrow> bool" where
  "processSpec l o1 c \<longleftrightarrow>
     (r_TunnelSource o1 \<noteq> [] \<longrightarrow> TunnelSource c \<in> set (r_TunnelSource o1)) \<and>
     (r_TunnelDestination o1 \<noteq> [] \<longrightarrow> TunnelDestination c \<in> set (r_TunnelDestination o1)) \<and>
     (r_ProcessName o1 \<noteq> [] \<longrightarrow>
       (\<exists>i. ProcessInfo c = Some i \<and> ProcessPath i \<noteq> [] \<and>
          lib_FilepathBase l (ProcessPath i) \<in> set (r_ProcessName o1))) \<and>
     (r_ProcessPath o1 \<noteq> [] \<longrightarrow>
       (\<exists>i. ProcessInfo c = Some i \<and>
          (ProcessPath i \<noteq> [] \<and> ProcessPath i \<in> set (r_ProcessPath o1) \<or>
           lib_IsAndroid l \<and> set (AndroidPackageNames i) \<inter> set (r_ProcessPath o1) \<noteq> {}))) \<and>
     (r_ProcessPathRegex o1 \<noteq> [] \<longrightarrow>
       (\<exists>i. ProcessInfo c = Some i \<and> ProcessPath i \<noteq> [] \<and>
          (\<exists>e\<in>set (r_ProcessPathRegex o1). \<exists>p. lib_RegexpCompile l e = Some p \<and> p (ProcessPath i)))) \<and>
     (r_PackageName o1 \<noteq> [] \<longrightarrow>
       (\<exists>i. ProcessInfo c = Some i \<and> set (AndroidPackageNames i) \<inter> set (r_PackageName o1) \<noteq> {})) \<and>
     (r_PackageNameRegex o1 \<noteq> [] \<longrightarrow>
       (\<exists>i. ProcessInfo c = Some i \<and> (\<exists>n\<in>set (AndroidPackageNames i). \<exists>e\<in>set (r_PackageNameRegex o1).
          \<exists>p. lib_RegexpCompile l e = Some p \<and> p n))) \<and>
     (r_User o1 \<noteq> [] \<longrightarrow> (\<exists>i. ProcessInfo c = Some i \<and> UserName i \<noteq> [] \<and> UserName i \<in> set (r_User o1))) \<and>
     (r_UserID o1 \<noteq> [] \<longrightarrow> (\<exists>i. ProcessInfo c = Some i \<and> UserId i \<noteq> - 1 \<and> UserId i \<in> set (r_UserID o1)))"

definition environmentSpec :: "lib \<Rightarrow> net_env \<Rightarrow> services \<Rightarrow> raw_default_rule \<Rightarrow> inbound_context \<Rightarrow> bool" where
  "environmentSpec l env svc o1 c \<longleftrightarrow>
     (r_ClashMode o1 \<noteq> [] \<longrightarrow> svc_ClashServer svc \<and> lib_EqualFold l (env_ClashMode env) (r_ClashMode o1)) \<and>
     (r_NetworkType o1 \<noteq> [] \<longrightarrow>
       (\<exists>i. env_DefaultNetworkInterface env = Some i \<and> ni_Type i \<in> set (r_NetworkType o1))) \<and>
     (r_NetworkIsExpensive o1 \<longrightarrow> (\<exists>i. env_DefaultNetworkInterface env = Some i \<and> ni_Expensive i)) \<and>
     (r_NetworkIsConstrained o1 \<longrightarrow> (\<exists>i. env_DefaultNetworkInterface env = Some i \<and> ni_Constrained i)) \<and>
     (r_WIFISSID o1 \<noteq> [] \<longrightarrow> SSID (env_WIFIState env) \<in> set (r_WIFISSID o1)) \<and>
     (r_WIFIBSSID o1 \<noteq> [] \<longrightarrow> BSSID (env_WIFIState env) \<in> set (r_WIFIBSSID o1)) \<and>
     (r_InterfaceAddress o1 \<noteq> [] \<longrightarrow> item_Match l env (NewInterfaceAddressItem l (r_InterfaceAddress o1)) c) \<and>
     (r_NetworkInterfaceAddress o1 \<noteq> [] \<longrightarrow>
       item_Match l env (NewNetworkInterfaceAddressItem l (r_NetworkInterfaceAddress o1)) c) \<and>
     (r_DefaultInterfaceAddress o1 \<noteq> [] \<longrightarrow>
       item_Match l env (NewDefaultInterfaceAddressItem l (r_DefaultInterfaceAddress o1)) c) \<and>
     (r_SourceMACAddress o1 \<noteq> [] \<longrightarrow> item_Match l env (NewSourceMACAddressItem l (r_SourceMACAddress o1)) c) \<and>
     (r_SourceHostname o1 \<noteq> [] \<longrightarrow> SourceHostname c \<noteq> [] \<and> SourceHostname c \<in> set (r_SourceHostname o1)) \<and>
     (r_PreferredBy o1 \<noteq> [] \<longrightarrow> PreferredByItem_Match l env (r_PreferredBy o1) c)"

definition ruleSpec :: "lib \<Rightarrow> net_env \<Rightarrow> services \<Rightarrow> raw_default_rule \<Rightarrow> inbound_context \<Rightarrow> bool" where
  "ruleSpec l env svc o1 c \<longleftrightarrow>
     destinationSpec l o1 c \<and> portSpec o1 c \<and> sourceSpec l o1 c \<and>
     connectionSpec l o1 c \<and> processSpec l o1 c \<and> environmentSpec l env svc o1 c"

section \<open>Started items\<close>

lemma startItem_plain [simp]:
  "startItem svc (NewInboundRule xs) = NewInboundRule xs"
  "startItem svc (NewIPVersionItem b) = NewIPVersionItem b"
  "startItem svc (NewNetworkItem xs) = NewNetworkItem xs"
  "startItem svc (NewAuthUserItem xs) = NewAuthUserItem xs"
  "startItem svc (NewProtocolItem xs) = NewProtocolItem xs"
  "startItem svc (NewClientItem xs) = NewClientItem xs"
  "startItem svc (NewDomainKeywordItem xs) = NewDomainKeywordItem xs"
  "startItem svc (NewIPIsPrivateItem b) = NewIPIsPrivateItem b"
  "startItem svc (NewPortItem b ps) = NewPortItem b ps"
  "startItem svc (NewTunnelSourceItem xs) = NewTunnelSourceItem xs"
  "startItem svc (NewTunnelDestinationItem xs) = NewTunnelDestinationItem xs"
  "startItem svc (NewProcessItem xs) = NewProcessItem xs"
  "startItem svc (NewProcessPathItem xs) = NewProcessPathItem xs"
  "startItem svc (NewPackageNameItem xs) = NewPackageNameItem xs"
  "startItem svc (NewUserItem xs) = NewUserItem xs"
  "startItem svc (NewUserIDItem ids) = NewUserIDItem ids"
  "startItem svc (NewNetworkTypeItem ts) = NewNetworkTypeItem ts"
  "startItem svc NewNetworkIsExpensiveItem = NewNetworkIsExpensiveItem"
  "startItem svc NewNetworkIsConstrainedItem = NewNetworkIsConstrainedItem"
  "startItem svc (NewWIFISSIDItem xs) = NewWIFISSIDItem xs"
  "startItem svc (NewWIFIBSSIDItem xs) = NewWIFIBSSIDItem xs"
  "startItem svc (NewInterfaceAddressItem l es) = NewInterfaceAddressItem l es"
  "startItem svc (NewNetworkInterfaceAddressItem l ies) = NewNetworkInterfaceAddressItem l ies"
  "startItem svc (NewDefaultInterfaceAddressItem l xs) = NewDefaultInterfaceAddressItem l xs"
  "startItem svc (NewSourceMACAddressItem l xs) = NewSourceMACAddressItem l xs"
  "startItem svc (NewSourceHostnameItem xs) = NewSourceHostnameItem xs"
  by (simp_all add: startItem_def NewInboundRule_def NewIPVersionItem_def NewNetworkItem_def
      NewAuthUserItem_def NewProtocolItem_def NewClientItem_def NewDomainKeywordItem_def
      NewIPIsPrivateItem_def NewPortItem_def NewTunnelSourceItem_def NewTunnelDestinationItem_def
      NewProcessItem_def NewProcessPathItem_def NewPackageNameItem_def NewUserItem_def
      NewUserIDItem_def NewNetworkTypeItem_def NewNetworkIsExpensiveItem_def
      NewNetworkIsConstrainedItem_def NewWIFISSIDItem_def NewWIFIBSSIDItem_def
      NewInterfaceAddressItem_def NewNetworkInterfaceAddressItem_def
      NewDefaultInterfaceAddressItem_def NewSourceMACAddressItem_def NewSourceHostnameItem_def)

lemma startItem_fallible:
  "NewDomainItem l ds ss = Inr i \<Longrightarrow> startItem svc i = i"
  "NewDomainRegexItem l es = Inr i \<Longrightarrow> startItem svc i = i"
  "NewIPCIDRItem l src ps = Inr i \<Longrightarrow> startItem svc i = i"
  "NewPortRangeItem src rs = Inr i \<Longrightarrow> startItem svc i = i"
  "NewProcessPathRegexItem l es = Inr i \<Longrightarrow> startItem svc i = i"
  "NewPackageNameRegexItem l es = Inr i \<Longrightarrow> startItem svc i = i"
  by (auto simp: startItem_def NewDomainItem_def NewDomainRegexItem_def NewIPCIDRItem_def
      NewPortRangeItem_def NewProcessPathRegexItem_def NewPackageNameRegexItem_def Let_def
      split: if_splits sum.splits option.splits)

lemma startItem_clash:
  "item_Match l env (startItem svc (NewClashModeItem mode)) c \<longleftrightarrow>
     svc_ClashServer svc \<and> lib_EqualFold l (env_ClashMode env) mode"
  by (simp add: startItem_def NewClashModeItem_def ClashModeItem_Start_def ClashModeItem_Match_def)

lemma startItem_preferred:
  assumes "\<not> isl (item_Start svc (NewPreferredByItem ts))"
  shows "item_Match l env (startItem svc (NewPreferredByItem ts)) c = PreferredByItem_Match l env ts c"
proof -
  let ?f = "\<lambda>t. case svc_Outbound svc t of
      None \<Rightarrow> Inl (E_NewArg ''outbound not found: '' t)
    | Some (outboundType, withRoutes) \<Rightarrow>
        if \<not> withRoutes then Inl (E_NewArg ''outbound type does not support preferred routes: '' outboundType)
        else Inr t"
  from assms obtain ts' where ts': "map_err ?f ts = Inr ts'"
    by (auto simp: NewPreferredByItem_def PreferredByItem_Start_def split: sum.splits)
  then have "list_all2 (\<lambda>x y. ?f x = Inr y) ts ts'" by (simp add: map_err_Inr_iff)
  then have "ts' = ts"
    by (induction rule: list_all2_induct) (auto split: option.splits if_splits)
  with ts' show ?thesis
    by (simp add: startItem_def NewPreferredByItem_def PreferredByItem_Start_def)
qed

section \<open>The constructor and the formula\<close>

lemma NewIPCIDRItem_iff:
  "(\<exists>i. NewIPCIDRItem l src ps = Inr i \<and> P i) \<longleftrightarrow>
   (\<exists>ipSet. ipSetOf l ps = Some ipSet \<and>
      P (IPCIDRItem ipSet src (describeUpTo3 (if src then ''source_ip_cidr'' else ''ip_cidr'') ''...]'' ps)))"
  by (auto simp: NewIPCIDRItem_def ipSetOf_def Let_def split: sum.splits option.splits)

lemmas defaultRule_step_defs = defaultRule_steps_def defaultRule_connection_def
  defaultRule_addresses_def defaultRule_ports_def defaultRule_process_def defaultRule_environment_def

lemma steps_destination:
  "list_ex (hit P GDstAddr) (defaultRule_steps l o1) \<or> list_ex (hit P GDstIP) (defaultRule_steps l o1) \<longleftrightarrow>
   (r_Domain o1 \<noteq> [] \<or> r_DomainSuffix o1 \<noteq> []) \<and>
     (\<exists>i. NewDomainItem l (r_Domain o1) (r_DomainSuffix o1) = Inr i \<and> P i) \<or>
   r_DomainKeyword o1 \<noteq> [] \<and> P (NewDomainKeywordItem (r_DomainKeyword o1)) \<or>
   r_DomainRegex o1 \<noteq> [] \<and> (\<exists>i. NewDomainRegexItem l (r_DomainRegex o1) = Inr i \<and> P i) \<or>
   r_IPCIDR o1 \<noteq> [] \<and> (\<exists>i. NewIPCIDRItem l False (r_IPCIDR o1) = Inr i \<and> P i) \<or>
   r_IPIsPrivate o1 \<and> P (NewIPIsPrivateItem False)"
  by (simp add: defaultRule_step_defs hits)

lemma steps_source:
  "list_ex (hit P GSrcAddr) (defaultRule_steps l o1) \<longleftrightarrow>
   r_SourceIPCIDR o1 \<noteq> [] \<and> (\<exists>i. NewIPCIDRItem l True (r_SourceIPCIDR o1) = Inr i \<and> P i) \<or>
   r_SourceIPIsPrivate o1 \<and> P (NewIPIsPrivateItem True)"
  by (simp add: defaultRule_step_defs hits)

lemma steps_ports:
  "list_ex (hit P GSrcPort) (defaultRule_steps l o1) \<longleftrightarrow>
   r_SourcePort o1 \<noteq> [] \<and> P (NewPortItem True (r_SourcePort o1)) \<or>
   r_SourcePortRange o1 \<noteq> [] \<and> (\<exists>i. NewPortRangeItem True (r_SourcePortRange o1) = Inr i \<and> P i)"
  "list_ex (hit P GDstPort) (defaultRule_steps l o1) \<longleftrightarrow>
   r_Port o1 \<noteq> [] \<and> P (NewPortItem False (r_Port o1)) \<or>
   r_PortRange o1 \<noteq> [] \<and> (\<exists>i. NewPortRangeItem False (r_PortRange o1) = Inr i \<and> P i)"
  by (simp_all add: defaultRule_step_defs hits)

lemma steps_items:
  "list_ex (hit P GItems) (defaultRule_steps l o1) \<longleftrightarrow>
   list_ex (hit P GItems) (defaultRule_connection o1) \<or>
   list_ex (hit P GItems) (defaultRule_process l o1) \<or>
   list_ex (hit P GItems) (defaultRule_environment l o1)"
  by (simp add: defaultRule_steps_def defaultRule_addresses_def defaultRule_ports_def hits)

text \<open>A successful construction has built every configured fallible item.\<close>

lemma steps_success:
  assumes "assemble (defaultRule_steps l o1) r0 = Inr r"
  shows "(r_Domain o1 \<noteq> [] \<or> r_DomainSuffix o1 \<noteq> []) \<longrightarrow> (\<exists>i. NewDomainItem l (r_Domain o1) (r_DomainSuffix o1) = Inr i)"
    "r_DomainRegex o1 \<noteq> [] \<longrightarrow> (\<exists>i. NewDomainRegexItem l (r_DomainRegex o1) = Inr i)"
    "r_IPCIDR o1 \<noteq> [] \<longrightarrow> (\<exists>i. NewIPCIDRItem l False (r_IPCIDR o1) = Inr i)"
    "r_SourceIPCIDR o1 \<noteq> [] \<longrightarrow> (\<exists>i. NewIPCIDRItem l True (r_SourceIPCIDR o1) = Inr i)"
    "r_SourcePortRange o1 \<noteq> [] \<longrightarrow> (\<exists>i. NewPortRangeItem True (r_SourcePortRange o1) = Inr i)"
    "r_PortRange o1 \<noteq> [] \<longrightarrow> (\<exists>i. NewPortRangeItem False (r_PortRange o1) = Inr i)"
    "r_ProcessPathRegex o1 \<noteq> [] \<longrightarrow> (\<exists>i. NewProcessPathRegexItem l (r_ProcessPathRegex o1) = Inr i)"
    "r_PackageNameRegex o1 \<noteq> [] \<longrightarrow> (\<exists>i. NewPackageNameRegexItem l (r_PackageNameRegex o1) = Inr i)"
    "r_IPVersion o1 > 0 \<longrightarrow> r_IPVersion o1 = 4 \<or> r_IPVersion o1 = 6"
proof -
  have ok: "\<forall>s\<in>set (defaultRule_steps l o1). \<not> isl s"
    using assemble_not_isl [OF assms] by blast
  have inr: "\<not> isl x \<Longrightarrow> \<exists>i. x = Inr i" for x :: "rule_error + rule_item" by (cases x) auto
  show "(r_Domain o1 \<noteq> [] \<or> r_DomainSuffix o1 \<noteq> []) \<longrightarrow> (\<exists>i. NewDomainItem l (r_Domain o1) (r_DomainSuffix o1) = Inr i)"
    "r_DomainRegex o1 \<noteq> [] \<longrightarrow> (\<exists>i. NewDomainRegexItem l (r_DomainRegex o1) = Inr i)"
    "r_IPCIDR o1 \<noteq> [] \<longrightarrow> (\<exists>i. NewIPCIDRItem l False (r_IPCIDR o1) = Inr i)"
    "r_SourceIPCIDR o1 \<noteq> [] \<longrightarrow> (\<exists>i. NewIPCIDRItem l True (r_SourceIPCIDR o1) = Inr i)"
    "r_SourcePortRange o1 \<noteq> [] \<longrightarrow> (\<exists>i. NewPortRangeItem True (r_SourcePortRange o1) = Inr i)"
    "r_PortRange o1 \<noteq> [] \<longrightarrow> (\<exists>i. NewPortRangeItem False (r_PortRange o1) = Inr i)"
    "r_ProcessPathRegex o1 \<noteq> [] \<longrightarrow> (\<exists>i. NewProcessPathRegexItem l (r_ProcessPathRegex o1) = Inr i)"
    "r_PackageNameRegex o1 \<noteq> [] \<longrightarrow> (\<exists>i. NewPackageNameRegexItem l (r_PackageNameRegex o1) = Inr i)"
    by (rule impI, rule inr, use ok in \<open>simp add: defaultRule_step_defs isls\<close>)+
  show "r_IPVersion o1 > 0 \<longrightarrow> r_IPVersion o1 = 4 \<or> r_IPVersion o1 = 6"
    using ok by (auto simp: defaultRule_step_defs isls)
qed

text \<open>
  What a configured fallible item contributes: the item exists whenever it is configured, so the
  step can be replaced by what the item matches once it is started.
\<close>

lemma configured_item:
  assumes "cond \<longrightarrow> (\<exists>i. r = Inr i)" "\<forall>i. r = Inr i \<longrightarrow> (P i \<longleftrightarrow> Q)"
  shows "cond \<and> (\<exists>i. r = Inr i \<and> P i) \<longleftrightarrow> cond \<and> Q"
  using assms by blast

lemma configured_some:
  assumes "cond \<longrightarrow> (\<exists>i. r = Inr i)"
  shows "cond \<and> (\<exists>i. r = Inr i \<and> True) \<longleftrightarrow> cond"
  using assms by blast

lemma none_hit: "\<not> list_ex (hit P g) steps \<longleftrightarrow> list_all (\<lambda>s. \<not> hit P g s) steps"
  by (simp add: list_ex_iff list_all_iff)

lemma kept_put: "\<not> hit (\<lambda>i. \<not> P i) g (put cond g i) \<longleftrightarrow> (cond \<longrightarrow> P i)"
  by (simp add: hit_put)

lemma kept_putErr:
  assumes "cond \<longrightarrow> (\<exists>i. r = Inr i)" "\<forall>i. r = Inr i \<longrightarrow> (P i \<longleftrightarrow> Q)"
  shows "\<not> hit (\<lambda>i. \<not> P i) g (putErr cond g w r) \<longleftrightarrow> (cond \<longrightarrow> Q)"
  using assms by (auto simp: hit_putErr)

lemma kept_ipVersion:
  assumes "v > 0 \<longrightarrow> v = 4 \<or> v = 6"
  shows "\<not> hit (\<lambda>i. \<not> P i) GItems (ipVersionStep v) \<longleftrightarrow> (v > 0 \<longrightarrow> P (NewIPVersionItem (v = 6)))"
  using assms by (auto simp: hit_ipVersion)

lemma started_fallible:
  "\<forall>i. NewDomainItem l ds ss = Inr i \<longrightarrow> (item_Match l env (startItem svc i) c \<longleftrightarrow>
   domainHost c \<noteq> [] \<and> lib_NewMatcher l ds ss False (lib_ToLower l (domainHost c)))"
  "\<forall>i. NewDomainRegexItem l es = Inr i \<longrightarrow> (item_Match l env (startItem svc i) c \<longleftrightarrow>
   domainHost c \<noteq> [] \<and> (\<exists>e\<in>set es. \<exists>m. lib_RegexpCompile l e = Some m \<and> m (lib_ToLower l (domainHost c))))"
  "\<forall>i. NewPortRangeItem src rs = Inr i \<longrightarrow> (item_Match l env (startItem svc i) c \<longleftrightarrow>
   (\<exists>r\<in>set rs. \<exists>a b. parsePortRange r = Inr (a, b) \<and>
       a \<le> sa_Port (if src then Source c else Destination c) \<and>
       sa_Port (if src then Source c else Destination c) \<le> b))"
  "\<forall>i. NewProcessPathRegexItem l es = Inr i \<longrightarrow> (item_Match l env (startItem svc i) c \<longleftrightarrow>
   (\<exists>i. ProcessInfo c = Some i \<and> ProcessPath i \<noteq> [] \<and>
    (\<exists>e\<in>set es. \<exists>m. lib_RegexpCompile l e = Some m \<and> m (ProcessPath i))))"
  "\<forall>i. NewPackageNameRegexItem l es = Inr i \<longrightarrow> (item_Match l env (startItem svc i) c \<longleftrightarrow>
   (\<exists>i. ProcessInfo c = Some i \<and>
    (\<exists>n\<in>set (AndroidPackageNames i). \<exists>e\<in>set es. \<exists>m. lib_RegexpCompile l e = Some m \<and> m n)))"
  by (simp add: startItem_fallible domain_item_match)
     (simp add: startItem_fallible domain_regex_item_match,
      simp add: startItem_fallible port_range_item_match,
      simp add: startItem_fallible process_path_regex_item_match,
      simp add: startItem_fallible package_name_regex_item_match)

lemma started_cidr:
  "(\<exists>i. NewIPCIDRItem l src ps = Inr i \<and> item_Match l env (startItem svc i) c) \<longleftrightarrow>
   (\<exists>ipSet. ipSetOf l ps = Some ipSet \<and> IPCIDRItem_Match l ipSet src c)"
  unfolding NewIPCIDRItem_iff by (simp add: startItem_def)

lemma documentedMatch_started:
  "documentedMatch m (startGroups svc r) c \<longleftrightarrow> documentedMatch (\<lambda>i. m (startItem svc i)) r c"
  by (simp add: documentedMatch_def startGroups_def groupHolds_def bex_Un)

lemma startAll_plain_success:
  "startAll svc its store rsi = Some (None, store', rsi') \<Longrightarrow> Plain i \<in> set its \<Longrightarrow> \<not> isl (item_Start svc i)"
  by (induction svc its store rsi rule: startAll.induct)
     (auto split: sum.splits option.splits prod.splits)

lemma private_destination_match: "item_Match l env (NewIPIsPrivateItem False) c = IPIsPrivateItem_Match l False c"
  by (simp add: NewIPIsPrivateItem_def)

text \<open>The groups of a rule assembled from the options, against the formula.\<close>

lemma configured_destination:
  assumes ok: "assemble (defaultRule_steps l o1) r0 = Inr r"
  shows "(list_ex (hit (\<lambda>_. True) GDstAddr) (defaultRule_steps l o1) \<or>
          list_ex (hit (\<lambda>_. True) GDstIP) (defaultRule_steps l o1) \<longrightarrow>
          list_ex (hit (\<lambda>i. item_Match l env (startItem svc i) c) GDstAddr) (defaultRule_steps l o1) \<or>
          list_ex (hit (\<lambda>i. item_Match l env (startItem svc i) c) GDstIP) (defaultRule_steps l o1)) \<longleftrightarrow>
         destinationSpec l o1 c"
proof -
  note built = steps_success(1-3) [OF ok]
  have kw: "r_DomainKeyword o1 \<noteq> [] \<and> item_Match l env (NewDomainKeywordItem (r_DomainKeyword o1)) c \<longleftrightarrow>
     domainHost c \<noteq> [] \<and> (\<exists>k\<in>set (r_DomainKeyword o1). \<exists>a b. lib_ToLower l (domainHost c) = a @ k @ b)"
    by (auto simp: keyword_item_match)
  have re: "r_DomainRegex o1 \<noteq> [] \<and> A \<and> (\<exists>e\<in>set (r_DomainRegex o1). R e) \<longleftrightarrow>
      A \<and> (\<exists>e\<in>set (r_DomainRegex o1). R e)" for A R by auto
  show ?thesis
    unfolding steps_destination destinationSpec_def started_cidr startItem_plain kw private_destination_match
      configured_item [OF built(1) started_fallible(1)] configured_item [OF built(2) started_fallible(2)]
      configured_some [OF built(1)]
      configured_some [OF built(2)]
      configured_some [OF built(3)] re
    by blast
qed

lemma configured_source:
  assumes ok: "assemble (defaultRule_steps l o1) r0 = Inr r"
  shows "(list_ex (hit (\<lambda>_. True) GSrcAddr) (defaultRule_steps l o1) \<longrightarrow>
          list_ex (hit (\<lambda>i. item_Match l env (startItem svc i) c) GSrcAddr) (defaultRule_steps l o1)) \<longleftrightarrow>
         sourceSpec l o1 c"
  unfolding steps_source sourceSpec_def started_cidr startItem_plain private_items_match source_cidr_match
    configured_some [OF steps_success(4) [OF ok]]
  by blast

lemma configured_ports:
  assumes ok: "assemble (defaultRule_steps l o1) r0 = Inr r"
  shows "(list_ex (hit (\<lambda>_. True) GDstPort) (defaultRule_steps l o1) \<longrightarrow>
          list_ex (hit (\<lambda>i. item_Match l env (startItem svc i) c) GDstPort) (defaultRule_steps l o1)) \<and>
         (list_ex (hit (\<lambda>_. True) GSrcPort) (defaultRule_steps l o1) \<longrightarrow>
          list_ex (hit (\<lambda>i. item_Match l env (startItem svc i) c) GSrcPort) (defaultRule_steps l o1)) \<longleftrightarrow>
         portSpec o1 c"
proof -
  note built = steps_success(5,6) [OF ok]
  have port: "ps \<noteq> [] \<and> p \<in> set ps \<or> rs \<noteq> [] \<and> (\<exists>r\<in>set rs. R r) \<longleftrightarrow> p \<in> set ps \<or> (\<exists>r\<in>set rs. R r)"
    for ps :: "u16 list" and rs :: "string list" and p R by auto
  show ?thesis
    unfolding steps_ports portSpec_def portIn_def startItem_plain guarded_list_items_match
      configured_item [OF built(1) started_fallible(3)] configured_item [OF built(2) started_fallible(3)]
      configured_some [OF built(1)]
      configured_some [OF built(2)] port
    unfolding if_True if_False simp_thms by (rule conj_commute)
qed

lemma configured_connection:
  assumes ok: "assemble (defaultRule_steps l o1) r0 = Inr r"
  shows "\<not> list_ex (hit (\<lambda>i. \<not> item_Match l env (startItem svc i) c) GItems) (defaultRule_connection o1) \<longleftrightarrow>
         connectionSpec l o1 c"
  unfolding none_hit defaultRule_connection_def connectionSpec_def list.pred_inject simp_thms kept_put
    kept_ipVersion [OF steps_success(9) [OF ok]] startItem_plain list_items_match
  by (simp add: NewIPVersionItem_def)

lemma configured_process:
  assumes ok: "assemble (defaultRule_steps l o1) r0 = Inr r"
  shows "\<not> list_ex (hit (\<lambda>i. \<not> item_Match l env (startItem svc i) c) GItems) (defaultRule_process l o1) \<longleftrightarrow>
         processSpec l o1 c"
  unfolding none_hit defaultRule_process_def processSpec_def list.pred_inject simp_thms kept_put
    kept_putErr [OF steps_success(7) [OF ok] started_fallible(4)]
    kept_putErr [OF steps_success(8) [OF ok] started_fallible(5)]
    startItem_plain list_items_match process_items_match
  by simp

lemma configured_environment:
  assumes "r_PreferredBy o1 \<noteq> [] \<longrightarrow> \<not> isl (item_Start svc (NewPreferredByItem (r_PreferredBy o1)))"
  shows "\<not> list_ex (hit (\<lambda>i. \<not> item_Match l env (startItem svc i) c) GItems) (defaultRule_environment l o1) \<longleftrightarrow>
         environmentSpec l env svc o1 c"
  unfolding none_hit defaultRule_environment_def environmentSpec_def list.pred_inject simp_thms kept_put
    startItem_plain startItem_clash list_items_match guarded_list_items_match
  using assms
  by (simp add: startItem_preferred NewNetworkTypeItem_def NewNetworkIsExpensiveItem_def
      NewNetworkIsConstrainedItem_def NetworkTypeItem_Match_def NetworkIsExpensiveItem_Match_def
      NetworkIsConstrainedItem_Match_def split: option.splits)

lemma assembled_documented:
  assumes ok: "assemble (defaultRule_steps l o1) (emptyRule inverted act) = Inr r"
    and pb: "r_PreferredBy o1 \<noteq> [] \<longrightarrow> \<not> isl (item_Start svc (NewPreferredByItem (r_PreferredBy o1)))"
  shows "documentedMatch (\<lambda>i. item_Match l env (startItem svc i)) r c \<longleftrightarrow> ruleSpec l env svc o1 c"
  unfolding documented_assembled [OF ok] ruleSpec_def steps_items de_Morgan_disj
    configured_destination [OF ok] configured_source [OF ok] configured_connection [OF ok]
    configured_process [OF ok] configured_environment [OF pb]
  using configured_ports [OF ok, of env svc c] by blast

text \<open>
  From the configuration to the decision: a rule built and started from its options matches
  exactly the connections that the formula over the options describes, negated on \<open>invert\<close>.
\<close>

lemma NewDefaultRule_Ret:
  assumes "NewDefaultRule l newDialer o1 a = Ret r" "r_RuleSet o1 = []"
  shows "\<exists>act. assemble (defaultRule_steps l o1) (emptyRule (r_Invert o1) act) = Inr r"
  using assms
  by (auto simp: NewDefaultRule_def withRuleSet_def liftErr_def split: outcome.splits sum.splits)

lemma preferred_in_allItems:
  assumes "assemble (defaultRule_steps l o1) (emptyRule inverted act) = Inr r" "r_PreferredBy o1 \<noteq> []"
  shows "Plain (NewPreferredByItem (r_PreferredBy o1)) \<in> set (allItems r)"
proof -
  let ?step = "put (r_PreferredBy o1 \<noteq> []) GItems (NewPreferredByItem (r_PreferredBy o1))"
  have "?step \<in> set (defaultRule_steps l o1)"
    by (simp add: defaultRule_steps_def defaultRule_environment_def)
  then have "(GItems, NewPreferredByItem (r_PreferredBy o1)) \<in> set (picked (defaultRule_steps l o1))"
    using assms(2) by (force simp: picked_def put_def)
  then show ?thesis using assemble_Inr [OF assms(1)] by (force simp: emptyRule_def)
qed

end
