(* ===== verification/Rule_Action_Facts.thy ===== *)
theory Rule_Action_Facts
  imports Rule_Action
begin

text \<open>
  Facts on actions: the flood control of \<^verbatim>\<open>reject\<close> drops exactly the rejections beyond fifty in
  thirty seconds, decoded reject options never reach the panic, the sniffer table accepts exactly
  the documented names, spoof methods print and parse back, and predefined responses answer the
  question with the configured records.
\<close>

section \<open>Flood control\<close>

lemma reject_calls_append:
  "reject_calls (xs @ ys) r =
     (fst (reject_calls xs r) @ fst (reject_calls ys (snd (reject_calls xs r))),
      snd (reject_calls ys (snd (reject_calls xs r))))"
  by (induction xs arbitrary: r) (simp_all add: Let_def split_beta)

lemma filter_window_sorted:
  fixes t u w :: int
  assumes "t \<le> u"
  shows "filter (\<lambda>s. t - s \<le> w \<and> u - s \<le> w) xs = filter (\<lambda>s. u - s \<le> w) xs"
  using assms by (intro filter_cong) auto

text \<open>
  After rejections at the times \<open>ts\<close> the counter holds those of the last window.
\<close>

definition flood_checked :: "reject_action \<Rightarrow> bool" where
  "flood_checked r \<longleftrightarrow> rj_Method r = ''default'' \<and> \<not> rj_NoDrop r"

lemma reject_error_checked:
  assumes "flood_checked r"
  shows "RuleActionReject_Error t r =
    (let d = filter (\<lambda>s. t - s \<le> drop_window) (rj_dropCounter r) @ [t]
     in (Ret (Some (if length d > 50 then ErrDrop else ErrReset)), r\<lparr>rj_dropCounter := d\<rparr>))"
  using assms by (simp add: flood_checked_def RuleActionReject_Error_def Let_def)

lemma flood_checked_upd [simp]: "flood_checked (r\<lparr>rj_dropCounter := d\<rparr>) = flood_checked r"
  by (simp add: flood_checked_def)

lemma reject_calls_counter:
  assumes "flood_checked r" "rj_dropCounter r = []" "sorted ts" "ts \<noteq> []"
  shows "snd (reject_calls ts r) =
    r\<lparr>rj_dropCounter := filter (\<lambda>s. last ts - s \<le> drop_window) ts\<rparr>"
  using assms(3,4)
proof (induction ts rule: rev_induct)
  case (snoc t ts)
  have w: "0 \<le> drop_window" by (simp add: drop_window_def)
  show ?case
  proof (cases "ts = []")
    case True
    then show ?thesis
      using assms w by (simp add: reject_error_checked Let_def)
  next
    case False
    with snoc have IH: "snd (reject_calls ts r) =
        r\<lparr>rj_dropCounter := filter (\<lambda>s. last ts - s \<le> drop_window) ts\<rparr>" and le: "last ts \<le> t"
      by (simp_all add: sorted_append)
    show ?thesis
      using assms(1) w
      by (simp add: reject_calls_append IH reject_error_checked Let_def filter_window_sorted [OF le])
  qed
qed simp

lemma reject_calls_next_counter:
  assumes "flood_checked r" "rj_dropCounter r = []" "sorted (ts @ [t])"
  shows "filter (\<lambda>s. t - s \<le> drop_window) (rj_dropCounter (snd (reject_calls ts r))) =
    filter (\<lambda>s. t - s \<le> drop_window) ts"
proof (cases "ts = []")
  case False
  from assms False have "sorted ts" "last ts \<le> t" by (simp_all add: sorted_append)
  with reject_calls_counter [OF assms(1,2) _ False] show ?thesis
    by (simp add: filter_window_sorted)
qed (use assms in simp)

lemma reject_calls_checked: "flood_checked r \<Longrightarrow> flood_checked (snd (reject_calls ts r))"
  by (induction ts arbitrary: r) (simp_all add: Let_def split_beta reject_error_checked)

section \<open>Decoded reject options\<close>

lemma reject_decoded_method:
  assumes "RejectActionOptions_UnmarshalJSON decoded = Inr r"
  shows "opt_Method r \<in> {''default'', ''drop'', ''reply''}" "\<not> (opt_Method r = ''drop'' \<and> opt_NoDrop r)"
  using assms
  by (auto simp: RejectActionOptions_UnmarshalJSON_def split: sum.splits if_splits)

lemma reject_error_no_panic:
  "rj_Method r \<in> {''default'', ''drop'', ''reply''} \<Longrightarrow>
   \<exists>result. fst (RuleActionReject_Error now r) = Ret result"
  by (auto simp: RuleActionReject_Error_def Let_def)

section \<open>Sniffers\<close>

definition knownSniffers :: "string list" where
  "knownSniffers = [''tls'', ''http'', ''quic'', ''dns'', ''stun'', ''bittorrent'', ''dtls'', ''ssh'', ''rdp'', ''ntp'']"

lemma sniffersOf_known: "(\<exists>p. sniffersOf name = Inr p) \<longleftrightarrow> name \<in> set knownSniffers"
  by (auto simp: sniffersOf_def knownSniffers_def)

lemma sniff_build_loop_fields [simp]:
  "sn_SnifferNames (snd (sniff_build_loop names r)) = sn_SnifferNames r"
  "sn_Timeout (snd (sniff_build_loop names r)) = sn_Timeout r"
  by (induction names arbitrary: r) (auto split: sum.splits)

lemma sniff_build_loop_None_iff:
  "fst (sniff_build_loop names r) = None \<longleftrightarrow> set names \<subseteq> set knownSniffers"
proof (induction names arbitrary: r)
  case (Cons name names)
  then show ?case
    using sniffersOf_known [of name] by (cases "sniffersOf name") (auto split: prod.splits)
qed simp

lemma sniff_build_loop_Some:
  "fst (sniff_build_loop names r) = Some e \<Longrightarrow>
   \<exists>ys name zs. names = ys @ name # zs \<and> set ys \<subseteq> set knownSniffers \<and> name \<notin> set knownSniffers \<and>
     e = E_NewArg ''unknown sniffer: '' name"
proof (induction names arbitrary: r)
  case (Cons name names)
  show ?case
  proof (cases "sniffersOf name")
    case (Inl e')
    with Cons.prems sniffersOf_known [of name] show ?thesis
      by (intro exI [of _ "[]"] exI [of _ name] exI [of _ names])
         (auto simp: sniffersOf_def split: if_splits)
  next
    case (Inr p)
    with Cons.prems have "\<exists>r'. fst (sniff_build_loop names r') = Some e" by (cases p) auto
    then obtain ys n zs where "names = ys @ n # zs" "set ys \<subseteq> set knownSniffers"
      "n \<notin> set knownSniffers" "e = E_NewArg ''unknown sniffer: '' n"
      using Cons.IH by blast
    moreover have "name \<in> set knownSniffers" using Inr sniffersOf_known by blast
    ultimately show ?thesis by (intro exI [of _ "name # ys"]) auto
  qed
qed simp

text \<open>The sniffers of a successful build are those of the names, in order.\<close>

definition sniffersOfKnown :: "string \<Rightarrow> stream_sniffer list \<times> packet_sniffer list" where
  "sniffersOfKnown name = (case sniffersOf name of Inl _ \<Rightarrow> ([], []) | Inr p \<Rightarrow> p)"

lemma sniff_build_loop_sniffers:
  "set names \<subseteq> set knownSniffers \<Longrightarrow>
   snd (sniff_build_loop names r) =
     r\<lparr>sn_StreamSniffers := sn_StreamSniffers r @ concat (map (fst \<circ> sniffersOfKnown) names),
       sn_PacketSniffers := sn_PacketSniffers r @ concat (map (snd \<circ> sniffersOfKnown) names)\<rparr>"
proof (induction names arbitrary: r)
  case (Cons name names)
  then obtain p where "sniffersOf name = Inr p" using sniffersOf_known [of name] by auto
  with Cons show ?case by (cases p) (simp add: sniffersOfKnown_def)
qed simp

section \<open>Spoof methods and predefined responses\<close>

lemma ParseMethod_String: "ParseMethod (Method_String m) = Inr m"
  by (cases m) (simp_all add: ParseMethod_def)

lemma HasSuffix_iff: "HasSuffix s suffix \<longleftrightarrow> (\<exists>p. s = p @ suffix)"
  unfolding HasSuffix_def by (auto intro: exI [of _ "take (length s - length suffix) s"])
    (metis append_take_drop_id)

lemma rewriteRecord_data [simp]: "rr_data (rewriteRecord q r) = rr_data r"
  by (auto simp: rewriteRecord_def split: list.splits char.splits bool.splits)

lemma rewriteRecord_name:
  "rr_Name (rewriteRecord q r) =
     (if \<exists>rest p. rr_Name r = CHR ''*'' # rest \<and> q = p @ rest then q else rr_Name r)"
proof (cases "rr_Name r")
  case (Cons a rest)
  then show ?thesis
    by (cases "a = CHR ''*''") (auto simp: rewriteRecord_def HasSuffix_iff split: char.splits bool.splits)
qed (simp add: rewriteRecord_def)

end
