(* ===== verification/Samples.thy ===== *)
theory Samples
  imports Inbound_Context
begin

text \<open>
  A small concrete instance of the parameters of the model, at which the properties are
  exercised: text functions that compute, an address set that contains exactly its entries, a host
  without network interfaces, and one TCP connection.
\<close>

definition endsWith :: "string \<Rightarrow> string \<Rightarrow> bool" where
  "endsWith suffix s \<longleftrightarrow> length suffix \<le> length s \<and> drop (length s - length suffix) s = suffix"

definition sampleLib :: lib where
  "sampleLib = \<lparr>
     lib_IsIP = (\<lambda>a. addr_IsValid (sa_Addr a)),
     lib_IsIPv4 = (\<lambda>a. addr_Is4 (sa_Addr a)),
     lib_IsIPv6 = (\<lambda>a. addr_Is6 (sa_Addr a)),
     lib_IsDomain = (\<lambda>a. sa_Fqdn a \<noteq> []),
     lib_IsSocksaddrValid = (\<lambda>a. addr_IsValid (sa_Addr a) \<or> sa_Fqdn a \<noteq> []),
     lib_ParseSocksaddrHostPort = (\<lambda>h p. \<lparr>sa_Addr = AddrZero, sa_Port = p, sa_Fqdn = h\<rparr>),
     lib_IsDomainName = (\<lambda>s. s \<noteq> []),
     lib_AddrFromIP = (\<lambda>bs. AddrZero),
     lib_IsPublicAddr = (\<lambda>a. addr_IsValid a),
     lib_NewMatcher = (\<lambda>ds ss _ h. List.member ds h \<or> list_ex (\<lambda>s. endsWith s h) ss),
     lib_NewAdGuardMatcher = (\<lambda>rs h. List.member rs h),
     lib_IPSet = (\<lambda>ops. Some (\<lambda>a. list_ex (\<lambda>op. case op of AddPrefix p \<Rightarrow> prefix_Contains p a | AddAddr b \<Rightarrow> a = b) ops)),
     lib_CanonicalName = (\<lambda>s. s),
     lib_IsDuplicate = (\<lambda>r1 r2. r1 = r2),
     lib_ToLower = (\<lambda>s. s),
     lib_EqualFold = (\<lambda>s t. s = t),
     lib_RegexpCompile = (\<lambda>e. if e = [] then None else Some (\<lambda>s. s = e)),
     lib_ParsePrefix = (\<lambda>s. if s = ''10.0.0.0/8'' then Some (Prefix (Addr4 0x0a000000) 9) else None),
     lib_ParseAddr = (\<lambda>s. if s = ''1.1.1.1'' then Some (Addr4 0x01010101) else None),
     lib_ParseMACString = Some,
     lib_FilepathBase = (\<lambda>s. s),
     lib_PrefixableBuild = (\<lambda>s. PrefixZero),
     lib_PrefixString = (\<lambda>p. []),
     lib_AddrToString = (\<lambda>a. []),
     lib_SocksaddrAddrString = (\<lambda>a. sa_Fqdn a),
     lib_TLSSpoofSupported = False,
     lib_RRString = (\<lambda>r. rr_Name r),
     lib_RcodeToString = (\<lambda>c. []),
     lib_TypeToString = (\<lambda>t. None),
     lib_DurationString = (\<lambda>d. []),
     lib_IsAndroid = False\<rparr>"

definition sampleEnv :: net_env where
  "sampleEnv = \<lparr>
     env_DefaultNetworkInterface = None, env_Interfaces = [], env_NetworkInterfaces = [],
     env_DefaultInterface = None, env_WIFIState = \<lparr>SSID = [], BSSID = []\<rparr>, env_ClashMode = ''rule'',
     env_PreferredDomain = (\<lambda>_ _ _. False), env_PreferredAddress = (\<lambda>_ _ _. False),
     env_TransportPreferredDomain = (\<lambda>_ _. False)\<rparr>"

text \<open>A TCP connection from \<^verbatim>\<open>10.0.0.2:50000\<close> to \<^verbatim>\<open>example.org:443\<close>, as a route rule first sees it.\<close>

definition sampleContext :: inbound_context where
  "sampleContext = \<lparr>
     Inbound = ''tun-in'', InboundType = ''tun'', IPVersion = 0, Network = ''tcp'',
     Source = \<lparr>sa_Addr = Addr4 0x0a000002, sa_Port = 50000, sa_Fqdn = []\<rparr>,
     Destination = \<lparr>sa_Addr = AddrZero, sa_Port = 443, sa_Fqdn = ''example.org''\<rparr>,
     TunnelSource = [], TunnelDestination = [], User = [], Outbound = [], Protocol = [],
     Domain = [], Client = [], SnifferNames = [], SniffError = None, InboundDetour = [],
     LastInbound = [], OriginDestination = socksaddr_zero, RouteOriginalDestination = socksaddr_zero,
     UDPDisableDomainUnmapping = False, UDPConnect = False, UDPTimeout = 0, TLSFragment = False,
     TLSFragmentFallbackDelay = 0, TLSRecordFragment = False, TLSSpoof = [], TLSSpoofMethod = 0,
     NetworkStrategy = None, NetworkType = [], FallbackNetworkType = [], FallbackDelay = 0,
     DestinationAddresses = [], DNSResponse = None, DestinationAddressMatchFromResponse = False,
     ProcessInfo = None, SourceMACAddress = None, SourceHostname = [], QueryType = 0,
     FakeIP = False, PreMatch = False, IPCIDRMatchSource = False, IPCIDRAcceptEmpty = False,
     SourceAddressMatch = False, SourcePortMatch = False, DestinationAddressMatch = False,
     DestinationPortMatch = False, DidMatch = False, IgnoreDestinationIPCIDRMatch = False,
     RealOutbound = []\<rparr>"

end
