(* ===== verification/Rule_Theorems.thy ===== *)
theory Rule_Theorems
  imports Rule_Build_Facts Rule_Action_Facts Samples
begin

unbundle bit_operations_syntax

text \<open>
  The properties of the rule engine, each with an instance at a concrete configuration: what a
  configured rule matches, how rule-sets and logical rules combine, which configurations are
  refused, and what the actions and the rule-set objects guarantee.
\<close>

section \<open>Sample configuration\<close>


definition sampleDomainItem :: rule_item where
  "sampleDomainItem = DomainItem (lib_NewMatcher sampleLib [''example.org''] [] False) ''domain=example.org''"

definition sampleRule :: default_rule where
  "sampleRule =
     \<lparr> items = [NewNetworkItem [''tcp'']], sourceAddressItems = [], sourcePortItems = [],
       destinationAddressItems = [sampleDomainItem], destinationIPCIDRItems = [],
       destinationPortItems = [NewPortItem False [443]],
       allItems = [Plain (NewNetworkItem [''tcp'']), Plain sampleDomainItem, Plain (NewPortItem False [443])],
       ruleSetItem = None, invert = False, action = Some RuleActionHijackDNS \<rparr>"

definition sampleServices :: services where
  "sampleServices = \<lparr>svc_ClashServer = False, svc_Outbound = (\<lambda>_. None), svc_Transport = (\<lambda>_. None)\<rparr>"




section \<open>What rules match\<close>




definition sampleBranch :: "unit abstractDefaultRule" where
  "sampleBranch =
     \<lparr> items = [], sourceAddressItems = [], sourcePortItems = [], destinationAddressItems = [],
       destinationIPCIDRItems = [], destinationPortItems = [NewPortItem False [80, 443]],
       allItems = [Plain (NewPortItem False [80, 443])], ruleSetItem = None, invert = False, action = None \<rparr>"

definition sampleStore :: rule_set_store where
  "sampleStore = [''web'' \<mapsto>
     \<lparr> rs_rules = [DefaultRule sampleBranch],
       rs_metadata = \<lparr> ContainsProcessRule = False, ContainsWIFIRule = False, ContainsIPCIDRRule = False,
         ContainsDNSQueryTypeRule = False, ContainsNonIPCIDRRule = True \<rparr>,
       rs_refs = 1 \<rparr>]"

definition sampleIncluding :: default_rule where
  "sampleIncluding = sampleRule\<lparr>destinationPortItems := [],
     allItems := [Plain (NewNetworkItem [''tcp'']), Plain sampleDomainItem, RuleSetRef],
     ruleSetItem := Some \<lparr> rsi_tagList = [''web''], rsi_setList = [''web''],
       rsi_ipCidrMatchSource = False, rsi_ipCidrAcceptEmpty = False \<rparr>\<rparr>"


text \<open>C3: A logical rule is the Boolean combination of its nested rules, to any depth: evaluation
  through sets of match states decides exactly the formula that reads \<^verbatim>\<open>and\<close> as conjunction, any
  other mode as disjunction and \<^verbatim>\<open>invert\<close> as negation, each nested rule in a context whose match
  cache has been reset.\<close>

theorem logical_rules_boolean:
  "fst (rule_Match m store rule c) \<longleftrightarrow>
   treeHolds (\<lambda>r c. fst (rule_Match m store (DefaultRule r) c)) rule c"
proof -
  have "fst (rule_Match m store (DefaultRule r) c) \<longleftrightarrow> \<not> isEmpty (fst (default_matchStatesWithBase m store r c 0))" for r c
    by (simp add: split_beta)
  then show ?thesis
    using tree_match_eq [of "\<lambda>r c base. fst (default_matchStatesWithBase m store r c base)" rule c]
    by (cases rule) (simp_all only: rule_Match.simps fst_conv route_matchStatesWithBase_def tree_matchStatesWithBase.simps treeHolds.simps)
qed


text \<open>C5: Conditions inherited from an including rule are never lost: every state that the
  evaluation of a rule reports from a base contains the base, and a larger base never turns a match
  into a failure.\<close>

theorem inherited_conditions_kept:
  assumes "validState b" "validState b'" "sub b b'"
  shows "(\<forall>s\<in>states (route_matchStatesWithBase m store rule c b). sub b s) \<and>
    (isEmpty (route_matchStatesWithBase m store rule c b') \<longrightarrow> isEmpty (route_matchStatesWithBase m store rule c b))"
  using rt.keeps_base [OF assms(1), of _ m store rule c] rt.matches_mono [OF assms, of m store rule c] by blast

theorem inherited_conditions_kept_witness:
  "states (route_matchStatesWithBase (item_Match sampleLib sampleEnv) Map.empty (DefaultRule sampleRule)
      sampleContext ruleMatchSourceAddress) \<subseteq> {s. sub ruleMatchSourceAddress s}"
  using inherited_conditions_kept [of ruleMatchSourceAddress ruleMatchSourceAddress "item_Match sampleLib sampleEnv"
      Map.empty "DefaultRule sampleRule" sampleContext]
  by auto

section \<open>Which configurations are refused\<close>

text \<open>The options that the constructor of a default rule refuses.\<close>

definition refusedOptions :: "lib \<Rightarrow> raw_default_rule \<Rightarrow> bool" where
  "refusedOptions l o1 \<longleftrightarrow>
     r_IPVersion o1 > 0 \<and> r_IPVersion o1 \<noteq> 4 \<and> r_IPVersion o1 \<noteq> 6 \<or>
     [] \<in> set (r_Domain o1) \<union> set (r_DomainSuffix o1) \<or>
     (\<exists>e\<in>set (r_DomainRegex o1) \<union> set (r_ProcessPathRegex o1) \<union> set (r_PackageNameRegex o1). lib_RegexpCompile l e = None) \<or>
     r_Geosite o1 \<noteq> [] \<or> r_SourceGeoIP o1 \<noteq> [] \<or> r_GeoIP o1 \<noteq> [] \<or>
     r_SourceIPCIDR o1 \<noteq> [] \<and> ipSetOf l (r_SourceIPCIDR o1) = None \<or>
     r_IPCIDR o1 \<noteq> [] \<and> ipSetOf l (r_IPCIDR o1) = None \<or>
     (\<exists>r\<in>set (r_SourcePortRange o1) \<union> set (r_PortRange o1). isl (parsePortRange r)) \<or>
     r_RuleSet o1 \<noteq> [] \<and> r_Deprecated_RulesetIPCIDRMatchSource o1"

lemma isl_map_err_from:
  assumes "\<And>i x. isl (f i x) \<longleftrightarrow> P x"
  shows "isl (map_err_from i f xs) \<longleftrightarrow> (\<exists>x\<in>set xs. P x)"
proof (induction xs arbitrary: i)
  case (Cons x xs)
  from assms [of i x] Cons [of "Suc i"] show ?case by (auto split: sum.splits)
qed simp

lemma isl_compileRegexps: "isl (compileRegexps l es) \<longleftrightarrow> (\<exists>e\<in>set es. lib_RegexpCompile l e = None)"
  unfolding compileRegexps_def by (rule isl_map_err_from) (simp split: option.splits)

lemma isl_constructors:
  "isl (NewDomainItem l ds ss) \<longleftrightarrow> [] \<in> set ds \<union> set ss"
  "isl (NewDomainRegexItem l es) \<longleftrightarrow> (\<exists>e\<in>set es. lib_RegexpCompile l e = None)"
  "isl (NewProcessPathRegexItem l es) \<longleftrightarrow> (\<exists>e\<in>set es. lib_RegexpCompile l e = None)"
  "isl (NewPackageNameRegexItem l es) \<longleftrightarrow> (\<exists>e\<in>set es. lib_RegexpCompile l e = None)"
  "isl (NewIPCIDRItem l src ps) \<longleftrightarrow> ipSetOf l ps = None"
  "isl (NewPortRangeItem src rs) \<longleftrightarrow> (\<exists>r\<in>set rs. isl (parsePortRange r))"
proof -
  show "isl (NewDomainItem l ds ss) \<longleftrightarrow> [] \<in> set ds \<union> set ss"
    by (simp add: NewDomainItem_def Let_def)
  show "isl (NewDomainRegexItem l es) \<longleftrightarrow> (\<exists>e\<in>set es. lib_RegexpCompile l e = None)"
    "isl (NewProcessPathRegexItem l es) \<longleftrightarrow> (\<exists>e\<in>set es. lib_RegexpCompile l e = None)"
    "isl (NewPackageNameRegexItem l es) \<longleftrightarrow> (\<exists>e\<in>set es. lib_RegexpCompile l e = None)"
    unfolding isl_compileRegexps [symmetric]
    by (simp_all add: NewDomainRegexItem_def NewProcessPathRegexItem_def NewPackageNameRegexItem_def
        Let_def split: sum.splits)
  show "isl (NewIPCIDRItem l src ps) \<longleftrightarrow> ipSetOf l ps = None"
    by (simp add: NewIPCIDRItem_def ipSetOf_def Let_def split: sum.splits option.splits)
  show "isl (NewPortRangeItem src rs) \<longleftrightarrow> (\<exists>r\<in>set rs. isl (parsePortRange r))"
    using NewPortRangeItem_Inl_iff [of src rs] by (simp only: isl_def)
qed

lemma assemble_isl: "isl (assemble steps r) \<longleftrightarrow> list_ex isl steps"
  by (induction steps r rule: assemble.induct) auto

lemma steps_refused:
  "list_ex isl (defaultRule_steps l o1) \<or> r_RuleSet o1 \<noteq> [] \<and> r_Deprecated_RulesetIPCIDRMatchSource o1
   \<longleftrightarrow> refusedOptions l o1"
proof -
  have guard: "xs \<noteq> [] \<and> (\<exists>x\<in>set xs. P x) \<longleftrightarrow> (\<exists>x\<in>set xs. P x)"
    "(xs \<noteq> [] \<or> ys \<noteq> []) \<and> (z \<in> set xs \<or> z \<in> set ys) \<longleftrightarrow> z \<in> set xs \<or> z \<in> set ys"
    for xs ys :: "'x list" and P z by auto
  show ?thesis
    unfolding refusedOptions_def defaultRule_step_defs append.simps list_ex_Nil_iff list_ex_Cons_iff isls isl_constructors
      Un_iff bex_Un guard
    by (simp only: isl_put simp_thms disj_assoc disj_ac)
qed

text \<open>C6: The constructor of a route rule fails with an error exactly when its action is refused or
  the options contain one of: an IP version other than 4 and 6, an empty domain entry, a regular
  expression that does not compile, one of the removed geosite and geoip fields, an IP range list
  that does not parse, a malformed port range, or the removed spelling of the rule-set switch.
  Every other configuration is accepted.\<close>

theorem constructor_refuses_exactly:
  "(\<exists>e. NewDefaultRule l newDialer o1 a = Err e) \<longleftrightarrow>
   (\<exists>e. NewRuleAction l newDialer a = Err e) \<or>
   (\<exists>act. NewRuleAction l newDialer a = Ret act) \<and> refusedOptions l o1"
proof (cases "NewRuleAction l newDialer a")
  case (Ret act)
  let ?asm = "assemble (defaultRule_steps l o1) (emptyRule (r_Invert o1) act) :: rule_error + default_rule"
  have "(\<exists>e. NewDefaultRule l newDialer o1 a = Err e) \<longleftrightarrow>
      isl ?asm \<or> r_RuleSet o1 \<noteq> [] \<and> r_Deprecated_RulesetIPCIDRMatchSource o1"
    by (cases ?asm) (simp_all add: NewDefaultRule_def Ret withRuleSet_def liftErr_def)
  then show ?thesis by (simp add: Ret assemble_isl steps_refused)
qed (simp_all add: NewDefaultRule_def)

text \<open>C7: A port range written as two decimal port numbers parses back to the two numbers, and the
  item made of it matches exactly the ports between them, both ends included.\<close>

theorem port_range_round_trip:
  "\<exists>item. NewPortRangeItem isSource [itoa_nat (unat a) @ '':'' @ itoa_nat (unat b)] = Inr item \<and>
     (\<forall>l env c. item_Match l env item c \<longleftrightarrow>
        a \<le> sa_Port (if isSource then Source c else Destination c) \<and>
        sa_Port (if isSource then Source c else Destination c) \<le> b)"
proof -
  let ?r = "itoa_nat (unat a) @ '':'' @ itoa_nat (unat b)"
  have parsed: "parsePortRange ?r = Inr (a, b)" by (rule parsePortRange_print)
  then obtain item where item: "NewPortRangeItem isSource [?r] = Inr item"
    using isl_constructors(6) [of isSource "[?r]"] by (cases "NewPortRangeItem isSource [?r]") auto
  show ?thesis
    using port_range_item_match [OF item] parsed by (intro exI [of _ item]) (simp only: item list.set bex_simps, auto)
qed

section \<open>Actions\<close>



text \<open>C9: A reject action built from decoded options never panics, whatever rejections came before:
  the decoder admits exactly the methods that the action knows.\<close>

theorem decoded_reject_no_panic:
  assumes "RejectActionOptions_UnmarshalJSON decoded = Inr options"
    and "NewRuleAction l newDialer (ActReject options) = Ret (Some (RuleActionReject r))"
  shows "\<exists>result. fst (RuleActionReject_Error t (snd (reject_calls ts r))) = Ret result"
proof (rule reject_error_no_panic)
  have "rj_Method (snd (reject_calls ts r)) = rj_Method r" for r
    by (induction ts arbitrary: r) (simp_all add: Let_def split_beta RuleActionReject_Error_def)
  then show "rj_Method (snd (reject_calls ts r)) \<in> {''default'', ''drop'', ''reply''}"
    using reject_decoded_method [OF assms(1)] assms(2) by (auto simp: newReject_def)
qed

theorem decoded_reject_no_panic_witness:
  "\<exists>result. fst (RuleActionReject_Error 7 (snd (reject_calls [1, 2]
     \<lparr> rj_Method = ''default'', rj_NoDrop = True, rj_XDPBlock = False, rj_BanDuration = 0, rj_dropCounter = [] \<rparr>))) = Ret result"
  using decoded_reject_no_panic [of "Inr \<lparr> opt_Method = [], opt_NoDrop = True, opt_XDPBlock = False, opt_BanDuration = 0 \<rparr>"
      "\<lparr> opt_Method = ''default'', opt_NoDrop = True, opt_XDPBlock = False, opt_BanDuration = 0 \<rparr>"
      sampleLib "\<lambda>_. None" "\<lparr> rj_Method = ''default'', rj_NoDrop = True, rj_XDPBlock = False,
        rj_BanDuration = 0, rj_dropCounter = [] \<rparr>" 7 "[1, 2]"]
  by (simp add: RejectActionOptions_UnmarshalJSON_def newReject_def)

text \<open>C10: A \<^verbatim>\<open>sniff\<close> action is built exactly when every configured name is one of the ten documented
  protocols, the first unknown name is reported otherwise, and the action then runs the sniffers of
  the names in the configured order.\<close>

theorem sniff_names_checked:
  "(fst (RuleActionSniff_build r) = None \<longleftrightarrow> set (sn_SnifferNames r) \<subseteq> set knownSniffers) \<and>
   (\<forall>e. fst (RuleActionSniff_build r) = Some e \<longrightarrow>
      (\<exists>ys name zs. sn_SnifferNames r = ys @ name # zs \<and> set ys \<subseteq> set knownSniffers \<and>
         name \<notin> set knownSniffers \<and> e = E_NewArg ''unknown sniffer: '' name)) \<and>
   (set (sn_SnifferNames r) \<subseteq> set knownSniffers \<longrightarrow>
      snd (RuleActionSniff_build r) =
        r\<lparr>sn_StreamSniffers := sn_StreamSniffers r @ concat (map (fst \<circ> sniffersOfKnown) (sn_SnifferNames r)),
          sn_PacketSniffers := sn_PacketSniffers r @ concat (map (snd \<circ> sniffersOfKnown) (sn_SnifferNames r))\<rparr>)"
  unfolding RuleActionSniff_build_def
  using sniff_build_loop_None_iff sniff_build_loop_Some sniff_build_loop_sniffers by blast

theorem sniff_names_checked_witness:
  "fst (RuleActionSniff_build \<lparr> sn_SnifferNames = [''tls'', ''nope''], sn_StreamSniffers = [], sn_PacketSniffers = [],
     sn_Timeout = 0, sn_OverrideDestination = False \<rparr>) \<noteq> None"
  using sniff_names_checked [of "\<lparr> sn_SnifferNames = [''tls'', ''nope''], sn_StreamSniffers = [], sn_PacketSniffers = [],
     sn_Timeout = 0, sn_OverrideDestination = False \<rparr>"]
  by (simp add: knownSniffers_def)



section \<open>Rule-set objects\<close>

text \<open>C12: Reference counting. Rules that hold no rule-set yet are started against a store whose
  counts are zero: starting never panics, and afterwards each count equals the number of references
  the rules hold, whether or not the start succeeded. Closing the rules then never panics and
  returns every count to zero.\<close>

theorem rule_set_references_balanced:
  assumes "\<forall>rule\<in>set rules. closable rule" "heldList rules = (\<lambda>_. 0)"
    and "\<forall>t rs. store t = Some rs \<longrightarrow> rs_refs rs = 0"
  shows "\<exists>e store' rules'. rules_Start svc store rules = Some (e, store', rules') \<and>
    (\<forall>t rs. store' t = Some rs \<longrightarrow> rs_refs rs = int (heldList rules' t)) \<and>
    (\<exists>store'' rules''. rules_Close store' rules' = Some (store'', rules'') \<and>
       (\<forall>t rs. store'' t = Some rs \<longrightarrow> rs_refs rs = 0))"
proof -
  have "tracked store (\<lambda>_. 0) (\<lambda>t. 0 + heldList rules t)"
    using assms(2,3) by (simp add: tracked_def refs_def split: option.splits)
  from start_tracked(2) [OF this, of svc] obtain e store' rules' where
    start: "rules_Start svc store rules = Some (e, store', rules')"
    and tr: "tracked store' (\<lambda>_. 0) (\<lambda>t. 0 + heldList rules' t)" by blast
  from close_tracked(2) [OF tr start_closable(2) [OF start assms(1)]] obtain store'' rules'' where
    "rules_Close store' rules' = Some (store'', rules'')" "tracked store'' (\<lambda>_. 0) (\<lambda>_. 0)" by auto
  with start tr show ?thesis by (fastforce simp: tracked_def refs_def)
qed

theorem rule_set_references_balanced_witness:
  "\<exists>e store' rules'. rules_Start sampleServices
     (sampleStore(''web'' \<mapsto> (the (sampleStore ''web''))\<lparr>rs_refs := 0\<rparr>))
     [DefaultRule (sampleIncluding\<lparr>ruleSetItem := Some (NewRuleSetItem [''web''] False False)\<rparr>)] = Some (e, store', rules') \<and>
     \<not> (\<exists>t rs. store' t = Some rs \<and> rs_refs rs \<noteq> int (heldList rules' t))"
proof -
  have "\<forall>rule\<in>set [DefaultRule (sampleIncluding\<lparr>ruleSetItem := Some (NewRuleSetItem [''web''] False False)\<rparr>)]. closable rule"
    by (simp add: closable_def sampleIncluding_def sampleRule_def)
  moreover have "heldList [DefaultRule (sampleIncluding\<lparr>ruleSetItem := Some (NewRuleSetItem [''web''] False False)\<rparr>)] = (\<lambda>_. 0)"
    by (simp add: fun_eq_iff NewRuleSetItem_def)
  moreover have "\<forall>t rs. (sampleStore(''web'' \<mapsto> (the (sampleStore ''web''))\<lparr>rs_refs := 0\<rparr>)) t = Some rs \<longrightarrow> rs_refs rs = 0"
    by (auto simp: sampleStore_def split: if_splits)
  ultimately obtain e store' rules' where "rules_Start sampleServices
     (sampleStore(''web'' \<mapsto> (the (sampleStore ''web''))\<lparr>rs_refs := 0\<rparr>))
     [DefaultRule (sampleIncluding\<lparr>ruleSetItem := Some (NewRuleSetItem [''web''] False False)\<rparr>)] = Some (e, store', rules')"
    "\<forall>t rs. store' t = Some rs \<longrightarrow> rs_refs rs = int (heldList rules' t)"
    using rule_set_references_balanced by blast
  then show ?thesis by blast
qed





section \<open>Documented behaviour that the code does not have\<close>

text \<open>C15: The switches \<^verbatim>\<open>rule_set_ip_cidr_match_source\<close> and \<^verbatim>\<open>rule_set_ip_cidr_accept_empty\<close> have no
  effect on rule-sets that consist of logical rules: each logical rule resets them before it
  evaluates its nested rules.\<close>

theorem logical_rules_ignore_switches:
  assumes "\<forall>t\<in>set (rsi_setList i). \<forall>h\<in>set (store_rules store t). \<exists>rules mode inverted act. h = LogicalRule rules mode inverted act"
  shows "RuleSetItem_matchStatesWithBase m store (i\<lparr>rsi_ipCidrMatchSource := x, rsi_ipCidrAcceptEmpty := y\<rparr>) c b =
    RuleSetItem_matchStatesWithBase m store i c b"
proof (rule states_inject)
  have eq: "headless_matchStatesWithBase m h (rsContext (i\<lparr>rsi_ipCidrMatchSource := x, rsi_ipCidrAcceptEmpty := y\<rparr>) c) b =
      headless_matchStatesWithBase m h (rsContext i c) b" if "\<exists>rules mode inverted act. h = LogicalRule rules mode inverted act" for h
    using that by (auto simp: headless_matchStatesWithBase_def rsContext_switches logical_resets)
  show "states (RuleSetItem_matchStatesWithBase m store (i\<lparr>rsi_ipCidrMatchSource := x, rsi_ipCidrAcceptEmpty := y\<rparr>) c b) =
    states (RuleSetItem_matchStatesWithBase m store i c b)"
    using assms eq by (auto simp: states_RuleSetItem)
qed

theorem logical_rules_ignore_switches_witness:
  "RuleSetItem_matchStatesWithBase (item_Match sampleLib sampleEnv)
     [''web'' \<mapsto> (the (sampleStore ''web''))\<lparr>rs_rules := [LogicalRule [DefaultRule sampleBranch] ''and'' False None]\<rparr>]
     (\<lparr> rsi_tagList = [''web''], rsi_setList = [''web''], rsi_ipCidrMatchSource = False, rsi_ipCidrAcceptEmpty = False \<rparr>
        \<lparr>rsi_ipCidrMatchSource := True, rsi_ipCidrAcceptEmpty := True\<rparr>) sampleContext 0 =
   RuleSetItem_matchStatesWithBase (item_Match sampleLib sampleEnv)
     [''web'' \<mapsto> (the (sampleStore ''web''))\<lparr>rs_rules := [LogicalRule [DefaultRule sampleBranch] ''and'' False None]\<rparr>]
     \<lparr> rsi_tagList = [''web''], rsi_setList = [''web''], rsi_ipCidrMatchSource = False, rsi_ipCidrAcceptEmpty = False \<rparr>
     sampleContext 0"
  by (rule logical_rules_ignore_switches) (auto simp: store_rules_def)



end
