(* ===== verification/Bytes.thy ===== *)
theory Bytes
  imports Prelude
begin

unbundle bit_operations_syntax

text \<open>
  Big-endian byte sequences of words, as \<^verbatim>\<open>encoding/binary\<close> and \<^verbatim>\<open>net/netip\<close> write them, with both
  directions of the round trip.
\<close>

definition be_bytes :: "nat \<Rightarrow> 'a::len word \<Rightarrow> u8 list" where
  "be_bytes n w = map (\<lambda>i. ucast (drop_bit (8 * (n - Suc i)) w)) [0..<n]"

definition of_bytes :: "u8 list \<Rightarrow> 'a::len word" where
  "of_bytes bs = foldl (\<lambda>acc b. push_bit 8 acc OR ucast b) 0 bs"

lemma length_be_bytes [simp]: "length (be_bytes n w) = n"
  by (simp add: be_bytes_def)

lemma be_bytes_Suc: "be_bytes (Suc n) w = be_bytes n (drop_bit 8 w) @ [ucast w]"
proof -
  have "8 * (n - i) = 8 * (n - Suc i) + 8" if "i < n" for i using that by simp
  then show ?thesis by (simp add: be_bytes_def drop_bit_drop_bit)
qed

lemma of_bytes_snoc: "of_bytes (bs @ [b]) = push_bit 8 (of_bytes bs) OR ucast b"
  by (simp add: of_bytes_def)

lemma bit_of_bytes_bound: "bit (of_bytes bs :: 'a::len word) k \<Longrightarrow> k < 8 * length bs"
proof (induction bs arbitrary: k rule: rev_induct)
  case (snoc b bs)
  show ?case
  proof (cases "k < 8")
    case False
    with snoc.prems have "bit (of_bytes bs :: 'a word) (k - 8)"
      by (auto simp: of_bytes_snoc bit_simps dest: bit_imp_le_length)
    with snoc.IH have "k - 8 < 8 * length bs" by blast
    with False show ?thesis by simp
  qed simp
qed (simp add: of_bytes_def)

text \<open>Decoding an encoding of enough bytes gives the word back.\<close>

lemma of_be_bytes:
  assumes "LENGTH('a::len) \<le> 8 * n"
  shows "of_bytes (be_bytes n w) = (w :: 'a word)"
proof -
  have "of_bytes (be_bytes n w) = take_bit (8 * n) w" for w :: "'a word"
  proof (induction n arbitrary: w)
    case (Suc n)
    show ?case
      by (rule bit_eqI) (auto simp: be_bytes_Suc of_bytes_snoc Suc bit_simps)
  qed (simp add: be_bytes_def of_bytes_def)
  moreover have "take_bit (8 * n) w = w"
    using assms by (simp add: take_bit_word_eq_self)
  ultimately show ?thesis by simp
qed

text \<open>Encoding what was decoded from few enough bytes gives the bytes back.\<close>

lemma be_of_bytes:
  "8 * length bs \<le> LENGTH('a::len) \<Longrightarrow> be_bytes (length bs) (of_bytes bs :: 'a word) = bs"
proof (induction bs rule: rev_induct)
  case (snoc b bs)
  have low: "ucast (push_bit 8 (of_bytes bs :: 'a word) OR ucast b) = b"
    using snoc.prems by (intro bit_eqI) (auto simp: bit_simps)
  have high: "drop_bit 8 (push_bit 8 (of_bytes bs :: 'a word) OR ucast b) = of_bytes bs"
  proof (rule bit_eqI)
    fix k assume "possible_bit TYPE('a word) k"
    moreover have "bit (of_bytes bs :: 'a word) k \<Longrightarrow> k + 8 < LENGTH('a)"
      using bit_of_bytes_bound [where 'a = 'a, of bs k] snoc.prems by auto
    ultimately show "bit (drop_bit 8 (push_bit 8 (of_bytes bs :: 'a word) OR ucast b)) k =
        bit (of_bytes bs :: 'a word) k"
      using bit_imp_le_length [of b "8 + k"] by (auto simp: bit_simps)
  qed
  show ?case
    using snoc by (simp only: length_append_singleton be_bytes_Suc of_bytes_snoc low high) simp
qed (simp add: be_bytes_def)

end
