(* ===== verification/DNS_Message.thy ===== *)
theory DNS_Message
  imports Rule_Action Bytes
begin

text \<open>
  DNS messages as the client and the transports build and change them: the fixed responses at the end of
  \<^verbatim>\<open>dns/client.go\<close>, the time-to-live functions, EDNS options and the name helpers. The parameter
  \<open>dns_lib\<close> holds the functions of \<^verbatim>\<open>github.com/miekg/dns\<close> that the code calls.
\<close>

text \<open>What is asked of the \<^verbatim>\<open>OPT\<close> record that \<^verbatim>\<open>IsEdns0\<close> finds.\<close>

record edns0 =
  ed_Version :: u8
  ed_UDPSize :: u16
  ed_Do :: bool

record dns_lib =
  dl_IsFqdn :: "string \<Rightarrow> bool"
  dl_Fqdn :: "string \<Rightarrow> string"
  dl_Pack :: "dns_msg \<Rightarrow> u8 list option"
  dl_Unpack :: "u8 list \<Rightarrow> dns_msg option"
  dl_IsEdns0 :: "dns_msg \<Rightarrow> edns0 option"
  dl_SetEdns0 :: "dns_msg \<Rightarrow> u16 \<Rightarrow> bool \<Rightarrow> dns_msg"

text \<open>\<^verbatim>\<open>netip.Addr.AsSlice\<close>.\<close>

fun addr_AsSlice :: "addr \<Rightarrow> u8 list" where
  "addr_AsSlice (AddrInvalid _) = []"
| "addr_AsSlice (Addr4 a) = be_bytes 4 a"
| "addr_AsSlice (Addr6 a _) = be_bytes 16 a"

definition TypeA :: u16 where "TypeA = 1"
definition TypeCNAME :: u16 where "TypeCNAME = 5"
definition TypeAAAA :: u16 where "TypeAAAA = 28"
definition TypeOPT :: u16 where "TypeOPT = 41"
definition TypeHTTPS :: u16 where "TypeHTTPS = 65"
definition ClassINET :: u16 where "ClassINET = 1"
definition RcodeFormatError :: int where "RcodeFormatError = 1"
definition RcodeNameError :: int where "RcodeNameError = 3"
definition RcodeRefused :: int where "RcodeRefused = 5"
definition DefaultDNSTTL :: u32 where "DefaultDNSTTL = 600"

lemmas dns_numbers = TypeA_def TypeCNAME_def TypeAAAA_def TypeOPT_def TypeHTTPS_def ClassINET_def
  RcodeFormatError_def RcodeNameError_def RcodeRefused_def RcodeSuccess_def

section \<open>Names\<close>

definition FqdnToDomain :: "dns_lib \<Rightarrow> string \<Rightarrow> string" where
  "FqdnToDomain dl fqdn = (if dl_IsFqdn dl fqdn then butlast fqdn else fqdn)"

section \<open>Fixed responses\<close>

definition FixedResponseStatus :: "dns_msg \<Rightarrow> int \<Rightarrow> dns_msg" where
  "FixedResponseStatus message rcode =
     \<lparr> msg_Id = msg_Id message, msg_Response = True, msg_Authoritative = True,
       msg_RecursionDesired = True, msg_RecursionAvailable = True, msg_Rcode = rcode,
       msg_Question = msg_Question message, msg_Answer = [], msg_Ns = [], msg_Extra = [] \<rparr>"

definition fixedMessage :: "u16 \<Rightarrow> question \<Rightarrow> rr list \<Rightarrow> dns_msg" where
  "fixedMessage i q answer =
     \<lparr> msg_Id = i, msg_Response = True, msg_Authoritative = True,
       msg_RecursionDesired = True, msg_RecursionAvailable = True, msg_Rcode = RcodeSuccess,
       msg_Question = [q], msg_Answer = answer, msg_Ns = [], msg_Extra = [] \<rparr>"

definition addressRecord :: "question \<Rightarrow> u32 \<Rightarrow> addr \<Rightarrow> rr list" where
  "addressRecord q timeToLive address =
     (if addr_Is4 address \<and> q_Qtype q = TypeA
      then [RR (q_Name q) TypeA ClassINET timeToLive (RR_A (addr_AsSlice address))]
      else if addr_Is6 address \<and> q_Qtype q = TypeAAAA
      then [RR (q_Name q) TypeAAAA ClassINET timeToLive (RR_AAAA (addr_AsSlice address))]
      else [])"

definition FixedResponse :: "u16 \<Rightarrow> question \<Rightarrow> addr list \<Rightarrow> u32 \<Rightarrow> dns_msg" where
  "FixedResponse i q addresses timeToLive =
     fixedMessage i q (concat (map (addressRecord q timeToLive) addresses))"

definition FixedResponseCNAME :: "u16 \<Rightarrow> question \<Rightarrow> string \<Rightarrow> u32 \<Rightarrow> dns_msg" where
  "FixedResponseCNAME i q record timeToLive =
     fixedMessage i q [RR (q_Name q) TypeCNAME ClassINET timeToLive (RR_CNAME record)]"

text \<open>The next two give their records the type \<^verbatim>\<open>A\<close>, as the code does.\<close>

definition FixedResponseTXT :: "u16 \<Rightarrow> question \<Rightarrow> string list \<Rightarrow> u32 \<Rightarrow> dns_msg" where
  "FixedResponseTXT i q records timeToLive =
     fixedMessage i q [RR (q_Name q) TypeA ClassINET timeToLive (RR_TXT records)]"

definition FixedResponseMX :: "u16 \<Rightarrow> question \<Rightarrow> (u16 \<times> string) list \<Rightarrow> u32 \<Rightarrow> dns_msg" where
  "FixedResponseMX i q records timeToLive =
     fixedMessage i q
       (map (\<lambda>(pref, host). RR (q_Name q) TypeA ClassINET timeToLive (RR_MX pref host)) records)"

section \<open>Time to live\<close>

text \<open>The first \<^verbatim>\<open>SOA\<close> record decides how long a negative answer lives.\<close>

fun extractNegativeTTL :: "rr list \<Rightarrow> u32 option" where
  "extractNegativeTTL [] = None"
| "extractNegativeTTL (r # rs) =
     (case rr_data r of
        RR_SOA minttl \<Rightarrow> Some (if rr_Ttl r < minttl then rr_Ttl r else minttl)
      | _ \<Rightarrow> extractNegativeTTL rs)"

definition allRecords :: "dns_msg \<Rightarrow> rr list" where
  "allRecords m = msg_Answer m @ msg_Ns m @ msg_Extra m"

definition isOPT :: "rr \<Rightarrow> bool" where
  "isOPT r \<longleftrightarrow> rr_Rrtype r = TypeOPT"

definition ttlStep :: "u32 \<Rightarrow> rr \<Rightarrow> u32" where
  "ttlStep timeToLive r =
     (if isOPT r then timeToLive
      else if timeToLive = 0 \<or> rr_Ttl r > 0 \<and> rr_Ttl r < timeToLive then rr_Ttl r
      else timeToLive)"

definition computeTimeToLive :: "dns_msg \<Rightarrow> u32" where
  "computeTimeToLive response =
     (case (if msg_Answer response = [] then extractNegativeTTL (msg_Ns response) else None) of
        Some soaTTL \<Rightarrow> soaTTL
      | None \<Rightarrow> foldl ttlStep 0 (allRecords response))"

definition setTTL :: "u32 \<Rightarrow> rr \<Rightarrow> rr" where
  "setTTL timeToLive r =
     (if isOPT r then r else RR (rr_Name r) (rr_Rrtype r) (rr_Class r) timeToLive (rr_data r))"

definition normalizeTTL :: "dns_msg \<Rightarrow> u32 \<Rightarrow> dns_msg" where
  "normalizeTTL response timeToLive =
     response\<lparr>msg_Answer := map (setTTL timeToLive) (msg_Answer response),
              msg_Ns := map (setTTL timeToLive) (msg_Ns response),
              msg_Extra := map (setTTL timeToLive) (msg_Extra response)\<rparr>"

section \<open>EDNS options\<close>

text \<open>
  \<^verbatim>\<open>setClientSubnet\<close>: the scan stops at the first subnet option; when there is none, \<open>optRecord\<close> ends as
  the conversion result of the last extra record, which is nil unless that record is an
  \<^verbatim>\<open>OPT\<close> record. \<open>findSubnet\<close> returns the index of \<open>optRecord\<close> and the index of the option.
\<close>

fun isSubnet :: "edns_option \<Rightarrow> bool" where
  "isSubnet (EDNS0_SUBNET _ _ _) = True"
| "isSubnet _ = False"

fun optOptions :: "rr \<Rightarrow> edns_option list option" where
  "optOptions (RR _ _ _ _ (RR_OPT os)) = Some os"
| "optOptions _ = None"

fun firstSubnet :: "nat \<Rightarrow> edns_option list \<Rightarrow> nat option" where
  "firstSubnet i [] = None"
| "firstSubnet i (o1 # os) = (if isSubnet o1 then Some i else firstSubnet (Suc i) os)"

fun findSubnet :: "nat \<Rightarrow> rr list \<Rightarrow> nat option \<Rightarrow> nat option \<times> nat option" where
  "findSubnet i [] optRecord = (optRecord, None)"
| "findSubnet i (r # rs) optRecord =
     (case optOptions r of
        None \<Rightarrow> findSubnet (Suc i) rs None
      | Some os \<Rightarrow>
          (case firstSubnet 0 os of
             Some j \<Rightarrow> (Some i, Some j)
           | None \<Rightarrow> findSubnet (Suc i) rs (Some i)))"

definition subnetOption :: "prefix \<Rightarrow> edns_option" where
  "subnetOption clientSubnet =
     EDNS0_SUBNET (if addr_Is4 (prefix_Addr clientSubnet) then 1 else 2)
       (of_int (prefix_Bits clientSubnet)) (addr_AsSlice (prefix_Addr clientSubnet))"

definition setClientSubnet :: "dns_msg \<Rightarrow> prefix \<Rightarrow> dns_msg" where
  "setClientSubnet message clientSubnet =
     (let extra = msg_Extra message; new = subnetOption clientSubnet
      in case findSubnet 0 extra None of
           (None, _) \<Rightarrow> message\<lparr>msg_Extra := extra @ [RR ''.'' TypeOPT 0 0 (RR_OPT [new])]\<rparr>
         | (Some i, j) \<Rightarrow>
             (let r = extra ! i; os = the (optOptions r);
                  os' = (case j of None \<Rightarrow> os @ [new] | Some j \<Rightarrow> os[j := new])
              in message\<lparr>msg_Extra :=
                   extra[i := RR (rr_Name r) (rr_Rrtype r) (rr_Class r) (rr_Ttl r) (RR_OPT os')]\<rparr>))"

fun isPadding :: "edns_option \<Rightarrow> bool" where
  "isPadding (EDNS0_PADDING _) = True"
| "isPadding _ = False"

fun stripPadding :: "rr \<Rightarrow> rr" where
  "stripPadding (RR n t c ttl (RR_OPT os)) = RR n t c ttl (RR_OPT (filter (\<lambda>o1. \<not> isPadding o1) os))"
| "stripPadding r = r"

definition stripDNSPadding :: "dns_msg \<Rightarrow> dns_msg" where
  "stripDNSPadding response = response\<lparr>msg_Extra := map stripPadding (msg_Extra response)\<rparr>"

end
