(* ===== verification/FakeIP.thy ===== *)
theory FakeIP
  imports DNS_Message
begin

unbundle bit_operations_syntax

text \<open>
  \<^verbatim>\<open>dns/transport/fakeip\<close>: the store that hands out addresses of a configured range to domain names and
  remembers both directions, its memory storage, the metadata it saves (\<^verbatim>\<open>adapter/fakeip_metadata.go\<close>)
  and the DNS transport that answers with such addresses.

  The interface \<^verbatim>\<open>adapter.FakeIPStorage\<close> is the record \<open>fakeip_storage\<close> of its operations on a storage
  state; what the store relies on is the locale \<open>fakeip_storage_laws\<close> of \<open>FakeIP_Facts\<close>.
\<close>

section \<open>Metadata\<close>

record fakeip_metadata =
  fm_Inet4Range :: prefix
  fm_Inet6Range :: prefix
  fm_Inet4Current :: addr
  fm_Inet6Current :: addr

text \<open>
  \<^verbatim>\<open>MarshalBinary\<close> and \<^verbatim>\<open>UnmarshalBinary\<close> of \<^verbatim>\<open>netip.Addr\<close> and \<^verbatim>\<open>netip.Prefix\<close>: the address bytes, with the
  zone after sixteen of them, and one more byte for the length of a prefix.
\<close>

definition zone_bytes :: "string \<Rightarrow> u8 list" where
  "zone_bytes z = map (\<lambda>c. of_nat (of_char c)) z"

definition bytes_zone :: "u8 list \<Rightarrow> string" where
  "bytes_zone bs = map (\<lambda>b. char_of (unat b)) bs"

fun addr_MarshalBinary :: "addr \<Rightarrow> u8 list" where
  "addr_MarshalBinary (AddrInvalid _) = []"
| "addr_MarshalBinary (Addr4 a) = be_bytes 4 a"
| "addr_MarshalBinary (Addr6 a z) = be_bytes 16 a @ zone_bytes z"

definition addr_UnmarshalBinary :: "u8 list \<Rightarrow> addr option" where
  "addr_UnmarshalBinary b =
     (if length b = 0 then Some AddrZero
      else if length b = 4 then Some (Addr4 (of_bytes b))
      else if length b \<ge> 16 then Some (Addr6 (of_bytes (take 16 b)) (bytes_zone (drop 16 b)))
      else None)"

definition prefix_MarshalBinary :: "prefix \<Rightarrow> u8 list" where
  "prefix_MarshalBinary p =
     addr_MarshalBinary (addr_withoutZone (prefix_Addr p)) @ [of_int (prefix_Bits p)]"

definition prefix_UnmarshalBinary :: "u8 list \<Rightarrow> prefix option" where
  "prefix_UnmarshalBinary b =
     (if length b < 1 then None
      else case addr_UnmarshalBinary (butlast b) of
             None \<Rightarrow> None
           | Some ip \<Rightarrow> Some (PrefixFrom ip (uint (last b))))"

definition lengthPrefixed :: "u8 list \<Rightarrow> u8 list" where
  "lengthPrefixed data = be_bytes 2 (of_nat (length data) :: u16) @ data"

definition FakeIPMetadata_MarshalBinary :: "fakeip_metadata \<Rightarrow> u8 list" where
  "FakeIPMetadata_MarshalBinary m =
     lengthPrefixed (prefix_MarshalBinary (fm_Inet4Range m)) @
     lengthPrefixed (prefix_MarshalBinary (fm_Inet6Range m)) @
     lengthPrefixed (addr_MarshalBinary (fm_Inet4Current m)) @
     lengthPrefixed (addr_MarshalBinary (fm_Inet6Current m))"

text \<open>
  One turn of the decoding loop. Too few bytes for the length panic (\<^verbatim>\<open>common.Must\<close>), too few bytes of
  the element are an error.
\<close>

definition readElement :: "u8 list \<Rightarrow> (u8 list \<times> u8 list) outcome" where
  "readElement data =
     (if length data < 2 then Panic ''EOF''
      else let n = unat (of_bytes (take 2 data) :: u16); rest = drop 2 data
           in if length rest < n then Err (E_Lib ''unexpected EOF'') else Ret (take n rest, drop n rest))"

definition readValue :: "(u8 list \<Rightarrow> 'v option) \<Rightarrow> u8 list \<Rightarrow> ('v \<times> u8 list) outcome" where
  "readValue unmarshal data =
     (case readElement data of
        Panic msg \<Rightarrow> Panic msg
      | Err e \<Rightarrow> Err e
      | Ret (element, rest) \<Rightarrow>
          (case unmarshal element of None \<Rightarrow> Err (E_Lib ''unmarshal'') | Some v \<Rightarrow> Ret (v, rest)))"

definition bindOutcome :: "'a outcome \<Rightarrow> ('a \<Rightarrow> 'b outcome) \<Rightarrow> 'b outcome" where
  "bindOutcome x f = (case x of Ret a \<Rightarrow> f a | Err e \<Rightarrow> Err e | Panic msg \<Rightarrow> Panic msg)"

definition FakeIPMetadata_UnmarshalBinary :: "u8 list \<Rightarrow> fakeip_metadata outcome" where
  "FakeIPMetadata_UnmarshalBinary data =
     bindOutcome (readValue prefix_UnmarshalBinary data) (\<lambda>(r4, data).
     bindOutcome (readValue prefix_UnmarshalBinary data) (\<lambda>(r6, data).
     bindOutcome (readValue addr_UnmarshalBinary data) (\<lambda>(c4, data).
     bindOutcome (readValue addr_UnmarshalBinary data) (\<lambda>(c6, data).
       Ret \<lparr> fm_Inet4Range = r4, fm_Inet6Range = r6, fm_Inet4Current = c4, fm_Inet6Current = c6 \<rparr>))))"

section \<open>Storage\<close>

record 'st fakeip_storage =
  fs_Metadata :: "'st \<Rightarrow> fakeip_metadata option \<times> 'st"
  fs_SaveMetadata :: "'st \<Rightarrow> fakeip_metadata \<Rightarrow> rule_error option \<times> 'st"
  fs_SaveMetadataAsync :: "'st \<Rightarrow> fakeip_metadata \<Rightarrow> 'st"
  fs_Store :: "'st \<Rightarrow> addr \<Rightarrow> string \<Rightarrow> rule_error option \<times> 'st"
  fs_Load :: "'st \<Rightarrow> addr \<Rightarrow> string option"
  fs_LoadDomain :: "'st \<Rightarrow> string \<Rightarrow> bool \<Rightarrow> addr option"
  fs_Reset :: "'st \<Rightarrow> rule_error option \<times> 'st"

record memory_storage =
  addressCache :: "addr \<Rightarrow> string option"
  domainCache4 :: "string \<Rightarrow> addr option"
  domainCache6 :: "string \<Rightarrow> addr option"

definition NewMemoryStorage :: memory_storage where
  "NewMemoryStorage = \<lparr> addressCache = Map.empty, domainCache4 = Map.empty, domainCache6 = Map.empty \<rparr>"

definition MemoryStorage_FakeIPStore ::
  "memory_storage \<Rightarrow> addr \<Rightarrow> string \<Rightarrow> rule_error option \<times> memory_storage" where
  "MemoryStorage_FakeIPStore s address domain =
     (let s = (case addressCache s address of
                 None \<Rightarrow> s
               | Some oldDomain \<Rightarrow>
                   if addr_Is4 address then s\<lparr>domainCache4 := (domainCache4 s)(oldDomain := None)\<rparr>
                   else s\<lparr>domainCache6 := (domainCache6 s)(oldDomain := None)\<rparr>);
          s = s\<lparr>addressCache := (addressCache s)(address \<mapsto> domain)\<rparr>;
          s = (if addr_Is4 address then s\<lparr>domainCache4 := (domainCache4 s)(domain \<mapsto> address)\<rparr>
               else s\<lparr>domainCache6 := (domainCache6 s)(domain \<mapsto> address)\<rparr>)
      in (None, s))"

definition MemoryStorage_FakeIPLoad :: "memory_storage \<Rightarrow> addr \<Rightarrow> string option" where
  "MemoryStorage_FakeIPLoad s address = addressCache s address"

definition MemoryStorage_FakeIPLoadDomain :: "memory_storage \<Rightarrow> string \<Rightarrow> bool \<Rightarrow> addr option" where
  "MemoryStorage_FakeIPLoadDomain s domain isIPv6 =
     (if \<not> isIPv6 then domainCache4 s domain else domainCache6 s domain)"

definition MemoryStorage_FakeIPReset :: "memory_storage \<Rightarrow> rule_error option \<times> memory_storage" where
  "MemoryStorage_FakeIPReset s = (None, NewMemoryStorage)"

definition MemoryStorage :: "memory_storage fakeip_storage" where
  "MemoryStorage =
     \<lparr> fs_Metadata = (\<lambda>s. (None, s)),
       fs_SaveMetadata = (\<lambda>s m. (None, s)),
       fs_SaveMetadataAsync = (\<lambda>s m. s),
       fs_Store = MemoryStorage_FakeIPStore,
       fs_Load = MemoryStorage_FakeIPLoad,
       fs_LoadDomain = MemoryStorage_FakeIPLoadDomain,
       fs_Reset = MemoryStorage_FakeIPReset \<rparr>"

section \<open>The store\<close>

record 'st fakeip_store =
  s_inet4Range :: prefix
  s_inet6Range :: prefix
  s_inet4Last :: addr
  s_inet6Last :: addr
  s_inet4Current :: addr
  s_inet6Current :: addr
  s_storage :: "'st option"

text \<open>
  The loop sets the host bits of the sixteen-byte form. Bit \<open>7 - i mod 8\<close> of byte \<open>i div 8\<close> is bit
  \<open>127 - i\<close> of the big-endian number; an IPv4 address is the low part of \<^verbatim>\<open>::ffff:a.b.c.d\<close>.
\<close>

fun addr_As16 :: "addr \<Rightarrow> 128 word" where
  "addr_As16 (AddrInvalid _) = 0"
| "addr_As16 (Addr4 a) = push_bit 32 0xffff OR ucast a"
| "addr_As16 (Addr6 a _) = a"

definition broadcastAddress :: "prefix \<Rightarrow> addr" where
  "broadcastAddress prefix =
     (let a = prefix_Addr prefix;
          bits = nat (prefix_Bits prefix) + (if addr_Is4 a then 96 else 0);
          raw = foldl (\<lambda>raw i. raw OR push_bit (127 - i) 1) (addr_As16 a) [bits..<128]
      in if addr_Is4 a then Addr4 (ucast raw) else Addr6 raw [])"

definition NewStore :: "prefix \<Rightarrow> prefix \<Rightarrow> 'st fakeip_store" where
  "NewStore inet4Range inet6Range =
     \<lparr> s_inet4Range = inet4Range, s_inet6Range = inet6Range,
       s_inet4Last = (if prefix_IsValid inet4Range then broadcastAddress inet4Range else AddrZero),
       s_inet6Last = (if prefix_IsValid inet6Range then broadcastAddress inet6Range else AddrZero),
       s_inet4Current = AddrZero, s_inet6Current = AddrZero, s_storage = None \<rparr>"

text \<open>\<open>storage\<close> is the cache file when it stores fake addresses, and a new memory storage otherwise.\<close>

definition Store_Start :: "'st fakeip_storage \<Rightarrow> 'st \<Rightarrow> 'st fakeip_store \<Rightarrow> 'st fakeip_store" where
  "Store_Start fs storage s =
     (let (metadata, storage) = fs_Metadata fs storage
      in if metadata \<noteq> None \<and> fm_Inet4Range (the metadata) = s_inet4Range s \<and>
            fm_Inet6Range (the metadata) = s_inet6Range s
         then s\<lparr>s_inet4Current := fm_Inet4Current (the metadata),
                s_inet6Current := fm_Inet6Current (the metadata), s_storage := Some storage\<rparr>
         else s\<lparr>s_inet4Current := (if prefix_IsValid (s_inet4Range s)
                  then addr_Next (prefix_Addr (s_inet4Range s)) else s_inet4Current s),
                s_inet6Current := (if prefix_IsValid (s_inet6Range s)
                  then addr_Next (prefix_Addr (s_inet6Range s)) else s_inet6Current s),
                s_storage := Some (snd (fs_Reset fs storage))\<rparr>)"

definition Store_Contains :: "'st fakeip_store \<Rightarrow> addr \<Rightarrow> bool" where
  "Store_Contains s address \<longleftrightarrow>
     prefix_Contains (s_inet4Range s) address \<or> prefix_Contains (s_inet6Range s) address"

definition Store_metadata :: "'st fakeip_store \<Rightarrow> fakeip_metadata" where
  "Store_metadata s =
     \<lparr> fm_Inet4Range = s_inet4Range s, fm_Inet6Range = s_inet6Range s,
       fm_Inet4Current = s_inet4Current s, fm_Inet6Current = s_inet6Current s \<rparr>"

definition Store_Close :: "'st fakeip_storage \<Rightarrow> 'st fakeip_store \<Rightarrow> rule_error option \<times> 'st fakeip_store" where
  "Store_Close fs s =
     (case s_storage s of
        None \<Rightarrow> (None, s)
      | Some storage \<Rightarrow>
          (case fs_SaveMetadata fs storage (Store_metadata s) of
             (e, storage') \<Rightarrow> (e, s\<lparr>s_storage := Some storage'\<rparr>)))"

text \<open>The next address of a family: behind the current one, or two behind the address of the range.\<close>

definition nextAddress :: "prefix \<Rightarrow> addr \<Rightarrow> addr \<Rightarrow> addr" where
  "nextAddress ipRange lastAddress current =
     (let next = addr_Next current
      in if next = lastAddress \<or> \<not> prefix_Contains ipRange next
         then addr_Next (addr_Next (prefix_Addr ipRange)) else next)"

text \<open>A store that has not been started has no storage, and \<^verbatim>\<open>Create\<close> dereferences nil.\<close>

definition Store_Create ::
  "'st fakeip_storage \<Rightarrow> 'st fakeip_store \<Rightarrow> string \<Rightarrow> bool \<Rightarrow> addr outcome \<times> 'st fakeip_store" where
  "Store_Create fs s domain isIPv6 =
     (case s_storage s of
        None \<Rightarrow> (Panic ''nil storage'', s)
      | Some storage \<Rightarrow>
          (case fs_LoadDomain fs storage domain isIPv6 of
             Some address \<Rightarrow> (Ret address, s)
           | None \<Rightarrow>
               if \<not> isIPv6 \<and> \<not> addr_IsValid (s_inet4Current s)
               then (Err (E_New ''missing IPv4 fakeip address range''), s)
               else if isIPv6 \<and> \<not> addr_IsValid (s_inet6Current s)
               then (Err (E_New ''missing IPv6 fakeip address range''), s)
               else
                 (let address = (if \<not> isIPv6 then nextAddress (s_inet4Range s) (s_inet4Last s) (s_inet4Current s)
                                 else nextAddress (s_inet6Range s) (s_inet6Last s) (s_inet6Current s));
                      s = (if \<not> isIPv6 then s\<lparr>s_inet4Current := address\<rparr> else s\<lparr>s_inet6Current := address\<rparr>);
                      storage = snd (fs_Store fs storage address domain);
                      storage = fs_SaveMetadataAsync fs storage (Store_metadata s)
                  in (Ret address, s\<lparr>s_storage := Some storage\<rparr>))))"

definition Store_Lookup :: "'st fakeip_storage \<Rightarrow> 'st fakeip_store \<Rightarrow> addr \<Rightarrow> string option outcome" where
  "Store_Lookup fs s address =
     (case s_storage s of None \<Rightarrow> Panic ''nil storage'' | Some storage \<Rightarrow> Ret (fs_Load fs storage address))"

definition Store_Reset :: "'st fakeip_storage \<Rightarrow> 'st fakeip_store \<Rightarrow> unit outcome \<times> 'st fakeip_store" where
  "Store_Reset fs s =
     (case s_storage s of
        None \<Rightarrow> (Panic ''nil storage'', s)
      | Some storage \<Rightarrow>
          (case fs_Reset fs storage of
             (e, storage') \<Rightarrow> (case e of None \<Rightarrow> Ret () | Some e \<Rightarrow> Err e, s\<lparr>s_storage := Some storage'\<rparr>)))"

section \<open>The transport\<close>

record 'st fakeip_transport =
  t_store :: "'st fakeip_store"
  t_inet4Enabled :: bool
  t_inet6Enabled :: bool

definition NewTransport :: "prefix \<Rightarrow> prefix \<Rightarrow> rule_error + 'st fakeip_transport" where
  "NewTransport inet4Range inet6Range =
     (if \<not> prefix_IsValid inet4Range \<and> \<not> prefix_IsValid inet6Range
      then Inl (E_New ''at least one of inet4_range or inet6_range must be set'')
      else Inr \<lparr> t_store = NewStore inet4Range inet6Range, t_inet4Enabled = prefix_IsValid inet4Range,
                 t_inet6Enabled = prefix_IsValid inet6Range \<rparr>)"

text \<open>The store starts in the stage \<^verbatim>\<open>StartStateStart\<close>, given by the flag.\<close>

definition Transport_Start ::
  "'st fakeip_storage \<Rightarrow> 'st \<Rightarrow> bool \<Rightarrow> 'st fakeip_transport \<Rightarrow> 'st fakeip_transport" where
  "Transport_Start fs storage stageStart t =
     (if \<not> stageStart then t else t\<lparr>t_store := Store_Start fs storage (t_store t)\<rparr>)"

definition Transport_Close ::
  "'st fakeip_storage \<Rightarrow> 'st fakeip_transport \<Rightarrow> rule_error option \<times> 'st fakeip_transport" where
  "Transport_Close fs t = (case Store_Close fs (t_store t) of (e, s) \<Rightarrow> (e, t\<lparr>t_store := s\<rparr>))"

definition Transport_Exchange ::
  "dns_lib \<Rightarrow> 'st fakeip_storage \<Rightarrow> 'st fakeip_transport \<Rightarrow> dns_msg
   \<Rightarrow> dns_msg outcome \<times> 'st fakeip_transport" where
  "Transport_Exchange dl fs t message =
     (case msg_Question message of
        [] \<Rightarrow> (Panic ''index out of range'', t)
      | question # _ \<Rightarrow>
          if q_Qtype question \<noteq> TypeA \<and> q_Qtype question \<noteq> TypeAAAA
          then (Err (E_New ''only IP queries are supported by fakeip''), t)
          else if q_Qtype question = TypeA \<and> \<not> t_inet4Enabled t \<or> q_Qtype question = TypeAAAA \<and> \<not> t_inet6Enabled t
          then (Ret (FixedResponseStatus message RcodeSuccess), t)
          else case Store_Create fs (t_store t) (FqdnToDomain dl (q_Name question)) (q_Qtype question = TypeAAAA) of
                 (Panic msg, s) \<Rightarrow> (Panic msg, t\<lparr>t_store := s\<rparr>)
               | (Err e, s) \<Rightarrow> (Err e, t\<lparr>t_store := s\<rparr>)
               | (Ret address, s) \<Rightarrow>
                   (Ret (FixedResponse (msg_Id message) question [address] DefaultDNSTTL), t\<lparr>t_store := s\<rparr>))"

end
