(* ===== verification/FakeIP_Facts.thy ===== *)
theory FakeIP_Facts
  imports FakeIP
begin

unbundle bit_operations_syntax

text \<open>
  Facts on fake addresses: the saved metadata decodes to itself, the addresses handed out stay inside
  the usable part of the range and are reused only after the whole range has been used, and domain
  names and addresses stay in one-to-one correspondence.
\<close>

section \<open>Metadata\<close>

lemma bytes_zone_bytes [simp]: "bytes_zone (zone_bytes z) = z"
proof -
  have "char_of (unat (of_nat (of_char c) :: u8)) = c" for c :: char
    by (simp add: unat_of_nat)
  then show ?thesis by (simp add: bytes_zone_def zone_bytes_def map_idI)
qed

lemma length_zone_bytes [simp]: "length (zone_bytes z) = length z"
  by (simp add: zone_bytes_def)

text \<open>The values that \<^verbatim>\<open>net/netip\<close> produces: an invalid address is the zero value.\<close>

fun addr_canonical :: "addr \<Rightarrow> bool" where
  "addr_canonical (AddrInvalid n) = (n = 0)"
| "addr_canonical _ = True"

lemma addr_round_trip: "addr_canonical a \<Longrightarrow> addr_UnmarshalBinary (addr_MarshalBinary a) = Some a"
  by (cases a) (simp_all add: addr_UnmarshalBinary_def of_be_bytes)

lemma prefix_round_trip:
  assumes "prefix_wf p" "addr_canonical (prefix_Addr p)"
  shows "prefix_UnmarshalBinary (prefix_MarshalBinary p) = Some p"
proof (cases p)
  case (Prefix a n)
  with assms have wz: "addr_withoutZone a = a" and n: "n = 0 \<or> addr_IsValid a \<and> n \<le> addr_BitLen a + 1"
    and "addr_canonical a" by auto
  have bits: "uint (of_int (int n - 1) :: u8) = (if n = 0 then 255 else int n - 1)"
  proof (cases n)
    case (Suc m)
    with n have "m < 256" by (cases a) auto
    then have "unat (of_nat m :: u8) = m" by (simp add: unat_of_nat)
    with Suc show ?thesis by (simp add: uint_nat)
  qed (simp add: unsigned_minus_1_eq_mask mask_eq_exp_minus_1)
  have "prefix_UnmarshalBinary (prefix_MarshalBinary p) =
      Some (PrefixFrom a (uint (of_int (int n - 1) :: u8)))"
    unfolding prefix_UnmarshalBinary_def prefix_MarshalBinary_def Prefix prefix.sel wz prefix_Bits_def
      butlast_snoc last_snoc addr_round_trip [OF \<open>addr_canonical a\<close>] by simp
  also have "PrefixFrom a (uint (of_int (int n - 1) :: u8)) = Prefix a n"
    unfolding bits using n wz by (cases a) (auto simp: PrefixFrom_def)
  finally show ?thesis by (simp add: Prefix)
qed

lemma readElement_lengthPrefixed:
  assumes "length data < 65536"
  shows "readElement (lengthPrefixed data @ rest) = Ret (data, rest)"
proof -
  have "of_bytes (be_bytes 2 (of_nat (length data) :: u16)) = (of_nat (length data) :: u16)"
    by (rule of_be_bytes) simp
  moreover have "unat (of_nat (length data) :: u16) = length data"
    using assms by (simp add: unat_of_nat)
  ultimately show ?thesis by (simp add: readElement_def lengthPrefixed_def Let_def)
qed

lemma readValue_lengthPrefixed:
  assumes "length data < 65536" "unmarshal data = Some v"
  shows "readValue unmarshal (lengthPrefixed data @ rest) = Ret (v, rest)"
  using assms by (simp add: readValue_def readElement_lengthPrefixed)

definition zoneLength :: "addr \<Rightarrow> nat" where
  "zoneLength a = (case a of Addr6 _ z \<Rightarrow> length z | _ \<Rightarrow> 0)"

lemma length_addr_MarshalBinary: "length (addr_MarshalBinary a) \<le> 16 + zoneLength a"
  by (cases a) (simp_all add: zoneLength_def)

lemma length_prefix_MarshalBinary: "length (prefix_MarshalBinary p) \<le> 17"
  by (cases "prefix_Addr p") (simp_all add: prefix_MarshalBinary_def zone_bytes_def)

definition metadata_wf :: "fakeip_metadata \<Rightarrow> bool" where
  "metadata_wf m \<longleftrightarrow>
     prefix_wf (fm_Inet4Range m) \<and> prefix_wf (fm_Inet6Range m) \<and>
     addr_canonical (prefix_Addr (fm_Inet4Range m)) \<and> addr_canonical (prefix_Addr (fm_Inet6Range m)) \<and>
     addr_canonical (fm_Inet4Current m) \<and> addr_canonical (fm_Inet6Current m) \<and>
     zoneLength (fm_Inet4Current m) < 60000 \<and> zoneLength (fm_Inet6Current m) < 60000"

lemma readPrefix:
  assumes "prefix_wf p" "addr_canonical (prefix_Addr p)"
  shows "readValue prefix_UnmarshalBinary (lengthPrefixed (prefix_MarshalBinary p) @ rest) = Ret (p, rest)"
  using assms length_prefix_MarshalBinary [of p]
  by (intro readValue_lengthPrefixed prefix_round_trip) simp_all

lemma readAddr:
  assumes "addr_canonical a" "zoneLength a < 60000"
  shows "readValue addr_UnmarshalBinary (lengthPrefixed (addr_MarshalBinary a) @ rest) = Ret (a, rest)"
  using assms length_addr_MarshalBinary [of a]
  by (intro readValue_lengthPrefixed addr_round_trip) simp_all

section \<open>Addresses as numbers\<close>

fun addrNum :: "addr \<Rightarrow> nat" where
  "addrNum (AddrInvalid n) = 0"
| "addrNum (Addr4 a) = unat a"
| "addrNum (Addr6 a _) = unat a"

definition mkAddr :: "bool \<Rightarrow> nat \<Rightarrow> addr" where
  "mkAddr isIPv6 n = (if isIPv6 then Addr6 (of_nat n) [] else Addr4 (of_nat n))"

definition famBits :: "bool \<Rightarrow> nat" where
  "famBits isIPv6 = (if isIPv6 then 128 else 32)"

lemma addrNum_mkAddr [simp]: "n < 2 ^ famBits v \<Longrightarrow> addrNum (mkAddr v n) = n"
  by (auto simp: mkAddr_def famBits_def unat_of_nat split: if_splits)

lemma mkAddr_valid [simp]: "addr_IsValid (mkAddr v n)" "addr_Is4 (mkAddr v n) \<longleftrightarrow> \<not> v"
  "addr_Is6 (mkAddr v n) \<longleftrightarrow> v" "addr_withoutZone (mkAddr v n) = mkAddr v n"
  by (simp_all add: mkAddr_def)

lemma mkAddr_inject: "m < 2 ^ famBits v \<Longrightarrow> n < 2 ^ famBits v \<Longrightarrow> mkAddr v m = mkAddr v n \<longleftrightarrow> m = n"
  by (metis addrNum_mkAddr)

lemma addr_Next_mkAddr: "Suc n < 2 ^ famBits v \<Longrightarrow> addr_Next (mkAddr v n) = mkAddr v (Suc n)"
proof -
  assume n: "Suc n < 2 ^ famBits v"
  have "unat (of_nat (Suc n) :: u32) = Suc n" if "\<not> v"
    using n that by (simp add: famBits_def unat_of_nat del: of_nat_Suc)
  then have "of_nat (Suc n) \<noteq> (0 :: u32)" if "\<not> v" using that by (metis unat_0 nat.distinct(1))
  moreover have "unat (of_nat (Suc n) :: 128 word) = Suc n" if v
    using n that by (simp add: famBits_def unat_of_nat del: of_nat_Suc)
  then have "of_nat (Suc n) \<noteq> (0 :: 128 word)" if v using that by (metis unat_0 nat.distinct(1))
  ultimately show ?thesis by (auto simp: mkAddr_def add.commute)
qed

lemma unat_or_mask:
  fixes p :: "'a::len word"
  assumes "k \<le> LENGTH('a)"
  shows "unat (p OR mask k) = unat p div 2 ^ k * 2 ^ k + 2 ^ k - 1"
proof -
  have "unat (p OR mask k) = unat p OR mask k"
    using assms by (intro bit_eqI) (auto simp: bit_simps dest: bit_imp_le_length)
  also have "\<dots> = push_bit k (drop_bit k (unat p)) OR mask k"
    by (rule bit_eqI) (auto simp: bit_simps)
  also have "\<dots> = push_bit k (drop_bit k (unat p)) + mask k"
    by (rule disjunctive_add [symmetric]) (auto simp: bit_simps)
  finally show ?thesis
    by (simp add: push_bit_eq_mult drop_bit_eq_div mask_eq_exp_minus_1)
qed

lemma host_bits_foldl:
  fixes w :: "128 word"
  assumes "b \<le> 128"
  shows "foldl (\<lambda>raw i. raw OR 2 ^ (127 - i)) w [b..<128] = w OR mask (128 - b)"
proof -
  have set: "bit (foldl (\<lambda>raw i. raw OR 2 ^ (127 - i)) w is) k \<longleftrightarrow> bit w k \<or> (\<exists>i\<in>set is. 127 - i = k)"
    if "k < 128" for k "is" and w :: "128 word"
    using that by (induction "is" arbitrary: w) (auto simp: bit_simps)
  show ?thesis
  proof (rule bit_eqI)
    fix k assume "possible_bit TYPE(128 word) k"
    then have k: "k < 128" by simp
    have "(\<exists>i\<in>set [b..<128]. 127 - i = k) \<longleftrightarrow> k < 128 - b"
      using k by (auto intro!: bexI [of _ "127 - k"])
    with k show "bit (foldl (\<lambda>raw i. raw OR 2 ^ (127 - i)) w [b..<128]) k = bit (w OR mask (128 - b)) k"
      by (simp add: set bit_simps)
  qed
qed

definition hostSize :: "bool \<Rightarrow> nat \<Rightarrow> nat" where
  "hostSize v b = 2 ^ (famBits v - b)"

definition lastNum :: "bool \<Rightarrow> nat \<Rightarrow> nat \<Rightarrow> nat" where
  "lastNum v base b = base div hostSize v b * hostSize v b + hostSize v b - 1"

lemma low_word_or_mask:
  "k \<le> 32 \<Longrightarrow> ucast (push_bit 32 (w :: 128 word) OR ucast a OR mask k) = (a :: u32) OR mask k"
  by (rule bit_eqI) (auto simp: bit_simps)

lemma unat_of_nat_fam:
  "n < 2 ^ famBits False \<Longrightarrow> unat (of_nat n :: u32) = n" "n < 2 ^ famBits True \<Longrightarrow> unat (of_nat n :: 128 word) = n"
  by (simp_all add: famBits_def unat_of_nat)

lemma broadcast_mkAddr:
  assumes "b \<le> famBits v" "base < 2 ^ famBits v"
  shows "broadcastAddress (Prefix (mkAddr v base) (Suc b)) = mkAddr v (lastNum v base b)"
proof (cases v)
  case True
  have "unat (of_nat base OR mask (128 - b) :: 128 word) = lastNum v base b"
    using assms True by (simp add: unat_or_mask unat_of_nat_fam lastNum_def hostSize_def famBits_def)
  then have "of_nat base OR mask (128 - b) = (of_nat (lastNum v base b) :: 128 word)"
    by (metis of_nat_unat ucast_id)
  with True assms(1) show ?thesis
    by (simp add: broadcastAddress_def mkAddr_def prefix_Bits_def host_bits_foldl famBits_def)
next
  case False
  have "unat (of_nat base OR mask (32 - b) :: u32) = lastNum v base b"
    using assms False by (simp add: unat_or_mask unat_of_nat_fam lastNum_def hostSize_def famBits_def)
  then have "of_nat base OR mask (32 - b) = (of_nat (lastNum v base b) :: u32)"
    by (metis of_nat_unat ucast_id)
  moreover have "128 - (b + 96) = 32 - b" by simp
  ultimately show ?thesis
    using False assms(1) low_word_or_mask [of "32 - b" "0xffff" "of_nat base"]
    by (simp add: broadcastAddress_def mkAddr_def prefix_Bits_def host_bits_foldl famBits_def or.assoc)
qed

lemma same_prefix_div:
  "same_prefix b x y \<longleftrightarrow>
   unat x div 2 ^ (LENGTH('a) - b) = unat (y :: 'a::len word) div 2 ^ (LENGTH('a) - b)"
  by (simp only: same_prefix_iff_drop word_unat_eq_iff unat_drop_bit_eq) (simp only: drop_bit_eq_div)

lemma contains_mkAddr:
  assumes "b \<le> famBits v" "base < 2 ^ famBits v" "n < 2 ^ famBits v"
  shows "prefix_Contains (Prefix (mkAddr v base) (Suc b)) (mkAddr v n) \<longleftrightarrow>
    n div hostSize v b = base div hostSize v b"
proof (cases v)
  case True
  with assms show ?thesis
    by (simp add: mkAddr_def same_prefix_div unat_of_nat_fam hostSize_def famBits_def)
next
  case False
  with assms show ?thesis
    by (simp add: mkAddr_def same_prefix_div unat_of_nat_fam hostSize_def famBits_def)
qed

lemma lastNum_bound:
  assumes "b \<le> famBits v" "base < 2 ^ famBits v"
  shows "base \<le> lastNum v base b" "lastNum v base b < 2 ^ famBits v"
proof -
  have pos: "0 < hostSize v b" by (simp add: hostSize_def)
  have "base = base div hostSize v b * hostSize v b + base mod hostSize v b"
    by (rule div_mult_mod_eq [symmetric])
  moreover have "base mod hostSize v b < hostSize v b" using pos by simp
  ultimately show "base \<le> lastNum v base b" by (simp add: lastNum_def)
  have split: "2 ^ famBits v = 2 ^ b * hostSize v b"
    using assms(1) by (simp add: hostSize_def flip: power_add)
  then have "base div hostSize v b < 2 ^ b"
    using assms(2) pos by (simp add: less_mult_imp_div_less)
  then have "(base div hostSize v b + 1) * hostSize v b \<le> 2 ^ b * hostSize v b"
    by (intro mult_le_mono1) simp
  with pos show "lastNum v base b < 2 ^ famBits v" by (simp add: lastNum_def split)
qed

lemma inside_div:
  assumes "base \<le> n" "n \<le> lastNum v base b"
  shows "n div hostSize v b = base div hostSize v b"
proof -
  have pos: "0 < hostSize v b" by (simp add: hostSize_def)
  have "base div hostSize v b \<le> n div hostSize v b" using assms(1) by (rule div_le_mono)
  moreover have "n < (base div hostSize v b + 1) * hostSize v b"
    using assms(2) pos by (simp add: lastNum_def)
  then have "n div hostSize v b < base div hostSize v b + 1" by (rule less_mult_imp_div_less)
  ultimately show ?thesis by simp
qed

section \<open>The pool of a range\<close>

text \<open>
  A range that can serve: its address and at least two more lie below the last address. The pool are
  the addresses from two behind the range's address to the one before the last.
\<close>

definition rangeNum :: "bool \<Rightarrow> prefix \<Rightarrow> nat \<Rightarrow> nat \<Rightarrow> bool" where
  "rangeNum v r base b \<longleftrightarrow>
     r = Prefix (mkAddr v base) (Suc b) \<and> b \<le> famBits v \<and> base < 2 ^ famBits v \<and> base + 2 < lastNum v base b"

definition usableRange :: "bool \<Rightarrow> prefix \<Rightarrow> bool" where
  "usableRange v r \<longleftrightarrow>
     prefix_wf r \<and> prefix_IsValid r \<and> (if v then addr_Is6 (prefix_Addr r) else addr_Is4 (prefix_Addr r)) \<and>
     addrNum (prefix_Addr r) + 2 < addrNum (broadcastAddress r)"

lemma unat_less_fam: "unat (x :: u32) < 4294967296" "unat (y :: 128 word) < 340282366920938463463374607431768211456"
proof -
  have "unat x < 2 ^ LENGTH(32)" "unat y < 2 ^ LENGTH(128)" by (rule unsigned_less)+
  then show "unat x < 4294967296" "unat y < 340282366920938463463374607431768211456" by simp_all
qed

lemma usableRange_num:
  assumes "usableRange v r"
  shows "\<exists>base b. rangeNum v r base b"
proof -
  obtain a n where r: "r = Prefix a n" by (cases r)
  with assms obtain b where n: "n = Suc b" by (cases n) (auto simp: usableRange_def prefix_IsValid_def)
  have a: "a = mkAddr v (addrNum a)" and bound: "addrNum a < 2 ^ famBits v" and b: "b \<le> famBits v"
    using assms unat_less_fam
    by (cases a; cases v; simp add: usableRange_def r n mkAddr_def famBits_def)+
  have "addrNum (broadcastAddress r) = lastNum v (addrNum a) b"
    using broadcast_mkAddr [OF b bound] lastNum_bound [OF b bound] a by (simp add: r n)
  with assms a b bound have "rangeNum v r (addrNum a) b"
    by (simp add: rangeNum_def r n usableRange_def)
  then show ?thesis by blast
qed

definition poolSize :: "prefix \<Rightarrow> nat" where
  "poolSize r = addrNum (broadcastAddress r) - addrNum (prefix_Addr r) - 2"

definition inPool :: "prefix \<Rightarrow> addr \<Rightarrow> bool" where
  "inPool r a \<longleftrightarrow> prefix_Contains r a \<and> addrNum (prefix_Addr r) + 2 \<le> addrNum a \<and>
     addrNum a < addrNum (broadcastAddress r)"

lemma rangeNum_facts:
  assumes "rangeNum v r base b"
  shows "prefix_Addr r = mkAddr v base" "broadcastAddress r = mkAddr v (lastNum v base b)"
    "addrNum (prefix_Addr r) = base" "addrNum (broadcastAddress r) = lastNum v base b"
    "lastNum v base b < 2 ^ famBits v" "base + 2 < lastNum v base b"
    "\<And>n. base \<le> n \<Longrightarrow> n \<le> lastNum v base b \<Longrightarrow> prefix_Contains r (mkAddr v n)"
    "poolSize r = lastNum v base b - base - 2"
  using assms lastNum_bound [of b v base] broadcast_mkAddr [of b v base] contains_mkAddr [of b v base]
  by (auto simp: rangeNum_def poolSize_def inside_div)

lemma inPool_mkAddr:
  assumes "rangeNum v r base b" "base + 2 \<le> n" "n < lastNum v base b"
  shows "inPool r (mkAddr v n)"
  using assms rangeNum_facts [OF assms(1)] by (simp add: inPool_def)

lemma nextAddress_num:
  assumes r: "rangeNum v r base b" and n: "base < n" "n < lastNum v base b"
  shows "nextAddress r (broadcastAddress r) (mkAddr v n) =
    mkAddr v (if Suc n = lastNum v base b then base + 2 else Suc n)"
proof -
  note f = rangeNum_facts [OF r]
  have next1: "addr_Next (mkAddr v n) = mkAddr v (Suc n)"
    using n f(5) by (intro addr_Next_mkAddr) simp
  have "addr_Next (mkAddr v base) = mkAddr v (Suc base)"
    using f(5,6) by (intro addr_Next_mkAddr) simp
  moreover have "addr_Next (mkAddr v (Suc base)) = mkAddr v (Suc (Suc base))"
    using f(5,6) by (intro addr_Next_mkAddr) simp
  ultimately have first: "addr_Next (addr_Next (prefix_Addr r)) = mkAddr v (base + 2)"
    by (simp add: f(1))
  have "mkAddr v (Suc n) = mkAddr v (lastNum v base b) \<longleftrightarrow> Suc n = lastNum v base b"
    using n f(5) by (intro mkAddr_inject) simp_all
  then show ?thesis
    using n f(7) [of "Suc n"] by (simp add: nextAddress_def next1 first f(2))
qed

section \<open>The invariant of the store\<close>

text \<open>A family of the store: its range, its last address and the current address.\<close>

definition famRange :: "'st fakeip_store \<Rightarrow> bool \<Rightarrow> prefix" where
  "famRange s v6 = (if v6 then s_inet6Range s else s_inet4Range s)"

definition famCurrent :: "'st fakeip_store \<Rightarrow> bool \<Rightarrow> addr" where
  "famCurrent s v6 = (if v6 then s_inet6Current s else s_inet4Current s)"

definition famLast :: "'st fakeip_store \<Rightarrow> bool \<Rightarrow> addr" where
  "famLast s v6 = (if v6 then s_inet6Last s else s_inet4Last s)"

text \<open>
  The invariant: a family either has no range and hands nothing out, or its range is usable and its
  current address lies between the range's address and the last one; every stored address is in
  the pool of its family.
\<close>

definition famInv :: "'st fakeip_store \<Rightarrow> bool \<Rightarrow> bool" where
  "famInv s v6 \<longleftrightarrow>
     \<not> addr_IsValid (famCurrent s v6) \<and> \<not> prefix_IsValid (famRange s v6) \<or>
     (\<exists>base b n. rangeNum v6 (famRange s v6) base b \<and> famLast s v6 = broadcastAddress (famRange s v6) \<and>
        famCurrent s v6 = mkAddr v6 n \<and> base < n \<and> n < lastNum v6 base b)"

definition storeInv :: "'st fakeip_storage \<Rightarrow> ('st \<Rightarrow> bool) \<Rightarrow> 'st fakeip_store \<Rightarrow> bool" where
  "storeInv fs ok s \<longleftrightarrow> famInv s False \<and> famInv s True \<and>
     (\<exists>st. s_storage s = Some st \<and> ok st \<and>
        (\<forall>a d. fs_Load fs st a = Some d \<longrightarrow> inPool (famRange s (\<not> addr_Is4 a)) a))"

text \<open>The stores reached by any sequence of allocations and resets; lookups change nothing.\<close>

inductive fakeip_run :: "'st fakeip_storage \<Rightarrow> 'st fakeip_store \<Rightarrow> 'st fakeip_store \<Rightarrow> bool"
  for fs :: "'st fakeip_storage" and s0 :: "'st fakeip_store" where
  run_start: "fakeip_run fs s0 s0"
| run_create: "fakeip_run fs s0 s \<Longrightarrow> fakeip_run fs s0 (snd (Store_Create fs s domain isIPv6))"
| run_reset: "fakeip_run fs s0 s \<Longrightarrow> fakeip_run fs s0 (snd (Store_Reset fs s))"

lemma create_range: "famRange (snd (Store_Create fs s d v6)) = famRange s"
  by (rule ext) (simp add: famRange_def Store_Create_def Let_def split: option.splits)

lemma reset_range: "famRange (snd (Store_Reset fs s)) = famRange s"
  by (rule ext) (simp add: famRange_def Store_Reset_def split: option.splits prod.splits)

lemma run_range:
  assumes "fakeip_run fs s0 s"
  shows "famRange s = famRange s0"
  using assms by induction (simp_all add: create_range reset_range)

section \<open>What the store relies on\<close>

text \<open>
  The contract of a storage: \<open>ok\<close> states are those in which both directions agree; storing an address for
  a domain without one keeps them so, forgets the domain that had the address before, and changes
  nothing else.
\<close>

locale fakeip_storage_laws =
  fixes fs :: "'st fakeip_storage" and ok :: "'st \<Rightarrow> bool"
  assumes agree: "ok st \<Longrightarrow>
      fs_LoadDomain fs st d v6 = Some a \<longleftrightarrow> fs_Load fs st a = Some d \<and> v6 = (\<not> addr_Is4 a)"
    and store_ok: "ok st \<Longrightarrow> fs_LoadDomain fs st d (\<not> addr_Is4 a) = None \<Longrightarrow> ok (snd (fs_Store fs st a d))"
    and store_load: "fs_Load fs (snd (fs_Store fs st a d)) a' = (if a' = a then Some d else fs_Load fs st a')"
    and metadata_ok: "ok st \<Longrightarrow> ok (snd (fs_Metadata fs st))"
    and save_ok: "ok st \<Longrightarrow> ok (fs_SaveMetadataAsync fs st m)"
    and save_load: "fs_Load fs (fs_SaveMetadataAsync fs st m) a = fs_Load fs st a"
    and reset_ok: "ok st \<Longrightarrow> ok (snd (fs_Reset fs st))"
    and reset_load: "fs_Load fs (snd (fs_Reset fs st)) a = None"
begin

text \<open>What one allocation does to the observable store.\<close>

lemma create_new:
  assumes inv: "storeInv fs ok s" and st: "s_storage s = Some st" and none: "fs_LoadDomain fs st d v6 = None"
    and valid: "addr_IsValid (famCurrent s v6)"
    and r: "rangeNum v6 (famRange s v6) base b" and n: "famCurrent s v6 = mkAddr v6 n"
      "base < n" "n < lastNum v6 base b"
    and m: "m = (if Suc n = lastNum v6 base b then base + 2 else Suc n)"
  shows "\<exists>s' st'. Store_Create fs s d v6 = (Ret (mkAddr v6 m), s') \<and> storeInv fs ok s' \<and>
    s_storage s' = Some st' \<and> famCurrent s' v6 = mkAddr v6 m \<and> famRange s' = famRange s \<and>
    (\<forall>a. fs_Load fs st' a = (if a = mkAddr v6 m then Some d else fs_Load fs st a))"
proof -
  have last: "famLast s v6 = broadcastAddress (famRange s v6)"
    using inv valid by (cases v6) (auto simp: storeInv_def famInv_def)
  have m': "base < m" "m < lastNum v6 base b" "base + 2 \<le> m"
    using n(2,3) rangeNum_facts(6) [OF r] by (auto simp: m)
  have na: "nextAddress (famRange s v6) (famLast s v6) (famCurrent s v6) = mkAddr v6 m"
    unfolding last n(1) m by (rule nextAddress_num [OF r n(2,3)])
  let ?s1 = "if v6 then s\<lparr>s_inet6Current := mkAddr v6 m\<rparr> else s\<lparr>s_inet4Current := mkAddr v6 m\<rparr>"
  let ?st = "fs_SaveMetadataAsync fs (snd (fs_Store fs st (mkAddr v6 m) d)) (Store_metadata ?s1)"
  let ?s = "?s1\<lparr>s_storage := Some ?st\<rparr>"
  have eq: "Store_Create fs s d v6 = (Ret (mkAddr v6 m), ?s)"
    using st none valid na
    by (cases v6) (simp_all add: Store_Create_def Let_def famRange_def famLast_def famCurrent_def)
  have okst: "ok st" and pool: "\<And>a d. fs_Load fs st a = Some d \<Longrightarrow> inPool (famRange s (\<not> addr_Is4 a)) a"
    using inv st by (auto simp: storeInv_def)
  have ok': "ok ?st" by (intro save_ok store_ok okst) (simp add: none)
  have load: "\<forall>a. fs_Load fs ?st a = (if a = mkAddr v6 m then Some d else fs_Load fs st a)"
    by (simp add: save_load store_load)
  have fam: "famRange ?s = famRange s" "famLast ?s = famLast s"
    "famCurrent ?s = (famCurrent s)(v6 := mkAddr v6 m)"
    by (auto simp: fun_eq_iff famRange_def famLast_def famCurrent_def)
  have "famInv ?s v6" unfolding famInv_def fam
    using r m' last by (intro disjI2 exI [of _ base] exI [of _ b] exI [of _ m]) simp
  moreover have "famInv ?s (\<not> v6)"
    using inv unfolding famInv_def fam by (cases v6) (auto simp: storeInv_def famInv_def)
  ultimately have fi: "famInv ?s False" "famInv ?s True" by (cases v6; simp)+
  have "\<forall>a d'. fs_Load fs ?st a = Some d' \<longrightarrow> inPool (famRange s (\<not> addr_Is4 a)) a"
    using pool inPool_mkAddr [OF r m'(3,2)] by (auto simp: load)
  with fi ok' have "storeInv fs ok ?s" by (simp add: storeInv_def fam)
  moreover have "famCurrent ?s v6 = mkAddr v6 m" using fam(3) by simp
  ultimately show ?thesis using eq fam(1) load by (intro exI [of _ ?s] exI [of _ ?st]) simp
qed

lemma create_known:
  assumes "s_storage s = Some st" "fs_LoadDomain fs st d v6 = Some a"
  shows "Store_Create fs s d v6 = (Ret a, s)"
  using assms by (simp add: Store_Create_def)

lemma create_missing:
  assumes "s_storage s = Some st" "fs_LoadDomain fs st d v6 = None" "\<not> addr_IsValid (famCurrent s v6)"
  shows "Store_Create fs s d v6 =
    (Err (E_New (if v6 then ''missing IPv6 fakeip address range'' else ''missing IPv4 fakeip address range'')), s)"
  using assms by (auto simp: Store_Create_def famCurrent_def)

text \<open>An allocation finds the domain, has no range to serve from, or takes the next address of the pool.\<close>

lemma create_cases:
  assumes inv: "storeInv fs ok s" and st: "s_storage s = Some st"
  obtains (known) a where "fs_LoadDomain fs st d v6 = Some a" "Store_Create fs s d v6 = (Ret a, s)"
  | (missing) e where "Store_Create fs s d v6 = (Err e, s)" "\<not> prefix_IsValid (famRange s v6)"
  | (fresh) base b n where "fs_LoadDomain fs st d v6 = None" "addr_IsValid (famCurrent s v6)"
      "rangeNum v6 (famRange s v6) base b" "famCurrent s v6 = mkAddr v6 n" "base < n" "n < lastNum v6 base b"
proof (cases "fs_LoadDomain fs st d v6")
  case None
  show thesis
  proof (cases "addr_IsValid (famCurrent s v6)")
    case True
    then have "famInv s v6" using inv by (cases v6) (auto simp: storeInv_def)
    with True None show thesis by (auto simp: famInv_def intro: fresh)
  next
    case False
    moreover have "famInv s v6" using inv by (cases v6) (auto simp: storeInv_def)
    ultimately show thesis using create_missing [OF st None] by (intro missing) (auto simp: famInv_def)
  qed
next
  case (Some a)
  with st show thesis by (intro known create_known)
qed

lemma create_returns:
  assumes inv: "storeInv fs ok s" and r: "prefix_IsValid (famRange s v6)"
  shows "\<exists>a s'. Store_Create fs s d v6 = (Ret a, s')"
proof -
  obtain st where st: "s_storage s = Some st" using inv by (auto simp: storeInv_def)
  from inv st show ?thesis
  proof (cases rule: create_cases [of s st d v6])
    case (fresh base b n)
    from create_new [OF inv st fresh refl] show ?thesis by blast
  qed (use r in simp_all)
qed

lemma create_inv:
  assumes inv: "storeInv fs ok s"
  shows "storeInv fs ok (snd (Store_Create fs s d v6))"
proof -
  obtain st where st: "s_storage s = Some st" using inv by (auto simp: storeInv_def)
  from inv st show ?thesis
  proof (cases rule: create_cases [of s st d v6])
    case (fresh base b n)
    from create_new [OF inv st fresh refl] show ?thesis by auto
  qed (use inv in simp_all)
qed

lemma reset_inv:
  assumes "storeInv fs ok s"
  shows "storeInv fs ok (snd (Store_Reset fs s))"
  using assms reset_ok reset_load
  by (auto simp: storeInv_def famInv_def Store_Reset_def famRange_def famCurrent_def famLast_def
      split: prod.splits) (metis option.distinct(1) snd_conv)+

lemma run_inv:
  assumes "fakeip_run fs s s'" "storeInv fs ok s"
  shows "storeInv fs ok s'"
  using assms by induction (auto intro: create_inv reset_inv)

text \<open>What the caller of \<^verbatim>\<open>Create\<close> gets.\<close>

lemma create_serves:
  assumes inv: "storeInv fs ok s" and cr: "Store_Create fs s d v6 = (Ret a, s')"
  shows "Store_Lookup fs s' a = Ret (Some d)" "inPool (famRange s v6) a" "addr_Is4 a \<longleftrightarrow> \<not> v6"
    "Store_Create fs s' d v6 = (Ret a, s')" "famRange s' = famRange s" "storeInv fs ok s'"
proof -
  obtain st where st: "s_storage s = Some st" and okst: "ok st"
    and pool: "\<And>a d. fs_Load fs st a = Some d \<Longrightarrow> inPool (famRange s (\<not> addr_Is4 a)) a"
    using inv by (auto simp: storeInv_def)
  show inv': "storeInv fs ok s'" using create_inv [OF inv, of d v6] cr by simp
  have "(\<exists>st'. s_storage s' = Some st' \<and> fs_Load fs st' a = Some d) \<and> addr_Is4 a = (\<not> v6) \<and> famRange s' = famRange s"
    using inv st
  proof (cases rule: create_cases [of s st d v6])
    case (known a')
    with agree [OF okst] cr st show ?thesis by auto
  next
    case (fresh base b n)
    define m where "m = (if Suc n = lastNum v6 base b then base + 2 else Suc n)"
    from create_new [OF inv st fresh m_def] cr show ?thesis by auto
  qed (use cr in simp)
  then obtain st' where st': "s_storage s' = Some st'" "fs_Load fs st' a = Some d"
    and fam: "addr_Is4 a \<longleftrightarrow> \<not> v6" "famRange s' = famRange s" by auto
  from inv' st' have ok': "ok st'" and "inPool (famRange s' (\<not> addr_Is4 a)) a" by (auto simp: storeInv_def)
  with fam show "inPool (famRange s v6) a" by simp
  show "Store_Lookup fs s' a = Ret (Some d)" using st' by (simp add: Store_Lookup_def)
  show "Store_Create fs s' d v6 = (Ret a, s')"
    using st' fam agree [OF ok'] by (intro create_known [OF st'(1)]) auto
  show "addr_Is4 a \<longleftrightarrow> \<not> v6" "famRange s' = famRange s" by (fact fam)+
qed

text \<open>
  The current address walks through the pool: one allocation of the family moves it on by at most
  one, and writes nothing but the address behind it.
\<close>

lemma create_walks:
  assumes inv: "storeInv fs ok s" and r: "rangeNum v6 (famRange s v6) base b"
    and sz: "sz = lastNum v6 base b - (base + 2)" "p < sz" and cur: "famCurrent s v6 = mkAddr v6 (base + 2 + p)"
  shows "\<exists>k. k \<le> (if w = v6 then 1 else 0) \<and> (let s' = snd (Store_Create fs s d w) in
     famCurrent s' v6 = mkAddr v6 (base + 2 + (p + k) mod sz) \<and> famRange s' = famRange s \<and>
     (\<forall>a. addr_Is4 a = (\<not> v6) \<and> (a = mkAddr v6 (base + 2 + (p + 1) mod sz) \<longrightarrow> k = 0) \<longrightarrow>
        Store_Lookup fs s' a = Store_Lookup fs s a))"
proof -
  obtain st where st: "s_storage s = Some st" using inv by (auto simp: storeInv_def)
  have same: ?thesis if "snd (Store_Create fs s d w) = s"
    using that cur sz by (intro exI [of _ 0]) (simp add: Let_def)
  from inv st show ?thesis
  proof (cases rule: create_cases [of s st d w])
    case (fresh base' b' n)
    define m where "m = (if Suc n = lastNum w base' b' then base' + 2 else Suc n)"
    from create_new [OF inv st fresh m_def] obtain s' st' where
      s': "snd (Store_Create fs s d w) = s'" "s_storage s' = Some st'" "famCurrent s' w = mkAddr w m"
        "famRange s' = famRange s"
      and load: "\<forall>a. fs_Load fs st' a = (if a = mkAddr w m then Some d else fs_Load fs st a)" by auto
    have look: "Store_Lookup fs s' a = Store_Lookup fs s a" if "a \<noteq> mkAddr w m" for a
      using that st s'(2) load by (simp add: Store_Lookup_def)
    have other: "famCurrent s' (\<not> w) = famCurrent s (\<not> w)"
      using st fresh(1,2) s'(1) by (cases w) (auto simp: Store_Create_def Let_def famCurrent_def)
    show ?thesis
    proof (cases "w = v6")
      case True
      note f = rangeNum_facts [OF r]
      have base: "base' = base" "lastNum w base' b' = lastNum v6 base b"
        using rangeNum_facts(3,4) [OF fresh(3)] f(3,4) True by simp_all
      have "n < 2 ^ famBits v6" "base + 2 + p < 2 ^ famBits v6"
        using fresh(6) base f(5) sz by simp_all
      then have "n = base + 2 + p" using fresh(4) cur True mkAddr_inject by simp
      then have "m = base + 2 + (p + 1) mod sz"
        using sz base f(6) by (auto simp: m_def mod_Suc)
      with s'(3) True look show ?thesis
        unfolding s'(1) Let_def by (intro exI [of _ 1] conjI allI impI look s'(4)) simp_all
    next
      case False
      have "famCurrent s' v6 = mkAddr v6 (base + 2 + (p + 0) mod sz)"
        using False other cur sz by (cases v6; cases w) simp_all
      moreover have "a \<noteq> mkAddr w m" if "addr_Is4 a = (\<not> v6)" for a using False that by auto
      ultimately show ?thesis
        unfolding s'(1) Let_def by (intro exI [of _ 0] conjI allI impI look s'(4)) simp_all
    qed
  qed (use same in simp_all)
qed

lemma creates_walk:
  assumes inv: "storeInv fs ok s" and r: "rangeNum v6 (famRange s v6) base b"
    and sz: "sz = lastNum v6 base b - (base + 2)" "p < sz" and cur: "famCurrent s v6 = mkAddr v6 (base + 2 + p)"
    and few: "length (filter (\<lambda>(d, w). w = v6) ops) < sz"
  shows "\<exists>k. k \<le> length (filter (\<lambda>(d, w). w = v6) ops) \<and>
     (let s' = foldl (\<lambda>s (d, w). snd (Store_Create fs s d w)) s ops in
        storeInv fs ok s' \<and> famRange s' = famRange s \<and>
        famCurrent s' v6 = mkAddr v6 (base + 2 + (p + k) mod sz) \<and>
        Store_Lookup fs s' (mkAddr v6 (base + 2 + p)) = Store_Lookup fs s (mkAddr v6 (base + 2 + p)))"
  using few
proof (induction ops rule: rev_induct)
  case Nil
  with inv cur sz show ?case by (intro exI [of _ 0]) (simp add: Let_def)
next
  case (snoc op ops)
  obtain d w where op: "op = (d, w)" by (cases op)
  let ?n = "length (filter (\<lambda>(d, w). w = v6) ops)"
  let ?s = "foldl (\<lambda>s (d, w). snd (Store_Create fs s d w)) s ops"
  let ?a = "mkAddr v6 (base + 2 + p)"
  from snoc obtain k where k: "k \<le> ?n" "storeInv fs ok ?s" "famRange ?s = famRange s"
      "famCurrent ?s v6 = mkAddr v6 (base + 2 + (p + k) mod sz)" "Store_Lookup fs ?s ?a = Store_Lookup fs s ?a"
    by (auto simp: Let_def split: if_splits)
  have r': "rangeNum v6 (famRange ?s v6) base b" using r k(3) by simp
  have "(p + k) mod sz < sz" using sz by simp
  from create_walks [OF k(2) r' sz(1) this k(4), of w d] obtain j where
    j: "j \<le> (if w = v6 then 1 else 0)"
      "famCurrent (snd (Store_Create fs ?s d w)) v6 = mkAddr v6 (base + 2 + (p + k + j) mod sz)"
      "famRange (snd (Store_Create fs ?s d w)) = famRange s"
    and keep: "\<forall>a. addr_Is4 a = (\<not> v6) \<and> (a = mkAddr v6 (base + 2 + ((p + k) mod sz + 1) mod sz) \<longrightarrow> j = 0) \<longrightarrow>
        Store_Lookup fs (snd (Store_Create fs ?s d w)) a = Store_Lookup fs ?s a"
    by (auto simp: Let_def mod_add_left_eq k(3))
  have "j = 0" if "?a = mkAddr v6 (base + 2 + ((p + k) mod sz + 1) mod sz)"
  proof (rule ccontr)
    assume "j \<noteq> 0"
    with j(1) have "w = v6" by (auto split: if_splits)
    with snoc.prems k(1) have few: "k + 1 < sz" by (simp add: op)
    have fits: "base + 2 + x < 2 ^ famBits v6" if "x < sz" for x
      using that rangeNum_facts(5,6) [OF r] sz(1) by simp
    from that have "base + 2 + p = base + 2 + ((p + k) mod sz + 1) mod sz"
      using mkAddr_inject [OF fits fits] sz by (metis mod_less_divisor gr_zeroI not_less_zero)
    then have "p mod sz = (p + (k + 1)) mod sz" using sz by (simp add: mod_Suc_eq)
    then have "sz dvd k + 1" using mod_eq_dvd_iff_nat [of p "p + (k + 1)" sz] by simp
    then show False using few by (auto dest: dvd_imp_le)
  qed
  with keep have "Store_Lookup fs (snd (Store_Create fs ?s d w)) ?a = Store_Lookup fs ?s ?a" by simp
  with j k create_inv [OF k(2), of d w] show ?case
    by (intro exI [of _ "k + j"]) (simp add: op Let_def add.assoc split: if_splits)
qed

text \<open>A store that starts on a storage without metadata begins behind the address of each range.\<close>

lemma start_inv:
  assumes ok: "ok st" and none: "fst (fs_Metadata fs st) = None"
    and r4: "prefix_IsValid r4 \<longrightarrow> usableRange False r4" and r6: "prefix_IsValid r6 \<longrightarrow> usableRange True r6"
  shows "storeInv fs ok (Store_Start fs st (NewStore r4 r6))"
proof -
  obtain st' where md: "fs_Metadata fs st = (None, st')" using none by (cases "fs_Metadata fs st") simp
  let ?s = "Store_Start fs st (NewStore r4 r6)"
  have fam: "famInv ?s v6" for v6
  proof (cases "prefix_IsValid (if v6 then r6 else r4)")
    case True
    with r4 r6 obtain base b where r: "rangeNum v6 (if v6 then r6 else r4) base b"
      by (cases v6) (auto dest: usableRange_num)
    note f = rangeNum_facts [OF r]
    have "addr_Next (prefix_Addr (if v6 then r6 else r4)) = mkAddr v6 (Suc base)"
      unfolding f(1) using f(5,6) by (intro addr_Next_mkAddr) simp
    with True md r f(6) show ?thesis unfolding famInv_def
      by (intro disjI2 exI [of _ base] exI [of _ b] exI [of _ "Suc base"])
        (cases v6; simp add: Store_Start_def NewStore_def famCurrent_def famRange_def famLast_def)
  next
    case False
    with md show ?thesis
      by (cases v6)
        (simp_all add: famInv_def famCurrent_def famRange_def Store_Start_def NewStore_def)
  qed
  have "s_storage ?s = Some (snd (fs_Reset fs (snd (fs_Metadata fs st))))"
    using md by (simp add: Store_Start_def NewStore_def)
  with fam ok show ?thesis by (simp add: storeInv_def reset_load reset_ok metadata_ok)
qed

end

section \<open>The memory storage keeps the contract\<close>

definition memoryAgrees :: "memory_storage \<Rightarrow> bool" where
  "memoryAgrees st \<longleftrightarrow>
     (\<forall>d a. domainCache4 st d = Some a \<longleftrightarrow> addressCache st a = Some d \<and> addr_Is4 a) \<and>
     (\<forall>d a. domainCache6 st d = Some a \<longleftrightarrow> addressCache st a = Some d \<and> \<not> addr_Is4 a)"

lemma memory_store_agrees:
  assumes agr: "memoryAgrees st" and none: "MemoryStorage_FakeIPLoadDomain st d (\<not> addr_Is4 a) = None"
  shows "memoryAgrees (snd (MemoryStorage_FakeIPStore st a d))"
proof -
  have four: "domainCache4 st x = Some y \<longleftrightarrow> addressCache st y = Some x \<and> addr_Is4 y"
    and six: "domainCache6 st x = Some y \<longleftrightarrow> addressCache st y = Some x \<and> \<not> addr_Is4 y" for x y
    using agr by (simp_all add: memoryAgrees_def)
  have "addressCache st y \<noteq> Some d" if "addr_Is4 y = addr_Is4 a" for y
    using none that four [of d y] six [of d y] by (cases "addr_Is4 a") (auto simp: MemoryStorage_FakeIPLoadDomain_def)
  moreover have "y = z" if "addressCache st y = Some x" "addressCache st z = Some x" "addr_Is4 y = addr_Is4 z" for x y z
    using that four [of x] six [of x] by (metis option.inject)
  ultimately show ?thesis
    unfolding memoryAgrees_def MemoryStorage_FakeIPStore_def Let_def
    by (auto simp: four six split: option.splits)
qed

lemma memory_store_load:
  "addressCache (snd (MemoryStorage_FakeIPStore st a d)) a' = (if a' = a then Some d else addressCache st a')"
  by (auto simp: MemoryStorage_FakeIPStore_def Let_def split: option.splits)

interpretation memory: fakeip_storage_laws MemoryStorage memoryAgrees
  by unfold_locales
    (simp_all add: MemoryStorage_def memory_store_agrees memory_store_load MemoryStorage_FakeIPLoad_def,
     auto simp: memoryAgrees_def MemoryStorage_FakeIPLoadDomain_def MemoryStorage_FakeIPReset_def
       NewMemoryStorage_def)

lemma start_range [simp]:
  "famRange (Store_Start fs st (NewStore r4 r6)) v6 = (if v6 then r6 else r4)"
  by (simp add: famRange_def Store_Start_def NewStore_def split: prod.splits)

lemma memory_starts:
  assumes "prefix_IsValid r4 \<longrightarrow> usableRange False r4" "prefix_IsValid r6 \<longrightarrow> usableRange True r6"
  shows "storeInv MemoryStorage memoryAgrees (Store_Start MemoryStorage NewMemoryStorage (NewStore r4 r6))"
  using assms
  by (intro memory.start_inv)
    (auto simp: MemoryStorage_def memoryAgrees_def MemoryStorage_FakeIPLoadDomain_def NewMemoryStorage_def)

end
