(* ===== verification/FakeIP_Theorems.thy ===== *)
theory FakeIP_Theorems
  imports FakeIP_Facts
begin

text \<open>
  The properties of fake addresses, for every store that a started store reaches by allocations and
  resets, and for the DNS transport that answers from it.
\<close>

definition startedStore :: "prefix \<Rightarrow> prefix \<Rightarrow> memory_storage fakeip_store" where
  "startedStore r4 r6 = Store_Start MemoryStorage NewMemoryStorage (NewStore r4 r6)"

text \<open>The ranges a configuration can use: a range that is set has room for at least one address.\<close>

definition usableRanges :: "prefix \<Rightarrow> prefix \<Rightarrow> bool" where
  "usableRanges r4 r6 \<longleftrightarrow>
     (prefix_IsValid r4 \<longrightarrow> usableRange False r4) \<and> (prefix_IsValid r6 \<longrightarrow> usableRange True r6)"

lemma reached_inv:
  assumes "usableRanges r4 r6" "fakeip_run MemoryStorage (startedStore r4 r6) s"
  shows "storeInv MemoryStorage memoryAgrees s" "famRange s = (\<lambda>v6. if v6 then r6 else r4)"
  using assms memory.run_inv [OF assms(2)] memory_starts [of r4 r6] run_range [OF assms(2)]
  by (auto simp: usableRanges_def startedStore_def)

text \<open>The range \<^verbatim>\<open>198.18.0.0/29\<close>, at which the properties are exercised, and the store after one request.\<close>

definition sampleRange :: prefix where
  "sampleRange = Prefix (Addr4 0xc6120000) 30"

definition sampleStored :: "memory_storage fakeip_store" where
  "sampleStored = snd (Store_Create MemoryStorage (startedStore sampleRange PrefixZero) ''example.org'' False)"

lemma sample_usable: "usableRanges sampleRange PrefixZero" "prefix_IsValid sampleRange" "poolSize sampleRange = 5"
  by (simp_all add: usableRanges_def usableRange_def sampleRange_def broadcastAddress_def prefix_Bits_def
      prefix_IsValid_def poolSize_def upt_rec)

lemmas sample_defs = sampleStored_def startedStore_def Store_Start_def NewStore_def NewMemoryStorage_def
  sampleRange_def MemoryStorage_def MemoryStorage_FakeIPReset_def MemoryStorage_FakeIPLoadDomain_def
  MemoryStorage_FakeIPStore_def MemoryStorage_FakeIPLoad_def Store_Create_def Store_Lookup_def Let_def
  nextAddress_def prefix_IsValid_def broadcastAddress_def prefix_Bits_def same_prefix_def

lemma contains_numeral:
  "prefix_Contains (Prefix (Addr4 p) (numeral k)) (Addr4 a) = same_prefix (pred_numeral k) a p"
  by (simp add: numeral_eq_Suc)

lemma sample_create:
  "Store_Create MemoryStorage (startedStore sampleRange PrefixZero) ''example.org'' False =
     (Ret (Addr4 0xc6120002), sampleStored)"
  by (simp add: sample_defs contains_numeral upt_rec)

lemma sample_unknown: "Store_Lookup MemoryStorage (startedStore sampleRange PrefixZero) a = Ret None"
  by (simp add: sample_defs)

lemma sample_run: "fakeip_run MemoryStorage (startedStore sampleRange PrefixZero) sampleStored"
  unfolding sampleStored_def by (intro run_create run_start)

text \<open>C17: In every reachable store, asking for an address of a configured family succeeds, and the
  address belongs to that family, lies in the pool of the configured range, is recognised by
  \<^verbatim>\<open>Contains\<close>, looks up to the domain, and is the answer to every repetition of the request.\<close>

theorem fakeip_create_lookup:
  assumes "usableRanges r4 r6" "fakeip_run MemoryStorage (startedStore r4 r6) s"
    and "prefix_IsValid (if isIPv6 then r6 else r4)"
  shows "\<exists>a s'. Store_Create MemoryStorage s domain isIPv6 = (Ret a, s') \<and>
    (addr_Is4 a \<longleftrightarrow> \<not> isIPv6) \<and> inPool (if isIPv6 then r6 else r4) a \<and> Store_Contains s' a \<and>
    Store_Lookup MemoryStorage s' a = Ret (Some domain) \<and>
    Store_Create MemoryStorage s' domain isIPv6 = (Ret a, s')"
proof -
  note inv = reached_inv [OF assms(1,2)]
  obtain a s' where cr: "Store_Create MemoryStorage s domain isIPv6 = (Ret a, s')"
    using memory.create_returns [OF inv(1)] assms(3) inv(2) by fastforce
  note f = memory.create_serves [OF inv(1) cr]
  have "famRange s' isIPv6 = (if isIPv6 then r6 else r4)" using f(5) inv(2) by simp
  moreover have "inPool (if isIPv6 then r6 else r4) a" using f(2) inv(2) by simp
  ultimately have "Store_Contains s' a"
    by (auto simp: Store_Contains_def famRange_def inPool_def split: if_splits)
  with cr f inv(2) show ?thesis by auto
qed

theorem fakeip_create_lookup_witness:
  "\<exists>a s'. Store_Create MemoryStorage sampleStored ''example.com'' False = (Ret a, s') \<and>
     inPool sampleRange a \<and> Store_Lookup MemoryStorage s' a = Ret (Some ''example.com'')"
  using fakeip_create_lookup [OF sample_usable(1) sample_run, of False "''example.com''"] sample_usable(2) by auto

text \<open>C18: In every reachable store the lookups are one-to-one: an address that looks up to a domain lies
  in the pool of its family's range, and no two addresses of a family look up to the same domain.\<close>

theorem fakeip_one_to_one:
  assumes "usableRanges r4 r6" "fakeip_run MemoryStorage (startedStore r4 r6) s"
    and "Store_Lookup MemoryStorage s a = Ret (Some domain)"
  shows "inPool (if addr_Is4 a then r4 else r6) a \<and>
    (\<forall>a'. Store_Lookup MemoryStorage s a' = Ret (Some domain) \<and> addr_Is4 a' = addr_Is4 a \<longrightarrow> a' = a)"
proof -
  note inv = reached_inv [OF assms(1,2)]
  obtain st where st: "s_storage s = Some st" "memoryAgrees st"
    "\<And>a d. fs_Load MemoryStorage st a = Some d \<Longrightarrow> inPool (famRange s (\<not> addr_Is4 a)) a"
    using inv(1) by (auto simp: storeInv_def)
  have load: "fs_Load MemoryStorage st a = Some domain" using assms(3) st(1) by (simp add: Store_Lookup_def)
  then have "fs_LoadDomain MemoryStorage st domain (\<not> addr_Is4 a) = Some a"
    using memory.agree [OF st(2)] by simp
  moreover have "fs_LoadDomain MemoryStorage st domain (\<not> addr_Is4 a) = Some a'"
    if "Store_Lookup MemoryStorage s a' = Ret (Some domain)" "addr_Is4 a' = addr_Is4 a" for a'
    using memory.agree [OF st(2)] that st(1) by (simp add: Store_Lookup_def)
  ultimately have "\<forall>a'. Store_Lookup MemoryStorage s a' = Ret (Some domain) \<and> addr_Is4 a' = addr_Is4 a \<longrightarrow> a' = a"
    by (metis option.inject)
  moreover have "inPool (if addr_Is4 a then r4 else r6) a"
    using st(3) [OF load] inv(2) by (cases "addr_Is4 a") simp_all
  ultimately show ?thesis by blast
qed

theorem fakeip_one_to_one_witness:
  "inPool sampleRange (Addr4 0xc6120002) \<and>
   \<not> (\<exists>a. Store_Lookup MemoryStorage sampleStored (Addr4 a) = Ret (Some ''example.org'') \<and> a \<noteq> 0xc6120002)"
  using fakeip_one_to_one [OF sample_usable(1) sample_run, of "Addr4 0xc6120002" "''example.org''"]
    memory.create_serves(1) [OF reached_inv(1) [OF sample_usable(1) run_start] sample_create] by auto

text \<open>C19: An address newly given to a domain keeps looking up to it for as long as fewer further
  addresses of its family are requested than the pool holds, whatever is requested of the other
  family.\<close>

theorem fakeip_late_reuse:
  assumes "usableRanges r4 r6" "fakeip_run MemoryStorage (startedStore r4 r6) s"
    and "\<not> (\<exists>a. Store_Lookup MemoryStorage s a = Ret (Some domain))"
    and "Store_Create MemoryStorage s domain isIPv6 = (Ret a, s')"
    and "length (filter (\<lambda>(_, v6). v6 = isIPv6) requests) < poolSize (if isIPv6 then r6 else r4)"
  shows "Store_Lookup MemoryStorage
      (foldl (\<lambda>s (d, v6). snd (Store_Create MemoryStorage s d v6)) s' requests) a = Ret (Some domain)"
proof -
  note inv = reached_inv [OF assms(1,2)]
  obtain st where st: "s_storage s = Some st" "memoryAgrees st" using inv(1) by (auto simp: storeInv_def)
  note f = memory.create_serves [OF inv(1) assms(4)]
  from inv(1) st(1) show ?thesis
  proof (cases rule: memory.create_cases [of s st domain isIPv6])
    case (known a')
    with memory.agree [OF st(2)] assms(3) st(1) show ?thesis by (auto simp: Store_Lookup_def)
  next
    case (fresh base b n)
    define m where "m = (if Suc n = lastNum isIPv6 base b then base + 2 else Suc n)"
    from memory.create_new [OF inv(1) st(1) fresh m_def] assms(4)
    have m: "a = mkAddr isIPv6 m" "famCurrent s' isIPv6 = mkAddr isIPv6 m" by auto
    note g = rangeNum_facts [OF fresh(3)]
    have le: "base + 2 \<le> m" "m < lastNum isIPv6 base b"
      using fresh(5,6) g(6) by (auto simp: m_def)
    define p where "p = m - (base + 2)"
    have p: "m = base + 2 + p" "p < lastNum isIPv6 base b - (base + 2)" using le by (auto simp: p_def)
    have few: "length (filter (\<lambda>(d, w). w = isIPv6) requests) < lastNum isIPv6 base b - (base + 2)"
      using assms(5) g(8) inv(2) by simp
    have "rangeNum isIPv6 (famRange s' isIPv6) base b" using f(5) fresh(3) by simp
    from memory.creates_walk [OF f(6) this refl p(2) m(2) [unfolded p(1)] few]
    show ?thesis using f(1) by (auto simp: Let_def m(1) p(1))
  qed (use assms(4) in simp)
qed

theorem fakeip_late_reuse_witness:
  "Store_Lookup MemoryStorage
     (foldl (\<lambda>s (d, v6). snd (Store_Create MemoryStorage s d v6)) sampleStored
       [(''a'', False), (''b'', True), (''c'', False), (''d'', False), (''e'', False)]) (Addr4 0xc6120002) =
   Ret (Some ''example.org'')"
  using fakeip_late_reuse [OF sample_usable(1) run_start _ sample_create,
      of "[(''a'', False), (''b'', True), (''c'', False), (''d'', False), (''e'', False)]"]
    sample_unknown sample_usable(3) by simp

text \<open>C24: The saved metadata decodes to itself: what \<^verbatim>\<open>Close\<close> writes is what the next \<^verbatim>\<open>Start\<close> reads.\<close>

theorem fakeip_metadata_round_trip:
  assumes "metadata_wf m"
  shows "FakeIPMetadata_UnmarshalBinary (FakeIPMetadata_MarshalBinary m) = Ret m"
  using assms readAddr [of "fm_Inet6Current m" "[]"]
  by (simp add: FakeIPMetadata_UnmarshalBinary_def FakeIPMetadata_MarshalBinary_def metadata_wf_def
      bindOutcome_def readPrefix readAddr)

theorem fakeip_metadata_round_trip_witness:
  "FakeIPMetadata_UnmarshalBinary (FakeIPMetadata_MarshalBinary (Store_metadata sampleStored)) =
     Ret (Store_metadata sampleStored)"
proof -
  have "Store_metadata sampleStored =
    \<lparr> fm_Inet4Range = sampleRange, fm_Inet6Range = PrefixZero, fm_Inet4Current = Addr4 0xc6120002,
      fm_Inet6Current = AddrZero \<rparr>"
    by (simp add: Store_metadata_def sample_defs contains_numeral upt_rec)
  then have "metadata_wf (Store_metadata sampleStored)"
    by (simp add: metadata_wf_def sampleRange_def zoneLength_def)
  then show ?thesis by (rule fakeip_metadata_round_trip)
qed

text \<open>C23: A started transport answers every address query of a family it has a range for with exactly one
  record of the asked type, whose address looks up to the asked name without its final dot.\<close>

theorem fakeip_exchange_answers:
  assumes "usableRanges r4 r6" "NewTransport r4 r6 = Inr t0"
    and "fakeip_run MemoryStorage (t_store (Transport_Start MemoryStorage NewMemoryStorage True t0)) s"
    and "t = (Transport_Start MemoryStorage NewMemoryStorage True t0)\<lparr>t_store := s\<rparr>"
    and "msg_Question message = question # rest" "q_Qtype question = (if v6 then TypeAAAA else TypeA)"
    and "prefix_IsValid (if v6 then r6 else r4)"
  shows "\<exists>response a t'. Transport_Exchange dl MemoryStorage t message = (Ret response, t') \<and>
    msg_Id response = msg_Id message \<and> msg_Question response = [question] \<and> msg_Rcode response = RcodeSuccess \<and>
    msg_Answer response = [RR (q_Name question) (q_Qtype question) ClassINET DefaultDNSTTL
      (if v6 then RR_AAAA (addr_AsSlice a) else RR_A (addr_AsSlice a))] \<and>
    inPool (if v6 then r6 else r4) a \<and>
    Store_Lookup MemoryStorage (t_store t') a = Ret (Some (FqdnToDomain dl (q_Name question)))"
proof -
  have t0: "t0 = \<lparr>t_store = NewStore r4 r6, t_inet4Enabled = prefix_IsValid r4, t_inet6Enabled = prefix_IsValid r6\<rparr>"
    using assms(2) by (simp add: NewTransport_def split: if_splits)
  then have "fakeip_run MemoryStorage (startedStore r4 r6) s"
    using assms(3) by (simp add: Transport_Start_def startedStore_def)
  note inv = reached_inv [OF assms(1) this]
  obtain a s' where cr: "Store_Create MemoryStorage s (FqdnToDomain dl (q_Name question)) v6 = (Ret a, s')"
    using memory.create_returns [OF inv(1)] assms(7) inv(2) by fastforce
  note f = memory.create_serves [OF inv(1) cr]
  have pool: "inPool (if v6 then r6 else r4) a" using f(2) inv(2) by simp
  then have "addr_IsValid a" by (auto simp: inPool_def dest: prefix_Contains_valid)
  then have "addr_Is6 a \<longleftrightarrow> v6" using f(3) by (cases a) auto
  then have answer: "addressRecord question DefaultDNSTTL a =
    [RR (q_Name question) (q_Qtype question) ClassINET DefaultDNSTTL
      (if v6 then RR_AAAA (addr_AsSlice a) else RR_A (addr_AsSlice a))]"
    using f(3) assms(6) by (simp add: addressRecord_def dns_numbers)
  have "Transport_Exchange dl MemoryStorage t message =
    (Ret (FixedResponse (msg_Id message) question [a] DefaultDNSTTL), t\<lparr>t_store := s'\<rparr>)"
    using cr assms(4-7) t0 by (cases v6) (simp_all add: Transport_Exchange_def Transport_Start_def dns_numbers)
  with answer pool f(1) show ?thesis
    by (intro exI [of _ "FixedResponse (msg_Id message) question [a] DefaultDNSTTL"] exI [of _ a]
        exI [of _ "t\<lparr>t_store := s'\<rparr>"]) (simp add: FixedResponse_def fixedMessage_def)
qed

definition sampleDNS :: dns_lib where
  "sampleDNS = \<lparr> dl_IsFqdn = (\<lambda>s. s \<noteq> [] \<and> last s = CHR ''.''), dl_Fqdn = (\<lambda>s. s @ ''.''),
     dl_Pack = (\<lambda>_. None), dl_Unpack = (\<lambda>_. None), dl_IsEdns0 = (\<lambda>_. None), dl_SetEdns0 = (\<lambda>m _ _. m) \<rparr>"

definition sampleQuery :: dns_msg where
  "sampleQuery = \<lparr> msg_Id = 7, msg_Response = False, msg_Authoritative = False, msg_RecursionDesired = True,
     msg_RecursionAvailable = False, msg_Rcode = 0, msg_Question = [Question ''example.org.'' TypeA ClassINET],
     msg_Answer = [], msg_Ns = [], msg_Extra = [] \<rparr>"

definition sampleTransport :: "memory_storage fakeip_transport" where
  "sampleTransport = Transport_Start MemoryStorage NewMemoryStorage True
     \<lparr> t_store = NewStore sampleRange PrefixZero, t_inet4Enabled = True, t_inet6Enabled = False \<rparr>"

theorem fakeip_exchange_answers_witness:
  "\<exists>response a t'. Transport_Exchange sampleDNS MemoryStorage sampleTransport sampleQuery = (Ret response, t') \<and>
     length (msg_Answer response) = 1 \<and> Store_Lookup MemoryStorage (t_store t') a = Ret (Some ''example.org'')"
proof -
  have new: "NewTransport sampleRange PrefixZero =
    Inr \<lparr> t_store = NewStore sampleRange PrefixZero, t_inet4Enabled = True, t_inet6Enabled = False \<rparr>"
    by (simp add: NewTransport_def sampleRange_def prefix_IsValid_def)
  have "FqdnToDomain sampleDNS ''example.org.'' = ''example.org''" by (simp add: FqdnToDomain_def sampleDNS_def)
  moreover have "sampleTransport = (Transport_Start MemoryStorage NewMemoryStorage True
     \<lparr> t_store = NewStore sampleRange PrefixZero, t_inet4Enabled = True, t_inet6Enabled = False \<rparr>)
       \<lparr>t_store := t_store sampleTransport\<rparr>" by (simp add: sampleTransport_def)
  ultimately show ?thesis
    using fakeip_exchange_answers [OF sample_usable(1) new run_start, of sampleTransport sampleQuery
        "Question ''example.org.'' TypeA ClassINET" "[]" False sampleDNS] sample_usable(2)
    by (auto simp: sampleQuery_def sampleTransport_def)
qed

end
