(* ===== verification/DNS_Client.thy ===== *)
theory DNS_Client
  imports DNS_Message
begin

text \<open>
  The DNS client of \<^verbatim>\<open>dns/client.go\<close>: one exchange with a transport behind the response cache, the
  rejected-response store, the background refresh of stale entries, and the lookup of addresses.

  What the client uses of other components acts on a state \<open>'w\<close>: the clock, the memory cache
  (\<^verbatim>\<open>freelru\<close>), the persistent cache and the store of rejected responses (\<^verbatim>\<open>adapter.DNSCacheStore\<close>,
  \<^verbatim>\<open>adapter.RDRCStore\<close>), and the transports. A transport is its tag. Log output is not modelled.
\<close>

definition DomainStrategyAsIS :: u8 where "DomainStrategyAsIS = 0"
definition DomainStrategyPreferIPv6 :: u8 where "DomainStrategyPreferIPv6 = 2"
definition DomainStrategyIPv4Only :: u8 where "DomainStrategyIPv4Only = 3"
definition DomainStrategyIPv6Only :: u8 where "DomainStrategyIPv6Only = 4"

lemmas domain_strategies = DomainStrategyAsIS_def DomainStrategyPreferIPv6_def DomainStrategyIPv4Only_def
  DomainStrategyIPv6Only_def

text \<open>
  The errors of the client and the router: the named ones, a response code, the drop error of a reject
  action, the error that a reject action returns when it is asked for one, an error with what was
  looked up, and any other.
\<close>

datatype dns_error =
    ErrResponseRejected
  | ErrResponseRejectedCached
  | ErrNotCached
  | RcodeError int
  | DNSDrop
  | DNSRejected reject_action
  | DNSCause dns_error string
  | DNSErr string

text \<open>
  What \<^verbatim>\<open>Client.Exchange\<close> returns: a response, a response together with \<^verbatim>\<open>ErrResponseRejected\<close>, or an error
  without a response.
\<close>

datatype reply = Reply dns_msg | Rejected dns_msg | Fail dns_error

record query_options =
  qo_Transport :: "tag option"
  qo_Strategy :: u8
  qo_LookupStrategy :: u8
  qo_DisableCache :: bool
  qo_DisableOptimisticCache :: bool
  qo_RewriteTTL :: "u32 option"
  qo_Timeout :: duration
  qo_ClientSubnet :: prefix

type_synonym checker = "dns_msg \<Rightarrow> bool"
type_synonym dnsCacheKey = "question \<times> tag"

text \<open>How the wait for another exchange of the same question ends.\<close>

datatype wait = Closed | TimedOut | ContextDone dns_error

record 'w dns_services =
  ds_Now :: "'w \<Rightarrow> int"
  ds_Wait :: "'w \<Rightarrow> dnsCacheKey \<Rightarrow> wait \<times> 'w"
  ds_CacheAdd :: "'w \<Rightarrow> dnsCacheKey \<Rightarrow> dns_msg \<Rightarrow> 'w"
  ds_CacheAddWithLifetime :: "'w \<Rightarrow> dnsCacheKey \<Rightarrow> dns_msg \<Rightarrow> duration \<Rightarrow> 'w"
  ds_CacheGet :: "'w \<Rightarrow> dnsCacheKey \<Rightarrow> dns_msg option"
  ds_CacheGetWithLifetimeNoExpire :: "'w \<Rightarrow> dnsCacheKey \<Rightarrow> (dns_msg \<times> int) option"
  ds_CacheRemove :: "'w \<Rightarrow> dnsCacheKey \<Rightarrow> 'w"
  ds_CachePurge :: "'w \<Rightarrow> 'w"
  ds_LoadDNSCache :: "'w \<Rightarrow> tag \<Rightarrow> string \<Rightarrow> u16 \<Rightarrow> (u8 list \<times> int) option"
  ds_SaveDNSCacheAsync :: "'w \<Rightarrow> tag \<Rightarrow> string \<Rightarrow> u16 \<Rightarrow> u8 list \<Rightarrow> int \<Rightarrow> 'w"
  ds_ClearDNSCache :: "'w \<Rightarrow> 'w"
  ds_LoadRDRC :: "'w \<Rightarrow> tag \<Rightarrow> string \<Rightarrow> u16 \<Rightarrow> bool"
  ds_SaveRDRCAsync :: "'w \<Rightarrow> tag \<Rightarrow> string \<Rightarrow> u16 \<Rightarrow> 'w"
  ds_Exchange :: "'w \<Rightarrow> tag \<Rightarrow> duration \<Rightarrow> dns_msg \<Rightarrow> (dns_error + dns_msg) \<times> 'w"
  ds_GroupError :: "dns_error option \<Rightarrow> dns_error option \<Rightarrow> dns_error option"

section \<open>The client\<close>

text \<open>
  Stores that may be nil are flags, and an initialiser is nil or tells whether the store it returns
  is there. \<open>dc_backgroundRefresh\<close> holds the refreshes that have been started and not finished, with what
  their closure captures.
\<close>

datatype refresh = Refresh (rf_transport: tag) (rf_question: question) (rf_message: dns_msg)
  (rf_options: query_options) (rf_checker: "checker option")

record dns_client =
  dc_timeout :: duration
  dc_disableCache :: bool
  dc_disableExpire :: bool
  dc_optimisticTimeout :: duration
  dc_cacheCapacity :: u32
  dc_clientSubnet :: prefix
  dc_initRDRC :: "bool option"
  dc_initDNSCache :: "bool option"
  dc_rdrc :: bool
  dc_dnsCache :: bool
  dc_cache :: bool
  dc_cacheLock :: "dnsCacheKey list"
  dc_backgroundRefresh :: "refresh list"

record client_options =
  co_Timeout :: duration
  co_DisableCache :: bool
  co_DisableExpire :: bool
  co_OptimisticTimeout :: duration
  co_CacheCapacity :: u32
  co_ClientSubnet :: prefix
  co_RDRC :: "bool option"
  co_DNSCache :: "bool option"

definition DNSTimeout :: duration where "DNSTimeout = 10000000000"

definition initializeMemoryCache :: "dns_client \<Rightarrow> dns_client" where
  "initializeMemoryCache c = (if dc_disableCache c \<or> dc_cache c then c else c\<lparr>dc_cache := True\<rparr>)"

definition NewClient :: "client_options \<Rightarrow> dns_client" where
  "NewClient options =
     (let client =
        \<lparr> dc_timeout = (if co_Timeout options = 0 then DNSTimeout else co_Timeout options),
          dc_disableCache = co_DisableCache options, dc_disableExpire = co_DisableExpire options,
          dc_optimisticTimeout = co_OptimisticTimeout options,
          dc_cacheCapacity = (if co_CacheCapacity options < 1024 then 1024 else co_CacheCapacity options),
          dc_clientSubnet = co_ClientSubnet options, dc_initRDRC = co_RDRC options,
          dc_initDNSCache = co_DNSCache options, dc_rdrc = False, dc_dnsCache = False, dc_cache = False,
          dc_cacheLock = [], dc_backgroundRefresh = [] \<rparr>
      in if \<not> dc_disableCache client \<and> dc_initDNSCache client = None then initializeMemoryCache client else client)"

definition Client_Start :: "dns_client \<Rightarrow> dns_client" where
  "Client_Start c =
     (let c = (case dc_initRDRC c of None \<Rightarrow> c | Some b \<Rightarrow> c\<lparr>dc_rdrc := b\<rparr>);
          c = (case dc_initDNSCache c of None \<Rightarrow> c | Some b \<Rightarrow> c\<lparr>dc_dnsCache := b\<rparr>)
      in if \<not> dc_dnsCache c then initializeMemoryCache c else c)"

definition Client_ClearCache :: "'w dns_services \<Rightarrow> dns_client \<Rightarrow> 'w \<Rightarrow> 'w" where
  "Client_ClearCache ds c w =
     (let w = (if dc_cache c then ds_CachePurge ds w else w)
      in if dc_dnsCache c then ds_ClearDNSCache ds w else w)"

section \<open>The response cache\<close>

definition second :: int where "second = 1000000000"

definition storeCache ::
  "dns_lib \<Rightarrow> 'w dns_services \<Rightarrow> dns_client \<Rightarrow> 'w \<Rightarrow> tag \<Rightarrow> question \<Rightarrow> dns_msg \<Rightarrow> u32 \<Rightarrow> 'w" where
  "storeCache dl ds c w transport question message timeToLive =
     (if timeToLive = 0 then w
      else if dc_dnsCache c then
        (case dl_Pack dl message of
           None \<Rightarrow> w
         | Some packed \<Rightarrow>
             ds_SaveDNSCacheAsync ds w transport (q_Name question) (q_Qtype question) packed
               (ds_Now ds w + second * uint timeToLive))
      else if \<not> dc_cache c then w
      else if dc_disableExpire c then ds_CacheAdd ds w (question, transport) message
      else ds_CacheAddWithLifetime ds w (question, transport) message (second * uint timeToLive))"

text \<open>
  \<^verbatim>\<open>int(d.Seconds())\<close>. \<^verbatim>\<open>Seconds\<close> adds the whole seconds and the fraction in \<^verbatim>\<open>float64\<close>, whose 53 digits round
  the sum up to the next second when the fraction lacks less than half a unit of the last digit.
\<close>

fun bitLength :: "nat \<Rightarrow> nat" where
  "bitLength n = (if n = 0 then 0 else Suc (bitLength (n div 2)))"

definition wholeSeconds :: "int \<Rightarrow> int" where
  "wholeSeconds d =
     (let sec = \<bar>d\<bar> div second; missing = second - \<bar>d\<bar> mod second;
          up = sec > 0 \<and> missing * 2 ^ (54 - bitLength (nat sec)) \<le> second
      in sgn d * (if up then sec + 1 else sec))"

definition remainingTTL :: "int \<Rightarrow> int \<Rightarrow> int" where
  "remainingTTL expireAt timeNow =
     (let nowTTL = wholeSeconds (expireAt - timeNow) in if nowTTL < 0 then 0 else nowTTL)"

text \<open>A loaded response, the seconds it still lives, and whether it is stale.\<close>

definition loadPersistentResponse ::
  "dns_lib \<Rightarrow> 'w dns_services \<Rightarrow> dns_client \<Rightarrow> 'w \<Rightarrow> question \<Rightarrow> tag \<Rightarrow> (dns_msg \<times> int \<times> bool) option" where
  "loadPersistentResponse dl ds c w question transport =
     (case ds_LoadDNSCache ds w transport (q_Name question) (q_Qtype question) of
        None \<Rightarrow> None
      | Some (rawMessage, expireAt) \<Rightarrow>
          (case dl_Unpack dl rawMessage of
             None \<Rightarrow> None
           | Some response \<Rightarrow>
               if dc_disableExpire c then Some (response, 0, False)
               else let timeNow = ds_Now ds w in
                 if timeNow > expireAt then
                   (if dc_optimisticTimeout c > 0 \<and> timeNow < expireAt + dc_optimisticTimeout c
                    then Some (normalizeTTL response 1, 0, True) else None)
                 else let nowTTL = remainingTTL expireAt timeNow
                      in Some (normalizeTTL response (of_int nowTTL), nowTTL, False)))"

definition loadResponse ::
  "dns_lib \<Rightarrow> 'w dns_services \<Rightarrow> dns_client \<Rightarrow> 'w \<Rightarrow> question \<Rightarrow> tag \<Rightarrow> (dns_msg \<times> int \<times> bool) option \<times> 'w" where
  "loadResponse dl ds c w question transport =
     (if dc_dnsCache c then (loadPersistentResponse dl ds c w question transport, w)
      else if \<not> dc_cache c then (None, w)
      else if dc_disableExpire c
      then (map_option (\<lambda>response. (response, 0, False)) (ds_CacheGet ds w (question, transport)), w)
      else case ds_CacheGetWithLifetimeNoExpire ds w (question, transport) of
             None \<Rightarrow> (None, w)
           | Some (response, expireAt) \<Rightarrow>
               (let timeNow = ds_Now ds w in
                if timeNow > expireAt then
                  (if dc_optimisticTimeout c > 0 \<and> timeNow < expireAt + dc_optimisticTimeout c
                   then (Some (normalizeTTL response 1, 0, True), w)
                   else (None, ds_CacheRemove ds w (question, transport)))
                else let nowTTL = remainingTTL expireAt timeNow
                     in (Some (normalizeTTL response (of_int nowTTL), nowTTL, False), w)))"

section \<open>The exchange\<close>

fun keepHint :: "u8 \<Rightarrow> svcb_value \<Rightarrow> bool" where
  "keepHint strategy (SVCBIPv6Hint _) = (strategy \<noteq> DomainStrategyIPv4Only)"
| "keepHint strategy (SVCBIPv4Hint _) = (strategy = DomainStrategyIPv4Only)"
| "keepHint strategy (SVCBOther _) = True"

fun filterHints :: "u8 \<Rightarrow> rr \<Rightarrow> rr" where
  "filterHints strategy (RR n t c ttl (RR_HTTPS vs)) = RR n t c ttl (RR_HTTPS (filter (keepHint strategy) vs))"
| "filterHints strategy r = r"

definition applyResponseOptions :: "question \<Rightarrow> dns_msg \<Rightarrow> query_options \<Rightarrow> u32 \<times> dns_msg" where
  "applyResponseOptions question response options =
     (let response =
        (if q_Qtype question = TypeHTTPS \<and>
            (qo_Strategy options = DomainStrategyIPv4Only \<or> qo_Strategy options = DomainStrategyIPv6Only)
         then response\<lparr>msg_Answer := map (filterHints (qo_Strategy options)) (msg_Answer response)\<rparr> else response);
          timeToLive = (case qo_RewriteTTL options of None \<Rightarrow> computeTimeToLive response | Some t \<Rightarrow> t)
      in (timeToLive, normalizeTTL response timeToLive))"

definition prepareExchangeMessage :: "dns_client \<Rightarrow> dns_msg \<Rightarrow> query_options \<Rightarrow> dns_msg" where
  "prepareExchangeMessage c message options =
     (let clientSubnet = (if prefix_IsValid (qo_ClientSubnet options) then qo_ClientSubnet options else dc_clientSubnet c)
      in if prefix_IsValid clientSubnet then setClientSubnet message clientSubnet else message)"

definition exchangeToTransport ::
  "'w dns_services \<Rightarrow> dns_client \<Rightarrow> 'w \<Rightarrow> tag \<Rightarrow> dns_msg \<Rightarrow> (dns_error + dns_msg) \<times> 'w" where
  "exchangeToTransport ds c w transport message =
     (case ds_Exchange ds w transport (dc_timeout c) message of
        (Inr response, w) \<Rightarrow> (Inr (stripDNSPadding response), w)
      | (Inl (RcodeError rcode), w) \<Rightarrow> (Inr (FixedResponseStatus message rcode), w)
      | (Inl err, w) \<Rightarrow> (Inl err, w))"

definition cacheableRcode :: "dns_msg \<Rightarrow> bool" where
  "cacheableRcode response \<longleftrightarrow> msg_Rcode response = RcodeSuccess \<or> msg_Rcode response = RcodeNameError"

definition responseRejected :: "checker option \<Rightarrow> dns_msg \<Rightarrow> bool" where
  "responseRejected responseChecker response \<longleftrightarrow>
     (case responseChecker of None \<Rightarrow> False | Some accepts \<Rightarrow> \<not> cacheableRcode response \<or> \<not> accepts response)"

text \<open>A refresh of the key that is already under way is not started again.\<close>

definition backgroundRefreshDNS :: "dns_client \<Rightarrow> refresh \<Rightarrow> dns_client" where
  "backgroundRefreshDNS c r =
     (if list_ex (\<lambda>r'. (rf_question r', rf_transport r') = (rf_question r, rf_transport r)) (dc_backgroundRefresh c)
      then c else c\<lparr>dc_backgroundRefresh := dc_backgroundRefresh c @ [r]\<rparr>)"

text \<open>The goroutine of one refresh.\<close>

definition runRefresh :: "dns_lib \<Rightarrow> 'w dns_services \<Rightarrow> dns_client \<Rightarrow> 'w \<Rightarrow> refresh \<Rightarrow> dns_client \<times> 'w" where
  "runRefresh dl ds c w r =
     (let c' = c\<lparr>dc_backgroundRefresh := remove1 r (dc_backgroundRefresh c)\<rparr>;
          transport = rf_transport r; question = rf_question r
      in case exchangeToTransport ds c w transport (rf_message r) of
           (Inl err, w) \<Rightarrow> (c', w)
         | (Inr response, w) \<Rightarrow>
             if responseRejected (rf_checker r) response
             then (c', if dc_rdrc c then ds_SaveRDRCAsync ds w transport (q_Name question) (q_Qtype question) else w)
             else if \<not> cacheableRcode response then (c', w)
             else case applyResponseOptions question response (rf_options r) of
                    (timeToLive, response) \<Rightarrow> (c', storeCache dl ds c w transport question response timeToLive))"

definition isSimpleRequest :: "dns_msg \<Rightarrow> query_options \<Rightarrow> bool" where
  "isSimpleRequest message options \<longleftrightarrow>
     length (msg_Question message) = 1 \<and> msg_Ns message = [] \<and>
     (case msg_Extra message of
        [] \<Rightarrow> True
      | [r] \<Rightarrow> rr_Rrtype r = TypeOPT \<and> rr_Class r > 0 \<and> rr_Ttl r = 0 \<and> optOptions r = Some []
      | _ \<Rightarrow> False) \<and>
     \<not> prefix_IsValid (qo_ClientSubnet options)"

text \<open>The extra records of a response follow the EDNS version of the request.\<close>

definition matchEdns0 :: "dns_lib \<Rightarrow> dns_msg \<Rightarrow> dns_msg \<Rightarrow> dns_msg" where
  "matchEdns0 dl message response =
     (case dl_IsEdns0 dl response of
        None \<Rightarrow> response
      | Some responseOpt \<Rightarrow>
          (case dl_IsEdns0 dl message of
             None \<Rightarrow> response\<lparr>msg_Extra := filter (\<lambda>r. \<not> isOPT r) (msg_Extra response)\<rparr>
           | Some requestOpt \<Rightarrow>
               if ed_Version requestOpt < ed_Version responseOpt
               then dl_SetEdns0 dl (response\<lparr>msg_Extra := filter (\<lambda>r. \<not> isOPT r) (msg_Extra response)\<rparr>)
                      (ed_UDPSize responseOpt) (ed_Do responseOpt)
               else response))"

text \<open>The part of \<^verbatim>\<open>Exchange\<close> behind the cache lookup.\<close>

definition exchangeUncached ::
  "dns_lib \<Rightarrow> 'w dns_services \<Rightarrow> dns_client \<Rightarrow> 'w \<Rightarrow> tag option \<Rightarrow> tag \<Rightarrow> question \<Rightarrow> dns_msg \<Rightarrow> query_options
   \<Rightarrow> checker option \<Rightarrow> bool \<Rightarrow> reply \<times> 'w" where
  "exchangeUncached dl ds c w contextTransport transport question message options responseChecker disableCache =
     (if contextTransport = Some transport
      then (Fail (DNSErr (''DNS query loopback in transport['' @ transport @ '']'')), w)
      else if \<not> disableCache \<and> responseChecker \<noteq> None \<and> dc_rdrc c \<and>
              ds_LoadRDRC ds w transport (q_Name question) (q_Qtype question)
      then (Fail ErrResponseRejectedCached, w)
      else case exchangeToTransport ds c w transport message of
             (Inl err, w) \<Rightarrow> (Fail err, w)
           | (Inr response, w) \<Rightarrow>
               let disableCache = (disableCache \<or> \<not> cacheableRcode response) in
               if responseRejected responseChecker response
               then (Rejected response,
                     if \<not> disableCache \<and> dc_rdrc c
                     then ds_SaveRDRCAsync ds w transport (q_Name question) (q_Qtype question) else w)
               else case applyResponseOptions question response options of
                      (timeToLive, response) \<Rightarrow>
                        (Reply (matchEdns0 dl message (response\<lparr>msg_Id := msg_Id message\<rparr>)),
                         if \<not> disableCache then storeCache dl ds c w transport question response timeToLive else w))"

text \<open>The wait for another exchange of the same question; the flag tells whether this one took the lock.\<close>

definition lockKey ::
  "'w dns_services \<Rightarrow> dns_client \<Rightarrow> 'w \<Rightarrow> dnsCacheKey \<Rightarrow> (dns_error + bool) \<times> dns_client \<times> 'w" where
  "lockKey ds c w key =
     (if key \<in> set (dc_cacheLock c)
      then (case ds_Wait ds w key of
              (Closed, w) \<Rightarrow> (Inr False, c, w)
            | (TimedOut, w) \<Rightarrow> (Inl (DNSErr ''cache wait timeout''), c, w)
            | (ContextDone err, w) \<Rightarrow> (Inl err, c, w))
      else (Inr True, c\<lparr>dc_cacheLock := key # dc_cacheLock c\<rparr>, w))"

definition unlockKey :: "bool \<Rightarrow> dnsCacheKey \<Rightarrow> dns_client \<Rightarrow> dns_client" where
  "unlockKey held key c = (if held then c\<lparr>dc_cacheLock := removeAll key (dc_cacheLock c)\<rparr> else c)"

text \<open>A loaded response answers when it is fresh, or stale and optimistic answers are allowed.\<close>

definition cacheHit ::
  "dns_client \<Rightarrow> (dns_msg \<times> int \<times> bool) option \<Rightarrow> query_options \<Rightarrow> refresh \<Rightarrow> (dns_msg \<times> dns_client) option" where
  "cacheHit c loaded options r =
     (case loaded of
        None \<Rightarrow> None
      | Some (response, ttl, isStale) \<Rightarrow>
          if isStale \<and> \<not> qo_DisableOptimisticCache options then Some (response, backgroundRefreshDNS c r)
          else if \<not> isStale then Some (response, c)
          else None)"

definition Client_Exchange ::
  "dns_lib \<Rightarrow> 'w dns_services \<Rightarrow> dns_client \<Rightarrow> 'w \<Rightarrow> tag option \<Rightarrow> tag \<Rightarrow> dns_msg \<Rightarrow> query_options
   \<Rightarrow> checker option \<Rightarrow> reply \<times> dns_client \<times> 'w" where
  "Client_Exchange dl ds c w contextTransport transport message options responseChecker =
     (case msg_Question message of
        [] \<Rightarrow> (Reply (FixedResponseStatus message RcodeFormatError), c, w)
      | question # _ \<Rightarrow>
          if q_Qtype question = TypeA \<and> qo_Strategy options = DomainStrategyIPv6Only \<or>
             q_Qtype question = TypeAAAA \<and> qo_Strategy options = DomainStrategyIPv4Only
          then (Reply (FixedResponseStatus message RcodeSuccess), c, w)
          else
            (let message = prepareExchangeMessage c message options;
                 disableCache = (\<not> isSimpleRequest message options \<or> dc_disableCache c \<or> qo_DisableCache options);
                 key = (question, transport)
             in if disableCache
                then (case exchangeUncached dl ds c w contextTransport transport question message options
                             responseChecker True of (r, w) \<Rightarrow> (r, c, w))
                else case lockKey ds c w key of
                       (Inl err, c, w) \<Rightarrow> (Fail err, c, w)
                     | (Inr held, c, w) \<Rightarrow>
                         (case loadResponse dl ds c w question transport of
                            (loaded, w) \<Rightarrow>
                              (case cacheHit c loaded options
                                      (Refresh transport question message options responseChecker) of
                                 Some (response, c) \<Rightarrow>
                                   (Reply (response\<lparr>msg_Id := msg_Id message\<rparr>), unlockKey held key c, w)
                               | None \<Rightarrow>
                                   (case exchangeUncached dl ds c w contextTransport transport question message
                                           options responseChecker False of
                                      (r, w) \<Rightarrow> (r, unlockKey held key c, w))))))"

section \<open>The lookup\<close>

definition MessageToAddresses :: "lib \<Rightarrow> dns_msg \<Rightarrow> addr list" where
  "MessageToAddresses l response = DNSResponseAddresses l (Some response)"

definition sortAddresses :: "addr list \<Rightarrow> addr list \<Rightarrow> u8 \<Rightarrow> addr list" where
  "sortAddresses response4 response6 strategy =
     (if strategy = DomainStrategyPreferIPv6 then response6 @ response4 else response4 @ response6)"

definition addressesOf :: "lib \<Rightarrow> dns_msg \<Rightarrow> dns_error + addr list" where
  "addressesOf l response =
     (if msg_Rcode response \<noteq> RcodeSuccess then Inl (RcodeError (msg_Rcode response))
      else Inr (MessageToAddresses l response))"

definition questionCache ::
  "lib \<Rightarrow> dns_lib \<Rightarrow> 'w dns_services \<Rightarrow> dns_client \<Rightarrow> 'w \<Rightarrow> tag \<Rightarrow> question \<Rightarrow> dns_msg \<Rightarrow> query_options
   \<Rightarrow> checker option \<Rightarrow> (dns_error + addr list) \<times> dns_client \<times> 'w" where
  "questionCache l dl ds c w transport question message options responseChecker =
     (case loadResponse dl ds c w question transport of
        (None, w) \<Rightarrow> (Inl ErrNotCached, c, w)
      | (Some (response, _, isStale), w) \<Rightarrow>
          if isStale \<and> qo_DisableOptimisticCache options then (Inl ErrNotCached, c, w)
          else (addressesOf l response,
                if isStale then backgroundRefreshDNS c
                  (Refresh transport question (prepareExchangeMessage c message options) options responseChecker)
                else c, w))"

definition queryMessage :: "question \<Rightarrow> dns_msg" where
  "queryMessage question =
     \<lparr> msg_Id = 0, msg_Response = False, msg_Authoritative = False, msg_RecursionDesired = True,
       msg_RecursionAvailable = False, msg_Rcode = 0, msg_Question = [question],
       msg_Answer = [], msg_Ns = [], msg_Extra = [] \<rparr>"

definition lookupToExchange ::
  "lib \<Rightarrow> dns_lib \<Rightarrow> 'w dns_services \<Rightarrow> dns_client \<Rightarrow> 'w \<Rightarrow> tag option \<Rightarrow> tag \<Rightarrow> string \<Rightarrow> u16 \<Rightarrow> query_options
   \<Rightarrow> checker option \<Rightarrow> (dns_error + addr list) \<times> dns_client \<times> 'w" where
  "lookupToExchange l dl ds c w contextTransport transport name qType options responseChecker =
     (let question = Question name qType ClassINET; message = queryMessage question;
          exchange = (\<lambda>c w. case Client_Exchange dl ds c w contextTransport transport message options responseChecker of
             (Reply response, c, w) \<Rightarrow> (addressesOf l response, c, w)
           | (Rejected _, c, w) \<Rightarrow> (Inl ErrResponseRejected, c, w)
           | (Fail err, c, w) \<Rightarrow> (Inl err, c, w))
      in if \<not> (dc_disableCache c \<or> qo_DisableCache options)
         then (case questionCache l dl ds c w transport question message options responseChecker of
                 (Inl ErrNotCached, c, w) \<Rightarrow> exchange c w
               | (r, c, w) \<Rightarrow> (r, c, w))
         else exchange c w)"

text \<open>
  The two queries of a group run concurrently; the model runs them in the order they are appended.
  \<open>ds_GroupError\<close> is the error that \<^verbatim>\<open>task.Group.Run\<close> makes of theirs.
\<close>

definition Client_Lookup ::
  "lib \<Rightarrow> dns_lib \<Rightarrow> 'w dns_services \<Rightarrow> dns_client \<Rightarrow> 'w \<Rightarrow> tag option \<Rightarrow> tag \<Rightarrow> string \<Rightarrow> query_options
   \<Rightarrow> checker option \<Rightarrow> (dns_error + addr list) \<times> dns_client \<times> 'w" where
  "Client_Lookup l dl ds c w contextTransport transport domain options responseChecker =
     (let domain = FqdnToDomain dl domain; dnsName = dl_Fqdn dl domain;
          strategy = (if qo_LookupStrategy options \<noteq> DomainStrategyAsIS then qo_LookupStrategy options
                      else qo_Strategy options);
          lookupOptions = (if qo_LookupStrategy options \<noteq> DomainStrategyAsIS
                           then options\<lparr>qo_Strategy := strategy\<rparr> else options);
          lookup = (\<lambda>c w qType. lookupToExchange l dl ds c w contextTransport transport dnsName qType lookupOptions
                      responseChecker)
      in if strategy = DomainStrategyIPv4Only then lookup c w TypeA
         else if strategy = DomainStrategyIPv6Only then lookup c w TypeAAAA
         else case lookup c w TypeA of
                (r4, c, w) \<Rightarrow>
                  (case lookup c w TypeAAAA of
                     (r6, c, w) \<Rightarrow>
                       (let response4 = (case r4 of Inl _ \<Rightarrow> [] | Inr as \<Rightarrow> as);
                            response6 = (case r6 of Inl _ \<Rightarrow> [] | Inr as \<Rightarrow> as);
                            err = ds_GroupError ds (case r4 of Inl e \<Rightarrow> Some e | Inr _ \<Rightarrow> None)
                                    (case r6 of Inl e \<Rightarrow> Some e | Inr _ \<Rightarrow> None)
                        in if response4 = [] \<and> response6 = []
                           then ((case err of None \<Rightarrow> Inr [] | Some e \<Rightarrow> Inl e), c, w)
                           else (Inr (sortAddresses response4 response6 strategy), c, w))))"

end
