(* ===== verification/DNS_Client_Facts.thy ===== *)
theory DNS_Client_Facts
  imports DNS_Client
begin

text \<open>
  Facts on the DNS client: the time to live of a response, what the cache can hold after any sequence of
  operations, and that an exchange gives back the lock it takes.
\<close>

declare bitLength.simps [simp del]

section \<open>Time to live\<close>

definition positiveTTLs :: "rr list \<Rightarrow> u32 set" where
  "positiveTTLs rs = {rr_Ttl r | r. r \<in> set rs \<and> \<not> isOPT r \<and> rr_Ttl r > 0}"

lemma positiveTTLs_Nil [simp]: "positiveTTLs [] = {}"
  by (simp add: positiveTTLs_def)

lemma positiveTTLs_Cons:
  "positiveTTLs (r # rs) = (if isOPT r \<or> rr_Ttl r = 0 then positiveTTLs rs else insert (rr_Ttl r) (positiveTTLs rs))"
  by (auto simp: positiveTTLs_def word_neq_0_conv)

lemma finite_positiveTTLs [simp]: "finite (positiveTTLs rs)"
  by (induction rs) (simp_all add: positiveTTLs_Cons)

lemma foldl_ttlStep:
  "foldl ttlStep t rs =
     (let S = positiveTTLs rs \<union> (if t = 0 then {} else {t}) in if S = {} then 0 else Min S)"
proof (induction rs arbitrary: t)
  case (Cons r rs)
  consider (skip) "ttlStep t r = t" "isOPT r \<or> rr_Ttl r = 0"
    | (first) "ttlStep t r = rr_Ttl r" "t = 0" "\<not> isOPT r" "rr_Ttl r \<noteq> 0"
    | (less) "ttlStep t r = rr_Ttl r" "t \<noteq> 0" "\<not> isOPT r" "rr_Ttl r \<noteq> 0" "rr_Ttl r < t"
    | (more) "ttlStep t r = t" "t \<noteq> 0" "\<not> isOPT r" "rr_Ttl r \<noteq> 0" "t \<le> rr_Ttl r"
    by (cases "isOPT r"; cases "rr_Ttl r = 0"; cases "t = 0"; cases "rr_Ttl r < t")
      (auto simp: ttlStep_def word_neq_0_conv not_less)
  then show ?case
  proof cases
    case skip
    then show ?thesis by (auto simp: Cons positiveTTLs_Cons)
  next
    case first
    then show ?thesis by (simp add: Cons positiveTTLs_Cons Let_def)
  next
    case less
    then have "min t (min (rr_Ttl r) x) = min (rr_Ttl r) x" for x by (auto simp: min_def)
    with less show ?thesis
      by (cases "positiveTTLs rs = {}") (auto simp: Cons positiveTTLs_Cons Let_def)
  next
    case more
    then have "min t (min (rr_Ttl r) x) = min t x" for x by (auto simp: min_def)
    with more show ?thesis
      by (cases "positiveTTLs rs = {}") (auto simp: Cons positiveTTLs_Cons Let_def)
  qed
qed simp

lemma computeTimeToLive_answer:
  assumes "msg_Answer response \<noteq> []"
  shows "computeTimeToLive response =
    (if positiveTTLs (allRecords response) = {} then 0 else Min (positiveTTLs (allRecords response)))"
  using assms by (simp add: computeTimeToLive_def foldl_ttlStep)

lemma isOPT_setTTL [simp]: "isOPT (setTTL t r) = isOPT r"
  by (simp add: setTTL_def isOPT_def)

lemma Ttl_setTTL [simp]: "\<not> isOPT r \<Longrightarrow> rr_Ttl (setTTL t r) = t"
  by (simp add: setTTL_def)

text \<open>All records of a message but its \<^verbatim>\<open>OPT\<close> record have the same time to live.\<close>

definition uniformTTL :: "dns_msg \<Rightarrow> u32 \<Rightarrow> bool" where
  "uniformTTL m t \<longleftrightarrow> (\<forall>r \<in> set (allRecords m). isOPT r \<or> rr_Ttl r = t)"

lemma uniform_normalizeTTL [simp]: "uniformTTL (normalizeTTL m t) t"
  by (auto simp: uniformTTL_def normalizeTTL_def allRecords_def setTTL_def)

lemma normalizeTTL_header [simp]:
  "msg_Rcode (normalizeTTL m t) = msg_Rcode m" "msg_Id (normalizeTTL m t) = msg_Id m"
  "cacheableRcode (normalizeTTL m t) = cacheableRcode m"
  by (simp_all add: normalizeTTL_def cacheableRcode_def)

lemma applyResponseOptions_uniform:
  assumes "applyResponseOptions question response options = (t, response')"
  shows "uniformTTL response' t" "cacheableRcode response' = cacheableRcode response"
  using assms by (auto simp: applyResponseOptions_def Let_def cacheableRcode_def split: if_splits)

section \<open>Remaining seconds\<close>

lemma bitLength_le: "n < 2 ^ k \<Longrightarrow> bitLength n \<le> k"
proof (induction n arbitrary: k rule: bitLength.induct)
  case (1 n)
  show ?case
  proof (cases "n = 0")
    case False
    with 1 obtain k' where k: "k = Suc k'" by (cases k) auto
    with "1.prems" have "n div 2 < 2 ^ k'" by simp
    with 1(1) [OF False, of k'] False k show ?thesis by (simp add: bitLength.simps [of n])
  qed (simp add: bitLength.simps)
qed

lemma wholeSeconds_bounds:
  assumes "0 \<le> d" "d \<le> second * n" "n < 2 ^ 32"
  shows "0 \<le> wholeSeconds d" "wholeSeconds d \<le> n"
proof -
  have sec: "0 < second" by (simp add: second_def)
  let ?q = "d div second"
  have q: "0 \<le> ?q" using assms(1) sec by (simp add: pos_imp_zdiv_nonneg_iff)
  then show "0 \<le> wholeSeconds d" using assms(1) by (auto simp: wholeSeconds_def Let_def sgn_if)
  have le: "?q \<le> n" using zdiv_mono1 [OF assms(2) sec] sec by simp
  have "wholeSeconds d \<le> n" if "d mod second = 0"
  proof -
    have "nat ?q < 2 ^ 32" using le assms(3) q by (simp add: nat_less_iff)
    then have "bitLength (nat ?q) \<le> 32" by (rule bitLength_le)
    then have "second * 1 < second * 2 ^ (54 - bitLength (nat ?q))"
      using sec by (intro mult_strict_left_mono one_less_power) simp_all
    with that assms(1) le q show ?thesis by (auto simp: wholeSeconds_def Let_def sgn_if)
  qed
  moreover have "wholeSeconds d \<le> n" if "d mod second \<noteq> 0"
  proof -
    have "second * ?q < second * n"
      using that assms(2) sec by (smt (verit) pos_mod_sign mult_div_mod_eq)
    then have "?q + 1 \<le> n" using sec by simp
    with assms(1) q show ?thesis by (auto simp: wholeSeconds_def Let_def sgn_if)
  qed
  ultimately show "wholeSeconds d \<le> n" by blast
qed

section \<open>What the memory cache holds\<close>

text \<open>
  The documented behaviour of what the client calls, as far as the memory cache goes: reading back gives
  what was last added with an expiry no later than asked, or nothing; no other operation adds
  an entry; the clock does not go back.
\<close>

definition cacheView :: "'w dns_services \<Rightarrow> 'w \<Rightarrow> dnsCacheKey \<Rightarrow> (dns_msg \<times> int) option" where
  "cacheView ds w k = ds_CacheGetWithLifetimeNoExpire ds w k"

definition later :: "'w dns_services \<Rightarrow> 'w \<Rightarrow> 'w \<Rightarrow> bool" where
  "later ds w w' \<longleftrightarrow> ds_Now ds w \<le> ds_Now ds w' \<and>
     (\<forall>k. cacheView ds w' k = None \<or> cacheView ds w' k = cacheView ds w k)"

definition cacheLaws :: "'w dns_services \<Rightarrow> bool" where
  "cacheLaws ds \<longleftrightarrow>
     (\<forall>w k. later ds w (snd (ds_Wait ds w k))) \<and>
     (\<forall>w k. later ds w (ds_CacheRemove ds w k)) \<and>
     (\<forall>w t n q. later ds w (ds_SaveRDRCAsync ds w t n q)) \<and>
     (\<forall>w t d m. later ds w (snd (ds_Exchange ds w t d m))) \<and>
     (\<forall>w k m d. ds_Now ds w \<le> ds_Now ds (ds_CacheAddWithLifetime ds w k m d) \<and>
        (\<forall>k'. cacheView ds (ds_CacheAddWithLifetime ds w k m d) k' = None \<or>
              cacheView ds (ds_CacheAddWithLifetime ds w k m d) k' = cacheView ds w k' \<or>
              k' = k \<and> (\<exists>e \<le> ds_Now ds w + d. cacheView ds (ds_CacheAddWithLifetime ds w k m d) k' = Some (m, e))))"

text \<open>
  An entry is sound when its response can be cached, all its records have one time to live, and it
  expires within that time.
\<close>

definition soundEntry :: "int \<Rightarrow> dns_msg \<times> int \<Rightarrow> bool" where
  "soundEntry now e \<longleftrightarrow> cacheableRcode (fst e) \<and>
     (\<exists>t > 0. uniformTTL (fst e) t \<and> snd e \<le> now + second * uint t)"

definition soundCache :: "'w dns_services \<Rightarrow> 'w \<Rightarrow> bool" where
  "soundCache ds w \<longleftrightarrow> (\<forall>k e. cacheView ds w k = Some e \<longrightarrow> soundEntry (ds_Now ds w) e)"

lemma soundEntry_later: "soundEntry n e \<Longrightarrow> n \<le> n' \<Longrightarrow> soundEntry n' e"
  by (force simp: soundEntry_def)

lemma soundCache_later: "soundCache ds w \<Longrightarrow> later ds w w' \<Longrightarrow> soundCache ds w'"
  unfolding soundCache_def later_def by (metis option.distinct(1) soundEntry_later)

lemma later_refl [simp, intro]: "later ds w w"
  by (simp add: later_def)

text \<open>A client with a memory cache whose entries expire.\<close>

definition memoryClient :: "dns_client \<Rightarrow> bool" where
  "memoryClient c \<longleftrightarrow> \<not> dc_dnsCache c \<and> \<not> dc_disableExpire c"

lemma storeCache_sound:
  assumes "cacheLaws ds" "memoryClient c" "soundCache ds w" "cacheableRcode m" "uniformTTL m t"
  shows "soundCache ds (storeCache dl ds c w transport question m t)"
proof (cases "t = 0 \<or> \<not> dc_cache c")
  case False
  let ?k = "(question, transport)"
  let ?w = "ds_CacheAddWithLifetime ds w ?k m (second * uint t)"
  have now: "ds_Now ds w \<le> ds_Now ds ?w" using assms(1) by (simp add: cacheLaws_def)
  have "soundEntry (ds_Now ds ?w) e" if e: "cacheView ds ?w k = Some e" for k e
  proof -
    from assms(1) have "cacheView ds ?w k = None \<or> cacheView ds ?w k = cacheView ds w k \<or>
      k = ?k \<and> (\<exists>e \<le> ds_Now ds w + second * uint t. cacheView ds ?w k = Some (m, e))"
      unfolding cacheLaws_def by blast
    then consider "cacheView ds w k = Some e" | x where "e = (m, x)" "x \<le> ds_Now ds w + second * uint t"
      using e by auto
    then show ?thesis
    proof cases
      case 1
      with assms(3) have "soundEntry (ds_Now ds w) e" unfolding soundCache_def by blast
      then show ?thesis by (rule soundEntry_later [OF _ now])
    next
      case 2
      moreover have "0 < t" using False by (simp add: word_neq_0_conv)
      ultimately have "soundEntry (ds_Now ds w) e" using assms(4,5) by (auto simp: soundEntry_def)
      then show ?thesis by (rule soundEntry_later [OF _ now])
    qed
  qed
  then have "soundCache ds ?w" by (simp add: soundCache_def)
  with False assms(2) show ?thesis by (simp add: storeCache_def memoryClient_def)
qed (use assms in \<open>auto simp: storeCache_def memoryClient_def\<close>)

lemma exchangeToTransport_later:
  "cacheLaws ds \<Longrightarrow> later ds w (snd (exchangeToTransport ds c w transport message))"
  unfolding exchangeToTransport_def cacheLaws_def
  by (auto split: prod.splits sum.splits dns_error.splits) (metis snd_conv)+

lemma loadResponse_later: "cacheLaws ds \<Longrightarrow> later ds w (snd (loadResponse dl ds c w question transport))"
  by (auto simp: loadResponse_def cacheLaws_def Let_def split: option.splits)

lemma exchangeUncached_sound:
  assumes "cacheLaws ds" "memoryClient c" "soundCache ds w"
  shows "soundCache ds (snd (exchangeUncached dl ds c w contextTransport transport question message options
    responseChecker disableCache))"
proof -
  obtain r w1 where x: "exchangeToTransport ds c w transport message = (r, w1)" by fastforce
  then have w1: "soundCache ds w1"
    using exchangeToTransport_later [OF assms(1)] assms(3) soundCache_later by (metis snd_conv)
  have rdrc: "soundCache ds (ds_SaveRDRCAsync ds w1 t n q)" for t n q
    using soundCache_later [OF w1] assms(1) by (simp add: cacheLaws_def)
  show ?thesis
  proof (cases r)
    case (Inr response)
    obtain t response' where a: "applyResponseOptions question response options = (t, response')" by fastforce
    note u = applyResponseOptions_uniform [OF a]
    show ?thesis
      using x Inr a w1 rdrc assms storeCache_sound [OF assms(1,2) w1 _ u(1)] u(2)
      by (simp add: exchangeUncached_def Let_def)
  qed (use x w1 assms(3) in \<open>simp add: exchangeUncached_def\<close>)
qed

section \<open>The operations of the client\<close>

lemma distinct_map_remove1: "distinct (map f xs) \<Longrightarrow> distinct (map f (remove1 x xs))"
  by (induction xs) (use set_remove1_subset in fastforce)+

text \<open>
  Of a client only the list of refreshes changes for good, and at most one refresh of a key is in it.
\<close>

definition refreshKeys :: "dns_client \<Rightarrow> dnsCacheKey list" where
  "refreshKeys c = map (\<lambda>r. (rf_question r, rf_transport r)) (dc_backgroundRefresh c)"

definition sameClient :: "dns_client \<Rightarrow> dns_client \<Rightarrow> bool" where
  "sameClient c c' \<longleftrightarrow> (\<exists>rs. c' = c\<lparr>dc_backgroundRefresh := rs\<rparr>) \<and>
     (distinct (refreshKeys c) \<longrightarrow> distinct (refreshKeys c'))"

lemma sameClient_refl [simp]: "sameClient c c"
  unfolding sameClient_def by (auto intro: exI [of _ "dc_backgroundRefresh c"])

lemma sameClient_trans [trans]: "sameClient a b \<Longrightarrow> sameClient b c \<Longrightarrow> sameClient a c"
  by (auto simp: sameClient_def)

lemma sameClient_kept:
  assumes "sameClient c c'"
  shows "dc_cacheLock c' = dc_cacheLock c" "memoryClient c' = memoryClient c"
  using assms by (auto simp: sameClient_def memoryClient_def)

lemma backgroundRefresh_same: "sameClient c (backgroundRefreshDNS c r)"
  by (auto simp: backgroundRefreshDNS_def sameClient_def refreshKeys_def list_ex_iff
      intro: exI [of _ "dc_backgroundRefresh c"])

lemma cacheHit_same: "cacheHit c loaded options r = Some (response, c') \<Longrightarrow> sameClient c c'"
  by (auto simp: cacheHit_def backgroundRefresh_same split: option.splits if_splits)

lemma lockKey_world: "lockKey ds c w key = (a, c', w') \<Longrightarrow> w' = w \<or> w' = snd (ds_Wait ds w key)"
  by (auto simp: lockKey_def split: if_splits prod.splits wait.splits)

lemma lockKey_fails: "lockKey ds c w key = (Inl e, c', w') \<Longrightarrow> c' = c"
  by (auto simp: lockKey_def split: if_splits prod.splits wait.splits)

lemma lockKey_memory: "lockKey ds c w key = (a, c', w') \<Longrightarrow> memoryClient c' = memoryClient c"
  by (auto simp: lockKey_def memoryClient_def split: if_splits prod.splits wait.splits)

lemma lockKey_released:
  assumes "lockKey ds c w key = (Inr held, c', w')" "sameClient c' c''"
  shows "sameClient c (unlockKey held key c'')"
proof (cases "key \<in> set (dc_cacheLock c)")
  case True
  with assms(1) have "\<not> held" "c' = c" by (auto simp: lockKey_def split: prod.splits wait.splits)
  with assms(2) show ?thesis by (simp add: unlockKey_def)
next
  case False
  with assms(1) have "held" "c' = c\<lparr>dc_cacheLock := key # dc_cacheLock c\<rparr>" by (auto simp: lockKey_def)
  with assms(2) obtain rs where rs: "c'' = c\<lparr>dc_cacheLock := key # dc_cacheLock c, dc_backgroundRefresh := rs\<rparr>"
      "distinct (refreshKeys c) \<longrightarrow> distinct (refreshKeys c'')"
    by (auto simp: sameClient_def refreshKeys_def)
  then have "unlockKey held key c'' = c\<lparr>dc_backgroundRefresh := rs\<rparr>" using \<open>held\<close> False by (simp add: unlockKey_def)
  moreover have "refreshKeys (unlockKey held key c'') = refreshKeys c''" by (simp add: unlockKey_def refreshKeys_def)
  ultimately show ?thesis using rs(2) by (auto simp: sameClient_def)
qed

lemma prepare_Id [simp]: "msg_Id (prepareExchangeMessage c m options) = msg_Id m"
  by (auto simp: prepareExchangeMessage_def setClientSubnet_def Let_def split: prod.splits option.splits)

text \<open>The ways through an exchange.\<close>

lemma Client_Exchange_cases:
  assumes "Client_Exchange dl ds c w ctx transport message options responseChecker = (r, c', w')"
  obtains (fixed) rcode where "r = Reply (FixedResponseStatus message rcode)" "c' = c" "w' = w"
  | (uncached) question m where "exchangeUncached dl ds c w ctx transport question m options responseChecker True = (r, w')"
      "c' = c" "m = prepareExchangeMessage c message options"
  | (waited) e key where "lockKey ds c w key = (Inl e, c', w')" "r = Fail e"
  | (hit) question held c1 w1 loaded response c2 rf where
      "lockKey ds c w (question, transport) = (Inr held, c1, w1)"
      "loadResponse dl ds c1 w1 question transport = (loaded, w')"
      "cacheHit c1 loaded options rf = Some (response, c2)" "c' = unlockKey held (question, transport) c2"
      "r = Reply (response\<lparr>msg_Id := msg_Id message\<rparr>)"
  | (miss) question held c1 w1 w2 loaded m where
      "lockKey ds c w (question, transport) = (Inr held, c1, w1)"
      "loadResponse dl ds c1 w1 question transport = (loaded, w2)"
      "exchangeUncached dl ds c1 w2 ctx transport question m options responseChecker False = (r, w')"
      "c' = unlockKey held (question, transport) c1" "m = prepareExchangeMessage c message options"
proof (cases "msg_Question message")
  case Nil
  with assms show thesis by (intro fixed) (auto simp: Client_Exchange_def)
next
  case (Cons question rest)
  let ?m = "prepareExchangeMessage c message options"
  note x = assms [unfolded Client_Exchange_def Cons list.case Let_def]
  show thesis
  proof (cases "q_Qtype question = TypeA \<and> qo_Strategy options = DomainStrategyIPv6Only \<or>
      q_Qtype question = TypeAAAA \<and> qo_Strategy options = DomainStrategyIPv4Only")
    case True
    with x show thesis by (intro fixed) auto
  next
    case False
    note x = x [unfolded if_not_P [OF False]]
    show thesis
    proof (cases "\<not> isSimpleRequest ?m options \<or> dc_disableCache c \<or> qo_DisableCache options")
      case True
      with x show thesis by (intro uncached [OF _ _ refl]) (auto split: prod.splits)
    next
      case False
      note x = x [unfolded if_not_P [OF False]]
      obtain a c1 w1 where l: "lockKey ds c w (question, transport) = (a, c1, w1)" by (cases "lockKey ds c w (question, transport)")
      show thesis
      proof (cases a)
        case (Inl e)
        with x l show thesis by (intro waited [of "(question, transport)" e]) auto
      next
        case (Inr held)
        obtain loaded w2 where ld: "loadResponse dl ds c1 w1 question transport = (loaded, w2)" by fastforce
        show thesis
        proof (cases "cacheHit c1 loaded options (Refresh transport question ?m options responseChecker)")
          case None
          with x l Inr ld show thesis by (intro miss [OF _ ld _ _ refl]) (auto split: prod.splits)
        next
          case (Some p)
          obtain response c2 where p: "p = (response, c2)" by (cases p)
          with x l Inr ld Some have "w2 = w'" "c' = unlockKey held (question, transport) c2"
            "r = Reply (response\<lparr>msg_Id := msg_Id message\<rparr>)" by auto
          with l Inr ld Some p show thesis by (intro hit [of question held c1 w1 loaded]) auto
        qed
      qed
    qed
  qed
qed

lemma Client_Exchange_same:
  assumes "Client_Exchange dl ds c w ctx transport message options responseChecker = (r, c', w')"
  shows "sameClient c c'"
  using assms
  by (cases rule: Client_Exchange_cases)
    (auto dest: lockKey_fails intro: lockKey_released cacheHit_same)

lemma soundCache_wait:
  assumes "cacheLaws ds" "soundCache ds w" "lockKey ds c w key = (a, c', w')"
  shows "soundCache ds w'"
  using lockKey_world [OF assms(3)] assms(1,2) soundCache_later unfolding cacheLaws_def by metis

lemma soundCache_load:
  assumes "cacheLaws ds" "soundCache ds w" "loadResponse dl ds c w question transport = (a, w')"
  shows "soundCache ds w'"
  using loadResponse_later [OF assms(1), of w dl c question transport] soundCache_later [OF assms(2)] assms(3) by simp

lemma soundCache_uncached:
  assumes "cacheLaws ds" "memoryClient c" "soundCache ds w"
    "exchangeUncached dl ds c w ctx transport question message options responseChecker disableCache = (r, w')"
  shows "soundCache ds w'"
  using exchangeUncached_sound [OF assms(1-3)] assms(4) by (metis snd_conv)

lemma Client_Exchange_sound:
  assumes laws: "cacheLaws ds" and c: "memoryClient c" "soundCache ds w"
    and x: "Client_Exchange dl ds c w ctx transport message options responseChecker = (r, c', w')"
  shows "soundCache ds w'"
  using x
proof (cases rule: Client_Exchange_cases)
  case (miss question held c1 w1 w2 loaded m)
  have "soundCache ds w2" using soundCache_load [OF laws soundCache_wait [OF laws c(2) miss(1)] miss(2)] .
  with laws c(1) lockKey_memory [OF miss(1)] miss(3) show ?thesis by (auto intro: soundCache_uncached)
qed (use laws c in \<open>auto intro: soundCache_wait soundCache_load soundCache_uncached\<close>)

lemma lookupToExchange_kept:
  assumes "lookupToExchange l dl ds c w ctx transport name qType options responseChecker = (r, c', w')"
  shows "sameClient c c'"
    and "cacheLaws ds \<Longrightarrow> memoryClient c \<Longrightarrow> soundCache ds w \<Longrightarrow> soundCache ds w'"
proof -
  let ?q = "Question name qType ClassINET"
  let ?x = "\<lambda>c w. Client_Exchange dl ds c w ctx transport (queryMessage ?q) options responseChecker"
  obtain c1 w1 where step: "(c1, w1) = (c, w) \<or>
      (\<exists>a. questionCache l dl ds c w transport ?q (queryMessage ?q) options responseChecker = (a, c1, w1))"
    and last: "(c1, w1) = (c', w') \<or> (\<exists>y. ?x c1 w1 = (y, c', w'))"
    using assms unfolding lookupToExchange_def Let_def
    by (auto split: prod.splits if_splits sum.splits dns_error.splits reply.splits)
  have q: "sameClient c c1"
    using step by (auto simp: questionCache_def backgroundRefresh_same split: prod.splits option.splits if_splits)
  have w1: "soundCache ds w1" if "cacheLaws ds" "soundCache ds w"
    using step that
    by (auto simp: questionCache_def split: prod.splits option.splits if_splits intro: soundCache_load)
  show "sameClient c c'" using last q by (auto dest!: Client_Exchange_same intro: sameClient_trans)
  show "soundCache ds w'" if "cacheLaws ds" "memoryClient c" "soundCache ds w"
    using last w1 that sameClient_kept(2) [OF q] by (auto dest: Client_Exchange_sound)
qed

lemma Client_Lookup_kept:
  assumes "Client_Lookup l dl ds c w ctx transport domain options responseChecker = (r, c', w')"
  shows "sameClient c c'"
    and "cacheLaws ds \<Longrightarrow> memoryClient c \<Longrightarrow> soundCache ds w \<Longrightarrow> soundCache ds w'"
proof -
  obtain q1 q2 n o1 r1 r2 c1 w1 where
    one: "lookupToExchange l dl ds c w ctx transport n q1 o1 responseChecker = (r1, c1, w1)" and
    two: "(c1, w1) = (c', w') \<or> lookupToExchange l dl ds c1 w1 ctx transport n q2 o1 responseChecker = (r2, c', w')"
    using assms unfolding Client_Lookup_def Let_def by (auto split: prod.splits if_splits) blast+
  note k = lookupToExchange_kept [OF one]
  show "sameClient c c'" using two k(1) by (auto dest!: lookupToExchange_kept(1) intro: sameClient_trans)
  show "soundCache ds w'" if "cacheLaws ds" "memoryClient c" "soundCache ds w"
    using two k that sameClient_kept(2) [OF k(1)] lookupToExchange_kept(2) by auto
qed

lemma runRefresh_kept:
  assumes "runRefresh dl ds c w r = (c', w')"
  shows "sameClient c c'" and "cacheLaws ds \<Longrightarrow> memoryClient c \<Longrightarrow> soundCache ds w \<Longrightarrow> soundCache ds w'"
proof -
  show "sameClient c c'"
    using assms
    by (auto simp: runRefresh_def sameClient_def refreshKeys_def Let_def distinct_map_remove1
        split: prod.splits sum.splits if_splits)
  assume laws: "cacheLaws ds" and c: "memoryClient c" "soundCache ds w"
  obtain a w1 where x: "exchangeToTransport ds c w (rf_transport r) (rf_message r) = (a, w1)" by fastforce
  then have w1: "soundCache ds w1"
    using exchangeToTransport_later [OF laws] soundCache_later [OF c(2)] by (metis snd_conv)
  have rdrc: "soundCache ds (ds_SaveRDRCAsync ds w1 t n q)" for t n q
    using soundCache_later [OF w1] laws by (simp add: cacheLaws_def)
  show "soundCache ds w'"
  proof (cases a)
    case (Inr response)
    obtain t response' where y: "applyResponseOptions (rf_question r) response (rf_options r) = (t, response')" by fastforce
    note u = applyResponseOptions_uniform [OF y]
    show ?thesis
      using assms x Inr y w1 rdrc storeCache_sound [OF laws c(1) w1 _ u(1)] u(2)
      by (auto simp: runRefresh_def Let_def split: if_splits)
  qed (use assms x w1 in \<open>simp add: runRefresh_def Let_def\<close>)
qed

text \<open>The states of a client in use: exchanges, lookups, refreshes, and time that passes.\<close>

inductive client_run :: "lib \<Rightarrow> dns_lib \<Rightarrow> 'w dns_services \<Rightarrow> dns_client \<times> 'w \<Rightarrow> dns_client \<times> 'w \<Rightarrow> bool"
  for l dl ds x where
  client_start: "client_run l dl ds x x"
| client_exchange: "client_run l dl ds x (c, w) \<Longrightarrow>
    client_run l dl ds x (snd (Client_Exchange dl ds c w contextTransport transport message options responseChecker))"
| client_lookup: "client_run l dl ds x (c, w) \<Longrightarrow>
    client_run l dl ds x (snd (Client_Lookup l dl ds c w contextTransport transport domain options responseChecker))"
| client_refresh: "client_run l dl ds x (c, w) \<Longrightarrow> r \<in> set (dc_backgroundRefresh c) \<Longrightarrow>
    client_run l dl ds x (runRefresh dl ds c w r)"
| client_time: "client_run l dl ds x (c, w) \<Longrightarrow> later ds w w' \<Longrightarrow> client_run l dl ds x (c, w')"

lemma client_run_kept:
  assumes "client_run l dl ds x y" "cacheLaws ds" "memoryClient (fst x)" "soundCache ds (snd x)"
  shows "sameClient (fst x) (fst y) \<and> soundCache ds (snd y)"
  using assms(1)
proof induction
  case (client_exchange c w contextTransport transport message options responseChecker)
  let ?y = "Client_Exchange dl ds c w contextTransport transport message options responseChecker"
  have y: "?y = (fst ?y, fst (snd ?y), snd (snd ?y))" by simp
  show ?case
    using client_exchange.IH Client_Exchange_same [OF y] Client_Exchange_sound [OF assms(2) _ _ y] assms(3)
      sameClient_trans sameClient_kept(2) by (metis fst_conv snd_conv)
next
  case (client_lookup c w contextTransport transport domain options responseChecker)
  let ?y = "Client_Lookup l dl ds c w contextTransport transport domain options responseChecker"
  have y: "?y = (fst ?y, fst (snd ?y), snd (snd ?y))" by simp
  show ?case
    using client_lookup.IH Client_Lookup_kept [OF y] assms(2,3) sameClient_trans sameClient_kept(2)
    by (metis fst_conv snd_conv)
next
  case (client_refresh c w r)
  let ?y = "runRefresh dl ds c w r"
  have y: "?y = (fst ?y, snd ?y)" by simp
  show ?case
    using client_refresh.IH runRefresh_kept [OF y] assms(2,3) sameClient_trans sameClient_kept(2)
    by (metis fst_conv snd_conv)
next
  case (client_time c w w')
  then show ?case by (auto intro: soundCache_later)
qed (use assms(4) in simp)

text \<open>A reply carries the identifier of its query.\<close>

lemma matchEdns0_Id:
  assumes "\<And>m u d. msg_Id (dl_SetEdns0 dl m u d) = msg_Id m"
  shows "msg_Id (matchEdns0 dl message response) = msg_Id response"
  by (simp add: matchEdns0_def assms split: option.splits)

lemma exchangeUncached_Id:
  assumes "\<And>m u d. msg_Id (dl_SetEdns0 dl m u d) = msg_Id m"
    and "exchangeUncached dl ds c w ctx transport question message options responseChecker disableCache = (Reply r, w')"
  shows "msg_Id r = msg_Id message"
  using assms(2)
  by (auto simp: exchangeUncached_def Let_def matchEdns0_Id [OF assms(1)] split: if_splits prod.splits sum.splits)

end
