(* ===== verification/DNS_Client_Theorems.thy ===== *)
theory DNS_Client_Theorems
  imports DNS_Client_Facts Samples
begin

text \<open>The properties of the DNS client, and a small world in which they are exercised.\<close>

section \<open>A world with one server\<close>

text \<open>
  The state is the time, the memory cache and what has been marked as rejected. The one server answers
  every question for \<^verbatim>\<open>A\<close> records with the address \<^verbatim>\<open>1.2.3.4\<close>, for half a minute and a minute.
\<close>

record small_world =
  sw_now :: int
  sw_cache :: "dnsCacheKey \<Rightarrow> (dns_msg \<times> int) option"
  sw_rdrc :: "(tag \<times> string \<times> u16) list"

definition serverAnswer :: "dns_msg \<Rightarrow> dns_msg" where
  "serverAnswer m = m\<lparr>msg_Response := True, msg_Answer :=
     [RR ''example.org.'' TypeA ClassINET 60 (RR_A [1, 2, 3, 4]), RR ''example.org.'' TypeA ClassINET 30 (RR_A [1, 2, 3, 5])]\<rparr>"

definition smallServices :: "small_world dns_services" where
  "smallServices =
     \<lparr> ds_Now = sw_now, ds_Wait = (\<lambda>w _. (Closed, w)),
       ds_CacheAdd = (\<lambda>w k m. w),
       ds_CacheAddWithLifetime = (\<lambda>w k m d. w\<lparr>sw_cache := (sw_cache w)(k \<mapsto> (m, sw_now w + d))\<rparr>),
       ds_CacheGet = (\<lambda>w k. map_option fst (sw_cache w k)),
       ds_CacheGetWithLifetimeNoExpire = sw_cache,
       ds_CacheRemove = (\<lambda>w k. w\<lparr>sw_cache := (sw_cache w)(k := None)\<rparr>),
       ds_CachePurge = (\<lambda>w. w\<lparr>sw_cache := (\<lambda>_. None)\<rparr>),
       ds_LoadDNSCache = (\<lambda>_ _ _ _. None), ds_SaveDNSCacheAsync = (\<lambda>w _ _ _ _ _. w), ds_ClearDNSCache = (\<lambda>w. w),
       ds_LoadRDRC = (\<lambda>w t n q. (t, n, q) \<in> set (sw_rdrc w)),
       ds_SaveRDRCAsync = (\<lambda>w t n q. w\<lparr>sw_rdrc := (t, n, q) # sw_rdrc w\<rparr>),
       ds_Exchange = (\<lambda>w _ _ m. (Inr (serverAnswer m), w)),
       ds_GroupError = (\<lambda>a b. case a of None \<Rightarrow> b | Some _ \<Rightarrow> a) \<rparr>"

definition smallWorld :: small_world where
  "smallWorld = \<lparr> sw_now = 0, sw_cache = (\<lambda>_. None), sw_rdrc = [] \<rparr>"

definition plainDNS :: dns_lib where
  "plainDNS = \<lparr> dl_IsFqdn = (\<lambda>s. s \<noteq> [] \<and> last s = CHR ''.''), dl_Fqdn = (\<lambda>s. s @ ''.''),
     dl_Pack = (\<lambda>_. None), dl_Unpack = (\<lambda>_. None), dl_IsEdns0 = (\<lambda>_. None), dl_SetEdns0 = (\<lambda>m _ _. m) \<rparr>"

definition plainClient :: dns_client where
  "plainClient = Client_Start (NewClient \<lparr> co_Timeout = 0, co_DisableCache = False, co_DisableExpire = False,
     co_OptimisticTimeout = 0, co_CacheCapacity = 0, co_ClientSubnet = PrefixZero, co_RDRC = Some True,
     co_DNSCache = None \<rparr>)"

definition plainOptions :: query_options where
  "plainOptions = \<lparr> qo_Transport = None, qo_Strategy = 0, qo_LookupStrategy = 0, qo_DisableCache = False,
     qo_DisableOptimisticCache = False, qo_RewriteTTL = None, qo_Timeout = 0, qo_ClientSubnet = PrefixZero \<rparr>"

definition plainQuestion :: question where
  "plainQuestion = Question ''example.org.'' TypeA ClassINET"

definition plainQuery :: dns_msg where
  "plainQuery = (queryMessage plainQuestion)\<lparr>msg_Id := 7\<rparr>"

lemmas small_defs = smallServices_def smallWorld_def plainDNS_def plainClient_def plainOptions_def plainQuery_def
  plainQuestion_def serverAnswer_def NewClient_def Client_Start_def initializeMemoryCache_def queryMessage_def


text \<open>The state after the first query.\<close>

definition afterQuery :: "reply \<times> dns_client \<times> small_world" where
  "afterQuery = Client_Exchange plainDNS smallServices plainClient smallWorld None ''dns'' plainQuery plainOptions None"

lemmas exchange_defs = Client_Exchange_def exchangeUncached_def exchangeToTransport_def prepareExchangeMessage_def
  isSimpleRequest_def lockKey_def unlockKey_def loadResponse_def cacheHit_def applyResponseOptions_def
  responseRejected_def cacheableRcode_def stripDNSPadding_def storeCache_def matchEdns0_def prefix_IsValid_def
  dns_numbers domain_strategies Let_def

definition cachedAnswer :: dns_msg where
  "cachedAnswer = (normalizeTTL (serverAnswer plainQuery) 30)"

lemma afterQuery_eq:
  "afterQuery = (Reply cachedAnswer, plainClient, smallWorld\<lparr>sw_cache := [(plainQuestion, ''dns'') \<mapsto> (cachedAnswer, 30000000000)]\<rparr>)"
  by (simp add: afterQuery_def cachedAnswer_def exchange_defs small_defs computeTimeToLive_def allRecords_def ttlStep_def
      isOPT_def normalizeTTL_def setTTL_def second_def)

section \<open>The properties\<close>






text \<open>Ten seconds after the first query the answer has twenty seconds left.\<close>

definition tenSecondsLater :: small_world where
  "tenSecondsLater = (snd (snd afterQuery))\<lparr>sw_now := 10000000000\<rparr>"

lemma cached_load:
  "loadResponse plainDNS smallServices plainClient tenSecondsLater plainQuestion ''dns'' =
     (Some (normalizeTTL cachedAnswer 20, 20, False), tenSecondsLater)"
proof -
  have "bitLength 20 = 5" by (simp add: bitLength.simps)
  then have "remainingTTL 30000000000 10000000000 = 20"
    by (simp add: remainingTTL_def wholeSeconds_def second_def)
  moreover have "\<not> dc_dnsCache plainClient" "dc_cache plainClient" "\<not> dc_disableExpire plainClient"
    by (simp_all add: small_defs)
  ultimately show ?thesis
    by (simp add: loadResponse_def tenSecondsLater_def afterQuery_eq smallServices_def smallWorld_def)
qed


text \<open>C21: An exchange leaves the client as it was but for the refreshes it starts: whichever way it ends,
  the lock it took is given back, and a key never has two refreshes under way. A reply carries
  the identifier of the query.\<close>

theorem exchange_leaves_client:
  assumes "Client_Exchange dl ds c w contextTransport transport message options responseChecker = (r, c', w')"
    and "\<And>m u d. msg_Id (dl_SetEdns0 dl m u d) = msg_Id m"
  shows "(\<exists>rs. c' = c\<lparr>dc_backgroundRefresh := rs\<rparr>) \<and> dc_cacheLock c' = dc_cacheLock c \<and>
    (distinct (refreshKeys c) \<longrightarrow> distinct (refreshKeys c')) \<and>
    (\<forall>response. r = Reply response \<longrightarrow> msg_Id response = msg_Id message)"
proof -
  have "msg_Id response = msg_Id message" if "r = Reply response" for response
    using assms(1)
  proof (cases rule: Client_Exchange_cases)
    case (uncached question m)
    from exchangeUncached_Id [OF assms(2) uncached(1) [unfolded that]] uncached(3) show ?thesis by simp
  next
    case (miss question held c1 w1 w2 loaded m)
    from exchangeUncached_Id [OF assms(2) miss(3) [unfolded that]] miss(5) show ?thesis by simp
  qed (use that in \<open>auto simp: FixedResponseStatus_def\<close>)
  moreover note same = Client_Exchange_same [OF assms(1)]
  ultimately show ?thesis using sameClient_kept(1) [OF same] same unfolding sameClient_def by blast
qed

theorem exchange_leaves_client_witness:
  "dc_cacheLock (fst (snd afterQuery)) = [] \<and> \<not> (\<exists>response. fst afterQuery = Reply response \<and> msg_Id response \<noteq> 7)"
  using exchange_leaves_client [of plainDNS smallServices plainClient smallWorld None "''dns''" plainQuery plainOptions
      None "fst afterQuery" "fst (snd afterQuery)" "snd (snd afterQuery)"]
  by (simp add: afterQuery_def plainDNS_def plainQuery_def plainClient_def Client_Start_def NewClient_def
      initializeMemoryCache_def)

text \<open>C25: A fresh response in the cache answers the query whatever the response checker of the caller would
  say of it.\<close>

theorem cached_response_unchecked:
  assumes "msg_Question message = question # rest" "prepareExchangeMessage c message options = message"
    and "isSimpleRequest message options" "\<not> dc_disableCache c" "\<not> qo_DisableCache options"
    and "qo_Strategy options = DomainStrategyAsIS" "(question, transport) \<notin> set (dc_cacheLock c)"
    and "loadResponse dl ds c w question transport = (Some (response, ttl, False), w')"
  shows "Client_Exchange dl ds c w contextTransport transport message options responseChecker =
    (Reply (response\<lparr>msg_Id := msg_Id message\<rparr>), c, w')"
proof -
  have "loadResponse dl ds (c\<lparr>dc_cacheLock := k\<rparr>) w question transport = loadResponse dl ds c w question transport" for k
    by (cases c, hypsubst, unfold loadResponse_def loadPersistentResponse_def dns_client.simps, rule refl)
  with assms show ?thesis
    by (simp add: Client_Exchange_def lockKey_def unlockKey_def cacheHit_def domain_strategies Let_def)
qed

theorem cached_response_unchecked_witness:
  "fst (Client_Exchange plainDNS smallServices (fst (snd afterQuery)) tenSecondsLater None ''dns'' plainQuery
      plainOptions (Some (\<lambda>_. False))) = Reply (normalizeTTL cachedAnswer 20) \<and>
   fst (Client_Exchange plainDNS smallServices plainClient smallWorld None ''dns'' plainQuery
      plainOptions (Some (\<lambda>_. False))) = Rejected (serverAnswer plainQuery)"
proof -
  have "fst (Client_Exchange plainDNS smallServices plainClient smallWorld None ''dns'' plainQuery
      plainOptions (Some (\<lambda>_. False))) = Rejected (serverAnswer plainQuery)"
    by (simp add: exchange_defs small_defs)
  moreover have "fst (Client_Exchange plainDNS smallServices (fst (snd afterQuery)) tenSecondsLater None ''dns'' plainQuery
      plainOptions (Some (\<lambda>_. False))) = Reply (normalizeTTL cachedAnswer 20)"
  proof -
    have "dc_cacheLock plainClient = []" "\<not> dc_disableCache plainClient" "dc_clientSubnet plainClient = PrefixZero"
      by (simp_all add: small_defs)
    then show ?thesis
      using cached_response_unchecked [OF _ _ _ _ _ _ _ cached_load, of plainQuery "[]" plainOptions]
      by (simp add: afterQuery_eq) (simp add: plainQuery_def plainOptions_def queryMessage_def plainQuestion_def
          prepareExchangeMessage_def isSimpleRequest_def prefix_IsValid_def domain_strategies
          normalizeTTL_def cachedAnswer_def serverAnswer_def)
  qed
  ultimately show ?thesis by simp
qed

end
