(* ===== verification/DNS_Router_Mode.thy ===== *)
theory DNS_Router_Mode
  imports Rule_DNS Rule_Set
begin

text \<open>
  The part of \<^verbatim>\<open>dns/router.go\<close> that decides how DNS rules are evaluated: whether the configured rules need
  the legacy mode (a first pass that ignores address conditions) or the current one (explicit
  evaluation of a response), which rule lists are refused, the construction and start of the
  rules, and the check of a rule-set update against the running mode.

  The router service (\<^verbatim>\<open>adapter.Router\<close>) is the store of its rule-sets, or \<open>None\<close> when it is not registered.
  Where a rule-set is looked up in a router that is not registered, the mode check before has failed
  already.
\<close>

type_synonym metadata_overrides = "tag \<rightharpoonup> rule_set_metadata"

definition noOverrides :: metadata_overrides where
  "noOverrides = Map.empty"

text \<open>The fields of a deprecation note that its message uses.\<close>

record deprecation_note =
  nt_Description :: string
  nt_DeprecatedVersion :: string
  nt_ScheduledVersion :: string
  nt_MigrationLink :: string

definition MessageWithLink :: "deprecation_note \<Rightarrow> string" where
  "MessageWithLink n =
     nt_Description n @ '' is deprecated in sing-box '' @ nt_DeprecatedVersion n @
     (if nt_MigrationLink n \<noteq> ''''
      then '' and will be removed in sing-box '' @ nt_ScheduledVersion n @
           '', checkout documentation for migration: '' @ nt_MigrationLink n
      else '' and will be removed in sing-box '' @ nt_ScheduledVersion n @ ''.'')"

definition migrationDocs :: string where
  "migrationDocs = ''https://sing-box.sagernet.org/migration/#''"

definition OptionLegacyDNSAddressFilter :: string where
  "OptionLegacyDNSAddressFilter = MessageWithLink
     \<lparr> nt_Description = ''Legacy Address Filter Fields in DNS rules'', nt_DeprecatedVersion = ''1.14.0'',
       nt_ScheduledVersion = ''1.16.0'', nt_MigrationLink = migrationDocs @ ''migrate-address-filter-fields-to-response-matching'' \<rparr>"

definition OptionLegacyDNSRuleStrategy :: string where
  "OptionLegacyDNSRuleStrategy = MessageWithLink
     \<lparr> nt_Description = ''Legacy `strategy` DNS rule action option'', nt_DeprecatedVersion = ''1.14.0'',
       nt_ScheduledVersion = ''1.16.0'', nt_MigrationLink = migrationDocs @ ''migrate-dns-rule-action-strategy-to-rule-items'' \<rparr>"

definition OptionRuleSetIPCIDRAcceptEmpty :: string where
  "OptionRuleSetIPCIDRAcceptEmpty = MessageWithLink
     \<lparr> nt_Description = ''Legacy `rule_set_ip_cidr_accept_empty` DNS rule item'', nt_DeprecatedVersion = ''1.14.0'',
       nt_ScheduledVersion = ''1.16.0'', nt_MigrationLink = migrationDocs @ ''migrate-address-filter-fields-to-response-matching'' \<rparr>"

section \<open>The action of a rule\<close>

text \<open>The options of a rule whose action field is empty are \<open>DNSActNone\<close>; the empty action is \<^verbatim>\<open>route\<close>.\<close>

fun dns_action_type :: "dns_rule_action_options \<Rightarrow> string" where
  "dns_action_type DNSActNone = ''route''"
| "dns_action_type (DNSActRoute _ _ _) = ''route''"
| "dns_action_type (DNSActEvaluate _ _) = ''evaluate''"
| "dns_action_type DNSActRespond = ''respond''"
| "dns_action_type (DNSActRouteOptions _) = ''route-options''"
| "dns_action_type (DNSActReject _) = ''reject''"
| "dns_action_type (DNSActPredefined _) = ''predefined''"
| "dns_action_type (DNSActUnknown t) = t"

fun dnsRuleActionType :: "dns_rule_options \<Rightarrow> string" where
  "dnsRuleActionType (OptDefault _ _ a) = dns_action_type a"
| "dnsRuleActionType (OptLogical _ _ _ a) = dns_action_type a"
| "dnsRuleActionType (OptUnknown _) = ''''"

fun dns_action_server :: "dns_rule_action_options \<Rightarrow> string" where
  "dns_action_server (DNSActRoute server _ _) = server"
| "dns_action_server (DNSActEvaluate server _) = server"
| "dns_action_server _ = ''''"

fun dnsRuleActionServer :: "dns_rule_options \<Rightarrow> string" where
  "dnsRuleActionServer (OptDefault _ _ a) = dns_action_server a"
| "dnsRuleActionServer (OptLogical _ _ _ a) = dns_action_server a"
| "dnsRuleActionServer (OptUnknown _) = ''''"

fun dnsRuleActionDisablesLegacyDNSMode :: "dns_rule_action_options \<Rightarrow> bool" where
  "dnsRuleActionDisablesLegacyDNSMode (DNSActRoute _ options _) = opt_dns_DisableOptimisticCache options"
| "dnsRuleActionDisablesLegacyDNSMode (DNSActEvaluate _ options) = opt_dns_DisableOptimisticCache options"
| "dnsRuleActionDisablesLegacyDNSMode (DNSActRouteOptions options) = opt_dns_DisableOptimisticCache options"
| "dnsRuleActionDisablesLegacyDNSMode _ = False"

fun dnsRuleActionHasStrategy :: "dns_rule_action_options \<Rightarrow> bool" where
  "dnsRuleActionHasStrategy (DNSActRoute _ options _) = (opt_dns_Strategy options \<noteq> 0)"
| "dnsRuleActionHasStrategy (DNSActEvaluate _ options) = (opt_dns_Strategy options \<noteq> 0)"
| "dnsRuleActionHasStrategy (DNSActRouteOptions options) = (opt_dns_Strategy options \<noteq> 0)"
| "dnsRuleActionHasStrategy _ = False"

section \<open>The mode\<close>

definition defaultRuleNeedsLegacyDNSModeFromAddressFilter :: "raw_default_dns_rule \<Rightarrow> bool" where
  "defaultRuleNeedsLegacyDNSModeFromAddressFilter rule \<longleftrightarrow>
     d_RuleSetIPCIDRAcceptEmpty rule \<or>
     \<not> d_MatchResponse rule \<and> (d_IPAcceptAny rule \<or> d_IPCIDR rule \<noteq> [] \<or> d_IPIsPrivate rule)"

definition hasResponseMatchFields :: "raw_default_dns_rule \<Rightarrow> bool" where
  "hasResponseMatchFields rule \<longleftrightarrow>
     d_ResponseRcode rule \<noteq> None \<or> d_ResponseAnswer rule \<noteq> [] \<or> d_ResponseNs rule \<noteq> [] \<or> d_ResponseExtra rule \<noteq> []"

definition defaultRuleDisablesLegacyDNSMode :: "raw_default_dns_rule \<Rightarrow> dns_rule_action_options \<Rightarrow> bool" where
  "defaultRuleDisablesLegacyDNSMode rule a \<longleftrightarrow>
     d_MatchResponse rule \<or> hasResponseMatchFields rule \<or> dns_action_type a = ''evaluate'' \<or>
     dns_action_type a = ''respond'' \<or> d_IPVersion rule > 0 \<or> d_QueryType rule \<noteq> []"

record dnsRuleModeFlags =
  mf_disabled :: bool
  mf_needed :: bool
  mf_neededFromStrategy :: bool

definition noModeFlags :: dnsRuleModeFlags where
  "noModeFlags = \<lparr> mf_disabled = False, mf_needed = False, mf_neededFromStrategy = False \<rparr>"

definition mergeFlags :: "dnsRuleModeFlags \<Rightarrow> dnsRuleModeFlags \<Rightarrow> dnsRuleModeFlags" where
  "mergeFlags f other =
     \<lparr> mf_disabled = (mf_disabled f \<or> mf_disabled other), mf_needed = (mf_needed f \<or> mf_needed other),
       mf_neededFromStrategy = (mf_neededFromStrategy f \<or> mf_neededFromStrategy other) \<rparr>"

definition lookupDNSRuleSetMetadata ::
  "rule_set_store \<Rightarrow> tag \<Rightarrow> metadata_overrides \<Rightarrow> rule_error + rule_set_metadata" where
  "lookupDNSRuleSetMetadata router t overrides =
     (case overrides t of
        Some metadata \<Rightarrow> Inr metadata
      | None \<Rightarrow>
          (case router t of
             None \<Rightarrow> Inl (E_NewArg ''rule-set not found: '' t)
           | Some ruleSet \<Rightarrow> Inr (rs_metadata ruleSet)))"

fun ruleSetModeFlags ::
  "rule_set_store \<Rightarrow> metadata_overrides \<Rightarrow> bool \<Rightarrow> tag list \<Rightarrow> dnsRuleModeFlags \<Rightarrow> rule_error + dnsRuleModeFlags" where
  "ruleSetModeFlags router overrides matchSource [] flags = Inr flags"
| "ruleSetModeFlags router overrides matchSource (t # ts) flags =
     (case lookupDNSRuleSetMetadata router t overrides of
        Inl e \<Rightarrow> Inl e
      | Inr metadata \<Rightarrow>
          ruleSetModeFlags router overrides matchSource ts
            (flags\<lparr>mf_disabled := mf_disabled flags \<or> ContainsDNSQueryTypeRule metadata,
                   mf_needed := mf_needed flags \<or> \<not> matchSource \<and> ContainsIPCIDRRule metadata\<rparr>))"

definition dnsRuleModeRequirementsInDefaultRule ::
  "rule_set_store option \<Rightarrow> metadata_overrides \<Rightarrow> raw_default_dns_rule \<Rightarrow> dns_rule_action_options
   \<Rightarrow> rule_error + dnsRuleModeFlags" where
  "dnsRuleModeRequirementsInDefaultRule router overrides rule a =
     (let strategy = dnsRuleActionHasStrategy a;
          flags = \<lparr> mf_disabled = (defaultRuleDisablesLegacyDNSMode rule a \<or> dnsRuleActionDisablesLegacyDNSMode a),
                    mf_needed = (defaultRuleNeedsLegacyDNSModeFromAddressFilter rule \<or> strategy),
                    mf_neededFromStrategy = strategy \<rparr>
      in if d_RuleSet rule = [] then Inr flags
         else case router of
                None \<Rightarrow> Inl (E_New ''router service not found'')
              | Some router \<Rightarrow>
                  ruleSetModeFlags router overrides (d_RuleSetIPCIDRMatchSource rule) (d_RuleSet rule) flags)"

function (sequential) dnsRuleModeRequirementsInRule ::
  "rule_set_store option \<Rightarrow> metadata_overrides \<Rightarrow> dns_rule_options \<Rightarrow> rule_error + dnsRuleModeFlags"
and subRuleModeRequirements ::
  "rule_set_store option \<Rightarrow> metadata_overrides \<Rightarrow> dns_rule_options list \<Rightarrow> nat \<Rightarrow> dnsRuleModeFlags
   \<Rightarrow> rule_error + dnsRuleModeFlags" where
  "dnsRuleModeRequirementsInRule router overrides (OptDefault typed rule a) =
     dnsRuleModeRequirementsInDefaultRule router overrides rule a"
| "dnsRuleModeRequirementsInRule router overrides (OptLogical mode rules inverted a) =
     subRuleModeRequirements router overrides rules 0
       \<lparr> mf_disabled = (dns_action_type a = ''evaluate'' \<or> dns_action_type a = ''respond'' \<or>
                        dnsRuleActionDisablesLegacyDNSMode a),
         mf_needed = dnsRuleActionHasStrategy a, mf_neededFromStrategy = dnsRuleActionHasStrategy a \<rparr>"
| "dnsRuleModeRequirementsInRule router overrides (OptUnknown t) = Inr noModeFlags"
| "subRuleModeRequirements router overrides [] i flags = Inr flags"
| "subRuleModeRequirements router overrides (r # rs) i flags =
     (case dnsRuleModeRequirementsInRule router overrides r of
        Inl e \<Rightarrow> Inl (E_CauseAt e ''sub rule['' i)
      | Inr subFlags \<Rightarrow> subRuleModeRequirements router overrides rs (Suc i) (mergeFlags flags subFlags))"
  by pat_completeness auto
termination
  by (relation "measure (\<lambda>p. case p of Inl (_, _, r) \<Rightarrow> size r | Inr (_, _, rs, _, _) \<Rightarrow> size_list size rs)") auto

fun modeRequirementsFrom ::
  "rule_set_store option \<Rightarrow> metadata_overrides \<Rightarrow> dns_rule_options list \<Rightarrow> nat \<Rightarrow> dnsRuleModeFlags
   \<Rightarrow> rule_error + dnsRuleModeFlags" where
  "modeRequirementsFrom router overrides [] i flags = Inr flags"
| "modeRequirementsFrom router overrides (r # rs) i flags =
     (case dnsRuleModeRequirementsInRule router overrides r of
        Inl e \<Rightarrow> Inl (E_CauseAt e ''dns rule['' i)
      | Inr ruleFlags \<Rightarrow> modeRequirementsFrom router overrides rs (Suc i) (mergeFlags flags ruleFlags))"

definition dnsRuleModeRequirements ::
  "rule_set_store option \<Rightarrow> dns_rule_options list \<Rightarrow> metadata_overrides \<Rightarrow> rule_error + dnsRuleModeFlags" where
  "dnsRuleModeRequirements router rules overrides = modeRequirementsFrom router overrides rules 0 noModeFlags"

definition resolveLegacyDNSMode ::
  "rule_set_store option \<Rightarrow> dns_rule_options list \<Rightarrow> metadata_overrides \<Rightarrow> rule_error + (bool \<times> dnsRuleModeFlags)" where
  "resolveLegacyDNSMode router rules overrides =
     (case dnsRuleModeRequirements router rules overrides of
        Inl e \<Rightarrow> Inl e
      | Inr flags \<Rightarrow>
          if mf_disabled flags \<and> mf_neededFromStrategy flags then Inl (E_New OptionLegacyDNSRuleStrategy)
          else if mf_disabled flags then Inr (False, flags)
          else Inr (mf_needed flags, flags))"

section \<open>Rule lists that the current mode refuses\<close>

fun pureIPRuleSet :: "rule_set_store \<Rightarrow> metadata_overrides \<Rightarrow> tag list \<Rightarrow> rule_error option" where
  "pureIPRuleSet router overrides [] = None"
| "pureIPRuleSet router overrides (t # ts) =
     (case lookupDNSRuleSetMetadata router t overrides of
        Inl e \<Rightarrow> Some e
      | Inr metadata \<Rightarrow>
          if ContainsIPCIDRRule metadata \<and> \<not> ContainsNonIPCIDRRule metadata
          then Some (E_New OptionLegacyDNSAddressFilter) else pureIPRuleSet router overrides ts)"

definition responseFieldsMessage :: string where
  "responseFieldsMessage = ''Response Match Fields (ip_cidr, ip_is_private, ip_accept_any, response_rcode, response_answer, response_ns, response_extra) require match_response to be enabled''"

definition validateLegacyDNSModeDisabledDefaultRule ::
  "rule_set_store \<Rightarrow> metadata_overrides \<Rightarrow> raw_default_dns_rule \<Rightarrow> dns_rule_action_options \<Rightarrow> rule_error + bool" where
  "validateLegacyDNSModeDisabledDefaultRule router overrides rule a =
     (if (hasResponseMatchFields rule \<or> d_IPCIDR rule \<noteq> [] \<or> d_IPIsPrivate rule \<or> d_IPAcceptAny rule) \<and>
         \<not> d_MatchResponse rule
      then Inl (E_New responseFieldsMessage)
      else case (if \<not> d_MatchResponse rule then pureIPRuleSet router overrides (d_RuleSet rule) else None) of
             Some e \<Rightarrow> Inl e
           | None \<Rightarrow>
               if d_RuleSetIPCIDRAcceptEmpty rule then Inl (E_New OptionRuleSetIPCIDRAcceptEmpty)
               else Inr (d_MatchResponse rule \<or> dns_action_type a = ''respond''))"

function (sequential) validateLegacyDNSModeDisabledRuleTree ::
  "rule_set_store \<Rightarrow> metadata_overrides \<Rightarrow> dns_rule_options \<Rightarrow> rule_error + bool"
and validateSubRules ::
  "rule_set_store \<Rightarrow> metadata_overrides \<Rightarrow> dns_rule_options list \<Rightarrow> nat \<Rightarrow> bool \<Rightarrow> rule_error + bool" where
  "validateLegacyDNSModeDisabledRuleTree router overrides (OptDefault typed rule a) =
     validateLegacyDNSModeDisabledDefaultRule router overrides rule a"
| "validateLegacyDNSModeDisabledRuleTree router overrides (OptLogical mode rules inverted a) =
     validateSubRules router overrides rules 0 (dns_action_type a = ''respond'')"
| "validateLegacyDNSModeDisabledRuleTree router overrides (OptUnknown t) = Inr False"
| "validateSubRules router overrides [] i requiresPriorEvaluate = Inr requiresPriorEvaluate"
| "validateSubRules router overrides (r # rs) i requiresPriorEvaluate =
     (case validateLegacyDNSModeDisabledRuleTree router overrides r of
        Inl e \<Rightarrow> Inl (E_CauseAt e ''sub rule['' i)
      | Inr sub \<Rightarrow> validateSubRules router overrides rs (Suc i) (requiresPriorEvaluate \<or> sub))"
  by pat_completeness auto
termination
  by (relation "measure (\<lambda>p. case p of Inl (_, _, r) \<Rightarrow> size r | Inr (_, _, rs, _, _) \<Rightarrow> size_list size rs)") auto

fun validateDisabledFrom ::
  "rule_set_store \<Rightarrow> metadata_overrides \<Rightarrow> dns_rule_options list \<Rightarrow> nat \<Rightarrow> bool \<Rightarrow> rule_error option" where
  "validateDisabledFrom router overrides [] i seenEvaluate = None"
| "validateDisabledFrom router overrides (r # rs) i seenEvaluate =
     (case validateLegacyDNSModeDisabledRuleTree router overrides r of
        Inl e \<Rightarrow> Some (E_CauseAt e ''validate dns rule['' i)
      | Inr requiresPriorEvaluate \<Rightarrow>
          if requiresPriorEvaluate \<and> \<not> seenEvaluate
          then Some (E_CauseAt (E_New ''response-based matching requires a preceding evaluate action'') ''dns rule['' i)
          else validateDisabledFrom router overrides rs (Suc i)
                 (seenEvaluate \<or> dnsRuleActionType r = ''evaluate''))"

definition validateLegacyDNSModeDisabledRules ::
  "rule_set_store \<Rightarrow> dns_rule_options list \<Rightarrow> metadata_overrides \<Rightarrow> rule_error option" where
  "validateLegacyDNSModeDisabledRules router rules overrides = validateDisabledFrom router overrides rules 0 False"

text \<open>\<open>transports\<close> maps the tag of a transport to its type.\<close>

definition DNSTypeFakeIP :: string where "DNSTypeFakeIP = ''fakeip''"

fun evaluateFakeIPFrom :: "(tag \<Rightarrow> string option) \<Rightarrow> dns_rule_options list \<Rightarrow> nat \<Rightarrow> rule_error option" where
  "evaluateFakeIPFrom transports [] i = None"
| "evaluateFakeIPFrom transports (r # rs) i =
     (if dnsRuleActionType r = ''evaluate'' \<and> dnsRuleActionServer r \<noteq> '''' \<and>
         transports (dnsRuleActionServer r) = Some DNSTypeFakeIP
      then Some (E_CauseAt (E_NewArg ''evaluate action cannot use fakeip server: '' (dnsRuleActionServer r)) ''dns rule['' i)
      else evaluateFakeIPFrom transports rs (Suc i))"

definition validateEvaluateFakeIPRules :: "dns_rule_options list \<Rightarrow> (tag \<Rightarrow> string option) \<Rightarrow> rule_error option" where
  "validateEvaluateFakeIPRules rules transports = evaluateFakeIPFrom transports rules 0"

text \<open>The tags of the rule-sets that the rules refer to; the code returns them in no particular order.\<close>

fun ruleSetTags :: "dns_rule_options \<Rightarrow> tag list" where
  "ruleSetTags (OptDefault typed rule a) = d_RuleSet rule"
| "ruleSetTags (OptLogical mode rules inverted a) = concat (map ruleSetTags rules)"
| "ruleSetTags (OptUnknown t) = []"

definition referencedDNSRuleSetTags :: "dns_rule_options list \<Rightarrow> tag set" where
  "referencedDNSRuleSetTags rules = set (concat (map ruleSetTags rules)) - {''''}"

section \<open>Starting and closing DNS rules\<close>

text \<open>A DNS rule starts and closes as the rule it embeds; the result \<open>None\<close> is the panic on a negative reference count.\<close>

function (sequential) dnsRule_Start ::
  "services \<Rightarrow> rule_set_store \<Rightarrow> dns_rule \<Rightarrow> (rule_error option \<times> rule_set_store \<times> dns_rule) option"
and dnsSubRules_Start ::
  "services \<Rightarrow> rule_set_store \<Rightarrow> dns_rule list \<Rightarrow> (rule_error option \<times> rule_set_store \<times> dns_rule list) option" where
  "dnsRule_Start svc store (DefaultRule r) =
     (case abstractDefaultRule_Start svc store (dr_rule r) of
        None \<Rightarrow> None
      | Some (e, store', r') \<Rightarrow> Some (e, store', DefaultRule (r\<lparr>dr_rule := r'\<rparr>)))"
| "dnsRule_Start svc store (LogicalRule rules mode inverted act) =
     (case dnsSubRules_Start svc store rules of
        None \<Rightarrow> None
      | Some (e, store', rules') \<Rightarrow> Some (e, store', LogicalRule rules' mode inverted act))"
| "dnsSubRules_Start svc store [] = Some (None, store, [])"
| "dnsSubRules_Start svc store (r # rs) =
     (case dnsRule_Start svc store r of
        None \<Rightarrow> None
      | Some (Some e, store', r') \<Rightarrow> Some (Some e, store', r' # rs)
      | Some (None, store', r') \<Rightarrow>
          (case dnsSubRules_Start svc store' rs of
             None \<Rightarrow> None
           | Some (e, store'', rs') \<Rightarrow> Some (e, store'', r' # rs')))"
  by pat_completeness auto
termination
  by (relation "measure (\<lambda>p. case p of Inl (_, _, r) \<Rightarrow> size r | Inr (_, _, rs) \<Rightarrow> size_list size rs)") auto

function (sequential) dnsRule_Close :: "rule_set_store \<Rightarrow> dns_rule \<Rightarrow> (rule_set_store \<times> dns_rule) option"
and closeRules :: "rule_set_store \<Rightarrow> dns_rule list \<Rightarrow> (rule_set_store \<times> dns_rule list) option" where
  "dnsRule_Close store (DefaultRule r) =
     (case abstractDefaultRule_Close store (dr_rule r) of
        None \<Rightarrow> None
      | Some (store', r') \<Rightarrow> Some (store', DefaultRule (r\<lparr>dr_rule := r'\<rparr>)))"
| "dnsRule_Close store (LogicalRule rules mode inverted act) =
     (case closeRules store rules of
        None \<Rightarrow> None
      | Some (store', rules') \<Rightarrow> Some (store', LogicalRule rules' mode inverted act))"
| "closeRules store [] = Some (store, [])"
| "closeRules store (r # rs) =
     (case dnsRule_Close store r of
        None \<Rightarrow> None
      | Some (store', r') \<Rightarrow>
          (case closeRules store' rs of
             None \<Rightarrow> None
           | Some (store'', rs') \<Rightarrow> Some (store'', r' # rs')))"
  by pat_completeness auto
termination
  by (relation "measure (\<lambda>p. case p of Inl (_, r) \<Rightarrow> size r | Inr (_, rs) \<Rightarrow> size_list size rs)") auto

section \<open>Building the rules\<close>

fun nestedActionsFrom :: "dns_rule_options list \<Rightarrow> nat \<Rightarrow> rule_error option" where
  "nestedActionsFrom [] i = None"
| "nestedActionsFrom (r # rs) i =
     (case validateNoNestedRuleActions isNoDNSAction nestedDNSActionMessage r False of
        Some e \<Rightarrow> Some (E_CauseAt e ''parse dns rule['' i)
      | None \<Rightarrow> nestedActionsFrom rs (Suc i))"

fun newDNSRulesFrom :: "lib \<Rightarrow> bool \<Rightarrow> dns_rule_options list \<Rightarrow> nat \<Rightarrow> dns_rule list outcome" where
  "newDNSRulesFrom l legacyDNSMode [] i = Ret []"
| "newDNSRulesFrom l legacyDNSMode (r # rs) i =
     (case NewDNSRule l r True legacyDNSMode of
        Panic msg \<Rightarrow> Panic msg
      | Err e \<Rightarrow> Err (E_CauseAt e ''parse dns rule['' i)
      | Ret rule \<Rightarrow>
          (case newDNSRulesFrom l legacyDNSMode rs (Suc i) of
             Ret rules \<Rightarrow> Ret (rule # rules)
           | Err e \<Rightarrow> Err e
           | Panic msg \<Rightarrow> Panic msg))"

text \<open>The loop that starts the rules; the rules behind a failed one are left as they are.\<close>

fun startRulesFrom ::
  "services \<Rightarrow> rule_set_store \<Rightarrow> dns_rule list \<Rightarrow> nat \<Rightarrow> (rule_error option \<times> rule_set_store \<times> dns_rule list) option" where
  "startRulesFrom svc store [] i = Some (None, store, [])"
| "startRulesFrom svc store (r # rs) i =
     (case dnsRule_Start svc store r of
        None \<Rightarrow> None
      | Some (Some e, store', r') \<Rightarrow> Some (Some (E_CauseAt e ''initialize DNS rule['' i), store', r' # rs)
      | Some (None, store', r') \<Rightarrow>
          (case startRulesFrom svc store' rs (Suc i) of
             None \<Rightarrow> None
           | Some (e, store'', rs') \<Rightarrow> Some (e, store'', r' # rs')))"

text \<open>
  What a router needs to build its rules: the library, the services the rules start with, the types
  of the transports and whether the router service is registered.
\<close>

record build_env =
  be_lib :: lib
  be_services :: services
  be_transports :: "tag \<Rightarrow> string option"
  be_router :: bool

definition checkDNSRules ::
  "build_env \<Rightarrow> rule_set_store \<Rightarrow> dns_rule_options list \<Rightarrow> rule_error + (bool \<times> dnsRuleModeFlags)" where
  "checkDNSRules env store rawRules =
     (case nestedActionsFrom rawRules 0 of
        Some e \<Rightarrow> Inl e
      | None \<Rightarrow>
          (case resolveLegacyDNSMode (if be_router env then Some store else None) rawRules noOverrides of
             Inl e \<Rightarrow> Inl e
           | Inr (legacyDNSMode, modeFlags) \<Rightarrow>
               (case (if legacyDNSMode then None else validateLegacyDNSModeDisabledRules store rawRules noOverrides) of
                  Some e \<Rightarrow> Inl e
                | None \<Rightarrow>
                    (case validateEvaluateFakeIPRules rawRules (be_transports env) of
                       Some e \<Rightarrow> Inl e
                     | None \<Rightarrow> Inr (legacyDNSMode, modeFlags)))))"

definition buildDNSRules ::
  "build_env \<Rightarrow> rule_set_store \<Rightarrow> dns_rule_options list \<Rightarrow> bool
   \<Rightarrow> (dns_rule list \<times> bool \<times> dnsRuleModeFlags) outcome \<times> rule_set_store" where
  "buildDNSRules env store rawRules startRules =
     (case checkDNSRules env store rawRules of
        Inl e \<Rightarrow> (Err e, store)
      | Inr (legacyDNSMode, modeFlags) \<Rightarrow>
          (case newDNSRulesFrom (be_lib env) legacyDNSMode rawRules 0 of
             Panic msg \<Rightarrow> (Panic msg, store)
           | Err e \<Rightarrow> (Err e, store)
           | Ret newRules \<Rightarrow>
               if \<not> startRules then (Ret (newRules, legacyDNSMode, modeFlags), store)
               else (case startRulesFrom (be_services env) store newRules 0 of
                       None \<Rightarrow> (Panic ''rule-set: negative refs'', store)
                     | Some (Some e, store', rules') \<Rightarrow>
                         (case closeRules store' rules' of
                            None \<Rightarrow> (Panic ''rule-set: negative refs'', store')
                          | Some (store'', _) \<Rightarrow> (Err e, store''))
                     | Some (None, store', rules') \<Rightarrow> (Ret (rules', legacyDNSMode, modeFlags), store'))))"

section \<open>The router's rules over time\<close>

record dns_rules =
  ro_rawRules :: "dns_rule_options list"
  ro_rules :: "dns_rule list"
  ro_legacyDNSMode :: bool
  ro_started :: bool
  ro_closing :: bool

text \<open>\<^verbatim>\<open>Initialize\<close> builds the rules once to report errors and closes them; unstarted rules hold no references.\<close>

definition Router_Initialize ::
  "build_env \<Rightarrow> rule_set_store \<Rightarrow> dns_rules \<Rightarrow> dns_rule_options list \<Rightarrow> unit outcome \<times> dns_rules \<times> rule_set_store" where
  "Router_Initialize env store r rules =
     (let r = r\<lparr>ro_rawRules := rules\<rparr>
      in case buildDNSRules env store rules False of
           (Panic msg, store) \<Rightarrow> (Panic msg, r, store)
         | (Err e, store) \<Rightarrow> (Err e, r, store)
         | (Ret (newRules, _, _), store) \<Rightarrow>
             (case closeRules store newRules of
                None \<Rightarrow> (Panic ''rule-set: negative refs'', r, store)
              | Some (store', _) \<Rightarrow> (Ret (), r, store')))"

text \<open>The stage \<^verbatim>\<open>StartStateStart\<close>; the start of the client is in the theory of the router.\<close>

definition Router_StartRules ::
  "build_env \<Rightarrow> rule_set_store \<Rightarrow> dns_rules \<Rightarrow> unit outcome \<times> dns_rules \<times> rule_set_store" where
  "Router_StartRules env store r =
     (case buildDNSRules env store (ro_rawRules r) True of
        (Panic msg, store) \<Rightarrow> (Panic msg, r, store)
      | (Err e, store) \<Rightarrow> (Err e, r, store)
      | (Ret (newRules, legacyDNSMode, _), store) \<Rightarrow>
          if ro_closing r then
            (case closeRules store newRules of
               None \<Rightarrow> (Panic ''rule-set: negative refs'', r, store)
             | Some (store', _) \<Rightarrow> (Ret (), r, store'))
          else (Ret (), r\<lparr>ro_rules := newRules, ro_legacyDNSMode := legacyDNSMode, ro_started := True\<rparr>, store))"

definition Router_Close :: "rule_set_store \<Rightarrow> dns_rules \<Rightarrow> unit outcome \<times> dns_rules \<times> rule_set_store" where
  "Router_Close store r =
     (if ro_closing r then (Ret (), r, store)
      else case closeRules store (ro_rules r) of
             None \<Rightarrow> (Panic ''rule-set: negative refs'', r\<lparr>ro_closing := True, ro_rules := []\<rparr>, store)
           | Some (store', _) \<Rightarrow> (Ret (), r\<lparr>ro_closing := True, ro_rules := []\<rparr>, store'))"

definition ValidateRuleSetMetadataUpdate ::
  "rule_set_store option \<Rightarrow> dns_rules \<Rightarrow> tag \<Rightarrow> rule_set_metadata \<Rightarrow> rule_error option" where
  "ValidateRuleSetMetadataUpdate router r t metadata =
     (if ro_rawRules r = [] then None
      else case router of
             None \<Rightarrow> Some (E_New ''router service not found'')
           | Some store \<Rightarrow>
               let overrides = [t \<mapsto> metadata] in
               if ro_closing r then None
               else case resolveLegacyDNSMode router (ro_rawRules r) overrides of
                      Inl e \<Rightarrow> Some e
                    | Inr (candidateLegacyDNSMode, flags) \<Rightarrow>
                        if \<not> ro_started r then
                          (if \<not> candidateLegacyDNSMode
                           then validateLegacyDNSModeDisabledRules store (ro_rawRules r) overrides else None)
                        else if ro_legacyDNSMode r then
                          (if \<not> candidateLegacyDNSMode \<and> mf_disabled flags then
                             (case validateLegacyDNSModeDisabledRules store (ro_rawRules r) overrides of
                                Some e \<Rightarrow> Some e
                              | None \<Rightarrow> Some (E_New OptionLegacyDNSAddressFilter))
                           else None)
                        else if candidateLegacyDNSMode then Some (E_New OptionLegacyDNSAddressFilter)
                        else validateLegacyDNSModeDisabledRules store (ro_rawRules r) overrides)"

end
