(* ===== verification/DNS_Router.thy ===== *)
theory DNS_Router
  imports DNS_Router_Mode DNS_Client
begin

text \<open>
  The DNS router of \<^verbatim>\<open>dns/router.go\<close>: which server answers a query and what the rules do to it, in the current
  mode (one pass over the rules with an evaluated response) and in the legacy mode (a loop that tries the
  next matching rule when the response does not pass the address conditions).

  Queries go through the client of \<open>DNS_Client\<close>; transports are their tags, and the transport manager is the
  map of tags to types together with the default tag. A reject action that \<^verbatim>\<open>Lookup\<close> asks for its
  error is the error value \<open>DNSRejected\<close>: what that action answers, and its flood counter, are modelled with the
  action.
\<close>

record 'w dns_env =
  re_lib :: lib
  re_dl :: dns_lib
  re_ds :: "'w dns_services"
  re_matcher :: matcher
  re_store :: rule_set_store
  re_Transport :: "tag \<Rightarrow> string option"
  re_Default :: tag
  re_ctxDone :: "'w \<Rightarrow> bool"
  re_ReverseAdd :: "'w \<Rightarrow> addr \<Rightarrow> string \<Rightarrow> duration \<Rightarrow> 'w"
  re_ReverseGet :: "'w \<Rightarrow> addr \<Rightarrow> string option"
  re_ResetTransport :: "'w \<Rightarrow> tag \<Rightarrow> 'w"
  re_Transports :: "tag list"

record dns_router =
  rt_rules :: dns_rules
  rt_defaultDomainStrategy :: u8
  rt_reverseMapping :: bool
  rt_client :: dns_client

datatype 'a dns_outcome = DRet 'a | DErr dns_error | DPanic string

text \<open>What one exchange or lookup changes: the client and the state of the other components.\<close>

type_synonym 'w run_state = "dns_client \<times> 'w"

section \<open>Rules and options\<close>

definition isFakeIP :: "'w dns_env \<Rightarrow> tag \<Rightarrow> bool" where
  "isFakeIP env t \<longleftrightarrow> re_Transport env t = Some DNSTypeFakeIP"

text \<open>The query options after a matched action of \<^verbatim>\<open>matchDNS\<close>, which knows no \<^verbatim>\<open>disable_optimistic_cache\<close>.\<close>

definition legacyRouteOptions :: "query_options \<Rightarrow> dns_options \<Rightarrow> bool \<Rightarrow> query_options" where
  "legacyRouteOptions options a disableCache =
     (let options = (if do_Strategy a \<noteq> DomainStrategyAsIS then options\<lparr>qo_Strategy := do_Strategy a\<rparr> else options);
          options = (if disableCache then options\<lparr>qo_DisableCache := True\<rparr> else options);
          options = (if do_RewriteTTL a \<noteq> None then options\<lparr>qo_RewriteTTL := do_RewriteTTL a\<rparr> else options)
      in if prefix_IsValid (do_ClientSubnet a) then options\<lparr>qo_ClientSubnet := do_ClientSubnet a\<rparr> else options)"

text \<open>The metadata as the loops leave it before a rule is matched.\<close>

definition freshMetadata :: "inbound_context \<Rightarrow> inbound_context" where
  "freshMetadata c = (ResetRuleCache c)\<lparr>DestinationAddressMatchFromResponse := False\<rparr>"

record dns_match =
  dm_transport :: "tag option"
  dm_rule :: "dns_rule option"
  dm_ruleIndex :: "nat option"
  dm_options :: query_options

text \<open>The loop of \<^verbatim>\<open>matchDNS\<close> over the rules from index \<open>i\<close> on.\<close>

fun matchDNSFrom ::
  "'w dns_env \<Rightarrow> inbound_context \<Rightarrow> bool \<Rightarrow> bool \<Rightarrow> nat \<Rightarrow> dns_rule list \<Rightarrow> query_options \<Rightarrow> dns_match" where
  "matchDNSFrom env c allowFakeIP isAddressQuery i [] options =
     \<lparr> dm_transport = Some (re_Default env), dm_rule = None, dm_ruleIndex = None, dm_options = options \<rparr>"
| "matchDNSFrom env c allowFakeIP isAddressQuery i (rule # rules) options =
     (if WithAddressLimit (re_store env) rule \<and> \<not> isAddressQuery
      then matchDNSFrom env c allowFakeIP isAddressQuery (Suc i) rules options
      else if \<not> LegacyPreMatch (re_matcher env) (re_store env) rule (freshMetadata c)
      then matchDNSFrom env c allowFakeIP isAddressQuery (Suc i) rules options
      else case dns_action_of rule of
             Some (RuleActionDNSRoute server a) \<Rightarrow>
               (case re_Transport env server of
                  None \<Rightarrow> matchDNSFrom env c allowFakeIP isAddressQuery (Suc i) rules options
                | Some _ \<Rightarrow>
                    if isFakeIP env server \<and> \<not> allowFakeIP
                    then matchDNSFrom env c allowFakeIP isAddressQuery (Suc i) rules options
                    else \<lparr> dm_transport = Some server, dm_rule = Some rule, dm_ruleIndex = Some i,
                           dm_options = legacyRouteOptions options a (isFakeIP env server \<or> do_DisableCache a) \<rparr>)
           | Some (RuleActionDNSRouteOptions a) \<Rightarrow>
               matchDNSFrom env c allowFakeIP isAddressQuery (Suc i) rules
                 (legacyRouteOptions options a (do_DisableCache a))
           | Some (RuleActionReject _) \<Rightarrow>
               \<lparr> dm_transport = None, dm_rule = Some rule, dm_ruleIndex = Some i, dm_options = options \<rparr>
           | Some (RuleActionPredefined _) \<Rightarrow>
               \<lparr> dm_transport = None, dm_rule = Some rule, dm_ruleIndex = Some i, dm_options = options \<rparr>
           | _ \<Rightarrow> matchDNSFrom env c allowFakeIP isAddressQuery (Suc i) rules options)"

text \<open>A rule index of \<^verbatim>\<open>-1\<close> is \<open>None\<close>.\<close>

definition nextIndex :: "nat option \<Rightarrow> nat" where
  "nextIndex ruleIndex = (case ruleIndex of None \<Rightarrow> 0 | Some i \<Rightarrow> Suc i)"

definition matchDNS ::
  "'w dns_env \<Rightarrow> inbound_context \<Rightarrow> dns_rule list \<Rightarrow> bool \<Rightarrow> nat option \<Rightarrow> bool \<Rightarrow> query_options \<Rightarrow> dns_match" where
  "matchDNS env c rules allowFakeIP ruleIndex isAddressQuery options =
     matchDNSFrom env c allowFakeIP isAddressQuery (nextIndex ruleIndex) (drop (nextIndex ruleIndex) rules) options"

definition applyDNSRouteOptions :: "query_options \<Rightarrow> dns_options \<Rightarrow> query_options" where
  "applyDNSRouteOptions options a =
     (let options = (if do_DisableCache a then options\<lparr>qo_DisableCache := True\<rparr> else options);
          options = (if do_DisableOptimisticCache a then options\<lparr>qo_DisableOptimisticCache := True\<rparr> else options);
          options = (if do_RewriteTTL a \<noteq> None then options\<lparr>qo_RewriteTTL := do_RewriteTTL a\<rparr> else options)
      in if prefix_IsValid (do_ClientSubnet a) then options\<lparr>qo_ClientSubnet := do_ClientSubnet a\<rparr> else options)"

datatype dnsRouteStatus = RouteMissing | RouteSkipped | RouteResolved

definition resolveDNSRoute ::
  "'w dns_env \<Rightarrow> tag \<Rightarrow> dns_options \<Rightarrow> bool \<Rightarrow> query_options \<Rightarrow> dnsRouteStatus \<times> query_options" where
  "resolveDNSRoute env server a allowFakeIP options =
     (if re_Transport env server = None then (RouteMissing, options)
      else if isFakeIP env server \<and> \<not> allowFakeIP then (RouteSkipped, options)
      else let options = applyDNSRouteOptions options a
           in (RouteResolved, if isFakeIP env server then options\<lparr>qo_DisableCache := True\<rparr> else options))"

definition withStrategy :: "dns_router \<Rightarrow> query_options \<Rightarrow> query_options" where
  "withStrategy r options =
     (if qo_Strategy options = DomainStrategyAsIS then options\<lparr>qo_Strategy := rt_defaultDomainStrategy r\<rparr> else options)"

section \<open>The current mode\<close>

datatype exchangeWithRulesResult =
    RulesResponse dns_msg "tag option" "reject_action option"
  | RulesError dns_error "reject_action option"
  | RulesPanic string

definition refusedResponse :: "dns_msg \<Rightarrow> dns_msg" where
  "refusedResponse message =
     \<lparr> msg_Id = msg_Id message, msg_Response = True, msg_Authoritative = False, msg_RecursionDesired = False,
       msg_RecursionAvailable = False, msg_Rcode = RcodeRefused, msg_Question = take 1 (msg_Question message),
       msg_Answer = [], msg_Ns = [], msg_Extra = [] \<rparr>"

fun replyResult :: "tag \<Rightarrow> reply \<Rightarrow> exchangeWithRulesResult" where
  "replyResult transport (Reply response) = RulesResponse response (Some transport) None"
| "replyResult transport (Rejected response) = RulesError ErrResponseRejected None"
| "replyResult transport (Fail err) = RulesError err None"

definition dnsRespondMissingResponseMessage :: string where
  "dnsRespondMissingResponseMessage =
     ''respond action requires an evaluated response from a preceding evaluate action''"

text \<open>
  The loop of \<^verbatim>\<open>exchangeWithRules\<close>; \<open>evaluated\<close> is the evaluated response with its transport. A reject action
  with a method other than the two of the code falls through to the next rule.
\<close>

fun exchangeRules ::
  "'w dns_env \<Rightarrow> dns_router \<Rightarrow> tag option \<Rightarrow> inbound_context \<Rightarrow> dns_msg \<Rightarrow> bool \<Rightarrow> dns_rule list
   \<Rightarrow> query_options \<Rightarrow> (dns_msg \<times> tag) option \<Rightarrow> 'w run_state \<Rightarrow> exchangeWithRulesResult \<times> 'w run_state" where
  "exchangeRules env r ctx c message allowFakeIP [] options evaluated (cl, w) =
     (case Client_Exchange (re_dl env) (re_ds env) cl w ctx (re_Default env) message (withStrategy r options) None of
        (reply, s) \<Rightarrow> (replyResult (re_Default env) reply, s))"
| "exchangeRules env r ctx c message allowFakeIP (rule # rules) options evaluated (cl, w) =
     (if \<not> DNSRule_Match (re_matcher env) (re_store env) rule
             ((freshMetadata c)\<lparr>DNSResponse := map_option fst evaluated\<rparr>)
      then exchangeRules env r ctx c message allowFakeIP rules options evaluated (cl, w)
      else case dns_action_of rule of
             Some (RuleActionDNSRouteOptions a) \<Rightarrow>
               exchangeRules env r ctx c message allowFakeIP rules (applyDNSRouteOptions options a) evaluated (cl, w)
           | Some (RuleActionEvaluate server a) \<Rightarrow>
               if re_Transport env server = None
               then exchangeRules env r ctx c message allowFakeIP rules options None (cl, w)
               else (case Client_Exchange (re_dl env) (re_ds env) cl w ctx server message
                            (withStrategy r (applyDNSRouteOptions options a)) None of
                       (Reply response, s) \<Rightarrow>
                         exchangeRules env r ctx c message allowFakeIP rules options (Some (response, server)) s
                     | (_, s) \<Rightarrow> exchangeRules env r ctx c message allowFakeIP rules options None s)
           | Some RuleActionRespond \<Rightarrow>
               (case evaluated of
                  None \<Rightarrow> (RulesError (DNSErr dnsRespondMissingResponseMessage) None, cl, w)
                | Some (response, transport) \<Rightarrow> (RulesResponse response (Some transport) None, cl, w))
           | Some (RuleActionDNSRoute server a) \<Rightarrow>
               (case resolveDNSRoute env server a allowFakeIP options of
                  (RouteResolved, queryOptions) \<Rightarrow>
                    (case Client_Exchange (re_dl env) (re_ds env) cl w ctx server message (withStrategy r queryOptions) None of
                       (reply, s) \<Rightarrow> (replyResult server reply, s))
                | _ \<Rightarrow> exchangeRules env r ctx c message allowFakeIP rules options evaluated (cl, w))
           | Some (RuleActionReject a) \<Rightarrow>
               if rj_Method a = ''default'' then (RulesResponse (refusedResponse message) None (Some a), cl, w)
               else if rj_Method a = ''drop'' then (RulesError DNSDrop (Some a), cl, w)
               else exchangeRules env r ctx c message allowFakeIP rules options evaluated (cl, w)
           | Some (RuleActionPredefined a) \<Rightarrow>
               (case RuleActionPredefined_Response a message of
                  Ret response \<Rightarrow> (RulesResponse response None None, cl, w)
                | Err e \<Rightarrow> (RulesPanic ''unreachable'', cl, w)
                | Panic msg \<Rightarrow> (RulesPanic msg, cl, w))
           | _ \<Rightarrow> exchangeRules env r ctx c message allowFakeIP rules options evaluated (cl, w))"

definition exchangeWithRules ::
  "'w dns_env \<Rightarrow> dns_router \<Rightarrow> tag option \<Rightarrow> inbound_context \<Rightarrow> dns_rule list \<Rightarrow> dns_msg \<Rightarrow> query_options \<Rightarrow> bool
   \<Rightarrow> 'w run_state \<Rightarrow> exchangeWithRulesResult \<times> 'w run_state" where
  "exchangeWithRules env r ctx c rules message options allowFakeIP s =
     exchangeRules env r ctx c message allowFakeIP rules options None s"

definition resolveLookupStrategy :: "dns_router \<Rightarrow> query_options \<Rightarrow> u8" where
  "resolveLookupStrategy r options =
     (if qo_LookupStrategy options \<noteq> DomainStrategyAsIS then qo_LookupStrategy options
      else if qo_Strategy options \<noteq> DomainStrategyAsIS then qo_Strategy options
      else rt_defaultDomainStrategy r)"

definition withLookupQueryMetadata :: "inbound_context \<Rightarrow> u16 \<Rightarrow> inbound_context" where
  "withLookupQueryMetadata c qType =
     c\<lparr>QueryType := qType, IPVersion := (if qType = TypeA then 4 else if qType = TypeAAAA then 6 else 0)\<rparr>"

definition filterAddressesByQueryType :: "addr list \<Rightarrow> u16 \<Rightarrow> addr list" where
  "filterAddressesByQueryType addresses qType =
     (if qType = TypeA then filter addr_Is4 addresses
      else if qType = TypeAAAA then filter addr_Is6 addresses else addresses)"

definition lookupWithRulesType ::
  "'w dns_env \<Rightarrow> dns_router \<Rightarrow> tag option \<Rightarrow> inbound_context \<Rightarrow> dns_rule list \<Rightarrow> string \<Rightarrow> u16 \<Rightarrow> query_options
   \<Rightarrow> 'w run_state \<Rightarrow> addr list dns_outcome \<times> 'w run_state" where
  "lookupWithRulesType env r ctx c rules domain qType options s =
     (case exchangeWithRules env r ctx (withLookupQueryMetadata c qType) rules
             (queryMessage (Question (dl_Fqdn (re_dl env) domain) qType ClassINET)) options False s of
        (RulesPanic msg, s) \<Rightarrow> (DPanic msg, s)
      | (RulesResponse _ _ (Some a), s) \<Rightarrow> (DErr (DNSRejected a), s)
      | (RulesError _ (Some a), s) \<Rightarrow> (DErr (DNSRejected a), s)
      | (RulesError err None, s) \<Rightarrow> (DErr err, s)
      | (RulesResponse response _ None, s) \<Rightarrow>
          if msg_Rcode response \<noteq> RcodeSuccess then (DErr (RcodeError (msg_Rcode response)), s)
          else (DRet (filterAddressesByQueryType (MessageToAddresses (re_lib env) response) qType), s))"

text \<open>The results of a lookup of both families; the queries run one after the other.\<close>

definition bothFamilies ::
  "'w dns_env \<Rightarrow> u8 \<Rightarrow> addr list dns_outcome \<Rightarrow> addr list dns_outcome \<Rightarrow> addr list dns_outcome" where
  "bothFamilies env strategy r4 r6 =
     (let addresses = (\<lambda>r. case r of DRet as \<Rightarrow> as | _ \<Rightarrow> []);
          error = (\<lambda>r. case r of DErr e \<Rightarrow> Some e | _ \<Rightarrow> None)
      in case (r4, r6) of
           (DPanic msg, _) \<Rightarrow> DPanic msg
         | (_, DPanic msg) \<Rightarrow> DPanic msg
         | _ \<Rightarrow>
             if addresses r4 = [] \<and> addresses r6 = []
             then (case ds_GroupError (re_ds env) (error r4) (error r6) of None \<Rightarrow> DRet [] | Some e \<Rightarrow> DErr e)
             else DRet (sortAddresses (addresses r4) (addresses r6) strategy))"

definition lookupWithRules ::
  "'w dns_env \<Rightarrow> dns_router \<Rightarrow> tag option \<Rightarrow> inbound_context \<Rightarrow> dns_rule list \<Rightarrow> string \<Rightarrow> query_options
   \<Rightarrow> 'w run_state \<Rightarrow> addr list dns_outcome \<times> 'w run_state" where
  "lookupWithRules env r ctx c rules domain options s =
     (let strategy = resolveLookupStrategy r options;
          lookupOptions = (if strategy \<noteq> DomainStrategyAsIS then options\<lparr>qo_Strategy := strategy\<rparr> else options)
      in if strategy = DomainStrategyIPv4Only
         then lookupWithRulesType env r ctx c rules domain TypeA lookupOptions s
         else if strategy = DomainStrategyIPv6Only
         then lookupWithRulesType env r ctx c rules domain TypeAAAA lookupOptions s
         else case lookupWithRulesType env r ctx c rules domain TypeA lookupOptions s of
                (r4, s) \<Rightarrow>
                  (case lookupWithRulesType env r ctx c rules domain TypeAAAA lookupOptions s of
                     (r6, s) \<Rightarrow> (bothFamilies env strategy r4 r6, s)))"

section \<open>The legacy mode\<close>

definition isAddressQuery :: "dns_msg \<Rightarrow> bool" where
  "isAddressQuery message \<longleftrightarrow>
     list_ex (\<lambda>q. q_Qtype q = TypeA \<or> q_Qtype q = TypeAAAA \<or> q_Qtype q = TypeHTTPS) (msg_Question message)"

definition addressLimitResponseCheck ::
  "'w dns_env \<Rightarrow> dns_rule option \<Rightarrow> inbound_context \<Rightarrow> checker option" where
  "addressLimitResponseCheck env rule c =
     (case rule of
        None \<Rightarrow> None
      | Some rule \<Rightarrow>
          if \<not> WithAddressLimit (re_store env) rule then None
          else Some (\<lambda>response. MatchAddressLimit (re_matcher env) (re_store env) rule c (Some response)))"

text \<open>What a matched reject or predefined action answers; a reject action with another method falls through.\<close>

fun legacyFixed :: "dns_msg \<Rightarrow> rule_action option \<Rightarrow> (dns_msg \<times> tag option) dns_outcome option" where
  "legacyFixed message (Some (RuleActionReject a)) =
     (if rj_Method a = ''default'' then Some (DRet (refusedResponse message, None))
      else if rj_Method a = ''drop'' then Some (DErr DNSDrop)
      else None)"
| "legacyFixed message (Some (RuleActionPredefined a)) =
     (case RuleActionPredefined_Response a message of
        Ret response \<Rightarrow> Some (DRet (response, None))
      | Err e \<Rightarrow> Some (DPanic ''unreachable'')
      | Panic msg \<Rightarrow> Some (DPanic msg))"
| "legacyFixed message _ = None"

text \<open>Whether the loop of \<^verbatim>\<open>Exchange\<close> goes on to the next rule.\<close>

definition legacyRetry :: "'w dns_env \<Rightarrow> dns_match \<Rightarrow> checker option \<Rightarrow> reply \<Rightarrow> 'w \<Rightarrow> bool" where
  "legacyRetry env m check reply w \<longleftrightarrow>
     (let rejected = (case reply of Rejected _ \<Rightarrow> True | Fail e \<Rightarrow> e = ErrResponseRejectedCached \<or> e = ErrResponseRejected
                       | _ \<Rightarrow> False);
          failed = (case reply of Reply _ \<Rightarrow> False | _ \<Rightarrow> True)
      in check \<noteq> None \<and> rejected \<or>
         failed \<and> (case dm_rule m of None \<Rightarrow> False | Some rule \<Rightarrow> BypassIfFailed rule) \<and> dm_ruleIndex m \<noteq> None \<and>
         \<not> re_ctxDone env w)"

fun replyOutcome :: "tag \<Rightarrow> reply \<Rightarrow> (dns_msg \<times> tag option) dns_outcome" where
  "replyOutcome transport (Reply response) = DRet (response, Some transport)"
| "replyOutcome transport (Rejected response) = DErr ErrResponseRejected"
| "replyOutcome transport (Fail err) = DErr err"

lemma matchDNSFrom_index:
  "dm_ruleIndex (matchDNSFrom env c allow isAddr i rules options) = Some j \<Longrightarrow> i \<le> j \<and> j < i + length rules"
  by (induction env c allow isAddr i rules options rule: matchDNSFrom.induct)
    (force split: if_splits option.splits rule_action.splits)+

lemma matchDNSFrom_rule:
  "dm_rule (matchDNSFrom env c allow isAddr i rules options) = None \<longleftrightarrow>
   dm_ruleIndex (matchDNSFrom env c allow isAddr i rules options) = None"
  by (induction env c allow isAddr i rules options rule: matchDNSFrom.induct)
    (auto split: if_splits option.splits rule_action.splits)

lemma matchDNS_index:
  assumes "dm_rule (matchDNS env c rules allow ruleIndex isAddr options) \<noteq> None"
  shows "\<exists>j. dm_ruleIndex (matchDNS env c rules allow ruleIndex isAddr options) = Some j \<and>
    nextIndex ruleIndex \<le> j \<and> j < length rules"
proof -
  let ?i = "nextIndex ruleIndex"
  have "dm_ruleIndex (matchDNS env c rules allow ruleIndex isAddr options) \<noteq> None"
    using assms matchDNSFrom_rule unfolding matchDNS_def by metis
  then obtain j where j: "dm_ruleIndex (matchDNS env c rules allow ruleIndex isAddr options) = Some j" by blast
  from matchDNSFrom_index [OF j [unfolded matchDNS_def]] j show ?thesis by auto
qed

lemma legacyRetry_rule:
  "legacyRetry env m (addressLimitResponseCheck env (dm_rule m) c) reply w \<Longrightarrow> dm_rule m \<noteq> None"
  by (auto simp: legacyRetry_def addressLimitResponseCheck_def Let_def split: option.splits if_splits)

text \<open>
  The loop of \<^verbatim>\<open>Exchange\<close>. Every turn continues behind the rule it tried, with the options of the caller. The result
  carries the transport that answered. An exchange without a transport dereferences nil.
\<close>

function legacyExchange ::
  "'w dns_env \<Rightarrow> dns_router \<Rightarrow> tag option \<Rightarrow> inbound_context \<Rightarrow> dns_rule list \<Rightarrow> dns_msg \<Rightarrow> query_options
   \<Rightarrow> nat option \<Rightarrow> 'w run_state \<Rightarrow> (dns_msg \<times> tag option) dns_outcome \<times> 'w run_state" where
  "legacyExchange env r ctx c rules message options ruleIndex s =
     (let m = matchDNS env c rules True ruleIndex (isAddressQuery message) options;
          check = addressLimitResponseCheck env (dm_rule m) (freshMetadata c)
      in case legacyFixed message (Option.bind (dm_rule m) dns_action_of) of
           Some result \<Rightarrow> (result, s)
         | None \<Rightarrow>
             (case dm_transport m of
                None \<Rightarrow> (DPanic ''nil transport'', s)
              | Some transport \<Rightarrow>
                  (case Client_Exchange (re_dl env) (re_ds env) (fst s) (snd s) ctx transport message
                          (withStrategy r (dm_options m)) check of
                     (reply, s') \<Rightarrow>
                       if legacyRetry env m check reply (snd s')
                       then legacyExchange env r ctx c rules message options (dm_ruleIndex m) s'
                       else (replyOutcome transport reply, s'))))"
  by pat_completeness auto
termination
proof (relation "measure (\<lambda>(_, _, _, _, rules, _, _, ruleIndex, _). length rules - nextIndex ruleIndex)", goal_cases)
  case (2 env r ctx c rules message options ruleIndex s m check transport reply s')
  then have "dm_rule (matchDNS env c rules True ruleIndex (isAddressQuery message) options) \<noteq> None"
    using legacyRetry_rule by metis
  from matchDNS_index [OF this] 2(1) show ?case by (auto simp: nextIndex_def)
qed simp

text \<open>
  The loop of \<^verbatim>\<open>Lookup\<close>. \<open>Inl\<close> is an immediate return, \<open>Inr\<close> what the end of \<^verbatim>\<open>Lookup\<close> reports. Of a
  predefined answer the addresses of blocked prefixes are dropped.
\<close>

definition blockedPrefixes :: "prefix list" where
  "blockedPrefixes = [Prefix (Addr4 0x0a000000) 9, Prefix (Addr6 0x20014188000206000000000000000000 []) 65]"

definition IsBlockedIP :: "addr \<Rightarrow> bool" where
  "IsBlockedIP ip \<longleftrightarrow> \<not> addr_IsValid ip \<or> list_ex (\<lambda>p. prefix_Contains p ip) blockedPrefixes"

definition FilterBlocked :: "addr list \<Rightarrow> addr list" where
  "FilterBlocked addrs = filter (\<lambda>ip. \<not> IsBlockedIP ip) addrs"

fun predefinedAddress :: "lib \<Rightarrow> rr option \<Rightarrow> addr list" where
  "predefinedAddress l (Some (RR _ _ _ _ (RR_A a))) = [lib_AddrFromIP l a]"
| "predefinedAddress l (Some (RR _ _ _ _ (RR_AAAA a))) = [lib_AddrFromIP l a]"
| "predefinedAddress l _ = []"

fun legacyLookupFixed :: "lib \<Rightarrow> rule_action option \<Rightarrow> (dns_error + addr list dns_outcome) option" where
  "legacyLookupFixed l (Some (RuleActionReject a)) = Some (Inl (DNSRejected a))"
| "legacyLookupFixed l (Some (RuleActionPredefined a)) =
     Some (Inr (if pd_Rcode a \<noteq> RcodeSuccess then DErr (RcodeError (pd_Rcode a))
                else DRet (FilterBlocked (concat (map (predefinedAddress l) (pd_Answer a))))))"
| "legacyLookupFixed l _ = None"

definition lookupRetry :: "dns_match \<Rightarrow> checker option \<Rightarrow> dns_error + addr list \<Rightarrow> bool" where
  "lookupRetry m check result \<longleftrightarrow>
     (let responseAddrs = (case result of Inl _ \<Rightarrow> [] | Inr as \<Rightarrow> as); failed = (case result of Inl _ \<Rightarrow> True | Inr _ \<Rightarrow> False)
      in responseAddrs = [] \<and> (case dm_rule m of None \<Rightarrow> False | Some rule \<Rightarrow> BypassIfFailed rule) \<and> dm_ruleIndex m \<noteq> None \<or>
         check \<noteq> None \<and> failed)"

lemma lookupRetry_rule:
  "lookupRetry m (addressLimitResponseCheck env (dm_rule m) c) result \<Longrightarrow> dm_rule m \<noteq> None"
  by (auto simp: lookupRetry_def addressLimitResponseCheck_def Let_def split: option.splits if_splits)

function legacyLookup ::
  "'w dns_env \<Rightarrow> dns_router \<Rightarrow> tag option \<Rightarrow> inbound_context \<Rightarrow> dns_rule list \<Rightarrow> string \<Rightarrow> query_options
   \<Rightarrow> nat option \<Rightarrow> 'w run_state \<Rightarrow> (dns_error + addr list dns_outcome) \<times> 'w run_state" where
  "legacyLookup env r ctx c rules domain options ruleIndex s =
     (let m = matchDNS env c rules False ruleIndex True options;
          check = addressLimitResponseCheck env (dm_rule m) (freshMetadata c)
      in case legacyLookupFixed (re_lib env) (Option.bind (dm_rule m) dns_action_of) of
           Some result \<Rightarrow> (result, s)
         | None \<Rightarrow>
             (case dm_transport m of
                None \<Rightarrow> (Inr (DPanic ''nil transport''), s)
              | Some transport \<Rightarrow>
                  (case Client_Lookup (re_lib env) (re_dl env) (re_ds env) (fst s) (snd s) ctx transport domain
                          (withStrategy r (dm_options m)) check of
                     (result, s') \<Rightarrow>
                       if lookupRetry m check result
                       then legacyLookup env r ctx c rules domain options (dm_ruleIndex m) s'
                       else (Inr (case result of Inl e \<Rightarrow> DErr e | Inr as \<Rightarrow> DRet as), s'))))"
  by pat_completeness auto
termination
proof (relation "measure (\<lambda>(_, _, _, _, rules, _, _, ruleIndex, _). length rules - nextIndex ruleIndex)", goal_cases)
  case (2 env r ctx c rules domain options ruleIndex s m check transport result s')
  then have "dm_rule (matchDNS env c rules False ruleIndex True options) \<noteq> None"
    using lookupRetry_rule by metis
  from matchDNS_index [OF this] 2(1) show ?case by (auto simp: nextIndex_def)
qed simp

section \<open>The router\<close>

definition zeroSocksaddr :: socksaddr where
  "zeroSocksaddr = \<lparr> sa_Addr = AddrZero, sa_Port = 0, sa_Fqdn = [] \<rparr>"

definition queryMetadata :: "dns_lib \<Rightarrow> inbound_context \<Rightarrow> question \<Rightarrow> inbound_context" where
  "queryMetadata dl c question =
     c\<lparr>Destination := zeroSocksaddr, QueryType := q_Qtype question, DNSResponse := None,
       DestinationAddressMatchFromResponse := False,
       IPVersion := (if q_Qtype question = TypeA then 4 else if q_Qtype question = TypeAAAA then 6 else IPVersion c),
       Domain := FqdnToDomain dl (q_Name question)\<rparr>"

definition formatErrorResponse :: "dns_msg \<Rightarrow> dns_msg" where
  "formatErrorResponse message =
     \<lparr> msg_Id = msg_Id message, msg_Response = True, msg_Authoritative = False, msg_RecursionDesired = False,
       msg_RecursionAvailable = False, msg_Rcode = RcodeFormatError, msg_Question = msg_Question message,
       msg_Answer = [], msg_Ns = [], msg_Extra = [] \<rparr>"

fun reverseEntry :: "'w dns_env \<Rightarrow> 'w \<Rightarrow> rr \<Rightarrow> 'w" where
  "reverseEntry env w (RR name _ _ ttl (RR_A a)) =
     re_ReverseAdd env w (lib_AddrFromIP (re_lib env) a) (FqdnToDomain (re_dl env) name) (uint ttl * second)"
| "reverseEntry env w (RR name _ _ ttl (RR_AAAA a)) =
     re_ReverseAdd env w (lib_AddrFromIP (re_lib env) a) (FqdnToDomain (re_dl env) name) (uint ttl * second)"
| "reverseEntry env w _ = w"

definition saveReverseMapping :: "'w dns_env \<Rightarrow> dns_router \<Rightarrow> tag option \<Rightarrow> dns_msg \<Rightarrow> 'w \<Rightarrow> 'w" where
  "saveReverseMapping env r transport response w =
     (if rt_reverseMapping r \<and> (case transport of None \<Rightarrow> True | Some t \<Rightarrow> \<not> isFakeIP env t)
      then foldl (reverseEntry env) w (msg_Answer response) else w)"

fun rulesOutcome :: "exchangeWithRulesResult \<Rightarrow> (dns_msg \<times> tag option) dns_outcome" where
  "rulesOutcome (RulesResponse response transport _) = DRet (response, transport)"
| "rulesOutcome (RulesError err _) = DErr err"
| "rulesOutcome (RulesPanic msg) = DPanic msg"

text \<open>The choice between an explicit transport, the current mode and the legacy mode.\<close>

definition routeQuery ::
  "'w dns_env \<Rightarrow> dns_router \<Rightarrow> tag option \<Rightarrow> inbound_context \<Rightarrow> dns_msg \<Rightarrow> query_options \<Rightarrow> 'w
   \<Rightarrow> (dns_msg \<times> tag option) dns_outcome \<times> 'w run_state" where
  "routeQuery env r ctx c message options w =
     (case qo_Transport options of
        Some transport \<Rightarrow>
          (case Client_Exchange (re_dl env) (re_ds env) (rt_client r) w ctx transport message (withStrategy r options) None of
             (reply, s) \<Rightarrow> (replyOutcome transport reply, s))
      | None \<Rightarrow>
          if \<not> ro_legacyDNSMode (rt_rules r)
          then (case exchangeWithRules env r ctx c (ro_rules (rt_rules r)) message options True (rt_client r, w) of
                  (result, s) \<Rightarrow> (rulesOutcome result, s))
          else legacyExchange env r ctx c (ro_rules (rt_rules r)) message options None (rt_client r, w))"

definition Router_Exchange ::
  "'w dns_env \<Rightarrow> dns_router \<Rightarrow> tag option \<Rightarrow> inbound_context \<Rightarrow> dns_msg \<Rightarrow> query_options \<Rightarrow> 'w
   \<Rightarrow> dns_msg dns_outcome \<times> dns_router \<times> 'w" where
  "Router_Exchange env r ctx c message options w =
     (case msg_Question message of
        [question] \<Rightarrow>
          if ro_closing (rt_rules r) then (DErr (DNSErr ''dns router closed''), r, w)
          else (case routeQuery env r ctx (queryMetadata (re_dl env) c question) message options w of
                  (DRet (response, transport), cl, w) \<Rightarrow>
                    (DRet response, r\<lparr>rt_client := cl\<rparr>, saveReverseMapping env r transport response w)
                | (DErr err, cl, w) \<Rightarrow> (DErr err, r\<lparr>rt_client := cl\<rparr>, w)
                | (DPanic msg, cl, w) \<Rightarrow> (DPanic msg, r\<lparr>rt_client := cl\<rparr>, w))
      | _ \<Rightarrow> (DRet (formatErrorResponse message), r, w))"

fun printResult :: "string \<Rightarrow> addr list dns_outcome \<Rightarrow> addr list dns_outcome" where
  "printResult domain (DRet []) = DErr (DNSCause (DNSErr ''empty result'') domain)"
| "printResult domain (DRet as) = DRet as"
| "printResult domain (DErr err) = DErr (DNSCause err domain)"
| "printResult domain (DPanic msg) = DPanic msg"

definition lookupMetadata :: "dns_lib \<Rightarrow> inbound_context \<Rightarrow> string \<Rightarrow> inbound_context" where
  "lookupMetadata dl c domain =
     c\<lparr>Destination := zeroSocksaddr, Domain := FqdnToDomain dl domain, DNSResponse := None,
       DestinationAddressMatchFromResponse := False\<rparr>"

definition Router_Lookup ::
  "'w dns_env \<Rightarrow> dns_router \<Rightarrow> tag option \<Rightarrow> inbound_context \<Rightarrow> string \<Rightarrow> query_options \<Rightarrow> 'w
   \<Rightarrow> addr list dns_outcome \<times> dns_router \<times> 'w" where
  "Router_Lookup env r ctx c domain options w =
     (if ro_closing (rt_rules r) then (DErr (DNSErr ''dns router closed''), r, w)
      else let c = lookupMetadata (re_dl env) c domain; s = (rt_client r, w) in
        case qo_Transport options of
          Some transport \<Rightarrow>
            (case Client_Lookup (re_lib env) (re_dl env) (re_ds env) (rt_client r) w ctx transport domain
                    (withStrategy r options) None of
               (result, cl, w) \<Rightarrow>
                 (printResult domain (case result of Inl e \<Rightarrow> DErr e | Inr as \<Rightarrow> DRet as), r\<lparr>rt_client := cl\<rparr>, w))
        | None \<Rightarrow>
            if \<not> ro_legacyDNSMode (rt_rules r)
            then (case lookupWithRules env r ctx c (ro_rules (rt_rules r)) domain options s of
                    (result, cl, w) \<Rightarrow> (printResult domain result, r\<lparr>rt_client := cl\<rparr>, w))
            else (case legacyLookup env r ctx c (ro_rules (rt_rules r)) domain options None s of
                    (Inl err, cl, w) \<Rightarrow> (DErr err, r\<lparr>rt_client := cl\<rparr>, w)
                  | (Inr result, cl, w) \<Rightarrow> (printResult domain result, r\<lparr>rt_client := cl\<rparr>, w)))"

definition LookupReverseMapping :: "'w dns_env \<Rightarrow> dns_router \<Rightarrow> 'w \<Rightarrow> addr \<Rightarrow> string option" where
  "LookupReverseMapping env r w ip = (if rt_reverseMapping r then re_ReverseGet env w ip else None)"

text \<open>The platform interface of the router is never set.\<close>

definition Router_ClearCache :: "'w dns_env \<Rightarrow> dns_router \<Rightarrow> 'w \<Rightarrow> 'w" where
  "Router_ClearCache env r w = Client_ClearCache (re_ds env) (rt_client r) w"

definition Router_ResetNetwork :: "'w dns_env \<Rightarrow> dns_router \<Rightarrow> 'w \<Rightarrow> 'w" where
  "Router_ResetNetwork env r w = foldl (re_ResetTransport env) (Router_ClearCache env r w) (re_Transports env)"

section \<open>Construction\<close>

record dns_router_options =
  ds_Strategy :: u8
  ds_ReverseMapping :: bool
  ds_DisableCache :: bool
  ds_DisableExpire :: bool
  ds_CacheCapacity :: u32
  ds_ClientSubnet :: prefix
  ds_OptimisticEnabled :: bool
  ds_OptimisticTimeout :: duration

text \<open>The cache file, when there is one, with whether it stores rejected responses and DNS responses.\<close>

definition NewRouter :: "dns_router_options \<Rightarrow> (bool \<times> bool) option \<Rightarrow> rule_error + dns_router" where
  "NewRouter options cacheFile =
     (if ds_OptimisticEnabled options \<and> ds_DisableCache options
      then Inl (E_New ''optimistic is conflict with disable_cache'')
      else if ds_OptimisticEnabled options \<and> ds_DisableExpire options
      then Inl (E_New ''optimistic is conflict with disable_expire'')
      else
        let optimisticTimeout =
              (if \<not> ds_OptimisticEnabled options then 0
               else if ds_OptimisticTimeout options = 0 then 3 * 24 * 3600 * second
               else ds_OptimisticTimeout options)
        in Inr \<lparr> rt_rules = \<lparr> ro_rawRules = [], ro_rules = [], ro_legacyDNSMode = False, ro_started = False, ro_closing = False \<rparr>,
                 rt_defaultDomainStrategy = ds_Strategy options,
                 rt_reverseMapping = ds_ReverseMapping options,
                 rt_client = NewClient
                   \<lparr> co_Timeout = 0, co_DisableCache = ds_DisableCache options,
                     co_DisableExpire = ds_DisableExpire options, co_OptimisticTimeout = optimisticTimeout,
                     co_CacheCapacity = ds_CacheCapacity options, co_ClientSubnet = ds_ClientSubnet options,
                     co_RDRC = Some (case cacheFile of None \<Rightarrow> False | Some (storeRDRC, _) \<Rightarrow> storeRDRC),
                     co_DNSCache = Some (case cacheFile of None \<Rightarrow> False | Some (_, storeDNS) \<Rightarrow> storeDNS) \<rparr> \<rparr>)"

definition Router_Start ::
  "build_env \<Rightarrow> rule_set_store \<Rightarrow> dns_router \<Rightarrow> unit outcome \<times> dns_router \<times> rule_set_store" where
  "Router_Start env store r =
     (let r = r\<lparr>rt_client := Client_Start (rt_client r)\<rparr>
      in case Router_StartRules env store (rt_rules r) of
           (result, rules, store) \<Rightarrow> (result, r\<lparr>rt_rules := rules\<rparr>, store))"

end
