(* ===== verification/DNS_Router_Facts.thy ===== *)
theory DNS_Router_Facts
  imports DNS_Router DNS_Client_Facts Rule_Set_Facts Rule_Build_Facts
begin

text \<open>
  Facts on the DNS router: what the checks on the configured rules guarantee of the rules that are
  built, that the metadata of a rule-set update is checked as it would be at a restart, and which servers
  a query can reach.
\<close>

section \<open>The mode of a rule list\<close>

fun action_options_of :: "dns_rule_options \<Rightarrow> dns_rule_action_options" where
  "action_options_of (OptDefault _ _ a) = a"
| "action_options_of (OptLogical _ _ _ a) = a"
| "action_options_of (OptUnknown _) = DNSActNone"

lemma action_type_options: "dnsRuleActionType r = (case r of OptUnknown _ \<Rightarrow> '''' | _ \<Rightarrow> dns_action_type (action_options_of r))"
  by (cases r) simp_all

text \<open>Flags only grow, and a needed strategy is a need.\<close>

definition flagsLe :: "dnsRuleModeFlags \<Rightarrow> dnsRuleModeFlags \<Rightarrow> bool" where
  "flagsLe f g \<longleftrightarrow> (mf_disabled f \<longrightarrow> mf_disabled g) \<and> (mf_needed f \<longrightarrow> mf_needed g) \<and>
     (mf_neededFromStrategy f \<longrightarrow> mf_neededFromStrategy g)"

definition flagsOk :: "dnsRuleModeFlags \<Rightarrow> bool" where
  "flagsOk f \<longleftrightarrow> (mf_neededFromStrategy f \<longrightarrow> mf_needed f)"

lemma flagsLe_trans: "flagsLe f g \<Longrightarrow> flagsLe g h \<Longrightarrow> flagsLe f h"
  by (simp add: flagsLe_def)

lemma flagsLe_refl [simp]: "flagsLe f f"
  by (simp add: flagsLe_def)

lemma mergeFlags_le: "flagsLe f (mergeFlags f g)" "flagsLe g (mergeFlags f g)"
  "flagsOk f \<Longrightarrow> flagsOk g \<Longrightarrow> flagsOk (mergeFlags f g)"
  by (simp_all add: flagsLe_def flagsOk_def mergeFlags_def)

lemma ruleSetModeFlags_le:
  "ruleSetModeFlags router overrides matchSource ts f = Inr g \<Longrightarrow> flagsLe f g \<and> (flagsOk f \<longrightarrow> flagsOk g)"
proof (induction ts arbitrary: f)
  case (Cons t ts)
  then obtain md :: rule_set_metadata where
    md: "ruleSetModeFlags router overrides matchSource ts
      (f\<lparr>mf_disabled := mf_disabled f \<or> ContainsDNSQueryTypeRule md,
         mf_needed := mf_needed f \<or> \<not> matchSource \<and> ContainsIPCIDRRule md\<rparr>) = Inr g"
    by (auto split: sum.splits)
  from Cons.IH [OF md] show ?case by (simp add: flagsLe_def flagsOk_def)
qed simp

lemma modeRequirements_rule:
  "dnsRuleModeRequirementsInRule router overrides r = Inr g \<Longrightarrow>
     flagsOk g \<and> (dnsRuleActionHasStrategy (action_options_of r) \<longrightarrow> mf_neededFromStrategy g)"
  "subRuleModeRequirements router overrides rs i f = Inr g \<Longrightarrow> flagsLe f g \<and> (flagsOk f \<longrightarrow> flagsOk g)"
proof (induction router overrides r and router overrides rs i f arbitrary: g and g
    rule: dnsRuleModeRequirementsInRule_subRuleModeRequirements.induct)
  case (1 router overrides typed rule a)
  then show ?case
    by (auto simp: dnsRuleModeRequirementsInDefaultRule_def Let_def flagsOk_def flagsLe_def
        split: if_splits option.splits dest!: ruleSetModeFlags_le)
next
  case (2 router overrides mode rules inverted a)
  then show ?case by (fastforce simp: flagsOk_def flagsLe_def)
next
  case (5 router overrides r rs i flags)
  then obtain sub where "dnsRuleModeRequirementsInRule router overrides r = Inr sub"
    "subRuleModeRequirements router overrides rs (Suc i) (mergeFlags flags sub) = Inr g"
    by (auto split: sum.splits)
  with 5 mergeFlags_le flagsLe_trans show ?case by metis
qed (simp_all add: flagsOk_def noModeFlags_def)

lemma modeRequirementsFrom_le:
  "modeRequirementsFrom router overrides rs i f = Inr g \<Longrightarrow>
   flagsLe f g \<and> (flagsOk f \<longrightarrow> flagsOk g) \<and>
   (\<forall>r \<in> set rs. dnsRuleActionHasStrategy (action_options_of r) \<longrightarrow> mf_neededFromStrategy g)"
proof (induction rs arbitrary: i f)
  case (Cons r rs)
  then obtain sub where sub: "dnsRuleModeRequirementsInRule router overrides r = Inr sub"
    and rest: "modeRequirementsFrom router overrides rs (Suc i) (mergeFlags f sub) = Inr g"
    by (auto split: sum.splits)
  note ih = Cons.IH [OF rest]
  have le: "flagsLe f g" "flagsLe sub g" using ih mergeFlags_le(1,2) flagsLe_trans by blast+
  moreover have "flagsOk f \<longrightarrow> flagsOk g" using ih mergeFlags_le(3) modeRequirements_rule(1) [OF sub] by blast
  moreover have "dnsRuleActionHasStrategy (action_options_of r) \<longrightarrow> mf_neededFromStrategy g"
    using modeRequirements_rule(1) [OF sub] le(2) by (simp add: flagsLe_def)
  ultimately show ?case using ih by simp
qed simp

lemma current_mode_no_strategy:
  assumes "resolveLegacyDNSMode router rules overrides = Inr (False, flags)" "r \<in> set rules"
  shows "\<not> dnsRuleActionHasStrategy (action_options_of r)"
proof -
  from assms(1) have m: "modeRequirementsFrom router overrides rules 0 noModeFlags = Inr flags"
    and "\<not> (mf_disabled flags \<and> mf_neededFromStrategy flags)" "mf_disabled flags \<or> \<not> mf_needed flags"
    by (auto simp: resolveLegacyDNSMode_def dnsRuleModeRequirements_def split: sum.splits if_splits)
  with modeRequirementsFrom_le [OF m] assms(2) show ?thesis by (auto simp: flagsOk_def noModeFlags_def)
qed

section \<open>Evaluation before use\<close>

lemma validate_rule_respond:
  "validateLegacyDNSModeDisabledRuleTree router overrides r = Inr q \<Longrightarrow>
     dns_action_type (action_options_of r) = ''respond'' \<Longrightarrow> q"
  "validateSubRules router overrides rs i b = Inr q \<Longrightarrow> b \<Longrightarrow> q"
  by (induction router overrides r and router overrides rs i b arbitrary: q and q
      rule: validateLegacyDNSModeDisabledRuleTree_validateSubRules.induct)
    (auto simp: validateLegacyDNSModeDisabledDefaultRule_def split: if_splits option.splits sum.splits)

lemma validateDisabledFrom_respond:
  "validateDisabledFrom router overrides rs i sn = None \<Longrightarrow> k < length rs \<Longrightarrow>
   dns_action_type (action_options_of (rs ! k)) = ''respond'' \<Longrightarrow>
   sn \<or> (\<exists>j < k. dnsRuleActionType (rs ! j) = ''evaluate'')"
proof (induction rs arbitrary: i sn k)
  case (Cons r rs)
  then obtain q where q: "validateLegacyDNSModeDisabledRuleTree router overrides r = Inr q"
    and rest: "validateDisabledFrom router overrides rs (Suc i) (sn \<or> dnsRuleActionType r = ''evaluate'') = None"
    and ok: "q \<longrightarrow> sn"
    by (auto split: sum.splits if_splits)
  show ?case
  proof (cases k)
    case 0
    with Cons.prems(3) validate_rule_respond(1) [OF q] ok show ?thesis by simp
  next
    case (Suc k')
    with Cons.IH [OF rest, of k'] Cons.prems(2,3)
    have "sn \<or> dnsRuleActionType r = ''evaluate'' \<or> (\<exists>j < k'. dnsRuleActionType (rs ! j) = ''evaluate'')" by auto
    then show ?thesis using Suc by (metis Suc_less_eq nth_Cons_0 nth_Cons_Suc zero_less_Suc)
  qed
qed simp

section \<open>Built rules\<close>

lemma NewDefaultDNSRule_Ret:
  assumes "NewDefaultDNSRule l o1 a legacy = Ret r"
  shows "NewDNSRuleAction l a = Ret (action (dr_rule r))"
    "ruleSetItem (dr_rule r) \<noteq> None \<longrightarrow> RuleSetRef \<in> set (allItems (dr_rule r))"
    "heldBy (ruleSetItem (dr_rule r)) = (\<lambda>_. 0)"
proof -
  from assms obtain act rule rule' where act: "NewDNSRuleAction l a = Ret act"
    and asm: "assemble (dnsRule_connection o1 @ dnsRule_addresses l o1 @ dnsRule_response o1 @
        dnsRule_process l o1 @ dnsRule_environment l o1 @
        [refuse (d_RuleSetIPCIDRAcceptEmpty o1 \<and> \<not> legacy) ''rule_set_ip_cidr_accept_empty is deprecated''])
        (emptyRule (d_Invert o1) act :: default_rule) = Inr rule"
    and rs: "withRuleSet (d_RuleSet o1) (d_Deprecated_RulesetIPCIDRMatchSource o1)
        (d_RuleSetIPCIDRMatchSource o1) (d_RuleSetIPCIDRAcceptEmpty o1) rule = Inr rule'"
    and r: "dr_rule r = rule'"
    by (auto simp: NewDefaultDNSRule_def split: outcome.splits sum.splits)
  have "ruleSetItem rule = None" "action rule = act" using assemble_Inr [OF asm] by (simp_all add: emptyRule_def)
  with rs act show "NewDNSRuleAction l a = Ret (action (dr_rule r))"
    "ruleSetItem (dr_rule r) \<noteq> None \<longrightarrow> RuleSetRef \<in> set (allItems (dr_rule r))"
    "heldBy (ruleSetItem (dr_rule r)) = (\<lambda>_. 0)"
    unfolding r by (auto simp: withRuleSet_def heldBy_def NewRuleSetItem_def fun_eq_iff split: if_splits)
qed

lemma NewDNSRule_action:
  assumes "NewDNSRule l r checkServer legacy = Ret rule"
  shows "NewDNSRuleAction l (action_options_of r) = Ret (dns_action_of rule)"
    "checkDNSAction (action_options_of r) checkServer = None" "\<not> (\<exists>t. r = OptUnknown t)"
  using assms by (cases r; auto split: if_splits option.splits outcome.splits bool.splits dest: NewDefaultDNSRule_Ret(1))+

abbreviation plainRule :: "dns_rule \<Rightarrow> route_rule" where
  "plainRule \<equiv> map_rule_tree dr_rule"

lemma NewDNSRule_fresh:
  "NewDNSRule l r checkServer legacy = Ret rule \<Longrightarrow> closable (plainRule rule) \<and> held (plainRule rule) = (\<lambda>_. 0)"
  "NewSubDNSRules l rs legacy i = Ret rules \<Longrightarrow>
     (\<forall>rule \<in> set rules. closable (plainRule rule)) \<and> heldList (map plainRule rules) = (\<lambda>_. 0)"
proof (induction l r checkServer legacy and l rs legacy i arbitrary: rule and rules
    rule: NewDNSRule_NewSubDNSRules.induct)
  case (1 l typed o1 a checkServer legacy)
  then show ?case
    by (auto simp: closable_def fun_eq_iff split: if_splits option.splits outcome.splits
        dest: NewDefaultDNSRule_Ret(2,3))
next
  case (2 l mode rules inverted a checkServer legacy)
  then obtain rs act where "NewSubDNSRules l rules legacy 0 = Ret rs" "rule = LogicalRule rs mode inverted act"
    by (auto split: if_splits option.splits outcome.splits bool.splits)
  moreover have "(\<forall>rule \<in> set rs. closable (plainRule rule)) \<and> heldList (map plainRule rs) = (\<lambda>_. 0)"
    using 2 calculation by (auto split: if_splits option.splits outcome.splits bool.splits)
  ultimately show ?case by (auto simp: closable_def)
next
  case (5 l o1 os legacy i)
  then obtain r1 rs where r: "NewDNSRule l o1 False legacy = Ret r1" "NewSubDNSRules l os legacy (Suc i) = Ret rs"
    "rules = r1 # rs" "validateNoNestedRuleActions isNoDNSAction nestedDNSActionMessage o1 True = None"
    by (auto split: option.splits outcome.splits)
  from "5.IH"(1) [OF r(4) r(1)] "5.IH"(2) [OF r(4,1) r(2)] r(3) show ?case by (auto simp: fun_eq_iff)
qed auto

lemma newDNSRulesFrom_Ret:
  "newDNSRulesFrom l legacy rs i = Ret rules \<Longrightarrow>
   length rules = length rs \<and>
   (\<forall>k < length rs. NewDNSRule l (rs ! k) True legacy = Ret (rules ! k)) \<and>
   (\<forall>rule \<in> set rules. closable (plainRule rule)) \<and> heldList (map plainRule rules) = (\<lambda>_. 0)"
proof (induction rs arbitrary: i rules)
  case (Cons r rs)
  then obtain r1 rules1 where r: "NewDNSRule l r True legacy = Ret r1"
    "newDNSRulesFrom l legacy rs (Suc i) = Ret rules1" "rules = r1 # rules1"
    by (auto split: outcome.splits)
  from Cons.IH [OF r(2)] NewDNSRule_fresh(1) [OF r(1)] r(1,3) show ?case
    by (auto simp: fun_eq_iff nth_Cons split: nat.splits)
qed simp

section \<open>Starting and closing the built rules\<close>

text \<open>A DNS rule starts and closes as the route rule it embeds.\<close>

lemma dnsRule_Start_plain:
  "rule_Start svc store (plainRule r) = map_option (\<lambda>(e, st, r). (e, st, plainRule r)) (dnsRule_Start svc store r)"
  "rules_Start svc store (map plainRule rs) =
   map_option (\<lambda>(e, st, rs). (e, st, map plainRule rs)) (dnsSubRules_Start svc store rs)"
  by (induction svc store r and svc store rs rule: dnsRule_Start_dnsSubRules_Start.induct)
    (auto split: option.splits)

lemma dnsRule_Close_plain:
  "rule_Close store (plainRule r) = map_option (\<lambda>(st, r). (st, plainRule r)) (dnsRule_Close store r)"
  "rules_Close store (map plainRule rs) = map_option (\<lambda>(st, rs). (st, map plainRule rs)) (closeRules store rs)"
  by (induction store r and store rs rule: dnsRule_Close_closeRules.induct)
    (auto split: option.splits)

lemma startRulesFrom_sub:
  "map_option (\<lambda>(e, p). (e = None, p)) (startRulesFrom svc store rs i) =
   map_option (\<lambda>(e, p). (e = None, p)) (dnsSubRules_Start svc store rs)"
proof (induction rs arbitrary: store i)
  case (Cons r rs)
  show ?case
  proof (cases "dnsRule_Start svc store r")
    case (Some p)
    then obtain e st r' where p: "dnsRule_Start svc store r = Some (e, st, r')" by (cases p) auto
    then show ?thesis using Cons.IH [of st "Suc i"] by (auto split: option.splits)
  qed simp
qed simp

lemma dnsRule_Start_action:
  "dnsRule_Start svc store r = Some (e, store', r') \<Longrightarrow> dns_action_of r' = dns_action_of r"
  by (cases r) (auto simp: abstractDefaultRule_Start_def startGroups_def split: option.splits)

lemma startRulesFrom_actions:
  "startRulesFrom svc store rs i = Some (e, store', rs') \<Longrightarrow> map dns_action_of rs' = map dns_action_of rs"
  by (induction rs arbitrary: store i e store' rs')
    (auto split: option.splits simp: dnsRule_Start_action)

lemma tracked_refs: "\<forall>t. 0 \<le> refs store t \<Longrightarrow> tracked store (refs store) (\<lambda>_. 0)"
  by (simp add: tracked_def)

lemma refs_tracked:
  assumes "tracked store' (refs store) (\<lambda>_. 0)" "dom store' = dom store"
  shows "refs store' = refs store"
proof
  fix t
  have "store' t = None \<longleftrightarrow> store t = None" by (metis assms(2) domIff)
  then show "refs store' t = refs store t"
    using trackedD(2) [OF assms(1), of t] by (cases "store' t = None") (simp_all add: refs_def)
qed

lemma start_close_refs:
  assumes "\<forall>t. 0 \<le> refs store t" "\<forall>rule \<in> set rules. closable (plainRule rule)"
    "heldList (map plainRule rules) = (\<lambda>_. 0)"
  obtains e st rules' st' closed where "startRulesFrom svc store rules i = Some (e, st, rules')"
    "closeRules st rules' = Some (st', closed)" "refs st' = refs store" "dom st' = dom store" "dom st = dom store"
proof -
  have "tracked store (refs store) (\<lambda>t. 0 + heldList (map plainRule rules) t)"
    using tracked_refs [OF assms(1)] assms(3) by simp
  from start_tracked(2) [OF this, of svc] obtain e st rs' where
    start: "rules_Start svc store (map plainRule rules) = Some (e, st, rs')"
    and tr: "tracked st (refs store) (\<lambda>t. 0 + heldList rs' t)" "dom st = dom store" by blast
  have ok: "\<forall>r \<in> set rs'. closable r" using start_closable(2) [OF start] assms(2) by auto
  from start obtain rules' where sub: "dnsSubRules_Start svc store rules = Some (e, st, rules')"
    and rs': "rs' = map plainRule rules'" by (auto simp: dnsRule_Start_plain)
  from startRulesFrom_sub [of svc store rules i] sub obtain e' where
    strt: "startRulesFrom svc store rules i = Some (e', st, rules')" by auto
  from close_tracked(2) [OF tr(1) ok] obtain st' closed where
    "closeRules st rules' = Some (st', closed)" "tracked st' (refs store) (\<lambda>_. 0)" "dom st' = dom st"
    by (auto simp: rs' dnsRule_Close_plain)
  with strt tr(2) refs_tracked that show ?thesis by metis
qed

lemma buildDNSRules_Ret:
  assumes "buildDNSRules env store raw start = (Ret (rules, legacy, flags), store')"
  shows "checkDNSRules env store raw = Inr (legacy, flags)" "length rules = length raw"
    "k < length raw \<Longrightarrow> NewDNSRuleAction (be_lib env) (action_options_of (raw ! k)) = Ret (dns_action_of (rules ! k)) \<and>
       checkDNSAction (action_options_of (raw ! k)) True = None"
proof -
  from assms show "checkDNSRules env store raw = Inr (legacy, flags)"
    by (auto simp: buildDNSRules_def split: sum.splits outcome.splits if_splits option.splits prod.splits)
  from assms obtain new where new: "newDNSRulesFrom (be_lib env) legacy raw 0 = Ret new"
    and acts: "map dns_action_of rules = map dns_action_of new"
    by (auto simp: buildDNSRules_def startRulesFrom_actions
        split: sum.splits outcome.splits if_splits option.splits prod.splits)
  have len: "length new = length raw" using newDNSRulesFrom_Ret [OF new] by simp
  with map_eq_imp_length_eq [OF acts] show "length rules = length raw" by simp
  assume k: "k < length raw"
  with newDNSRulesFrom_Ret [OF new] have "NewDNSRule (be_lib env) (raw ! k) True legacy = Ret (new ! k)" by blast
  moreover have "dns_action_of (rules ! k) = dns_action_of (new ! k)"
    using acts k len \<open>length rules = length raw\<close> by (metis nth_map)
  ultimately show "NewDNSRuleAction (be_lib env) (action_options_of (raw ! k)) = Ret (dns_action_of (rules ! k)) \<and>
       checkDNSAction (action_options_of (raw ! k)) True = None"
    using NewDNSRule_action(1,2) by simp
qed

lemma Router_Start_cases:
  assumes "Router_Start benv store r0 = (Ret (), r, store')"
  obtains (closed) "ro_closing (rt_rules r)"
  | (built) flags where "\<not> ro_closing (rt_rules r)" "ro_started (rt_rules r)"
      "ro_rawRules (rt_rules r) = ro_rawRules (rt_rules r0)"
      "buildDNSRules benv store (ro_rawRules (rt_rules r0)) True =
       (Ret (ro_rules (rt_rules r), ro_legacyDNSMode (rt_rules r), flags), store')"
  using assms
  by (auto simp: Router_Start_def Router_StartRules_def Let_def
      split: prod.splits outcome.splits if_splits option.splits)

section \<open>No panics\<close>

text \<open>Options as the decoder leaves them: a reject method it knows, and no record without content.\<close>

fun decodedDNSAction :: "dns_rule_action_options \<Rightarrow> bool" where
  "decodedDNSAction (DNSActReject o1) \<longleftrightarrow> RejectActionOptions_UnmarshalJSON (Inr o1) = Inr o1"
| "decodedDNSAction (DNSActPredefined o1) \<longleftrightarrow> None \<notin> set (opt_Answer o1 @ opt_Ns o1 @ opt_Extra o1)"
| "decodedDNSAction _ \<longleftrightarrow> True"

fun safeAction :: "rule_action option \<Rightarrow> bool" where
  "safeAction (Some (RuleActionReject a)) \<longleftrightarrow> rj_Method a = ''default'' \<or> rj_Method a = ''drop''"
| "safeAction (Some (RuleActionPredefined a)) \<longleftrightarrow> None \<notin> set (pd_Answer a @ pd_Ns a @ pd_Extra a)"
| "safeAction _ \<longleftrightarrow> True"

lemma decoded_safe:
  assumes "NewDNSRuleAction l a = Ret act" "checkDNSAction a True = None" "decodedDNSAction a"
  shows "safeAction act"
  using assms
  by (cases a) (auto simp: newReject_def checkDNSAction_def validateDNSRuleAction_def
      RejectActionOptions_UnmarshalJSON_def Let_def split: if_splits dest: arg_cong [of _ _ opt_Method])

lemma built_safe:
  assumes "buildDNSRules env store raw start = (Ret (rules, legacy, flags), store')"
    "\<forall>o1 \<in> set raw. decodedDNSAction (action_options_of o1)" "rule \<in> set rules"
  shows "safeAction (dns_action_of rule)"
proof -
  from assms(3) obtain k where k: "k < length rules" "rule = rules ! k" by (auto simp: in_set_conv_nth)
  with buildDNSRules_Ret(2) [OF assms(1)] have "k < length raw" by simp
  with buildDNSRules_Ret(3) [OF assms(1) this] assms(2) decoded_safe k(2) show ?thesis by (metis nth_mem)
qed

lemma Predefined_Response_Ret:
  "None \<notin> set (pd_Answer a @ pd_Ns a @ pd_Extra a) \<Longrightarrow> msg_Question message \<noteq> [] \<Longrightarrow>
   \<exists>response. RuleActionPredefined_Response a message = Ret response"
  by (auto simp: RuleActionPredefined_Response_def rewriteRecords_def split: list.splits)

fun answersItself :: "rule_action option \<Rightarrow> bool" where
  "answersItself (Some (RuleActionReject _)) \<longleftrightarrow> True"
| "answersItself (Some (RuleActionPredefined _)) \<longleftrightarrow> True"
| "answersItself _ \<longleftrightarrow> False"

lemma matchDNSFrom_no_transport:
  "dm_transport (matchDNSFrom env c allow isAddr i rules options) = None \<Longrightarrow>
   answersItself (Option.bind (dm_rule (matchDNSFrom env c allow isAddr i rules options)) dns_action_of)"
proof (induction rules arbitrary: i options)
  case (Cons rule rules)
  then show ?case by (auto split: if_splits option.splits rule_action.splits)
qed simp

lemma matchDNSFrom_in: "dm_rule (matchDNSFrom env c allow isAddr i rules options) = Some rule \<Longrightarrow> rule \<in> set rules"
  by (induction env c allow isAddr i rules options rule: matchDNSFrom.induct)
    (auto split: if_splits option.splits rule_action.splits)

lemma matchDNS_facts:
  "dm_rule (matchDNS env c rules allow ruleIndex isAddr options) = Some rule \<Longrightarrow> rule \<in> set rules"
  "dm_transport (matchDNS env c rules allow ruleIndex isAddr options) = None \<Longrightarrow>
   answersItself (Option.bind (dm_rule (matchDNS env c rules allow ruleIndex isAddr options)) dns_action_of)"
  unfolding matchDNS_def by (meson in_set_dropD matchDNSFrom_in, rule matchDNSFrom_no_transport)

lemma answersItself_fixed:
  "answersItself a \<Longrightarrow> safeAction a \<Longrightarrow> msg_Question message \<noteq> [] \<Longrightarrow> legacyFixed message a \<noteq> None"
  "answersItself a \<Longrightarrow> legacyLookupFixed l a \<noteq> None"
  using Predefined_Response_Ret
  by (cases a rule: answersItself.cases; fastforce split: outcome.split) (cases a rule: answersItself.cases; simp)

declare legacyExchange.simps [simp del] legacyLookup.simps [simp del]

lemma legacyFixed_safe: "safeAction a \<Longrightarrow> msg_Question message \<noteq> [] \<Longrightarrow> legacyFixed message a \<noteq> Some (DPanic msg)"
  using Predefined_Response_Ret by (cases "(message, a)" rule: legacyFixed.cases) force+

lemma fixed_or_transport:
  assumes "\<forall>rule \<in> set rules. safeAction (dns_action_of rule)" "msg_Question message \<noteq> []"
    "m = matchDNS env c rules allow ruleIndex isAddr options"
  obtains (fixed) result where "legacyFixed message (Option.bind (dm_rule m) dns_action_of) = Some result"
      "\<And>msg. result \<noteq> DPanic msg"
  | (ask) t where "legacyFixed message (Option.bind (dm_rule m) dns_action_of) = None" "dm_transport m = Some t"
proof -
  have safe: "safeAction (Option.bind (dm_rule m) dns_action_of)"
    using assms(1) matchDNS_facts(1) [of env c rules] unfolding assms(3)
    by (cases "dm_rule (matchDNS env c rules allow ruleIndex isAddr options)") auto
  show thesis
  proof (cases "legacyFixed message (Option.bind (dm_rule m) dns_action_of)")
    case (Some result)
    with legacyFixed_safe [OF safe assms(2)] fixed show thesis by auto
  next
    case None
    with answersItself_fixed(1) [OF _ safe assms(2)] matchDNS_facts(2) [of env c rules]
    have "dm_transport m \<noteq> None" unfolding assms(3) by blast
    with None ask show thesis by auto
  qed
qed

lemma replyOutcome_safe [simp]: "replyOutcome t reply \<noteq> DPanic msg"
  by (cases reply) auto

lemma legacyExchange_safe:
  assumes "\<forall>rule \<in> set rules. safeAction (dns_action_of rule)" "msg_Question message \<noteq> []"
  shows "fst (legacyExchange env r ctx c rules message options ruleIndex s) \<noteq> DPanic msg"
  using assms
proof (induction env r ctx c rules message options ruleIndex s rule: legacyExchange.induct)
  case (1 env r ctx c rules message options ruleIndex s)
  define m where "m = matchDNS env c rules True ruleIndex (isAddressQuery message) options"
  note unf = legacyExchange.simps [of env r ctx c rules message options ruleIndex s, folded m_def]
  from 1(2,3) m_def show ?case
  proof (cases rule: fixed_or_transport)
    case (fixed result)
    then show ?thesis by (simp add: unf Let_def)
  next
    case (ask t)
    then show ?thesis
      using 1(1) [OF m_def refl ask] 1(2,3) by (simp add: unf Let_def split: prod.splits)
  qed
qed

lemma replyResult_safe [simp]: "replyResult t reply \<noteq> RulesPanic msg"
  by (cases reply) auto

lemma exchangeRules_safe:
  assumes "\<forall>rule \<in> set rules. safeAction (dns_action_of rule)" "msg_Question message \<noteq> []"
  shows "fst (exchangeRules env r ctx c message allow rules options evaluated s) \<noteq> RulesPanic msg"
  using assms(1)
proof (induction rules arbitrary: options evaluated s)
  case Nil
  show ?case by (cases s) (simp split: prod.splits)
next
  case (Cons rule rules)
  obtain cl w where s: "s = (cl, w)" by fastforce
  have ih: "fst (exchangeRules env r ctx c message allow rules o1 e1 s1) \<noteq> RulesPanic msg" for o1 e1 s1
    using Cons by simp
  have "RuleActionPredefined_Response a message \<noteq> Panic msg" "RuleActionPredefined_Response a message \<noteq> Err e"
    if "dns_action_of rule = Some (RuleActionPredefined a)" for a e
    using Cons.prems that Predefined_Response_Ret [OF _ assms(2), of a] by auto
  with ih show ?case unfolding s
    by (auto split: option.splits rule_action.splits prod.splits dnsRouteStatus.splits reply.splits outcome.splits)
qed

lemma legacyLookupFixed_safe [simp]: "legacyLookupFixed l a = Some result \<Longrightarrow> result \<noteq> Inr (DPanic msg)"
  by (cases "(l, a)" rule: legacyLookupFixed.cases) (auto split: if_splits)

lemma legacyLookup_safe: "fst (legacyLookup env r ctx c rules domain options ruleIndex s) \<noteq> Inr (DPanic msg)"
proof (induction env r ctx c rules domain options ruleIndex s rule: legacyLookup.induct)
  case (1 env r ctx c rules domain options ruleIndex s)
  define m where "m = matchDNS env c rules False ruleIndex True options"
  note unf = legacyLookup.simps [of env r ctx c rules domain options ruleIndex s, folded m_def]
  show ?case
  proof (cases "legacyLookupFixed (re_lib env) (Option.bind (dm_rule m) dns_action_of)")
    case (Some result)
    with legacyLookupFixed_safe show ?thesis by (simp add: unf Let_def)
  next
    case None
    then obtain t where t: "dm_transport m = Some t"
      using matchDNS_facts(2) [of env c rules False ruleIndex True options] answersItself_fixed(2)
      unfolding m_def by fastforce
    show ?thesis using 1(1) [OF m_def refl None t] None t by (simp add: unf Let_def split: prod.splits sum.splits)
  qed
qed

lemma lookupWithRulesType_safe:
  assumes "\<forall>rule \<in> set rules. safeAction (dns_action_of rule)"
  shows "fst (lookupWithRulesType env r ctx c rules domain qType options s) \<noteq> DPanic msg"
proof -
  let ?q = "queryMessage (Question (dl_Fqdn (re_dl env) domain) qType ClassINET)"
  obtain result s' where x: "exchangeWithRules env r ctx (withLookupQueryMetadata c qType) rules ?q options False s = (result, s')"
    by (meson surj_pair)
  have "msg_Question ?q \<noteq> []" by (simp add: queryMessage_def)
  from exchangeRules_safe [OF assms this] x have "\<forall>msg. result \<noteq> RulesPanic msg"
    unfolding exchangeWithRules_def by (metis fst_conv)
  with x show ?thesis unfolding lookupWithRulesType_def
    by (auto split: exchangeWithRulesResult.splits option.splits)
qed

lemma bothFamilies_safe:
  "(\<And>msg. r4 \<noteq> DPanic msg) \<Longrightarrow> (\<And>msg. r6 \<noteq> DPanic msg) \<Longrightarrow> bothFamilies env strategy r4 r6 \<noteq> DPanic msg"
  by (auto simp: bothFamilies_def Let_def split: dns_outcome.splits option.splits)

lemma lookupWithRules_safe:
  assumes "\<forall>rule \<in> set rules. safeAction (dns_action_of rule)"
  shows "fst (lookupWithRules env r ctx c rules domain options s) \<noteq> DPanic msg"
proof -
  define strategy where "strategy = resolveLookupStrategy r options"
  define o1 where "o1 = (if strategy \<noteq> DomainStrategyAsIS then options\<lparr>qo_Strategy := strategy\<rparr> else options)"
  obtain r4 s4 where r4: "lookupWithRulesType env r ctx c rules domain TypeA o1 s = (r4, s4)" by (meson surj_pair)
  obtain r6 s6 where r6: "lookupWithRulesType env r ctx c rules domain TypeAAAA o1 s4 = (r6, s6)" by (meson surj_pair)
  have safe: "\<And>msg. r4 \<noteq> DPanic msg" "\<And>msg. r6 \<noteq> DPanic msg"
    using lookupWithRulesType_safe [OF assms] r4 r6 by (metis fst_conv)+
  then have "bothFamilies env strategy r4 r6 \<noteq> DPanic msg" by (rule bothFamilies_safe)
  with safe show ?thesis using r4 r6
    unfolding lookupWithRules_def Let_def strategy_def [symmetric] o1_def [symmetric]
    by (auto simp: lookupWithRulesType_safe [OF assms])
qed

lemma printResult_safe: "printResult domain result = DPanic msg \<longleftrightarrow> result = DPanic msg"
  by (cases "(domain, result)" rule: printResult.cases) auto

section \<open>Metadata updates\<close>

text \<open>Mode and validation read the rule-sets through the metadata of their tags.\<close>

definition sameMetadata ::
  "rule_set_store \<Rightarrow> metadata_overrides \<Rightarrow> rule_set_store \<Rightarrow> metadata_overrides \<Rightarrow> bool" where
  "sameMetadata s1 o1 s2 o2 \<longleftrightarrow> (\<forall>t. lookupDNSRuleSetMetadata s1 t o1 = lookupDNSRuleSetMetadata s2 t o2)"

lemma sameMetadata_mode:
  assumes "sameMetadata s1 o1 s2 o2"
  shows "resolveLegacyDNSMode (Some s1) rules o1 = resolveLegacyDNSMode (Some s2) rules o2"
proof -
  have flags: "ruleSetModeFlags s1 o1 src ts f = ruleSetModeFlags s2 o2 src ts f" for src ts f
    using assms by (induction ts arbitrary: f) (auto simp: sameMetadata_def split: sum.split)
  have "dnsRuleModeRequirementsInRule router ov r = dnsRuleModeRequirementsInRule (Some s2) o2 r"
    "subRuleModeRequirements router ov rs i f = subRuleModeRequirements (Some s2) o2 rs i f"
    if "router = Some s1" "ov = o1" for router ov r rs i f
    using that by (induction router ov r and router ov rs i f rule: dnsRuleModeRequirementsInRule_subRuleModeRequirements.induct)
      (auto simp: dnsRuleModeRequirementsInDefaultRule_def flags Let_def split: sum.split)
  then have "modeRequirementsFrom (Some s1) o1 rules i f = modeRequirementsFrom (Some s2) o2 rules i f" for i f
    by (induction rules arbitrary: i f) (auto split: sum.split)
  then show ?thesis unfolding resolveLegacyDNSMode_def dnsRuleModeRequirements_def by simp
qed

lemma sameMetadata_validate:
  assumes "sameMetadata s1 o1 s2 o2"
  shows "validateLegacyDNSModeDisabledRules s1 rules o1 = validateLegacyDNSModeDisabledRules s2 rules o2"
proof -
  have pure: "pureIPRuleSet s1 o1 ts = pureIPRuleSet s2 o2 ts" for ts
    using assms by (induction ts) (auto simp: sameMetadata_def split: sum.split)
  have "validateLegacyDNSModeDisabledRuleTree router ov r = validateLegacyDNSModeDisabledRuleTree s2 o2 r"
    "validateSubRules router ov rs i b = validateSubRules s2 o2 rs i b"
    if "router = s1" "ov = o1" for router ov r rs i b
    using that by (induction router ov r and router ov rs i b rule: validateLegacyDNSModeDisabledRuleTree_validateSubRules.induct)
      (auto simp: validateLegacyDNSModeDisabledDefaultRule_def pure split: sum.split)
  then have "validateDisabledFrom s1 o1 rules i b = validateDisabledFrom s2 o2 rules i b" for i b
    by (induction rules arbitrary: i b) (auto split: sum.split)
  then show ?thesis unfolding validateLegacyDNSModeDisabledRules_def by simp
qed

lemma sameMetadata_update:
  "store t = Some rs \<Longrightarrow> sameMetadata store [t \<mapsto> md] (store(t \<mapsto> rs\<lparr>rs_metadata := md\<rparr>)) noOverrides"
  by (auto simp: sameMetadata_def lookupDNSRuleSetMetadata_def noOverrides_def split: option.split)

end
