(* ===== verification/DNS_Router_Flow.thy ===== *)
theory DNS_Router_Flow
  imports DNS_Router_Facts
begin

text \<open>
  What a query or a lookup of the DNS router asks of the servers: a lookup depends on no FakeIP server, and a query
  costs at most one exchange for each rule and one more. Both go through the client of \<open>DNS_Client\<close>, which asks
  only the transport it is called with, and asks it once.
\<close>

section \<open>The client asks one transport\<close>

definition sameFor :: "tag \<Rightarrow> 'w dns_services \<Rightarrow> 'w dns_services \<Rightarrow> bool" where
  "sameFor t ds ds' \<longleftrightarrow>
     (\<exists>E. ds' = ds\<lparr>ds_Exchange := E\<rparr> \<and> (\<forall>w d m. E w t d m = ds_Exchange ds w t d m))"

lemma exchangeToTransport_cong:
  "sameFor t ds ds' \<Longrightarrow> exchangeToTransport ds' c w t m = exchangeToTransport ds c w t m"
  by (auto simp: sameFor_def exchangeToTransport_def)

lemma client_parts_cong:
  assumes "sameFor t ds ds'"
  shows "storeCache dl ds' = storeCache dl ds" "loadResponse dl ds' = loadResponse dl ds" "lockKey ds' = lockKey ds"
    "ds_LoadRDRC ds' = ds_LoadRDRC ds" "ds_SaveRDRCAsync ds' = ds_SaveRDRCAsync ds" "ds_GroupError ds' = ds_GroupError ds"
proof -
  have fields: "ds_Now ds' = ds_Now ds" "ds_Wait ds' = ds_Wait ds" "ds_CacheAdd ds' = ds_CacheAdd ds"
    "ds_CacheAddWithLifetime ds' = ds_CacheAddWithLifetime ds" "ds_CacheGet ds' = ds_CacheGet ds"
    "ds_CacheGetWithLifetimeNoExpire ds' = ds_CacheGetWithLifetimeNoExpire ds"
    "ds_CacheRemove ds' = ds_CacheRemove ds" "ds_LoadDNSCache ds' = ds_LoadDNSCache ds"
    "ds_SaveDNSCacheAsync ds' = ds_SaveDNSCacheAsync ds"
    using assms by (auto simp: sameFor_def)
  show "storeCache dl ds' = storeCache dl ds" "loadResponse dl ds' = loadResponse dl ds" "lockKey ds' = lockKey ds"
    unfolding fun_eq_iff storeCache_def loadResponse_def loadPersistentResponse_def lockKey_def fields by simp_all
  show "ds_LoadRDRC ds' = ds_LoadRDRC ds" "ds_SaveRDRCAsync ds' = ds_SaveRDRCAsync ds" "ds_GroupError ds' = ds_GroupError ds"
    using assms by (auto simp: sameFor_def)
qed

lemma exchangeUncached_cong:
  assumes "sameFor t ds ds'"
  shows "exchangeUncached dl ds' c w ctx t = exchangeUncached dl ds c w ctx t"
  unfolding exchangeUncached_def fun_eq_iff client_parts_cong [OF assms] exchangeToTransport_cong [OF assms] by simp

lemma Client_Exchange_cong:
  assumes "sameFor t ds ds'"
  shows "Client_Exchange dl ds' c w ctx t = Client_Exchange dl ds c w ctx t"
  unfolding Client_Exchange_def fun_eq_iff client_parts_cong [OF assms] exchangeUncached_cong [OF assms] by simp

lemma Client_Lookup_cong:
  assumes "sameFor t ds ds'"
  shows "Client_Lookup l dl ds' c w ctx t = Client_Lookup l dl ds c w ctx t"
  unfolding Client_Lookup_def lookupToExchange_def questionCache_def fun_eq_iff
    client_parts_cong [OF assms] Client_Exchange_cong [OF assms] by simp

section \<open>Lookups and FakeIP servers\<close>

text \<open>Two environments that differ in what the FakeIP servers answer.\<close>

definition sameButFakeIP :: "'w dns_env \<Rightarrow> 'w dns_env \<Rightarrow> bool" where
  "sameButFakeIP env env' \<longleftrightarrow>
     (\<exists>E. env' = env\<lparr>re_ds := (re_ds env)\<lparr>ds_Exchange := E\<rparr>\<rparr> \<and>
        (\<forall>w t d m. \<not> isFakeIP env t \<longrightarrow> E w t d m = ds_Exchange (re_ds env) w t d m))"

lemma sameButFakeIP_facts:
  assumes "sameButFakeIP env env'"
  shows "re_lib env' = re_lib env" "re_dl env' = re_dl env" "re_matcher env' = re_matcher env"
    "re_store env' = re_store env" "re_Transport env' = re_Transport env" "re_Default env' = re_Default env"
    "re_ctxDone env' = re_ctxDone env" "isFakeIP env' = isFakeIP env"
    "ds_GroupError (re_ds env') = ds_GroupError (re_ds env)"
    "\<not> isFakeIP env t \<Longrightarrow> sameFor t (re_ds env) (re_ds env')"
  using assms by (auto simp: sameButFakeIP_def isFakeIP_def fun_eq_iff sameFor_def)

lemma matchDNSFrom_cong:
  assumes "sameButFakeIP env env'"
  shows "matchDNSFrom env' c allow isAddr i rules options = matchDNSFrom env c allow isAddr i rules options"
proof (induction rules arbitrary: i options)
  case (Cons rule rules)
  then have "matchDNSFrom env' c allow isAddr i rules = matchDNSFrom env c allow isAddr i rules" for i by auto
  then show ?case by (simp only: matchDNSFrom.simps sameButFakeIP_facts [OF assms])
qed (simp add: sameButFakeIP_facts [OF assms])

lemma matchDNSFrom_no_fakeip:
  assumes "\<not> isFakeIP env (re_Default env)" "dm_transport (matchDNSFrom env c False isAddr i rules options) = Some t"
  shows "\<not> isFakeIP env t"
  using assms(2)
proof (induction rules arbitrary: i options)
  case (Cons rule rules)
  then show ?case by (auto split: if_splits option.splits rule_action.splits)
qed (use assms(1) in simp)

definition evaluatesNoFakeIP :: "'w dns_env \<Rightarrow> dns_rule list \<Rightarrow> bool" where
  "evaluatesNoFakeIP env rules \<longleftrightarrow>
     (\<forall>rule \<in> set rules. \<forall>server a. dns_action_of rule = Some (RuleActionEvaluate server a) \<longrightarrow> \<not> isFakeIP env server)"

lemma exchangeRules_cong:
  assumes "sameButFakeIP env env'" "\<not> isFakeIP env (re_Default env)" "evaluatesNoFakeIP env rules"
  shows "exchangeRules env' r ctx c message False rules options evaluated s =
    exchangeRules env r ctx c message False rules options evaluated s"
  using assms(3)
proof (induction rules arbitrary: options evaluated s)
  case Nil
  show ?case
    by (cases s) (simp add: sameButFakeIP_facts [OF assms(1)] Client_Exchange_cong [OF sameButFakeIP_facts(10) [OF assms(1,2)]])
next
  case (Cons rule rules)
  obtain cl w where s: "s = (cl, w)" by fastforce
  have ih: "exchangeRules env' r ctx c message False rules = exchangeRules env r ctx c message False rules"
    using Cons by (auto simp: fun_eq_iff evaluatesNoFakeIP_def)
  have ev: "Client_Exchange dl (re_ds env') cl w ctx server = Client_Exchange dl (re_ds env) cl w ctx server"
    if "dns_action_of rule = Some (RuleActionEvaluate server a)" for server a dl
    using Cons.prems that by (intro Client_Exchange_cong sameButFakeIP_facts(10) [OF assms(1)]) (auto simp: evaluatesNoFakeIP_def)
  have rt: "Client_Exchange dl (re_ds env') cl w ctx server = Client_Exchange dl (re_ds env) cl w ctx server"
    if "resolveDNSRoute env server a False options = (RouteResolved, o1)" for server a dl o1
    using that by (intro Client_Exchange_cong sameButFakeIP_facts(10) [OF assms(1)])
      (auto simp: resolveDNSRoute_def split: if_splits)
  have route: "resolveDNSRoute env' = resolveDNSRoute env"
    unfolding resolveDNSRoute_def sameButFakeIP_facts [OF assms(1)] by (rule refl)
  note eqs = sameButFakeIP_facts [OF assms(1)] ih route
  show ?case
  proof (cases "dns_action_of rule")
    case (Some act)
    show ?thesis
    proof (cases act)
      case (RuleActionEvaluate server a)
      with Some show ?thesis unfolding s exchangeRules.simps eqs by (simp add: ev)
    next
      case (RuleActionDNSRoute server a)
      obtain status o1 where "resolveDNSRoute env server a False options = (status, o1)" by fastforce
      with Some RuleActionDNSRoute show ?thesis unfolding s exchangeRules.simps eqs by (cases status) (simp_all add: rt)
    qed (simp_all only: s exchangeRules.simps eqs Some option.case rule_action.case)
  qed (simp only: s exchangeRules.simps eqs option.case)
qed

lemma lookupWithRules_cong:
  assumes "sameButFakeIP env env'" "\<not> isFakeIP env (re_Default env)" "evaluatesNoFakeIP env rules"
  shows "lookupWithRules env' r ctx c rules domain options s = lookupWithRules env r ctx c rules domain options s"
proof -
  have "exchangeWithRules env' r ctx c rules message options False s = exchangeWithRules env r ctx c rules message options False s"
    for c message options s
    unfolding exchangeWithRules_def by (rule exchangeRules_cong [OF assms])
  then have "lookupWithRulesType env' r ctx c rules = lookupWithRulesType env r ctx c rules" for c
    unfolding lookupWithRulesType_def fun_eq_iff sameButFakeIP_facts [OF assms(1)] by simp
  moreover have "bothFamilies env' = bothFamilies env"
    unfolding bothFamilies_def fun_eq_iff sameButFakeIP_facts [OF assms(1)] by simp
  ultimately show ?thesis by (simp only: lookupWithRules_def)
qed

lemma legacyLookup_cong:
  assumes "sameButFakeIP env env'" "\<not> isFakeIP env (re_Default env)"
  shows "legacyLookup env' r ctx c rules domain options ruleIndex s = legacyLookup env r ctx c rules domain options ruleIndex s"
  using assms
proof (induction env r ctx c rules domain options ruleIndex s rule: legacyLookup.induct)
  case (1 env r ctx c rules domain options ruleIndex s)
  note eqs = sameButFakeIP_facts [OF 1(2)]
  define m where "m = matchDNS env c rules False ruleIndex True options"
  have m': "matchDNS env' c rules False ruleIndex True options = m"
    unfolding m_def matchDNS_def by (rule matchDNSFrom_cong [OF 1(2)])
  have check: "addressLimitResponseCheck env' = addressLimitResponseCheck env"
    unfolding addressLimitResponseCheck_def fun_eq_iff eqs by simp
  note unf = legacyLookup.simps [of env r ctx c rules domain options ruleIndex s, folded m_def]
    legacyLookup.simps [of env' r ctx c rules domain options ruleIndex s, unfolded m' check eqs]
  show ?case
  proof (cases "legacyLookupFixed (re_lib env) (Option.bind (dm_rule m) dns_action_of)")
    case None
    note fixed = this
    show ?thesis
    proof (cases "dm_transport m")
      case (Some t)
      then have "\<not> isFakeIP env t"
        using matchDNSFrom_no_fakeip [OF 1(3)] unfolding m_def matchDNS_def by blast
      then have "Client_Lookup l dl (re_ds env') cl w ctx t = Client_Lookup l dl (re_ds env) cl w ctx t" for l dl cl w
        by (intro Client_Lookup_cong eqs)
      with fixed Some 1(1) [OF m_def refl fixed Some] 1(2,3) show ?thesis
        unfolding unf by (simp add: Let_def split: prod.split)
    qed (use fixed in \<open>simp only: unf Let_def option.case\<close>)
  qed (simp only: unf Let_def option.case)
qed

lemma evaluateFakeIPFrom_None:
  "evaluateFakeIPFrom transports rs i = None \<Longrightarrow> r \<in> set rs \<Longrightarrow> dnsRuleActionType r = ''evaluate'' \<Longrightarrow>
   dnsRuleActionServer r \<noteq> '''' \<Longrightarrow> transports (dnsRuleActionServer r) \<noteq> Some DNSTypeFakeIP"
  by (induction transports rs i rule: evaluateFakeIPFrom.induct) (auto split: if_splits)

lemma built_evaluates:
  assumes "buildDNSRules benv store raw start = (Ret (rules, legacy, flags), store')" "be_transports benv = re_Transport env"
  shows "evaluatesNoFakeIP env rules"
  unfolding evaluatesNoFakeIP_def
proof (intro ballI allI impI)
  fix rule server a
  assume "rule \<in> set rules" and act: "dns_action_of rule = Some (RuleActionEvaluate server a)"
  then obtain k where k: "k < length raw" "rule = rules ! k"
    using buildDNSRules_Ret(2) [OF assms(1)] by (auto simp: in_set_conv_nth)
  with buildDNSRules_Ret(3) [OF assms(1) k(1)] act have
    new: "NewDNSRuleAction (be_lib benv) (action_options_of (raw ! k)) = Ret (Some (RuleActionEvaluate server a))"
    and chk: "checkDNSAction (action_options_of (raw ! k)) True = None" by simp_all
  then obtain o1 where o1: "action_options_of (raw ! k) = DNSActEvaluate server o1"
    by (cases "action_options_of (raw ! k)") (auto simp: newReject_def)
  have "validateEvaluateFakeIPRules raw (be_transports benv) = None"
    using buildDNSRules_Ret(1) [OF assms(1)] by (auto simp: checkDNSRules_def split: option.splits sum.splits if_splits)
  from evaluateFakeIPFrom_None [OF this [unfolded validateEvaluateFakeIPRules_def] nth_mem [OF k(1)]] chk
  show "\<not> isFakeIP env server"
    using o1 assms(2) by (cases "raw ! k")
      (auto simp: isFakeIP_def checkDNSAction_def missingServer_def validateDNSRuleAction_def split: if_splits)
qed

section \<open>The cost of a query\<close>

text \<open>A measure of the world that only an exchange with a server raises, by at most one.\<close>

definition countsExchanges :: "('w \<Rightarrow> nat) \<Rightarrow> 'w dns_services \<Rightarrow> bool" where
  "countsExchanges \<mu> ds \<longleftrightarrow>
     (\<forall>w t d m. \<mu> (snd (ds_Exchange ds w t d m)) \<le> Suc (\<mu> w)) \<and> (\<forall>w k. \<mu> (snd (ds_Wait ds w k)) \<le> \<mu> w) \<and>
     (\<forall>w k m. \<mu> (ds_CacheAdd ds w k m) \<le> \<mu> w) \<and> (\<forall>w k m d. \<mu> (ds_CacheAddWithLifetime ds w k m d) \<le> \<mu> w) \<and>
     (\<forall>w k. \<mu> (ds_CacheRemove ds w k) \<le> \<mu> w) \<and> (\<forall>w t n q. \<mu> (ds_SaveRDRCAsync ds w t n q) \<le> \<mu> w) \<and>
     (\<forall>w t n q m e. \<mu> (ds_SaveDNSCacheAsync ds w t n q m e) \<le> \<mu> w)"

lemma countsD:
  assumes "countsExchanges \<mu> ds"
  shows "\<mu> (snd (ds_Exchange ds w t d m)) \<le> Suc (\<mu> w)" "\<mu> (snd (ds_Wait ds w k)) \<le> \<mu> w"
    "\<mu> (ds_CacheAdd ds w k m) \<le> \<mu> w" "\<mu> (ds_CacheAddWithLifetime ds w k m d) \<le> \<mu> w"
    "\<mu> (ds_CacheRemove ds w k) \<le> \<mu> w" "\<mu> (ds_SaveRDRCAsync ds w t n q) \<le> \<mu> w"
    "\<mu> (ds_SaveDNSCacheAsync ds w t n q b e) \<le> \<mu> w"
  using assms by (cases k; simp add: countsExchanges_def)+

lemma storeCache_count: "countsExchanges \<mu> ds \<Longrightarrow> \<mu> (storeCache dl ds c w t q m ttl) \<le> \<mu> w"
  by (simp add: storeCache_def countsD split: option.split)

lemma loadResponse_count: "countsExchanges \<mu> ds \<Longrightarrow> loadResponse dl ds c w q t = (l, w') \<Longrightarrow> \<mu> w' \<le> \<mu> w"
  by (auto simp: loadResponse_def Let_def countsD split: option.splits if_splits)

lemma lockKey_count: "countsExchanges \<mu> ds \<Longrightarrow> lockKey ds c w key = (a, c', w') \<Longrightarrow> \<mu> w' \<le> \<mu> w"
  using lockKey_world [of ds c w key a c' w'] countsD(2) [of \<mu> ds w key] by auto

lemma exchangeToTransport_count:
  "countsExchanges \<mu> ds \<Longrightarrow> exchangeToTransport ds c w t m = (r, w') \<Longrightarrow> \<mu> w' \<le> Suc (\<mu> w)"
  using countsD(1) [of \<mu> ds w t "dc_timeout c" m]
  by (auto simp: exchangeToTransport_def split: prod.splits sum.splits dns_error.splits)

lemma exchangeUncached_count:
  assumes "countsExchanges \<mu> ds" "exchangeUncached dl ds c w ctx t q m options chk disable = (r, w')"
  shows "\<mu> w' \<le> Suc (\<mu> w)"
proof -
  obtain x w1 where x: "exchangeToTransport ds c w t m = (x, w1)" by fastforce
  note le = exchangeToTransport_count [OF assms(1) x]
  note le' = order_trans [OF storeCache_count [OF assms(1)] le] order_trans [OF countsD(6) [OF assms(1)] le]
  show ?thesis
    using assms(2) x le
    by (auto simp: exchangeUncached_def Let_def le' split: if_splits sum.splits prod.splits)
qed

lemma Client_Exchange_count:
  assumes "countsExchanges \<mu> ds" "Client_Exchange dl ds c w ctx t m options chk = (r, c', w')"
  shows "\<mu> w' \<le> Suc (\<mu> w)"
  using assms(2)
proof (cases rule: Client_Exchange_cases)
  case (miss question held c1 w1 w2 loaded m)
  with lockKey_count [OF assms(1) miss(1)] loadResponse_count [OF assms(1) miss(2)]
    exchangeUncached_count [OF assms(1) miss(3)] show ?thesis by simp
next
  case (hit question held c1 w1 loaded response c2 rf)
  with lockKey_count [OF assms(1) hit(1)] loadResponse_count [OF assms(1) hit(2)] show ?thesis by simp
next
  case (uncached question m)
  then show ?thesis using exchangeUncached_count [OF assms(1)] by blast
next
  case (waited e key)
  with lockKey_count [OF assms(1) waited(1)] show ?thesis by simp
qed simp

lemma lookupToExchange_count:
  assumes "countsExchanges \<mu> ds" "lookupToExchange l dl ds c w ctx t n q options chk = (r, c', w')"
  shows "\<mu> w' \<le> Suc (\<mu> w)"
proof -
  have ex: "\<mu> w2 \<le> Suc (\<mu> w1)" if "(case Client_Exchange dl ds c1 w1 ctx t m options chk of
           (Reply response, c, w) \<Rightarrow> (addressesOf l response, c, w)
         | (Rejected _, c, w) \<Rightarrow> (Inl ErrResponseRejected, c, w)
         | (Fail err, c, w) \<Rightarrow> (Inl err, c, w)) = (r, c2, w2)" for c1 w1 m r c2 w2
    using that Client_Exchange_count [OF assms(1)] by (auto split: prod.splits reply.splits)
  show ?thesis
  proof (cases "dc_disableCache c \<or> qo_DisableCache options")
    case True
    with assms(2) ex show ?thesis by (auto simp: lookupToExchange_def Let_def)
  next
    case False
    let ?q = "Question n q ClassINET"
    obtain a c1 w1 where q: "questionCache l dl ds c w t ?q (queryMessage ?q) options chk = (a, c1, w1)"
      by (metis prod_cases3)
    then have "\<mu> w1 \<le> \<mu> w"
      by (auto simp: questionCache_def dest: loadResponse_count [OF assms(1)] split: prod.splits option.splits if_splits)
    moreover have "\<mu> w' \<le> Suc (\<mu> w1)"
    proof (cases "a = Inl ErrNotCached")
      case True
      with assms(2) False q show ?thesis by (intro ex) (simp add: lookupToExchange_def)
    next
      case other: False
      with assms(2) False q have "w' = w1" by (auto simp: lookupToExchange_def split: sum.splits dns_error.splits)
      then show ?thesis by simp
    qed
    ultimately show ?thesis by simp
  qed
qed

lemma Client_Lookup_count:
  assumes "countsExchanges \<mu> ds" "Client_Lookup l dl ds c w ctx t domain options chk = (r, c', w')"
  shows "\<mu> w' \<le> \<mu> w + 2"
  using assms(2)
  by (auto simp: Client_Lookup_def Let_def split: if_splits prod.splits dest!: lookupToExchange_count [OF assms(1)])

lemma exchangeRules_count:
  assumes "countsExchanges \<mu> (re_ds env)" "exchangeRules env r ctx c message allow rules options evaluated s = (x, s')"
  shows "\<mu> (snd s') \<le> \<mu> (snd s) + Suc (length rules)"
  using assms(2)
proof (induction rules arbitrary: options evaluated s)
  case Nil
  then show ?case by (cases s; cases s') (auto split: prod.splits dest: Client_Exchange_count [OF assms(1)])
next
  case (Cons rule rules)
  obtain cl w where s: "s = (cl, w)" by fastforce
  have same: ?case if "exchangeRules env r ctx c message allow rules o1 e1 (cl, w) = (x, s')" for o1 e1
    using Cons.IH [OF that] s by simp
  have asked: ?case if "Client_Exchange dl (re_ds env) cl w ctx t m o2 chk = (reply, s1)"
    "exchangeRules env r ctx c message allow rules o1 e1 s1 = (x, s')" for dl t m o2 chk reply s1 o1 e1
    using Cons.IH [OF that(2)] that(1) s by (cases s1) (auto dest!: Client_Exchange_count [OF assms(1)])
  have answered: ?case if "Client_Exchange dl (re_ds env) cl w ctx t m o2 chk = (reply, s')" for dl t m o2 chk reply
    using that s by (cases s') (auto dest!: Client_Exchange_count [OF assms(1)])
  show ?case using Cons.prems same asked answered unfolding s
    by (auto split: if_splits option.splits rule_action.splits prod.splits dnsRouteStatus.splits reply.splits
        outcome.splits)
qed

lemma legacyExchange_count:
  assumes "countsExchanges \<mu> (re_ds env)" "legacyExchange env r ctx c rules message options ruleIndex s = (x, s')"
  shows "\<mu> (snd s') \<le> \<mu> (snd s) + Suc (length rules - nextIndex ruleIndex)"
  using assms
proof (induction env r ctx c rules message options ruleIndex s arbitrary: x s' rule: legacyExchange.induct)
  case (1 env r ctx c rules message options ruleIndex s)
  define m where "m = matchDNS env c rules True ruleIndex (isAddressQuery message) options"
  define chk where "chk = addressLimitResponseCheck env (dm_rule m) (freshMetadata c)"
  note unf = legacyExchange.simps [of env r ctx c rules message options ruleIndex s, unfolded Let_def, folded m_def, folded chk_def]
  show ?case
  proof (cases "legacyFixed message (Option.bind (dm_rule m) dns_action_of)")
    case None
    note fixed = this
    show ?thesis
    proof (cases "dm_transport m")
      case (Some t)
      obtain reply s1 where x: "Client_Exchange (re_dl env) (re_ds env) (fst s) (snd s) ctx t message
          (withStrategy r (dm_options m)) chk = (reply, s1)" by (meson surj_pair)
      have le: "\<mu> (snd s1) \<le> Suc (\<mu> (snd s))" using Client_Exchange_count [OF 1(2)] x by (metis prod.collapse)
      show ?thesis
      proof (cases "legacyRetry env m chk reply (snd s1)")
        case True
        then have "dm_rule m \<noteq> None" unfolding chk_def by (rule legacyRetry_rule)
        from matchDNS_index [OF this [unfolded m_def]] obtain j where
          "dm_ruleIndex m = Some j" "nextIndex ruleIndex \<le> j" "j < length rules" unfolding m_def by blast
        moreover from 1(3) fixed Some x True have
          "legacyExchange env r ctx c rules message options (dm_ruleIndex m) s1 = (x, s')" by (simp add: unf)
        note 1(1) [OF m_def chk_def fixed Some x [symmetric] True 1(2) this]
        ultimately show ?thesis using le by (auto simp: nextIndex_def)
      next
        case False
        with 1(3) fixed Some x le show ?thesis by (simp add: unf)
      qed
    qed (use fixed 1(3) in \<open>auto simp: unf\<close>)
  qed (use 1(3) in \<open>auto simp: unf\<close>)
qed

end
