(* ===== verification/DNS_Router_Theorems.thy ===== *)
theory DNS_Router_Theorems
  imports DNS_Router_Flow DNS_Client_Theorems
begin

text \<open>
  The properties of the DNS router, each at a router with three rules: evaluate the server \<^verbatim>\<open>dns\<close>, refuse the
  names of the rule-set \<^verbatim>\<open>ads\<close>, and answer with what was evaluated.
\<close>

section \<open>A small router\<close>

definition smallRules :: "dns_rule_options list" where
  "smallRules =
     [OptDefault True (raw_default_dns_rule_zero\<lparr>d_QueryType := [1]\<rparr>) (DNSActEvaluate ''dns'' dns_route_options_zero),
      OptDefault True (raw_default_dns_rule_zero\<lparr>d_RuleSet := [''ads'']\<rparr>)
        (DNSActReject \<lparr> opt_Method = ''default'', opt_NoDrop = False, opt_XDPBlock = False, opt_BanDuration = 0 \<rparr>),
      OptDefault True (raw_default_dns_rule_zero\<lparr>d_QueryType := [1]\<rparr>) DNSActRespond]"

definition adsMetadata :: rule_set_metadata where
  "adsMetadata = \<lparr> ContainsProcessRule = False, ContainsWIFIRule = False, ContainsIPCIDRRule = False,
     ContainsDNSQueryTypeRule = False, ContainsNonIPCIDRRule = True \<rparr>"

definition smallStore :: rule_set_store where
  "smallStore = [''ads'' \<mapsto> \<lparr> rs_rules = [], rs_metadata = adsMetadata, rs_refs = 0 \<rparr>]"

definition smallTransports :: "tag \<Rightarrow> string option" where
  "smallTransports = [''dns'' \<mapsto> ''udp'', ''fake'' \<mapsto> ''fakeip'']"

definition smallBuild :: build_env where
  "smallBuild = \<lparr> be_lib = sampleLib,
     be_services = \<lparr>svc_ClashServer = False, svc_Outbound = (\<lambda>_. None), svc_Transport = (\<lambda>_. None)\<rparr>,
     be_transports = smallTransports, be_router = True \<rparr>"

definition smallRouter :: dns_router where
  "smallRouter =
     \<lparr> rt_rules = \<lparr> ro_rawRules = smallRules, ro_rules = [], ro_legacyDNSMode = False, ro_started = False, ro_closing = False \<rparr>,
       rt_defaultDomainStrategy = 0, rt_reverseMapping = True, rt_client = plainClient \<rparr>"

definition startedRouter :: dns_router where
  "startedRouter = fst (snd (Router_Start smallBuild smallStore smallRouter))"

definition startedStore :: rule_set_store where
  "startedStore = snd (snd (Router_Start smallBuild smallStore smallRouter))"

lemma smallRouter_starts: "fst (Router_Start smallBuild smallStore smallRouter) = Ret ()"
  by code_simp

lemma smallRouter_started: "Router_Start smallBuild smallStore smallRouter = (Ret (), startedRouter, startedStore)"
  using smallRouter_starts by (simp add: startedRouter_def startedStore_def prod_eq_iff)



lemma smallRouter_raw: "ro_rawRules (rt_rules smallRouter) = smallRules"
  by (simp add: smallRouter_def)

section \<open>Queries and lookups\<close>







text \<open>C28: What a query costs: in both modes the router asks servers at most once for each of its rules and
  once more. Every rule is tried at most once, so that the loop over rejected answers ends; saving the reverse
  mapping asks no server.\<close>

theorem query_cost:
  assumes counts: "countsExchanges \<mu> (re_ds env)"
    and reverse: "\<And>w a d t. \<mu> (re_ReverseAdd env w a d t) \<le> \<mu> w"
    and run: "Router_Exchange env r ctx c message options w = (x, r', w')"
  shows "\<mu> w' \<le> \<mu> w + Suc (length (ro_rules (rt_rules r)))"
proof -
  have fold: "\<mu> (foldl (reverseEntry env) w rs) \<le> \<mu> w" for w rs
  proof (induction rs arbitrary: w)
    case (Cons a rs)
    have "\<mu> (reverseEntry env w a) \<le> \<mu> w" using reverse by (cases "(env, w, a)" rule: reverseEntry.cases) auto
    with Cons show ?case by (fastforce intro: order_trans)
  qed simp
  have route: "\<mu> (snd s) \<le> \<mu> w + Suc (length (ro_rules (rt_rules r)))"
    if "routeQuery env r ctx c message options w = (y, s)" for c y s
  proof (cases "qo_Transport options")
    case None
    show ?thesis
    proof (cases "ro_legacyDNSMode (rt_rules r)")
      case True
      with that None legacyExchange_count [OF counts, of r ctx c "ro_rules (rt_rules r)" message options None "(rt_client r, w)"]
      show ?thesis by (simp add: routeQuery_def nextIndex_def)
    next
      case False
      with that None exchangeRules_count [OF counts, of r ctx c message True "ro_rules (rt_rules r)" options None "(rt_client r, w)"]
      show ?thesis by (auto simp: routeQuery_def exchangeWithRules_def split: prod.splits)
    qed
  next
    case (Some t)
    with that Client_Exchange_count [OF counts, of "re_dl env" "rt_client r" w ctx t message "withStrategy r options" None]
    show ?thesis by (cases s) (fastforce simp: routeQuery_def split: prod.splits)
  qed
  show ?thesis
  proof (cases "\<exists>q. msg_Question message = [q] \<and> \<not> ro_closing (rt_rules r)")
    case True
    then obtain q where q: "msg_Question message = [q]" "\<not> ro_closing (rt_rules r)" by blast
    obtain y cl w1 where y: "routeQuery env r ctx (queryMetadata (re_dl env) c q) message options w = (y, cl, w1)"
      by (metis prod_cases3)
    have "\<mu> w' \<le> \<mu> w1"
      using run q y fold by (auto simp: Router_Exchange_def saveReverseMapping_def split: dns_outcome.splits)
    with route [OF y] show ?thesis by simp
  next
    case False
    with run show ?thesis by (auto simp: Router_Exchange_def split: list.splits if_splits)
  qed
qed

text \<open>The world that counts its exchanges.\<close>

definition countingEnv :: "nat dns_env" where
  "countingEnv = \<lparr> re_lib = sampleLib, re_dl = plainDNS,
     re_ds = \<lparr> ds_Now = (\<lambda>_. 0), ds_Wait = (\<lambda>w _. (Closed, w)), ds_CacheAdd = (\<lambda>w _ _. w),
       ds_CacheAddWithLifetime = (\<lambda>w _ _ _. w), ds_CacheGet = (\<lambda>_ _. None), ds_CacheGetWithLifetimeNoExpire = (\<lambda>_ _. None),
       ds_CacheRemove = (\<lambda>w _. w), ds_CachePurge = (\<lambda>w. w), ds_LoadDNSCache = (\<lambda>_ _ _ _. None),
       ds_SaveDNSCacheAsync = (\<lambda>w _ _ _ _ _. w), ds_ClearDNSCache = (\<lambda>w. w), ds_LoadRDRC = (\<lambda>_ _ _ _. False),
       ds_SaveRDRCAsync = (\<lambda>w _ _ _. w), ds_Exchange = (\<lambda>w _ _ m. (Inr (serverAnswer m), Suc w)),
       ds_GroupError = (\<lambda>a b. case a of None \<Rightarrow> b | Some _ \<Rightarrow> a) \<rparr>,
     re_matcher = item_Match sampleLib sampleEnv, re_store = startedStore, re_Transport = smallTransports,
     re_Default = ''dns'', re_ctxDone = (\<lambda>_. False), re_ReverseAdd = (\<lambda>w _ _ _. w), re_ReverseGet = (\<lambda>_ _. None),
     re_ResetTransport = (\<lambda>w _. w), re_Transports = [''dns''] \<rparr>"

lemma countingEnv_counts: "countsExchanges (\<lambda>w. w) (re_ds countingEnv)"
  by (simp add: countsExchanges_def countingEnv_def)

theorem query_cost_witness:
  "snd (snd (Router_Exchange countingEnv startedRouter None sampleContext plainQuery plainOptions 0)) \<le> 4"
proof -
  have "length (ro_rules (rt_rules startedRouter)) = 3" by code_simp
  moreover obtain x r' w' where
    run: "Router_Exchange countingEnv startedRouter None sampleContext plainQuery plainOptions 0 = (x, r', w')"
    by (metis prod_cases3)
  ultimately show ?thesis using query_cost [OF countingEnv_counts _ run] by (simp add: countingEnv_def)
qed

section \<open>The rules\<close>

fun actionStrategy :: "rule_action option \<Rightarrow> u8" where
  "actionStrategy (Some (RuleActionDNSRoute _ a)) = do_Strategy a"
| "actionStrategy (Some (RuleActionEvaluate _ a)) = do_Strategy a"
| "actionStrategy (Some (RuleActionDNSRouteOptions a)) = do_Strategy a"
| "actionStrategy _ = DomainStrategyAsIS"

text \<open>C29: The rules that run in the current mode are well formed: no action asks for a strategy, which that mode
  leaves out of the query options, and every action that answers with an evaluated response stands behind one
  that evaluates.\<close>

theorem current_mode_rules:
  assumes start: "Router_Start benv store r0 = (Ret (), r, store')"
    and running: "\<not> ro_closing (rt_rules r)" "\<not> ro_legacyDNSMode (rt_rules r)"
    and k: "k < length (ro_rules (rt_rules r))"
  shows "actionStrategy (dns_action_of (ro_rules (rt_rules r) ! k)) = DomainStrategyAsIS \<and>
    (dns_action_of (ro_rules (rt_rules r) ! k) = Some RuleActionRespond \<longrightarrow>
     (\<exists>j < k. \<exists>server a. dns_action_of (ro_rules (rt_rules r) ! j) = Some (RuleActionEvaluate server a)))"
  using start
proof (cases rule: Router_Start_cases)
  case closed
  with running(1) show ?thesis by contradiction
next
  case (built flags)
  let ?raw = "ro_rawRules (rt_rules r0)" and ?rules = "ro_rules (rt_rules r)"
  note b = buildDNSRules_Ret [OF built(4)]
  have act: "NewDNSRuleAction (be_lib benv) (action_options_of (?raw ! j)) = Ret (dns_action_of (?rules ! j))"
    if "j \<le> k" for j using b(2) b(3) [of j] k that by simp
  have mode: "\<exists>router. resolveLegacyDNSMode router ?raw noOverrides = Inr (False, flags)"
    and valid: "validateDisabledFrom store noOverrides ?raw 0 False = None"
    using b(1) running(2)
    by (auto simp: checkDNSRules_def validateLegacyDNSModeDisabledRules_def split: option.splits sum.splits if_splits)
  have "\<not> dnsRuleActionHasStrategy (action_options_of (?raw ! k))"
    using mode k b(2) current_mode_no_strategy by (metis nth_mem)
  then have "actionStrategy (dns_action_of (?rules ! k)) = DomainStrategyAsIS"
    using act [of k] by (cases "action_options_of (?raw ! k)")
      (auto simp: dnsOptionsOf_def newReject_def DomainStrategyAsIS_def dest!: sym [of "Some _"])
  moreover have "\<exists>j < k. \<exists>server a. dns_action_of (?rules ! j) = Some (RuleActionEvaluate server a)"
    if respond: "dns_action_of (?rules ! k) = Some RuleActionRespond"
  proof -
    have "dns_action_type (action_options_of (?raw ! k)) = ''respond''"
      using act [of k] respond by (cases "action_options_of (?raw ! k)") (auto simp: newReject_def)
    with validateDisabledFrom_respond [OF valid] k b(2) obtain j where
      j: "j < k" "dnsRuleActionType (?raw ! j) = ''evaluate''" by auto
    then have "dns_action_type (action_options_of (?raw ! j)) = ''evaluate''"
      by (cases "?raw ! j") auto
    with act [of j] j(1) show ?thesis
      by (cases "action_options_of (?raw ! j)") (auto dest!: sym [of "Some _"])
  qed
  ultimately show ?thesis by blast
qed

theorem current_mode_rules_witness:
  "actionStrategy (dns_action_of (ro_rules (rt_rules startedRouter) ! 2)) = DomainStrategyAsIS \<and>
   (\<exists>j < 2. \<exists>server a. dns_action_of (ro_rules (rt_rules startedRouter) ! j) = Some (RuleActionEvaluate server a))"
proof -
  have "\<not> ro_closing (rt_rules startedRouter)" "\<not> ro_legacyDNSMode (rt_rules startedRouter)"
    "2 < length (ro_rules (rt_rules startedRouter))" by code_simp+
  moreover have "case dns_action_of (ro_rules (rt_rules startedRouter) ! 2) of Some RuleActionRespond \<Rightarrow> True | _ \<Rightarrow> False"
    by code_simp
  then have "dns_action_of (ro_rules (rt_rules startedRouter) ! 2) = Some RuleActionRespond"
    by (auto split: option.splits rule_action.splits)
  ultimately show ?thesis using current_mode_rules [OF smallRouter_started, of 2] by auto
qed

text \<open>C30: A rule-set update that the router accepts fits the rules it is running: on the store with the new
  metadata, rules of the current mode still pass all checks and stay in that mode, and
  for rules of the legacy mode nothing excludes that mode.\<close>

theorem accepted_update_fits:
  assumes checked: "checkDNSRules benv store (ro_rawRules r) = Inr (ro_legacyDNSMode r, flags)"
    and service: "be_router benv" and running: "ro_started r" "\<not> ro_closing r"
    and known: "store t = Some rs"
    and accepted: "ValidateRuleSetMetadataUpdate (Some store) r t metadata = None"
  shows "(\<not> ro_legacyDNSMode r \<longrightarrow> (\<exists>flags'. checkDNSRules benv (store(t \<mapsto> rs\<lparr>rs_metadata := metadata\<rparr>)) (ro_rawRules r) = Inr (False, flags'))) \<and>
    (ro_legacyDNSMode r \<longrightarrow>
     (\<exists>legacy flags'. resolveLegacyDNSMode (Some (store(t \<mapsto> rs\<lparr>rs_metadata := metadata\<rparr>))) (ro_rawRules r) noOverrides = Inr (legacy, flags') \<and>
        (legacy \<or> \<not> mf_disabled flags')))"
proof (cases "ro_rawRules r = []")
  case True
  with checked show ?thesis
    by (auto simp: checkDNSRules_def resolveLegacyDNSMode_def dnsRuleModeRequirements_def noModeFlags_def service
        validateLegacyDNSModeDisabledRules_def validateEvaluateFakeIPRules_def)
next
  case False
  have same: "sameMetadata store [t \<mapsto> metadata] (store(t \<mapsto> rs\<lparr>rs_metadata := metadata\<rparr>)) noOverrides"
    using known by (rule sameMetadata_update)
  note eqs = sameMetadata_mode [OF same, symmetric] sameMetadata_validate [OF same, symmetric]
  from checked have rest: "nestedActionsFrom (ro_rawRules r) 0 = None"
    "validateEvaluateFakeIPRules (ro_rawRules r) (be_transports benv) = None"
    by (auto simp: checkDNSRules_def split: option.splits sum.splits if_splits)
  from accepted False running obtain legacy flags' where
    mode: "resolveLegacyDNSMode (Some store) (ro_rawRules r) [t \<mapsto> metadata] = Inr (legacy, flags')"
    and legacy: "ro_legacyDNSMode r \<Longrightarrow> legacy \<or> \<not> mf_disabled flags'"
    and current: "\<not> ro_legacyDNSMode r \<Longrightarrow>
      \<not> legacy \<and> validateLegacyDNSModeDisabledRules store (ro_rawRules r) [t \<mapsto> metadata] = None"
    by (auto simp: ValidateRuleSetMetadataUpdate_def Let_def split: sum.splits if_splits option.splits)
  show ?thesis
    using mode legacy current rest service by (auto simp: checkDNSRules_def eqs)
qed

definition adsByQueryType :: rule_set_metadata where
  "adsByQueryType = adsMetadata\<lparr>ContainsDNSQueryTypeRule := True\<rparr>"

theorem accepted_update_fits_witness:
  "ValidateRuleSetMetadataUpdate (Some startedStore) (rt_rules startedRouter) ''ads'' adsByQueryType = None \<and>
   (\<exists>flags'. checkDNSRules smallBuild
      (startedStore(''ads'' \<mapsto> (the (startedStore ''ads''))\<lparr>rs_metadata := adsByQueryType\<rparr>)) smallRules = Inr (False, flags'))"
proof -
  let ?r = "rt_rules startedRouter"
  have run: "ro_started ?r" "\<not> ro_closing ?r" "\<not> ro_legacyDNSMode ?r" "be_router smallBuild" by code_simp+
  have raw: "ro_rawRules ?r = smallRules" using smallRouter_started
    by (rule Router_Start_cases) (use run smallRouter_raw in auto)
  have "\<not> Option.is_none (startedStore ''ads'')" by code_simp
  then have ads: "startedStore ''ads'' = Some (the (startedStore ''ads''))" by (auto simp: Option.is_none_def)
  have acc: "ValidateRuleSetMetadataUpdate (Some startedStore) ?r ''ads'' adsByQueryType = None" by code_simp
  have "case checkDNSRules smallBuild startedStore smallRules of Inr (l, _) \<Rightarrow> \<not> l | _ \<Rightarrow> False" by code_simp
  then obtain flags where "checkDNSRules smallBuild startedStore (ro_rawRules ?r) = Inr (ro_legacyDNSMode ?r, flags)"
    using raw run(3) by (auto split: sum.splits prod.splits)
  from accepted_update_fits [OF this run(4,1,2) ads acc] acc run(3) raw show ?thesis by simp
qed

lemma buildDNSRules_refs:
  assumes "\<forall>t. 0 \<le> refs store t" "buildDNSRules benv store raw True = (x, store')"
  shows "case x of
      Err e \<Rightarrow> refs store' = refs store
    | Panic msg \<Rightarrow> (\<exists>legacy. newDNSRulesFrom (be_lib benv) legacy raw 0 = Panic msg)
    | Ret (rules, _, _) \<Rightarrow> (\<exists>store'' closed. closeRules store' rules = Some (store'', closed) \<and> refs store'' = refs store)"
proof (cases "checkDNSRules benv store raw")
  case (Inr p)
  then obtain legacy flags where chk: "checkDNSRules benv store raw = Inr (legacy, flags)" by (cases p) auto
  show ?thesis
  proof (cases "newDNSRulesFrom (be_lib benv) legacy raw 0")
    case (Ret new)
    have fresh: "\<forall>rule \<in> set new. closable (plainRule rule)" "heldList (map plainRule new) = (\<lambda>_. 0)"
      using newDNSRulesFrom_Ret [OF Ret] by blast+
    from assms(1) fresh obtain e st rules' st' closed where
      "startRulesFrom (be_services benv) store new 0 = Some (e, st, rules')"
      "closeRules st rules' = Some (st', closed)" "refs st' = refs store"
      by (rule start_close_refs)
    with assms(2) chk Ret show ?thesis by (cases e) (auto simp: buildDNSRules_def)
  qed (use assms(2) chk in \<open>auto simp: buildDNSRules_def\<close>)
qed (use assms(2) in \<open>auto simp: buildDNSRules_def\<close>)

text \<open>C31: The router keeps the reference counts of the rule-sets: a failed start gives back every reference it
  took, and closing a started router gives back all the references its rules hold; only a rule that cannot
  be built panics, never a count that would become negative.\<close>

theorem dns_router_references:
  assumes counted: "\<forall>t. 0 \<le> refs store t" and new: "ro_rules r = []"
    and start: "Router_StartRules benv store r = (x, r', store')"
  shows "case x of
      Err e \<Rightarrow> r' = r \<and> refs store' = refs store
    | Panic msg \<Rightarrow> (\<exists>legacy. newDNSRulesFrom (be_lib benv) legacy (ro_rawRules r) 0 = Panic msg)
    | Ret _ \<Rightarrow> (\<exists>r'' store''. Router_Close store' r' = (Ret (), r'', store'') \<and> ro_rules r'' = [] \<and> refs store'' = refs store)"
proof -
  obtain y store1 where y: "buildDNSRules benv store (ro_rawRules r) True = (y, store1)" by fastforce
  show ?thesis
    using buildDNSRules_refs [OF counted y] start y new
    by (auto simp: Router_StartRules_def Router_Close_def split: outcome.splits if_splits option.splits)
qed

theorem dns_router_references_witness:
  "refs startedStore ''ads'' = 1 \<and>
   (\<exists>r'' store''. Router_Close startedStore (rt_rules startedRouter) = (Ret (), r'', store'') \<and> ro_rules r'' = [] \<and>
      refs store'' ''ads'' = 0)"
proof -
  have counted: "\<forall>t. 0 \<le> refs smallStore t" by (simp add: refs_def smallStore_def)
  have start: "Router_StartRules smallBuild smallStore (rt_rules smallRouter) = (Ret (), rt_rules startedRouter, startedStore)"
    using smallRouter_started by (auto simp: Router_Start_def Let_def split: prod.splits dest!: arg_cong [of _ _ rt_rules])
  have "refs startedStore ''ads'' = 1" "refs smallStore ''ads'' = 0" "ro_rules (rt_rules smallRouter) = []"
    unfolding refs_def by code_simp+
  with dns_router_references [OF counted _ start] show ?thesis by auto
qed

text \<open>C32: In the current mode a rule without \<^verbatim>\<open>match_response\<close> and response fields is refused exactly when one of its
  rule-sets consists of address ranges only, although the others could match.\<close>

theorem pure_ip_rule_set_refused:
  assumes "\<not> hasResponseMatchFields rule" "d_IPCIDR rule = []" "\<not> d_IPIsPrivate rule" "\<not> d_IPAcceptAny rule"
    "\<not> d_MatchResponse rule" "\<not> d_RuleSetIPCIDRAcceptEmpty rule"
    and known: "\<forall>t \<in> set (d_RuleSet rule). store t \<noteq> None"
  shows "validateLegacyDNSModeDisabledDefaultRule store noOverrides rule a =
    (if \<exists>t \<in> set (d_RuleSet rule). ContainsIPCIDRRule (rs_metadata (the (store t))) \<and>
          \<not> ContainsNonIPCIDRRule (rs_metadata (the (store t)))
     then Inl (E_New OptionLegacyDNSAddressFilter) else Inr (dns_action_type a = ''respond''))"
proof -
  have "pureIPRuleSet store noOverrides ts =
    (if \<exists>t \<in> set ts. ContainsIPCIDRRule (rs_metadata (the (store t))) \<and>
          \<not> ContainsNonIPCIDRRule (rs_metadata (the (store t)))
     then Some (E_New OptionLegacyDNSAddressFilter) else None)" if "\<forall>t \<in> set ts. store t \<noteq> None" for ts
    using that
  proof (induction ts)
    case (Cons t ts)
    then show ?case by (auto simp: lookupDNSRuleSetMetadata_def noOverrides_def)
  qed simp
  from this [OF known] assms(1-6) show ?thesis
    by (simp add: validateLegacyDNSModeDisabledDefaultRule_def)
qed

theorem pure_ip_rule_set_refused_witness:
  "validateLegacyDNSModeDisabledDefaultRule
     (smallStore(''cn-ip'' \<mapsto> \<lparr> rs_rules = [], rs_metadata = adsMetadata\<lparr>ContainsIPCIDRRule := True, ContainsNonIPCIDRRule := False\<rparr>,
        rs_refs = 0 \<rparr>))
     noOverrides (raw_default_dns_rule_zero\<lparr>d_RuleSet := [''ads'', ''cn-ip'']\<rparr>) DNSActRespond =
   Inl (E_New OptionLegacyDNSAddressFilter)"
  by (subst pure_ip_rule_set_refused)
    (simp_all add: raw_default_dns_rule_zero_def hasResponseMatchFields_def smallStore_def adsMetadata_def)

end
