(* ===== verification/Managed.thy ===== *)
theory Managed
  imports Rule_Action
begin

text \<open>
  What the managers of \<^verbatim>\<open>adapter\<close> and \<^verbatim>\<open>dns\<close> share: the objects they manage, the stages these start in
  (\<^verbatim>\<open>adapter/lifecycle.go\<close>), and the list of objects with its index by tag.

  An object is known by its type, tag and dependencies; \<open>mg_id\<close> stands for the pointer that Go
  compares. The interfaces it implements are flags, and a call of one of its methods is a parameter that acts on the
  state of the rest of the program.
\<close>

section \<open>Stages\<close>

datatype start_stage = StartStateInitialize | StartStateStart | StartStatePostStart | StartStateStarted

fun stageNumber :: "start_stage \<Rightarrow> nat" where
  "stageNumber StartStateInitialize = 0"
| "stageNumber StartStateStart = 1"
| "stageNumber StartStatePostStart = 2"
| "stageNumber StartStateStarted = 3"

lemma stageNumber_inject [simp]: "stageNumber a = stageNumber b \<longleftrightarrow> a = b"
  by (cases a; cases b) simp_all

instantiation start_stage :: linorder
begin

definition less_eq_start_stage :: "start_stage \<Rightarrow> start_stage \<Rightarrow> bool" where
  "less_eq_start_stage a b \<longleftrightarrow> stageNumber a \<le> stageNumber b"

definition less_start_stage :: "start_stage \<Rightarrow> start_stage \<Rightarrow> bool" where
  "less_start_stage a b \<longleftrightarrow> stageNumber a < stageNumber b"

instance
  by standard (auto simp: less_eq_start_stage_def less_start_stage_def)

end

definition ListStartStages :: "start_stage list" where
  "ListStartStages = [StartStateInitialize, StartStateStart, StartStatePostStart, StartStateStarted]"

fun StartStage_String :: "start_stage \<Rightarrow> string" where
  "StartStage_String StartStateInitialize = ''initialize''"
| "StartStage_String StartStateStart = ''start''"
| "StartStage_String StartStatePostStart = ''post-start''"
| "StartStage_String StartStateStarted = ''finish-start''"

section \<open>Objects\<close>

record capabilities =
  cp_Lifecycle :: bool
  cp_PreStart :: bool
  cp_Start :: bool
  cp_PostStart :: bool
  cp_Closer :: bool

record managed =
  mg_id :: nat
  mg_Type :: string
  mg_Tag :: tag
  mg_Dependencies :: "tag list"
  mg_caps :: capabilities

datatype call = CallStart start_stage | CallPreStart | CallSimpleStart | CallPostStart | CallClose

type_synonym 'w caller = "managed \<Rightarrow> call \<Rightarrow> 'w \<Rightarrow> rule_error option \<times> 'w"
type_synonym ('o, 'w) creator = "tag \<Rightarrow> string \<Rightarrow> 'o \<Rightarrow> 'w \<Rightarrow> (rule_error + managed) \<times> 'w"

definition LegacyStart :: "'w caller \<Rightarrow> managed \<Rightarrow> start_stage \<Rightarrow> 'w \<Rightarrow> rule_error option \<times> 'w" where
  "LegacyStart call x stage w =
     (if cp_Lifecycle (mg_caps x) then call x (CallStart stage) w
      else case stage of
             StartStateInitialize \<Rightarrow> if cp_PreStart (mg_caps x) then call x CallPreStart w else (None, w)
           | StartStateStart \<Rightarrow> if cp_Start (mg_caps x) then call x CallSimpleStart w else (None, w)
           | StartStatePostStart \<Rightarrow> (None, w)
           | StartStateStarted \<Rightarrow> if cp_PostStart (mg_caps x) then call x CallPostStart w else (None, w))"

definition managedName :: "string \<Rightarrow> managed \<Rightarrow> string" where
  "managedName kind x = kind @ ''/'' @ mg_Type x @ ''['' @ mg_Tag x @ '']''"

fun startEach ::
  "string \<Rightarrow> 'w caller \<Rightarrow> start_stage \<Rightarrow> managed list \<Rightarrow> 'w \<Rightarrow> rule_error option \<times> 'w" where
  "startEach kind call stage [] w = (None, w)"
| "startEach kind call stage (x # xs) w =
     (case LegacyStart call x stage w of
        (Some e, w) \<Rightarrow> (Some (E_Cause e (StartStage_String stage @ '' '' @ managedName kind x)), w)
      | (None, w) \<Rightarrow> startEach kind call stage xs w)"

text \<open>The stages of an object that is created after the manager has started.\<close>

fun startStages :: "string \<Rightarrow> 'w caller \<Rightarrow> managed \<Rightarrow> start_stage list \<Rightarrow> 'w \<Rightarrow> rule_error option \<times> 'w" where
  "startStages kind call x [] w = (None, w)"
| "startStages kind call x (stage # stages) w =
     (case LegacyStart call x stage w of
        (Some e, w) \<Rightarrow> (Some (E_Cause e (StartStage_String stage @ '' '' @ managedName kind x)), w)
      | (None, w) \<Rightarrow> startStages kind call x stages w)"

text \<open>\<^verbatim>\<open>common.Close\<close> of one object, and the loops of the \<^verbatim>\<open>Close\<close> methods, which collect the errors.\<close>

definition closeOne :: "'w caller \<Rightarrow> managed \<Rightarrow> 'w \<Rightarrow> rule_error option \<times> 'w" where
  "closeOne call x w = (if cp_Closer (mg_caps x) then call x CallClose w else (None, w))"

fun closeEach ::
  "string \<Rightarrow> (managed \<Rightarrow> 'w \<Rightarrow> rule_error option \<times> 'w) \<Rightarrow> managed list \<Rightarrow> 'w \<Rightarrow> rule_error list \<times> 'w" where
  "closeEach kind close [] w = ([], w)"
| "closeEach kind close (x # xs) w =
     (case close x w of
        (e, w) \<Rightarrow>
          (case closeEach kind close xs w of
             (es, w) \<Rightarrow> ((case e of None \<Rightarrow> es | Some e \<Rightarrow> E_Cause e (''close '' @ managedName kind x) # es), w)))"

section \<open>Objects by tag\<close>

text \<open>
  The Go map from tags to objects is an association list with distinct keys. Taking an object out of
  the list panics when it is not there.
\<close>

type_synonym index = "(tag \<times> managed) list"

definition indexUpdate :: "tag \<Rightarrow> managed \<Rightarrow> index \<Rightarrow> index" where
  "indexUpdate t x byTag = (t, x) # filter (\<lambda>p. fst p \<noteq> t) byTag"

definition indexDelete :: "tag \<Rightarrow> index \<Rightarrow> index" where
  "indexDelete t byTag = filter (\<lambda>p. fst p \<noteq> t) byTag"

definition consistent :: "managed list \<Rightarrow> index \<Rightarrow> bool" where
  "consistent xs byTag \<longleftrightarrow>
     distinct (map mg_Tag xs) \<and> distinct (map fst byTag) \<and> set byTag = (\<lambda>x. (mg_Tag x, x)) ` set xs"

lemma consistent_Nil [simp]: "consistent [] []"
  by (simp add: consistent_def)

lemma consistent_lookup:
  assumes "consistent xs byTag"
  shows "map_of byTag t = Some x \<longleftrightarrow> x \<in> set xs \<and> mg_Tag x = t"
  using assms by (auto simp: consistent_def map_of_eq_Some_iff)

lemma consistent_lookup_None:
  assumes "consistent xs byTag"
  shows "map_of byTag t = None \<longleftrightarrow> t \<notin> mg_Tag ` set xs"
proof -
  have "fst ` set byTag = mg_Tag ` set xs" using assms by (force simp: consistent_def image_image)
  then show ?thesis by (simp add: map_of_eq_None_iff)
qed

lemma consistent_remove:
  assumes "consistent xs byTag" "map_of byTag t = Some x"
  shows "x \<in> set xs" "mg_Tag x = t" "consistent (remove1 x xs) (indexDelete t byTag)"
proof -
  show x: "x \<in> set xs" "mg_Tag x = t" using consistent_lookup [OF assms(1)] assms(2) by auto
  have d: "distinct xs" using assms(1) by (simp add: consistent_def distinct_map)
  have "distinct (map mg_Tag (remove1 x xs))" using assms(1) x(1)
    by (auto simp: consistent_def distinct_map inj_on_def dest: notin_set_remove1)
  moreover have "distinct (map fst (indexDelete t byTag))"
    using assms(1) by (auto simp: consistent_def indexDelete_def distinct_map_filter)
  moreover have "set (indexDelete t byTag) = (\<lambda>x. (mg_Tag x, x)) ` set (remove1 x xs)"
  proof -
    have uniq: "y = x" if "y \<in> set xs" "mg_Tag y = t" for y
      using assms(1) that x by (auto simp: consistent_def distinct_map inj_on_def)
    have "set byTag = (\<lambda>x. (mg_Tag x, x)) ` set xs" using assms(1) by (simp add: consistent_def)
    then show ?thesis using d x(2) by (auto simp: indexDelete_def dest: uniq)
  qed
  ultimately show "consistent (remove1 x xs) (indexDelete t byTag)" by (simp add: consistent_def)
qed

lemma consistent_add:
  assumes "consistent xs byTag" "map_of byTag t = None" "mg_Tag x = t"
  shows "consistent (xs @ [x]) (indexUpdate t x byTag)"
  using assms(2) unfolding assms(3) [symmetric]
proof -
  assume none: "map_of byTag (mg_Tag x) = None"
  note assms = assms(1) none
  have "mg_Tag x \<notin> mg_Tag ` set xs" using assms consistent_lookup_None by simp
  moreover have "filter (\<lambda>p. fst p \<noteq> mg_Tag x) byTag = byTag"
    using assms(2) by (force simp: filter_id_conv map_of_eq_None_iff)
  moreover have "mg_Tag x \<notin> fst ` set byTag" using assms(2) by (simp add: map_of_eq_None_iff)
  ultimately show "consistent (xs @ [x]) (indexUpdate (mg_Tag x) x byTag)"
    using assms(1) by (auto simp: consistent_def indexUpdate_def)
qed

lemma consistent_replace:
  assumes "consistent xs byTag" "map_of byTag t = Some y" "mg_Tag x = t"
  shows "consistent (remove1 y xs @ [x]) (indexUpdate t x byTag)"
proof -
  note r = consistent_remove [OF assms(1,2)]
  have "map_of (indexDelete t byTag) t = None"
    by (auto simp: indexDelete_def map_of_eq_None_iff)
  from consistent_add [OF r(3) this assms(3)] show ?thesis by (simp add: indexDelete_def indexUpdate_def)
qed

end
