(* ===== verification/Managers.thy ===== *)
theory Managers
  imports Managed
begin

text \<open>
  The managers of endpoints, inbounds, services and certificate providers (\<^verbatim>\<open>adapter/endpoint/manager.go\<close>,
  \<^verbatim>\<open>adapter/inbound/manager.go\<close>, \<^verbatim>\<open>adapter/service/manager.go\<close>, \<^verbatim>\<open>adapter/certificate/manager.go\<close>). The four have
  the same state and almost the same code; what they share is written once, with their words as a parameter.

  The registry that creates objects is a parameter. Locks are not modelled: every operation runs on its own. Log
  output and the task monitor are left out.
\<close>

record manager =
  mn_started :: bool
  mn_stage :: start_stage
  mn_list :: "managed list"
  mn_byTag :: index

definition newManager :: manager where
  "newManager = \<lparr> mn_started = False, mn_stage = StartStateInitialize, mn_list = [], mn_byTag = [] \<rparr>"

section \<open>What they share\<close>

definition startManager ::
  "string \<Rightarrow> 'w caller \<Rightarrow> (start_stage \<Rightarrow> bool) \<Rightarrow> start_stage \<Rightarrow> manager \<Rightarrow> 'w \<Rightarrow> unit outcome \<times> manager \<times> 'w" where
  "startManager kind call skip stage m w =
     (if mn_started m \<and> stage \<le> mn_stage m then (Panic ''already started'', m, w)
      else let m = m\<lparr>mn_started := True, mn_stage := stage\<rparr> in
           if skip stage then (Ret (), m, w)
           else case startEach kind call stage (mn_list m) w of
                  (Some e, w) \<Rightarrow> (Err e, m, w)
                | (None, w) \<Rightarrow> (Ret (), m, w))"

text \<open>The errors of closing, and the manager without its list. The index is kept.\<close>

definition closeManager ::
  "string \<Rightarrow> 'w caller \<Rightarrow> manager \<Rightarrow> 'w \<Rightarrow> rule_error list \<times> manager \<times> 'w" where
  "closeManager kind call m w =
     (if \<not> mn_started m then ([], m, w)
      else case closeEach kind (\<lambda>x. call x CallClose) (mn_list m) w of
             (es, w) \<Rightarrow> (es, m\<lparr>mn_started := False, mn_list := []\<rparr>, w))"

definition ErrInvalid :: rule_error where
  "ErrInvalid = E_Lib ''invalid argument''"

definition errorOutcome :: "rule_error option \<Rightarrow> unit outcome" where
  "errorOutcome e = (case e of None \<Rightarrow> Ret () | Some e \<Rightarrow> Err e)"

definition removeManaged ::
  "string \<Rightarrow> 'w caller \<Rightarrow> tag \<Rightarrow> manager \<Rightarrow> 'w \<Rightarrow> unit outcome \<times> manager \<times> 'w" where
  "removeManaged noun call t m w =
     (case map_of (mn_byTag m) t of
        None \<Rightarrow> (Err ErrInvalid, m, w)
      | Some x \<Rightarrow>
          let m = m\<lparr>mn_byTag := indexDelete t (mn_byTag m)\<rparr> in
          if x \<notin> set (mn_list m) then (Panic (''invalid '' @ noun @ '' index''), m, w)
          else let m = m\<lparr>mn_list := remove1 x (mn_list m)\<rparr> in
               if mn_started m then (case call x CallClose w of (e, w) \<Rightarrow> (errorOutcome e, m, w))
               else (Ret (), m, w))"

definition createManaged ::
  "string \<Rightarrow> string \<Rightarrow> 'w caller \<Rightarrow> ('o, 'w) creator \<Rightarrow> tag \<Rightarrow> string \<Rightarrow> 'o \<Rightarrow> manager \<Rightarrow> 'w
   \<Rightarrow> unit outcome \<times> manager \<times> 'w" where
  "createManaged kind noun call registry t objectType options m w =
     (case registry t objectType options w of
        (Inl e, w) \<Rightarrow> (Err e, m, w)
      | (Inr x, w) \<Rightarrow>
          (case (if mn_started m then startStages kind call x ListStartStages w else (None, w)) of
             (Some e, w) \<Rightarrow> (Err e, m, w)
           | (None, w) \<Rightarrow>
               (case map_of (mn_byTag m) t of
                  None \<Rightarrow> (Ret (), m\<lparr>mn_list := mn_list m @ [x], mn_byTag := indexUpdate t x (mn_byTag m)\<rparr>, w)
                | Some exists \<Rightarrow>
                    (case (if mn_started m then call exists CallClose w else (None, w)) of
                       (Some e, w) \<Rightarrow> (Err (E_Cause e (''close '' @ managedName kind exists)), m, w)
                     | (None, w) \<Rightarrow>
                         if exists \<notin> set (mn_list m) then (Panic (''invalid '' @ noun @ '' index''), m, w)
                         else (Ret (), m\<lparr>mn_list := remove1 exists (mn_list m) @ [x],
                                         mn_byTag := indexUpdate t x (mn_byTag m)\<rparr>, w)))))"

section \<open>Endpoints\<close>

text \<open>Endpoints are started by the outbound manager in the stage \<^verbatim>\<open>StartStateStart\<close>.\<close>

definition EndpointManager_Start ::
  "'w caller \<Rightarrow> start_stage \<Rightarrow> manager \<Rightarrow> 'w \<Rightarrow> unit outcome \<times> manager \<times> 'w" where
  "EndpointManager_Start call = startManager ''endpoint'' call (\<lambda>stage. stage = StartStateStart)"

definition EndpointManager_Close :: "'w caller \<Rightarrow> manager \<Rightarrow> 'w \<Rightarrow> unit outcome \<times> manager \<times> 'w" where
  "EndpointManager_Close call m w = (case closeManager ''endpoint'' call m w of (_, m, w) \<Rightarrow> (Ret (), m, w))"

definition EndpointManager_Get :: "manager \<Rightarrow> tag \<Rightarrow> managed option" where
  "EndpointManager_Get m t = map_of (mn_byTag m) t"

definition EndpointManager_Remove :: "'w caller \<Rightarrow> tag \<Rightarrow> manager \<Rightarrow> 'w \<Rightarrow> unit outcome \<times> manager \<times> 'w" where
  "EndpointManager_Remove call = removeManaged ''endpoint'' call"

definition EndpointManager_Create ::
  "'w caller \<Rightarrow> ('o, 'w) creator \<Rightarrow> tag \<Rightarrow> string \<Rightarrow> 'o \<Rightarrow> manager \<Rightarrow> 'w \<Rightarrow> unit outcome \<times> manager \<times> 'w" where
  "EndpointManager_Create call registry = createManaged ''endpoint'' ''endpoint'' call registry"

section \<open>Inbounds\<close>

definition InboundManager_Start ::
  "'w caller \<Rightarrow> start_stage \<Rightarrow> manager \<Rightarrow> 'w \<Rightarrow> unit outcome \<times> manager \<times> 'w" where
  "InboundManager_Start call = startManager ''inbound'' call (\<lambda>_. False)"

definition InboundManager_Close :: "'w caller \<Rightarrow> manager \<Rightarrow> 'w \<Rightarrow> unit outcome \<times> manager \<times> 'w" where
  "InboundManager_Close call m w = (case closeManager ''inbound'' call m w of (_, m, w) \<Rightarrow> (Ret (), m, w))"

text \<open>A tag that is no inbound may be an endpoint.\<close>

definition InboundManager_Get :: "manager \<Rightarrow> manager \<Rightarrow> tag \<Rightarrow> managed option" where
  "InboundManager_Get endpoint m t =
     (case map_of (mn_byTag m) t of Some x \<Rightarrow> Some x | None \<Rightarrow> EndpointManager_Get endpoint t)"

definition InboundManager_Remove :: "'w caller \<Rightarrow> tag \<Rightarrow> manager \<Rightarrow> 'w \<Rightarrow> unit outcome \<times> manager \<times> 'w" where
  "InboundManager_Remove call = removeManaged ''inbound'' call"

definition InboundManager_Create ::
  "'w caller \<Rightarrow> ('o, 'w) creator \<Rightarrow> tag \<Rightarrow> string \<Rightarrow> 'o \<Rightarrow> manager \<Rightarrow> 'w \<Rightarrow> unit outcome \<times> manager \<times> 'w" where
  "InboundManager_Create call registry = createManaged ''inbound'' ''inbound'' call registry"

section \<open>Services\<close>

definition ServiceManager_Start ::
  "'w caller \<Rightarrow> start_stage \<Rightarrow> manager \<Rightarrow> 'w \<Rightarrow> unit outcome \<times> manager \<times> 'w" where
  "ServiceManager_Start call = startManager ''service'' call (\<lambda>_. False)"

definition ServiceManager_Close :: "'w caller \<Rightarrow> manager \<Rightarrow> 'w \<Rightarrow> unit outcome \<times> manager \<times> 'w" where
  "ServiceManager_Close call m w = (case closeManager ''service'' call m w of (_, m, w) \<Rightarrow> (Ret (), m, w))"

definition ServiceManager_Get :: "manager \<Rightarrow> tag \<Rightarrow> managed option" where
  "ServiceManager_Get m t = map_of (mn_byTag m) t"

definition ServiceManager_Remove :: "'w caller \<Rightarrow> tag \<Rightarrow> manager \<Rightarrow> 'w \<Rightarrow> unit outcome \<times> manager \<times> 'w" where
  "ServiceManager_Remove call = removeManaged ''service'' call"

definition ServiceManager_Create ::
  "'w caller \<Rightarrow> ('o, 'w) creator \<Rightarrow> tag \<Rightarrow> string \<Rightarrow> 'o \<Rightarrow> manager \<Rightarrow> 'w \<Rightarrow> unit outcome \<times> manager \<times> 'w" where
  "ServiceManager_Create call registry = createManaged ''service'' ''service'' call registry"

section \<open>Certificate providers\<close>

definition CertificateManager_Start ::
  "'w caller \<Rightarrow> start_stage \<Rightarrow> manager \<Rightarrow> 'w \<Rightarrow> unit outcome \<times> manager \<times> 'w" where
  "CertificateManager_Start call = startManager ''certificate-provider'' call (\<lambda>_. False)"

text \<open>Of the four only this one reports the errors of closing.\<close>

definition CertificateManager_Close :: "'w caller \<Rightarrow> manager \<Rightarrow> 'w \<Rightarrow> rule_error list \<times> manager \<times> 'w" where
  "CertificateManager_Close call = closeManager ''certificate-provider'' call"

definition CertificateManager_Get :: "manager \<Rightarrow> tag \<Rightarrow> managed option" where
  "CertificateManager_Get m t = map_of (mn_byTag m) t"

definition CertificateManager_Remove :: "'w caller \<Rightarrow> tag \<Rightarrow> manager \<Rightarrow> 'w \<Rightarrow> unit outcome \<times> manager \<times> 'w" where
  "CertificateManager_Remove call = removeManaged ''certificate provider'' call"

definition CertificateManager_Create ::
  "'w caller \<Rightarrow> ('o, 'w) creator \<Rightarrow> tag \<Rightarrow> string \<Rightarrow> 'o \<Rightarrow> manager \<Rightarrow> 'w \<Rightarrow> unit outcome \<times> manager \<times> 'w" where
  "CertificateManager_Create call registry = createManaged ''certificate-provider'' ''certificate provider'' call registry"

end
