(* ===== verification/Start_Order.thy ===== *)
theory Start_Order
  imports Managed
begin

text \<open>
  The loop that starts objects behind the objects they depend on. \<^verbatim>\<open>startTransports\<close> of
  \<^verbatim>\<open>dns/transport_manager.go\<close> and \<^verbatim>\<open>startOutbounds\<close> of \<^verbatim>\<open>adapter/outbound/manager.go\<close> are the same loop; they
  differ in how one object is started and in the words of their errors, which are parameters here.

  The map \<^verbatim>\<open>started\<close> is the list of its keys in the order in which they are set.
\<close>

record 'w start_loop =
  sl_start :: "managed \<Rightarrow> 'w \<Rightarrow> rule_error option \<times> 'w"
  sl_name :: "managed \<Rightarrow> string"
  sl_noun :: string

section \<open>One pass\<close>

definition ready :: "tag list \<Rightarrow> managed \<Rightarrow> bool" where
  "ready started x \<longleftrightarrow> mg_Tag x \<notin> set started \<and> set (mg_Dependencies x) \<subseteq> set started"

fun startPass ::
  "'w start_loop \<Rightarrow> managed list \<Rightarrow> tag list \<Rightarrow> bool \<Rightarrow> 'w \<Rightarrow> (rule_error + (tag list \<times> bool)) \<times> 'w" where
  "startPass sl [] started canContinue w = (Inr (started, canContinue), w)"
| "startPass sl (x # xs) started canContinue w =
     (if \<not> ready started x then startPass sl xs started canContinue w
      else case sl_start sl x w of
             (Some e, w) \<Rightarrow> (Inl (E_Cause e (''start '' @ sl_name sl x)), w)
           | (None, w) \<Rightarrow> startPass sl xs (started @ [mg_Tag x]) True w)"

section \<open>The reason for a stop\<close>

text \<open>
  \<^verbatim>\<open>common.Find\<close> returns the zero value, here the empty tag, when nothing is found. The tree grows
  by a key of the index in every call, so that the search ends.
\<close>

definition firstMissing :: "tag list \<Rightarrow> managed \<Rightarrow> tag" where
  "firstMissing started x =
     (case find (\<lambda>t. t \<notin> set started) (mg_Dependencies x) of None \<Rightarrow> '''' | Some t \<Rightarrow> t)"

definition circularError :: "string \<Rightarrow> tag list \<Rightarrow> tag \<Rightarrow> rule_error" where
  "circularError noun oTree t =
     E_New (''circular '' @ noun @ '' dependency: '' @ strings_Join oTree '' -> '' @ '' -> '' @ t)"

definition missingError :: "string \<Rightarrow> tag \<Rightarrow> tag \<Rightarrow> rule_error" where
  "missingError noun t user = E_New (''dependency['' @ t @ ''] not found for '' @ noun @ ''['' @ user @ '']'')"

function lintDependency :: "string \<Rightarrow> index \<Rightarrow> tag list \<Rightarrow> tag list \<Rightarrow> managed \<Rightarrow> rule_error" where
  "lintDependency noun byTag started oTree oCurrent =
     (let problemTag = firstMissing started oCurrent in
      if problemTag \<in> set oTree then circularError noun oTree problemTag
      else case map_of byTag problemTag of
             None \<Rightarrow> missingError noun problemTag (mg_Tag oCurrent)
           | Some problem \<Rightarrow> lintDependency noun byTag started (oTree @ [problemTag]) problem)"
  by pat_completeness auto
termination
proof (relation "measure (\<lambda>(_, byTag, _, oTree, _). length (filter (\<lambda>t. t \<notin> set oTree) (map fst byTag)))", goal_cases)
  case (2 noun byTag started oTree oCurrent t problem)
  then have t: "t \<in> set (map fst byTag)" "t \<notin> set oTree" by (force dest: map_of_SomeD)+
  have "length (filter (\<lambda>u. u \<notin> set (oTree @ [t])) ts) < length (filter (\<lambda>u. u \<notin> set oTree) ts)"
    if "t \<in> set ts" for ts :: "tag list"
    using that
  proof (induction ts)
    case (Cons u ts)
    have "length (filter (\<lambda>u. u \<notin> set (oTree @ [t])) ts) \<le> length (filter (\<lambda>u. u \<notin> set oTree) ts)" for ts
      by (induction ts) auto
    with Cons t(2) show ?case by (auto simp: less_Suc_eq_le)
  qed simp
  from this [OF t(1)] show ?case by (simp only: in_measure prod.case)
qed simp

declare lintDependency.simps [simp del]

section \<open>The loop\<close>

lemma startPass_grows:
  "startPass sl xs started can w = (Inr (started', can'), w') \<Longrightarrow>
   \<exists>new. started' = started @ new \<and> distinct new \<and> set new \<subseteq> mg_Tag ` set xs - set started \<and>
     (can' \<longleftrightarrow> can \<or> new \<noteq> [])"
proof (induction xs arbitrary: started can w)
  case (Cons x xs)
  show ?case
  proof (cases "ready started x")
    case True
    with Cons.prems obtain w1 where "startPass sl xs (started @ [mg_Tag x]) True w1 = (Inr (started', can'), w')"
      by (auto split: prod.splits option.splits)
    from Cons.IH [OF this] obtain new where
      "started' = started @ mg_Tag x # new" "distinct new" "set new \<subseteq> mg_Tag ` set xs - set (started @ [mg_Tag x])" "can'"
      by auto
    with True show ?thesis by (intro exI [of _ "mg_Tag x # new"]) (auto simp: ready_def)
  next
    case False
    with Cons.prems have "startPass sl xs started can w = (Inr (started', can'), w')" by simp
    from Cons.IH [OF this] show ?thesis by force
  qed
qed auto

definition pending :: "managed list \<Rightarrow> tag list \<Rightarrow> managed list" where
  "pending xs started = filter (\<lambda>x. mg_Tag x \<notin> set started) xs"

lemma pending_less:
  assumes "set new \<subseteq> mg_Tag ` set xs - set started" "new \<noteq> []"
  shows "length (pending xs (started @ new)) < length (pending xs started)"
proof -
  have eq: "pending xs (started @ new) = filter (\<lambda>x. mg_Tag x \<notin> set new) (pending xs started)"
    by (auto simp: pending_def intro: filter_cong)
  obtain t where "t \<in> set new" using assms(2) by (cases new) auto
  with assms(1) obtain x where "x \<in> set (pending xs started)" "mg_Tag x \<in> set new" by (auto simp: pending_def)
  then show ?thesis unfolding eq by (intro length_filter_less) auto
qed

function startLoop ::
  "'w start_loop \<Rightarrow> index \<Rightarrow> managed list \<Rightarrow> tag list \<Rightarrow> 'w \<Rightarrow> unit outcome \<times> 'w" where
  "startLoop sl byTag xs started w =
     (case startPass sl xs started False w of
        (Inl e, w) \<Rightarrow> (Err e, w)
      | (Inr (started', canContinue), w) \<Rightarrow>
          if length started' = length xs then (Ret (), w)
          else if canContinue then startLoop sl byTag xs started' w
          else case find (\<lambda>x. mg_Tag x \<notin> set started') xs of
                 None \<Rightarrow> (Panic ''nil dereference'', w)
               | Some current \<Rightarrow> (Err (lintDependency (sl_noun sl) byTag started' [mg_Tag current] current), w))"
  by pat_completeness auto
termination
proof (relation "measure (\<lambda>(_, _, xs, started, _). length (pending xs started))", goal_cases)
  case (2 sl byTag xs started w y w' p started' can)
  then have "startPass sl xs started False w = (Inr (started', True), w')" by simp
  from startPass_grows [OF this] show ?case by (auto intro: pending_less)
qed simp

declare startLoop.simps [simp del]

end
