(* ===== verification/Outbound_Manager.thy ===== *)
theory Outbound_Manager
  imports Managers Start_Order
begin

text \<open>
  The manager of outbounds, \<^verbatim>\<open>adapter/outbound/manager.go\<close>. In the stage \<^verbatim>\<open>StartStateStart\<close> it starts outbounds and endpoints
  behind their dependencies. It records which tags depend on a tag and keeps a default outbound.

  The fallback of the default and the registry are parameters. The default is the object itself.
\<close>

record outbound_manager =
  om_defaultTag :: tag
  om_started :: bool
  om_stage :: start_stage
  om_outbounds :: "managed list"
  om_outboundByTag :: index
  om_dependByTag :: "(tag \<times> tag list) list"
  om_defaultOutbound :: "managed option"

definition newOutboundManager :: "tag \<Rightarrow> outbound_manager" where
  "newOutboundManager defaultTag =
     \<lparr> om_defaultTag = defaultTag, om_started = False, om_stage = StartStateInitialize, om_outbounds = [],
       om_outboundByTag = [], om_dependByTag = [], om_defaultOutbound = None \<rparr>"

section \<open>The users of a tag\<close>

text \<open>The map \<^verbatim>\<open>dependByTag\<close>; reading a missing key gives the empty list.\<close>

definition dependBy :: "(tag \<times> tag list) list \<Rightarrow> tag \<Rightarrow> tag list" where
  "dependBy m t = (case map_of m t of None \<Rightarrow> [] | Some ts \<Rightarrow> ts)"

definition dependSet :: "tag \<Rightarrow> tag list \<Rightarrow> (tag \<times> tag list) list \<Rightarrow> (tag \<times> tag list) list" where
  "dependSet t ts m = (t, ts) # filter (\<lambda>p. fst p \<noteq> t) m"

definition dependDelete :: "tag \<Rightarrow> (tag \<times> tag list) list \<Rightarrow> (tag \<times> tag list) list" where
  "dependDelete t m = filter (\<lambda>p. fst p \<noteq> t) m"

definition addUsers :: "tag \<Rightarrow> tag list \<Rightarrow> (tag \<times> tag list) list \<Rightarrow> (tag \<times> tag list) list" where
  "addUsers t dependencies m = foldl (\<lambda>m d. dependSet d (dependBy m d @ [t]) m) m dependencies"

definition dropUsers :: "tag \<Rightarrow> tag list \<Rightarrow> (tag \<times> tag list) list \<Rightarrow> (tag \<times> tag list) list" where
  "dropUsers t dependencies m =
     foldl (\<lambda>m d. if length (dependBy m d) = 1 then dependDelete d m
                  else dependSet d (filter (\<lambda>it. it \<noteq> t) (dependBy m d)) m) m dependencies"

section \<open>Starting\<close>

text \<open>An outbound is started through the interface it has; both interfaces are those of \<^verbatim>\<open>LegacyStart\<close>.\<close>

definition outboundLoop :: "'w caller \<Rightarrow> 'w start_loop" where
  "outboundLoop call =
     \<lparr> sl_start = (\<lambda>x w. if cp_Lifecycle (mg_caps x) then call x (CallStart StartStateStart) w
                         else if cp_Start (mg_caps x) then call x CallSimpleStart w else (None, w)),
       sl_name = managedName ''outbound'', sl_noun = ''outbound'' \<rparr>"

definition startOutbounds :: "'w caller \<Rightarrow> index \<Rightarrow> managed list \<Rightarrow> 'w \<Rightarrow> unit outcome \<times> 'w" where
  "startOutbounds call byTag outbounds w = startLoop (outboundLoop call) byTag outbounds [] w"

text \<open>The default for the stage, or the error; a default from the endpoints is not added to the outbounds.\<close>

definition resolveDefaultOutbound ::
  "('w \<Rightarrow> (rule_error + managed) \<times> 'w) \<Rightarrow> manager \<Rightarrow> outbound_manager \<Rightarrow> 'w
   \<Rightarrow> (rule_error + outbound_manager) \<times> 'w" where
  "resolveDefaultOutbound fallback endpoint m w =
     (case (if om_defaultTag m \<noteq> '''' \<and> om_defaultOutbound m = None
            then (case EndpointManager_Get endpoint (om_defaultTag m) of
                    None \<Rightarrow> Inl (E_NewArg ''default outbound not found: '' (om_defaultTag m))
                  | Some x \<Rightarrow> Inr (m\<lparr>om_defaultOutbound := Some x\<rparr>))
            else Inr m) of
        Inl e \<Rightarrow> (Inl e, w)
      | Inr m \<Rightarrow>
          if om_defaultOutbound m = None
          then (case fallback w of
                  (Inl e, w) \<Rightarrow> (Inl (E_Cause e ''create direct outbound for fallback''), w)
                | (Inr x, w) \<Rightarrow>
                    (Inr (m\<lparr>om_outbounds := om_outbounds m @ [x],
                            om_outboundByTag := indexUpdate (mg_Tag x) x (om_outboundByTag m),
                            om_defaultOutbound := Some x\<rparr>), w))
          else (Inr m, w))"

definition OutboundManager_Start ::
  "'w caller \<Rightarrow> ('w \<Rightarrow> (rule_error + managed) \<times> 'w) \<Rightarrow> manager \<Rightarrow> start_stage \<Rightarrow> outbound_manager \<Rightarrow> 'w
   \<Rightarrow> unit outcome \<times> outbound_manager \<times> 'w" where
  "OutboundManager_Start call fallback endpoint stage m w =
     (if om_started m \<and> stage \<le> om_stage m then (Panic ''already started'', m, w)
      else let m = m\<lparr>om_started := True, om_stage := stage\<rparr> in
           if stage = StartStateStart
           then (case resolveDefaultOutbound fallback endpoint m w of
                   (Inl e, w) \<Rightarrow> (Err e, m, w)
                 | (Inr m, w) \<Rightarrow>
                     (case startOutbounds call (om_outboundByTag m) (om_outbounds m @ mn_list endpoint) w of
                        (result, w) \<Rightarrow> (result, m, w)))
           else (case startEach ''outbound'' call stage (om_outbounds m) w of
                   (Some e, w) \<Rightarrow> (Err e, m, w)
                 | (None, w) \<Rightarrow> (Ret (), m, w)))"

section \<open>The other operations\<close>

text \<open>The errors of closing are collected and dropped.\<close>

definition OutboundManager_Close ::
  "'w caller \<Rightarrow> outbound_manager \<Rightarrow> 'w \<Rightarrow> unit outcome \<times> outbound_manager \<times> 'w" where
  "OutboundManager_Close call m w =
     (if \<not> om_started m then (Ret (), m, w)
      else case closeEach ''outbound'' (closeOne call) (om_outbounds m) w of
             (_, w) \<Rightarrow> (Ret (), m\<lparr>om_started := False, om_outbounds := []\<rparr>, w))"

definition OutboundManager_Outbound :: "manager \<Rightarrow> outbound_manager \<Rightarrow> tag \<Rightarrow> managed option" where
  "OutboundManager_Outbound endpoint m t =
     (case map_of (om_outboundByTag m) t of Some x \<Rightarrow> Some x | None \<Rightarrow> EndpointManager_Get endpoint t)"

definition OutboundManager_Default :: "outbound_manager \<Rightarrow> managed option" where
  "OutboundManager_Default m = om_defaultOutbound m"

definition dependedError :: "string \<Rightarrow> tag \<Rightarrow> tag list \<Rightarrow> rule_error" where
  "dependedError noun t users = E_New (noun @ ''['' @ t @ ''] is depended by '' @ strings_Join users '', '')"

definition OutboundManager_Remove ::
  "'w caller \<Rightarrow> tag \<Rightarrow> outbound_manager \<Rightarrow> 'w \<Rightarrow> unit outcome \<times> outbound_manager \<times> 'w" where
  "OutboundManager_Remove call t m w =
     (case map_of (om_outboundByTag m) t of
        None \<Rightarrow> (Err ErrInvalid, m, w)
      | Some x \<Rightarrow>
          let m = m\<lparr>om_outboundByTag := indexDelete t (om_outboundByTag m)\<rparr> in
          if x \<notin> set (om_outbounds m) then (Panic ''invalid inbound index'', m, w)
          else
            let m = m\<lparr>om_outbounds := remove1 x (om_outbounds m)\<rparr>;
                m = (if om_defaultOutbound m = Some x
                     then m\<lparr>om_defaultOutbound := (case om_outbounds m of [] \<Rightarrow> None | y # _ \<Rightarrow> Some y)\<rparr> else m);
                users = dependBy (om_dependByTag m) t
            in if users \<noteq> [] then (Err (dependedError ''outbound'' t users), m, w)
               else
                 let m = m\<lparr>om_dependByTag := dropUsers t (mg_Dependencies x) (om_dependByTag m)\<rparr>
                 in if om_started m then (case closeOne call x w of (e, w) \<Rightarrow> (errorOutcome e, m, w))
                    else (Ret (), m, w))"

text \<open>The end of \<^verbatim>\<open>Create\<close>.\<close>

definition insertOutbound :: "tag \<Rightarrow> managed \<Rightarrow> outbound_manager \<Rightarrow> outbound_manager" where
  "insertOutbound t x m =
     (let m = m\<lparr>om_outbounds := om_outbounds m @ [x],
                om_outboundByTag := indexUpdate t x (om_outboundByTag m),
                om_dependByTag := addUsers t (mg_Dependencies x) (om_dependByTag m)\<rparr>
      in if t = om_defaultTag m \<or> om_defaultTag m = '''' \<and> om_defaultOutbound m = None
         then m\<lparr>om_defaultOutbound := Some x\<rparr> else m)"

definition OutboundManager_Create ::
  "'w caller \<Rightarrow> ('o, 'w) creator \<Rightarrow> tag \<Rightarrow> string \<Rightarrow> 'o \<Rightarrow> outbound_manager \<Rightarrow> 'w
   \<Rightarrow> unit outcome \<times> outbound_manager \<times> 'w" where
  "OutboundManager_Create call registry t outboundType options m w =
     (if t = '''' then (Err ErrInvalid, m, w)
      else case registry t outboundType options w of
        (Inl e, w) \<Rightarrow> (Err e, m, w)
      | (Inr x, w) \<Rightarrow>
          (case (if om_started m then startStages ''outbound'' call x ListStartStages w else (None, w)) of
             (Some e, w) \<Rightarrow> (Err e, m, w)
           | (None, w) \<Rightarrow>
               (case map_of (om_outboundByTag m) t of
                  None \<Rightarrow> (Ret (), insertOutbound t x m, w)
                | Some exists \<Rightarrow>
                    (case (if om_started m then closeOne call exists w else (None, w)) of
                       (Some e, w) \<Rightarrow> (Err (E_Cause e (''close '' @ managedName ''outbound'' exists)), m, w)
                     | (None, w) \<Rightarrow>
                         if exists \<notin> set (om_outbounds m) then (Panic ''invalid inbound index'', m, w)
                         else (Ret (), insertOutbound t x (m\<lparr>om_outbounds := remove1 exists (om_outbounds m)\<rparr>), w)))))"

end
