(* ===== verification/Transport_Manager.thy ===== *)
theory Transport_Manager
  imports Outbound_Manager DNS_Router
begin

text \<open>
  The manager of DNS servers, \<^verbatim>\<open>dns/transport_manager.go\<close>: like the outbound manager, with the FakeIP server and the rule
  that the default server is none. The maps of users of a tag are those of \<open>Outbound_Manager\<close>.
\<close>

record transport_manager =
  tm_defaultTag :: tag
  tm_started :: bool
  tm_stage :: start_stage
  tm_transports :: "managed list"
  tm_transportByTag :: index
  tm_dependByTag :: "(tag \<times> tag list) list"
  tm_defaultTransport :: "managed option"
  tm_fakeIPTransport :: "managed option"

definition NewTransportManager :: "tag \<Rightarrow> transport_manager" where
  "NewTransportManager defaultTag =
     \<lparr> tm_defaultTag = defaultTag, tm_started = False, tm_stage = StartStateInitialize, tm_transports = [],
       tm_transportByTag = [], tm_dependByTag = [], tm_defaultTransport = None, tm_fakeIPTransport = None \<rparr>"

section \<open>Starting\<close>

definition transportLoop :: "'w caller \<Rightarrow> 'w start_loop" where
  "transportLoop call =
     \<lparr> sl_start = (\<lambda>x w. if cp_Lifecycle (mg_caps x) then call x (CallStart StartStateStart) w else (None, w)),
       sl_name = managedName ''dns'', sl_noun = ''server'' \<rparr>"

definition startTransports :: "'w caller \<Rightarrow> index \<Rightarrow> managed list \<Rightarrow> 'w \<Rightarrow> unit outcome \<times> 'w" where
  "startTransports call byTag transports w = startLoop (transportLoop call) byTag transports [] w"

definition resolveDefaultTransport ::
  "('w \<Rightarrow> (rule_error + managed) \<times> 'w) \<Rightarrow> transport_manager \<Rightarrow> 'w \<Rightarrow> (rule_error + transport_manager) \<times> 'w" where
  "resolveDefaultTransport fallback m w =
     (if tm_defaultTag m \<noteq> '''' \<and> tm_defaultTransport m = None
      then (Inl (E_NewArg ''default DNS server not found: '' (tm_defaultTag m)), w)
      else if tm_defaultTransport m = None
      then (case fallback w of
              (Inl e, w) \<Rightarrow> (Inl (E_Cause e ''default DNS server fallback''), w)
            | (Inr x, w) \<Rightarrow>
                (Inr (m\<lparr>tm_transports := tm_transports m @ [x],
                        tm_transportByTag := indexUpdate (mg_Tag x) x (tm_transportByTag m),
                        tm_defaultTransport := Some x\<rparr>), w))
      else (Inr m, w))"

definition TransportManager_Start ::
  "'w caller \<Rightarrow> ('w \<Rightarrow> (rule_error + managed) \<times> 'w) \<Rightarrow> start_stage \<Rightarrow> transport_manager \<Rightarrow> 'w
   \<Rightarrow> unit outcome \<times> transport_manager \<times> 'w" where
  "TransportManager_Start call fallback stage m w =
     (if tm_started m \<and> stage \<le> tm_stage m then (Panic ''already started'', m, w)
      else let m = m\<lparr>tm_started := True, tm_stage := stage\<rparr> in
           if stage = StartStateStart
           then (case resolveDefaultTransport fallback m w of
                   (Inl e, w) \<Rightarrow> (Err e, m, w)
                 | (Inr m, w) \<Rightarrow>
                     (case startTransports call (tm_transportByTag m) (tm_transports m) w of
                        (result, w) \<Rightarrow> (result, m, w)))
           else (case startEach ''dns'' call stage (tm_transports m) w of
                   (Some e, w) \<Rightarrow> (Err e, m, w)
                 | (None, w) \<Rightarrow> (Ret (), m, w)))"

section \<open>The other operations\<close>

definition TransportManager_Close ::
  "'w caller \<Rightarrow> transport_manager \<Rightarrow> 'w \<Rightarrow> unit outcome \<times> transport_manager \<times> 'w" where
  "TransportManager_Close call m w =
     (if \<not> tm_started m then (Ret (), m, w)
      else case closeEach ''server'' (closeOne call) (tm_transports m) w of
             (_, w) \<Rightarrow> (Ret (), m\<lparr>tm_started := False, tm_transports := []\<rparr>, w))"

definition TransportManager_Transport :: "transport_manager \<Rightarrow> tag \<Rightarrow> managed option" where
  "TransportManager_Transport m t = map_of (tm_transportByTag m) t"

definition TransportManager_Default :: "transport_manager \<Rightarrow> managed option" where
  "TransportManager_Default m = tm_defaultTransport m"

definition TransportManager_FakeIP :: "transport_manager \<Rightarrow> managed option" where
  "TransportManager_FakeIP m = tm_fakeIPTransport m"

definition fakeIPDefaultError :: rule_error where
  "fakeIPDefaultError = E_New ''default server cannot be fakeip''"

text \<open>
  The next default after a removal. The code refuses the next server when its type is \<^emph>\<open>not\<close> the FakeIP type.
\<close>

definition nextDefault :: "managed \<Rightarrow> transport_manager \<Rightarrow> rule_error + transport_manager" where
  "nextDefault x m =
     (if tm_defaultTransport m = Some x
      then (case tm_transports m of
              [] \<Rightarrow> Inr (m\<lparr>tm_defaultTransport := None\<rparr>)
            | y # _ \<Rightarrow> if mg_Type y \<noteq> DNSTypeFakeIP then Inl fakeIPDefaultError
                        else Inr (m\<lparr>tm_defaultTransport := Some y\<rparr>))
      else Inr m)"

definition TransportManager_Remove ::
  "'w caller \<Rightarrow> tag \<Rightarrow> transport_manager \<Rightarrow> 'w \<Rightarrow> unit outcome \<times> transport_manager \<times> 'w" where
  "TransportManager_Remove call t m w =
     (case map_of (tm_transportByTag m) t of
        None \<Rightarrow> (Err ErrInvalid, m, w)
      | Some x \<Rightarrow>
          let m = m\<lparr>tm_transportByTag := indexDelete t (tm_transportByTag m)\<rparr> in
          if x \<notin> set (tm_transports m) then (Panic ''invalid inbound index'', m, w)
          else
            let m = m\<lparr>tm_transports := remove1 x (tm_transports m)\<rparr> in
            case nextDefault x m of
              Inl e \<Rightarrow> (Err e, m, w)
            | Inr m \<Rightarrow>
                let users = dependBy (tm_dependByTag m) t in
                if users \<noteq> [] then (Err (dependedError ''server'' t users), m, w)
                else
                  let m = m\<lparr>tm_dependByTag := dropUsers t (mg_Dependencies x) (tm_dependByTag m)\<rparr>
                  in if tm_started m then (case call x CallClose w of (_, w) \<Rightarrow> (Ret (), m, w)) else (Ret (), m, w))"

text \<open>The end of \<^verbatim>\<open>Create\<close>: the new transport is listed before the checks on FakeIP servers.\<close>

definition insertTransport :: "tag \<Rightarrow> managed \<Rightarrow> transport_manager \<Rightarrow> unit outcome \<times> transport_manager" where
  "insertTransport t x m =
     (let m = m\<lparr>tm_transports := tm_transports m @ [x],
                tm_transportByTag := indexUpdate t x (tm_transportByTag m),
                tm_dependByTag := addUsers t (mg_Dependencies x) (tm_dependByTag m)\<rparr>;
          becomesDefault = (t = tm_defaultTag m \<or> tm_defaultTag m = '''' \<and> tm_defaultTransport m = None)
      in if becomesDefault \<and> mg_Type x = DNSTypeFakeIP then (Err fakeIPDefaultError, m)
         else let m = (if becomesDefault then m\<lparr>tm_defaultTransport := Some x\<rparr> else m) in
              if mg_Type x = DNSTypeFakeIP
              then (if tm_fakeIPTransport m \<noteq> None then (Err (E_New ''multiple fakeip server are not supported''), m)
                    else (Ret (), m\<lparr>tm_fakeIPTransport := Some x\<rparr>))
              else (Ret (), m))"

definition TransportManager_Create ::
  "'w caller \<Rightarrow> ('o, 'w) creator \<Rightarrow> tag \<Rightarrow> string \<Rightarrow> 'o \<Rightarrow> transport_manager \<Rightarrow> 'w
   \<Rightarrow> unit outcome \<times> transport_manager \<times> 'w" where
  "TransportManager_Create call registry t transportType options m w =
     (if t = '''' then (Err ErrInvalid, m, w)
      else case registry t transportType options w of
        (Inl e, w) \<Rightarrow> (Err e, m, w)
      | (Inr x, w) \<Rightarrow>
          (case (if tm_started m then startStages ''dns'' call x ListStartStages w else (None, w)) of
             (Some e, w) \<Rightarrow> (Err e, m, w)
           | (None, w) \<Rightarrow>
               (case map_of (tm_transportByTag m) t of
                  None \<Rightarrow> (case insertTransport t x m of (result, m) \<Rightarrow> (result, m, w))
                | Some exists \<Rightarrow>
                    (case (if tm_started m then closeOne call exists w else (None, w)) of
                       (Some e, w) \<Rightarrow> (Err (E_Cause e (''close '' @ managedName ''dns'' exists)), m, w)
                     | (None, w) \<Rightarrow>
                         if exists \<notin> set (tm_transports m) then (Panic ''invalid inbound index'', m, w)
                         else (case insertTransport t x (m\<lparr>tm_transports := remove1 exists (tm_transports m)\<rparr>) of
                                 (result, m) \<Rightarrow> (result, m, w))))))"

end
