(* ===== verification/Start_Order_Facts.thy ===== *)
theory Start_Order_Facts
  imports Start_Order "HOL-Library.Multiset"
begin

text \<open>
  The start loop against its specification: it succeeds exactly when the objects can be ordered so that
  each follows its dependencies, it then has started all of them in such an order, and otherwise its error names a real cycle
  or a dependency that is not there.
\<close>

section \<open>Orders\<close>

fun orderedFrom :: "tag list \<Rightarrow> managed list \<Rightarrow> bool" where
  "orderedFrom started [] \<longleftrightarrow> True"
| "orderedFrom started (x # xs) \<longleftrightarrow> set (mg_Dependencies x) \<subseteq> set started \<and> orderedFrom (started @ [mg_Tag x]) xs"

definition orderable :: "managed list \<Rightarrow> bool" where
  "orderable xs \<longleftrightarrow> (\<exists>order. mset order = mset xs \<and> orderedFrom [] order)"

lemma orderedFrom_append:
  "orderedFrom started (xs @ ys) \<longleftrightarrow> orderedFrom started xs \<and> orderedFrom (started @ map mg_Tag xs) ys"
  by (induction xs arbitrary: started) auto

definition runAll :: "'w start_loop \<Rightarrow> managed list \<Rightarrow> 'w \<Rightarrow> 'w" where
  "runAll sl xs w = foldl (\<lambda>w x. snd (sl_start sl x w)) w xs"

lemma runAll_simps [simp]:
  "runAll sl [] w = w" "runAll sl (x # xs) w = runAll sl xs (snd (sl_start sl x w))"
  "runAll sl (xs @ ys) w = runAll sl ys (runAll sl xs w)"
  by (simp_all add: runAll_def)

section \<open>A pass\<close>

lemma startPass_run:
  "startPass sl xs started can w = (Inr (started', can'), w') \<Longrightarrow>
   \<exists>new. started' = started @ map mg_Tag new \<and> orderedFrom started new \<and> set new \<subseteq> set xs \<and>
     w' = runAll sl new w \<and> distinct (map mg_Tag new) \<and> set (map mg_Tag new) \<inter> set started = {} \<and>
     (can' \<longrightarrow> can \<or> new \<noteq> []) \<and> (\<not> can' \<longrightarrow> \<not> can \<and> (\<forall>x \<in> set xs. \<not> ready started x))"
proof (induction xs arbitrary: started can w)
  case (Cons x xs)
  show ?case
  proof (cases "ready started x")
    case True
    with Cons.prems obtain w1 where w1: "sl_start sl x w = (None, w1)"
      and rest: "startPass sl xs (started @ [mg_Tag x]) True w1 = (Inr (started', can'), w')"
      by (auto split: prod.splits option.splits)
    from Cons.IH [OF rest] obtain new where
      "started' = started @ mg_Tag x # map mg_Tag new" "orderedFrom (started @ [mg_Tag x]) new" "set new \<subseteq> set xs"
      "w' = runAll sl new w1" "distinct (map mg_Tag new)" "set (map mg_Tag new) \<inter> set (started @ [mg_Tag x]) = {}" "can'"
      by auto
    with True w1 show ?thesis by (intro exI [of _ "x # new"]) (auto simp: ready_def)
  next
    case False
    with Cons.prems have "startPass sl xs started can w = (Inr (started', can'), w')" by simp
    from Cons.IH [OF this] obtain new where
      "started' = started @ map mg_Tag new \<and> orderedFrom started new \<and> set new \<subseteq> set xs \<and>
       w' = runAll sl new w \<and> distinct (map mg_Tag new) \<and> set (map mg_Tag new) \<inter> set started = {} \<and>
       (can' \<longrightarrow> can \<or> new \<noteq> []) \<and> (\<not> can' \<longrightarrow> \<not> can \<and> (\<forall>x \<in> set xs. \<not> ready started x))" ..
    with False show ?thesis by (intro exI [of _ new]) auto
  qed
qed auto

lemma startPass_ok:
  "(\<And>x w. x \<in> set xs \<Longrightarrow> fst (sl_start sl x w) = None) \<Longrightarrow> \<exists>r w'. startPass sl xs started can w = (Inr r, w')"
proof (induction xs arbitrary: started can w)
  case (Cons x xs)
  have "fst (sl_start sl x w) = None" using Cons.prems by simp
  with Cons.IH [OF Cons.prems] show ?case by (cases "sl_start sl x w") auto
qed simp

lemma startPass_errors:
  "startPass sl xs started can w = (Inl e, w') \<Longrightarrow>
   \<exists>x \<in> set xs. \<exists>w1 e1. fst (sl_start sl x w1) = Some e1 \<and> e = E_Cause e1 (''start '' @ sl_name sl x)"
proof (induction xs arbitrary: started can w)
  case (Cons x xs)
  then show ?case
    by (auto split: if_splits prod.splits option.splits) (metis fst_conv)+
qed simp

section \<open>A stop\<close>

lemma not_ready_missing:
  assumes "\<not> ready started x" "mg_Tag x \<notin> set started"
  shows "firstMissing started x \<in> set (mg_Dependencies x)" "firstMissing started x \<notin> set started"
proof -
  from assms obtain t where "t \<in> set (mg_Dependencies x)" "t \<notin> set started" by (auto simp: ready_def)
  then obtain u where u: "find (\<lambda>t. t \<notin> set started) (mg_Dependencies x) = Some u" by (metis (mono_tags) find_None_iff option.exhaust)
  then have "u \<in> set (mg_Dependencies x)" "u \<notin> set started" by (auto simp: find_Some_iff)
  then show "firstMissing started x \<in> set (mg_Dependencies x)" "firstMissing started x \<notin> set started"
    by (simp_all add: firstMissing_def u)
qed

lemma stuck_not_orderable:
  assumes stuck: "\<forall>x \<in> set xs. \<not> ready started x" and x: "x \<in> set xs" "mg_Tag x \<notin> set started"
  shows "\<not> orderable xs"
proof
  assume "orderable xs"
  then obtain order where order: "mset order = mset xs" "orderedFrom [] order" by (auto simp: orderable_def)
  have "set order = set xs" using mset_eq_setD [OF order(1)] .
  with x have "\<exists>y \<in> set order. mg_Tag y \<notin> set started" by blast
  from split_list_first_prop [OF this] obtain a y b where
    split: "order = a @ y # b" "mg_Tag y \<notin> set started" "\<forall>z \<in> set a. mg_Tag z \<in> set started" by auto
  with order(2) have "set (mg_Dependencies y) \<subseteq> set (map mg_Tag a)" by (auto simp: orderedFrom_append)
  with split have "ready started y" by (auto simp: ready_def)
  moreover have "y \<in> set xs" using \<open>set order = set xs\<close> split(1) by auto
  ultimately show False using stuck by blast
qed

definition needs :: "managed list \<Rightarrow> tag \<Rightarrow> tag \<Rightarrow> bool" where
  "needs xs u v \<longleftrightarrow> (\<exists>x \<in> set xs. mg_Tag x = u \<and> v \<in> set (mg_Dependencies x))"

text \<open>What an error of a stopped loop says about the objects.\<close>

definition explains :: "string \<Rightarrow> index \<Rightarrow> managed list \<Rightarrow> rule_error \<Rightarrow> bool" where
  "explains noun byTag xs e \<longleftrightarrow>
     (\<exists>path t. t \<in> set path \<and> successively (needs xs) (path @ [t]) \<and> e = circularError noun path t) \<or>
     (\<exists>x t. x \<in> set xs \<and> t \<in> set (mg_Dependencies x) \<and> map_of byTag t = None \<and> e = missingError noun t (mg_Tag x))"

lemma lint_explains:
  assumes "\<forall>x \<in> set xs. \<not> ready started x" "\<And>t x. map_of byTag t = Some x \<Longrightarrow> x \<in> set xs \<and> mg_Tag x = t"
    "current \<in> set xs" "mg_Tag current \<notin> set started" "oTree \<noteq> []" "last oTree = mg_Tag current" "successively (needs xs) oTree"
  shows "explains noun byTag xs (lintDependency noun byTag started oTree current)"
  using assms
proof (induction noun byTag started oTree current rule: lintDependency.induct)
  case (1 noun byTag started oTree current)
  define t where "t = firstMissing started current"
  have t: "t \<in> set (mg_Dependencies current)" "t \<notin> set started"
    using not_ready_missing [of started current] 1(2,4,5) by (auto simp: t_def)
  have chain: "successively (needs xs) (oTree @ [t])"
    using 1(4,6-8) t(1) by (auto simp: successively_append_iff needs_def)
  note unf = lintDependency.simps [of noun byTag started oTree current, folded t_def]
  show ?case
  proof (cases "t \<in> set oTree")
    case True
    then show ?thesis using chain by (auto simp: unf Let_def explains_def)
  next
    case False
    show ?thesis
    proof (cases "map_of byTag t")
      case None
      with False t(1) 1(4) show ?thesis by (auto simp: unf Let_def explains_def)
    next
      case (Some problem)
      with 1(3) have "problem \<in> set xs" "mg_Tag problem = t" by auto
      with 1(1) [OF t_def False Some] 1(2,3) t(2) chain False Some show ?thesis by (simp add: unf Let_def)
    qed
  qed
qed

section \<open>The loop\<close>

lemma find_first_pending:
  assumes "\<exists>x \<in> set xs. P x"
  obtains x where "find P xs = Some x" "x \<in> set xs" "P x"
proof (cases "find P xs")
  case None
  with assms show thesis by (auto simp: find_None_iff)
next
  case (Some x)
  with that show thesis by (auto simp: find_Some_iff)
qed

lemma same_length_same_objects:
  assumes "distinct (map mg_Tag xs)" "set ys \<subseteq> set xs" "distinct (map mg_Tag ys)" "length ys = length xs"
  shows "mset ys = mset xs"
proof -
  have d: "distinct xs" "distinct ys" using assms(1,3) by (simp_all add: distinct_map)
  with assms(4) have "card (set ys) = card (set xs)" by (simp add: distinct_card)
  with assms(2) have "set ys = set xs" by (simp add: card_subset_eq)
  with d show ?thesis by (simp add: set_eq_iff_mset_eq_distinct)
qed

lemma shorter_pending:
  assumes "distinct (map mg_Tag xs)" "set ys \<subseteq> set xs" "distinct (map mg_Tag ys)" "length ys \<noteq> length xs"
  shows "\<exists>x \<in> set xs. mg_Tag x \<notin> set (map mg_Tag ys)"
proof (rule ccontr)
  assume "\<not> ?thesis"
  then have "set (map mg_Tag xs) = set (map mg_Tag ys)" using assms(2) by auto
  then have "length (map mg_Tag xs) = length (map mg_Tag ys)" using assms(1,3) by (metis distinct_card)
  with assms(4) show False by simp
qed

lemma startLoop_outcome:
  assumes "distinct (map mg_Tag xs)" "\<And>t x. map_of byTag t = Some x \<Longrightarrow> x \<in> set xs \<and> mg_Tag x = t"
    "\<And>x w. x \<in> set xs \<Longrightarrow> fst (sl_start sl x w) = None"
    "set old \<subseteq> set xs" "distinct (map mg_Tag old)" "started = map mg_Tag old"
  shows "(\<exists>new. startLoop sl byTag xs started w = (Ret (), runAll sl new w) \<and> mset (old @ new) = mset xs \<and> orderedFrom started new) \<or>
    \<not> orderable xs \<and> (\<exists>e w'. startLoop sl byTag xs started w = (Err e, w') \<and> explains (sl_noun sl) byTag xs e)"
  using assms
proof (induction sl byTag xs started w arbitrary: old rule: startLoop.induct)
  case (1 sl byTag xs started w)
  obtain started' can w' where pass: "startPass sl xs started False w = (Inr (started', can), w')"
    using startPass_ok [OF 1(4)] by (metis surj_pair)
  from startPass_run [OF pass] obtain new where
    new: "started' = started @ map mg_Tag new" "orderedFrom started new" "set new \<subseteq> set xs" "w' = runAll sl new w"
      "distinct (map mg_Tag new)" "set (map mg_Tag new) \<inter> set started = {}"
    and stop: "\<not> can \<longrightarrow> (\<forall>x \<in> set xs. \<not> ready started x)" by auto
  have all: "set (old @ new) \<subseteq> set xs" "distinct (map mg_Tag (old @ new))" "started' = map mg_Tag (old @ new)"
    using new 1(5-7) by auto
  note unf = startLoop.simps [of sl byTag xs started w, unfolded pass]
  show ?case
  proof (cases "length started' = length xs")
    case True
    with same_length_same_objects [OF 1(2) all(1,2)] all(3) have "mset (old @ new) = mset xs" by simp
    moreover have "startLoop sl byTag xs started w = (Ret (), runAll sl new w)" using True new(4) by (simp add: unf)
    ultimately show ?thesis using new(2) by blast
  next
    case False
    show ?thesis
    proof (cases can)
      case True
      then have step: "startLoop sl byTag xs started w = startLoop sl byTag xs started' w'" using False by (simp add: unf)
      from 1(1) [OF pass [symmetric] refl refl False True 1(2,3,4) all] consider
        (ok) rest where "startLoop sl byTag xs started' w' = (Ret (), runAll sl rest w')" "mset ((old @ new) @ rest) = mset xs"
          "orderedFrom started' rest"
      | (bad) e w2 where "\<not> orderable xs" "startLoop sl byTag xs started' w' = (Err e, w2)" "explains (sl_noun sl) byTag xs e"
        by blast
      then show ?thesis
      proof cases
        case ok
        have "orderedFrom started (new @ rest)" using ok(3) new(1,2) by (simp add: orderedFrom_append)
        with ok(1,2) step new(4) show ?thesis by (intro disjI1 exI [of _ "new @ rest"]) simp
      next
        case bad
        with step show ?thesis by simp
      qed
    next
      case can: False
      have "new = []" using can pass startPass_grows [OF pass] new(1) by auto
      have "\<exists>x \<in> set xs. mg_Tag x \<notin> set started'"
        using shorter_pending [OF 1(2) all(1,2)] False all(3) by simp
      then obtain x where x: "find (\<lambda>x. mg_Tag x \<notin> set started') xs = Some x" "x \<in> set xs" "mg_Tag x \<notin> set started'"
        by (rule find_first_pending)
      have stuck: "\<forall>x \<in> set xs. \<not> ready started' x" using stop can \<open>new = []\<close> new(1) by simp
      have "explains (sl_noun sl) byTag xs (lintDependency (sl_noun sl) byTag started' [mg_Tag x] x)"
        by (rule lint_explains [OF stuck 1(3) x(2,3)]) auto
      moreover have "startLoop sl byTag xs started w = (Err (lintDependency (sl_noun sl) byTag started' [mg_Tag x] x), w')"
        using False can x(1) by (simp add: unf)
      ultimately show ?thesis using stuck_not_orderable [OF stuck x(2,3)] by blast
    qed
  qed
qed

end
