(* ===== verification/Manager_Facts.thy ===== *)
theory Manager_Facts
  imports Transport_Manager Start_Order_Facts
begin

text \<open>
  The list and the index of a manager agree in every state that its operations reach before it is closed. The three kinds of
  managers share the argument through the locale \<open>tag_registry\<close>.
\<close>

section \<open>The interface\<close>

text \<open>
  A component that keeps objects in a list and by tag. \<open>step\<close> is one operation; \<open>lost\<close> tells that an operation did
  not find in the list what the index has.
\<close>

locale tag_registry =
  fixes items :: "'s \<Rightarrow> managed list" and byTag :: "'s \<Rightarrow> index"
    and step :: "'s \<Rightarrow> 's \<Rightarrow> bool" and lost :: "'s \<Rightarrow> bool"
  assumes step_consistent: "step s s' \<Longrightarrow> consistent (items s) (byTag s) \<Longrightarrow> consistent (items s') (byTag s')"
    and not_lost: "consistent (items s) (byTag s) \<Longrightarrow> \<not> lost s"
begin

lemma reachable_consistent:
  assumes "step\<^sup>*\<^sup>* s s'" "consistent (items s) (byTag s)"
  shows "consistent (items s') (byTag s')"
  using assms by (induction rule: rtranclp_induct) (auto intro: step_consistent)

lemma reachable_registry:
  assumes "step\<^sup>*\<^sup>* s s'" "items s = []" "byTag s = []"
  shows "\<not> lost s' \<and> distinct (map mg_Tag (items s')) \<and>
    (\<forall>t x. map_of (byTag s') t = Some x \<longleftrightarrow> x \<in> set (items s') \<and> mg_Tag x = t)"
proof -
  have c: "consistent (items s') (byTag s')" using reachable_consistent [OF assms(1)] assms(2,3) by simp
  then have "distinct (map mg_Tag (items s'))" by (simp add: consistent_def)
  with consistent_lookup [OF c] not_lost [OF c] show ?thesis by blast
qed

end

text \<open>What the registries and fallbacks promise: the created object has the tag it was asked for.\<close>

definition registryTags :: "('o, 'w) creator \<Rightarrow> bool" where
  "registryTags registry \<longleftrightarrow> (\<forall>t k opts w x w'. registry t k opts w = (Inr x, w') \<longrightarrow> mg_Tag x = t)"

section \<open>The four small managers\<close>

inductive manager_step :: "'w caller \<Rightarrow> ('o, 'w) creator \<Rightarrow> manager \<times> 'w \<Rightarrow> manager \<times> 'w \<Rightarrow> bool"
  for call registry where
  ms_start: "startManager kind call skip stage m w = (r, m', w') \<Longrightarrow> manager_step call registry (m, w) (m', w')"
| ms_create: "registryTags registry \<Longrightarrow> createManaged kind noun call registry t k opts m w = (r, m', w') \<Longrightarrow>
    manager_step call registry (m, w) (m', w')"
| ms_remove: "removeManaged noun call t m w = (r, m', w') \<Longrightarrow> manager_step call registry (m, w) (m', w')"

definition lostObject :: "managed list \<Rightarrow> index \<Rightarrow> bool" where
  "lostObject xs byTag \<longleftrightarrow> (\<exists>t x. map_of byTag t = Some x \<and> x \<notin> set xs)"

lemma consistent_not_lost: "consistent xs byTag \<Longrightarrow> \<not> lostObject xs byTag"
  by (auto simp: lostObject_def consistent_lookup)

lemma registryTagsD: "registryTags registry \<Longrightarrow> registry t k opts w = (Inr x, w') \<Longrightarrow> mg_Tag x = t"
  unfolding registryTags_def by blast

lemma createManaged_cases:
  assumes "createManaged kind noun call registry t k opts m w = (r, m', w')"
  obtains (same) "m' = m"
  | (new) x w1 where "registry t k opts w = (Inr x, w1)" "map_of (mn_byTag m) t = None"
      "m' = m\<lparr>mn_list := mn_list m @ [x], mn_byTag := indexUpdate t x (mn_byTag m)\<rparr>"
  | (replaced) x w1 y where "registry t k opts w = (Inr x, w1)" "map_of (mn_byTag m) t = Some y"
      "m' = m\<lparr>mn_list := remove1 y (mn_list m) @ [x], mn_byTag := indexUpdate t x (mn_byTag m)\<rparr>"
proof -
  obtain c w1 where reg: "registry t k opts w = (c, w1)" by (rule prod.exhaust)
  show thesis
  proof (cases c)
    case (Inl e)
    then have "m' = m" using assms by (simp add: createManaged_def reg split: if_split_asm)
    then show ?thesis by (rule same)
  next
    case (Inr x)
    show ?thesis
    proof (cases "map_of (mn_byTag m) t")
      case None
      then have "m' = m \<or> m' = m\<lparr>mn_list := mn_list m @ [x], mn_byTag := indexUpdate t x (mn_byTag m)\<rparr>" using assms
        by (simp add: createManaged_def reg Inr split: if_split_asm prod.split_asm option.split_asm)
      then show ?thesis using same new [OF reg [unfolded Inr] None] by blast
    next
      case (Some y)
      then have "m' = m \<or> m' = m\<lparr>mn_list := remove1 y (mn_list m) @ [x], mn_byTag := indexUpdate t x (mn_byTag m)\<rparr>" using assms
        by (simp add: createManaged_def reg Inr split: if_split_asm prod.split_asm option.split_asm)
      then show ?thesis using same replaced [OF reg [unfolded Inr] Some] by blast
    qed
  qed
qed

lemma manager_step_consistent:
  assumes "manager_step call registry s s'" "consistent (mn_list (fst s)) (mn_byTag (fst s))"
  shows "consistent (mn_list (fst s')) (mn_byTag (fst s'))"
  using assms
proof (cases rule: manager_step.cases)
  case (ms_start kind skip stage m w r m' w')
  then show ?thesis using assms(2) by (auto simp: startManager_def Let_def split: if_splits prod.splits option.splits)
next
  case (ms_create kind noun t k opts m w r m' w')
  note c = assms(2) [unfolded ms_create(1) fst_conv]
  from ms_create(4) have "consistent (mn_list m') (mn_byTag m')"
  proof (cases rule: createManaged_cases)
    case (new x w1)
    with consistent_add [OF c new(2) registryTagsD [OF ms_create(3) new(1)]] show ?thesis by simp
  next
    case (replaced x w1 y)
    with consistent_replace [OF c replaced(2) registryTagsD [OF ms_create(3) replaced(1)]] show ?thesis by simp
  qed (use c in simp)
  then show ?thesis using ms_create(2) by simp
next
  case (ms_remove noun t m w r m' w')
  note c = assms(2) [unfolded ms_remove(1) fst_conv]
  show ?thesis
  proof (cases "map_of (mn_byTag m) t")
    case None
    with ms_remove c show ?thesis by (simp add: removeManaged_def)
  next
    case (Some x)
    note r = consistent_remove [OF c Some]
    from ms_remove(3) Some r(1) have "mn_list m' = remove1 x (mn_list m)" "mn_byTag m' = indexDelete t (mn_byTag m)"
      by (auto simp: removeManaged_def Let_def split: if_split_asm prod.split_asm)
    with r(3) ms_remove(2) show ?thesis by simp
  qed
qed

interpretation small: tag_registry "\<lambda>s. mn_list (fst s)" "\<lambda>s. mn_byTag (fst s)" "manager_step call registry"
  "\<lambda>s. lostObject (mn_list (fst s)) (mn_byTag (fst s))"
  by unfold_locales (auto intro: manager_step_consistent dest: consistent_not_lost)

section \<open>Outbounds\<close>

text \<open>The fallback is asked for a tag that no outbound has.\<close>

inductive outbound_step ::
  "'w caller \<Rightarrow> ('o, 'w) creator \<Rightarrow> ('w \<Rightarrow> (rule_error + managed) \<times> 'w) \<Rightarrow> outbound_manager \<times> 'w \<Rightarrow> outbound_manager \<times> 'w \<Rightarrow> bool"
  for call registry fallback where
  os_start: "OutboundManager_Start call fallback endpoint stage m w = (r, m', w') \<Longrightarrow>
    (\<And>x w1. fallback w = (Inr x, w1) \<Longrightarrow> map_of (om_outboundByTag m) (mg_Tag x) = None) \<Longrightarrow>
    outbound_step call registry fallback (m, w) (m', w')"
| os_create: "registryTags registry \<Longrightarrow> OutboundManager_Create call registry t k opts m w = (r, m', w') \<Longrightarrow>
    outbound_step call registry fallback (m, w) (m', w')"
| os_remove: "OutboundManager_Remove call t m w = (r, m', w') \<Longrightarrow> outbound_step call registry fallback (m, w) (m', w')"

lemma resolveDefaultOutbound_cases:
  assumes "resolveDefaultOutbound fallback endpoint m w = (Inr m', w')"
  obtains (kept) "om_outbounds m' = om_outbounds m" "om_outboundByTag m' = om_outboundByTag m"
  | (added) x w1 where "fallback w = (Inr x, w1)" "om_outbounds m' = om_outbounds m @ [x]"
      "om_outboundByTag m' = indexUpdate (mg_Tag x) x (om_outboundByTag m)"
  using assms unfolding resolveDefaultOutbound_def
  by (auto split: if_splits option.splits prod.splits sum.splits)

lemma resolveDefaultOutbound_consistent:
  assumes "resolveDefaultOutbound fallback endpoint m w = (Inr m', w')" "consistent (om_outbounds m) (om_outboundByTag m)"
    "\<And>x w1. fallback w = (Inr x, w1) \<Longrightarrow> map_of (om_outboundByTag m) (mg_Tag x) = None"
  shows "consistent (om_outbounds m') (om_outboundByTag m')"
  using assms(1)
proof (cases rule: resolveDefaultOutbound_cases)
  case (added x w1)
  then show ?thesis using consistent_add [OF assms(2) assms(3) [OF added(1)] refl] by simp
qed (use assms(2) in simp)

lemma insertOutbound_lists [simp]:
  "om_outbounds (insertOutbound t x m) = om_outbounds m @ [x]"
  "om_outboundByTag (insertOutbound t x m) = indexUpdate t x (om_outboundByTag m)"
  by (simp_all add: insertOutbound_def Let_def)

lemma OutboundManager_Create_cases:
  assumes "OutboundManager_Create call registry t k opts m w = (r, m', w')"
  obtains (same) "m' = m"
  | (new) x w1 where "registry t k opts w = (Inr x, w1)" "map_of (om_outboundByTag m) t = None" "m' = insertOutbound t x m"
  | (replaced) x w1 y where "registry t k opts w = (Inr x, w1)" "map_of (om_outboundByTag m) t = Some y"
      "m' = insertOutbound t x (m\<lparr>om_outbounds := remove1 y (om_outbounds m)\<rparr>)"
proof -
  obtain c w1 where reg: "registry t k opts w = (c, w1)" by (rule prod.exhaust)
  show thesis
  proof (cases c)
    case (Inl e)
    then have "m' = m" using assms by (simp add: OutboundManager_Create_def reg split: if_split_asm)
    then show ?thesis by (rule same)
  next
    case (Inr x)
    show ?thesis
    proof (cases "map_of (om_outboundByTag m) t")
      case None
      then have "m' = m \<or> m' = insertOutbound t x m" using assms
        by (simp add: OutboundManager_Create_def reg Inr split: if_split_asm prod.split_asm option.split_asm)
      then show ?thesis using same new [OF reg [unfolded Inr] None] by blast
    next
      case (Some y)
      then have "m' = m \<or> m' = insertOutbound t x (m\<lparr>om_outbounds := remove1 y (om_outbounds m)\<rparr>)" using assms
        by (simp add: OutboundManager_Create_def reg Inr split: if_split_asm prod.split_asm option.split_asm)
      then show ?thesis using same replaced [OF reg [unfolded Inr] Some] by blast
    qed
  qed
qed

lemma OutboundManager_Remove_lists:
  assumes "OutboundManager_Remove call t m w = (r, m', w')" "map_of (om_outboundByTag m) t = Some x" "x \<in> set (om_outbounds m)"
  shows "om_outbounds m' = remove1 x (om_outbounds m)" "om_outboundByTag m' = indexDelete t (om_outboundByTag m)"
  using assms by (auto simp: OutboundManager_Remove_def Let_def split: if_splits prod.splits)

lemma outbound_step_consistent:
  assumes "outbound_step call registry fallback s s'" "consistent (om_outbounds (fst s)) (om_outboundByTag (fst s))"
  shows "consistent (om_outbounds (fst s')) (om_outboundByTag (fst s'))"
  using assms
proof (cases rule: outbound_step.cases)
  case (os_start endpoint stage m w r m' w')
  let ?m = "m\<lparr>om_started := True, om_stage := stage\<rparr>"
  have c: "consistent (om_outbounds m) (om_outboundByTag m)" using assms(2) os_start(1) by simp
  from os_start(3) have "m' \<in> {m, ?m} \<or> (\<exists>w1. resolveDefaultOutbound fallback endpoint ?m w = (Inr m', w1))"
    unfolding OutboundManager_Start_def Let_def
    by (auto split: if_splits prod.splits option.splits sum.splits)
  then have "consistent (om_outbounds m') (om_outboundByTag m')"
  proof
    assume "\<exists>w1. resolveDefaultOutbound fallback endpoint ?m w = (Inr m', w1)"
    then obtain w1 where "resolveDefaultOutbound fallback endpoint ?m w = (Inr m', w1)" ..
    from resolveDefaultOutbound_consistent [OF this] c os_start(4) show ?thesis by simp
  qed (use c in auto)
  then show ?thesis using os_start(2) by simp
next
  case (os_create t k opts m w r m' w')
  note c = assms(2) [unfolded os_create(1) fst_conv]
  from os_create(4) have "consistent (om_outbounds m') (om_outboundByTag m')"
  proof (cases rule: OutboundManager_Create_cases)
    case (new x w1)
    with consistent_add [OF c new(2) registryTagsD [OF os_create(3) new(1)]] show ?thesis by simp
  next
    case (replaced x w1 y)
    with consistent_replace [OF c replaced(2) registryTagsD [OF os_create(3) replaced(1)]] show ?thesis by simp
  qed (use c in simp)
  then show ?thesis using os_create(2) by simp
next
  case (os_remove t m w r m' w')
  note c = assms(2) [unfolded os_remove(1) fst_conv]
  show ?thesis
  proof (cases "map_of (om_outboundByTag m) t")
    case None
    with os_remove c show ?thesis by (simp add: OutboundManager_Remove_def)
  next
    case (Some x)
    note r = consistent_remove [OF c Some]
    from OutboundManager_Remove_lists [OF os_remove(3) Some r(1)] r(3) os_remove(2) show ?thesis by simp
  qed
qed

interpretation outbounds: tag_registry "\<lambda>s. om_outbounds (fst s)" "\<lambda>s. om_outboundByTag (fst s)"
  "outbound_step call registry fallback" "\<lambda>s. lostObject (om_outbounds (fst s)) (om_outboundByTag (fst s))"
  by unfold_locales (auto intro: outbound_step_consistent dest: consistent_not_lost)

section \<open>DNS servers\<close>

inductive transport_step ::
  "'w caller \<Rightarrow> ('o, 'w) creator \<Rightarrow> ('w \<Rightarrow> (rule_error + managed) \<times> 'w) \<Rightarrow> transport_manager \<times> 'w \<Rightarrow> transport_manager \<times> 'w \<Rightarrow> bool"
  for call registry fallback where
  ts_start: "TransportManager_Start call fallback stage m w = (r, m', w') \<Longrightarrow>
    (\<And>x w1. fallback w = (Inr x, w1) \<Longrightarrow> map_of (tm_transportByTag m) (mg_Tag x) = None) \<Longrightarrow>
    transport_step call registry fallback (m, w) (m', w')"
| ts_create: "registryTags registry \<Longrightarrow> TransportManager_Create call registry t k opts m w = (r, m', w') \<Longrightarrow>
    transport_step call registry fallback (m, w) (m', w')"
| ts_remove: "TransportManager_Remove call t m w = (r, m', w') \<Longrightarrow> transport_step call registry fallback (m, w) (m', w')"

lemma resolveDefaultTransport_cases:
  assumes "resolveDefaultTransport fallback m w = (Inr m', w')"
  obtains (kept) "m' = m" "tm_defaultTransport m \<noteq> None"
  | (added) x w1 where "fallback w = (Inr x, w1)" "tm_defaultTransport m = None"
      "m' = m\<lparr>tm_transports := tm_transports m @ [x],
              tm_transportByTag := indexUpdate (mg_Tag x) x (tm_transportByTag m), tm_defaultTransport := Some x\<rparr>"
  using assms unfolding resolveDefaultTransport_def
  by (auto split: if_splits prod.splits sum.splits)

lemma TransportManager_Start_cases:
  assumes "TransportManager_Start call fallback stage m w = (r, m', w')"
  obtains (kept) "m' \<in> {m, m\<lparr>tm_started := True, tm_stage := stage\<rparr>}"
  | (resolved) w1 where "resolveDefaultTransport fallback (m\<lparr>tm_started := True, tm_stage := stage\<rparr>) w = (Inr m', w1)"
  using assms unfolding TransportManager_Start_def Let_def
  by (auto split: if_splits prod.splits option.splits sum.splits)

lemma insertTransport_lists [simp]:
  "tm_transports (snd (insertTransport t x m)) = tm_transports m @ [x]"
  "tm_transportByTag (snd (insertTransport t x m)) = indexUpdate t x (tm_transportByTag m)"
  by (simp_all add: insertTransport_def Let_def)

lemma TransportManager_Create_cases:
  assumes "TransportManager_Create call registry t k opts m w = (r, m', w')"
  obtains (same) "m' = m"
  | (new) x w1 where "registry t k opts w = (Inr x, w1)" "map_of (tm_transportByTag m) t = None"
      "m' = snd (insertTransport t x m)" "r = fst (insertTransport t x m)"
  | (replaced) x w1 y where "registry t k opts w = (Inr x, w1)" "map_of (tm_transportByTag m) t = Some y"
      "m' = snd (insertTransport t x (m\<lparr>tm_transports := remove1 y (tm_transports m)\<rparr>))"
      "r = fst (insertTransport t x (m\<lparr>tm_transports := remove1 y (tm_transports m)\<rparr>))"
proof -
  obtain c w1 where reg: "registry t k opts w = (c, w1)" by (rule prod.exhaust)
  show thesis
  proof (cases c)
    case (Inl e)
    then have "m' = m" using assms by (simp add: TransportManager_Create_def reg split: if_split_asm)
    then show ?thesis by (rule same)
  next
    case (Inr x)
    show ?thesis
    proof (cases "map_of (tm_transportByTag m) t")
      case None
      then have "m' = m \<or> insertTransport t x m = (r, m')" using assms
        by (simp add: TransportManager_Create_def reg Inr split: if_split_asm prod.split_asm option.split_asm)
      then show ?thesis using same new [OF reg [unfolded Inr] None] by fastforce
    next
      case (Some y)
      then have "m' = m \<or> insertTransport t x (m\<lparr>tm_transports := remove1 y (tm_transports m)\<rparr>) = (r, m')" using assms
        by (simp add: TransportManager_Create_def reg Inr split: if_split_asm prod.split_asm option.split_asm)
      then show ?thesis using same replaced [OF reg [unfolded Inr] Some] by fastforce
    qed
  qed
qed

lemma nextDefault_lists:
  "nextDefault x m = Inr m' \<Longrightarrow> tm_transports m' = tm_transports m \<and> tm_transportByTag m' = tm_transportByTag m"
  by (auto simp: nextDefault_def split: if_split_asm list.split_asm)

lemma TransportManager_Remove_lists:
  assumes "TransportManager_Remove call t m w = (r, m', w')" "map_of (tm_transportByTag m) t = Some x"
    "x \<in> set (tm_transports m)"
  shows "tm_transports m' = remove1 x (tm_transports m) \<and> tm_transportByTag m' = indexDelete t (tm_transportByTag m)"
proof (cases "nextDefault x (m\<lparr>tm_transportByTag := indexDelete t (tm_transportByTag m), tm_transports := remove1 x (tm_transports m)\<rparr>)")
  case (Inl e)
  with assms show ?thesis by (auto simp: TransportManager_Remove_def Let_def)
next
  case (Inr m1)
  with assms nextDefault_lists [OF Inr] show ?thesis
    by (auto simp: TransportManager_Remove_def Let_def split: if_split_asm prod.split_asm)
qed

lemma transport_step_consistent:
  assumes "transport_step call registry fallback s s'" "consistent (tm_transports (fst s)) (tm_transportByTag (fst s))"
  shows "consistent (tm_transports (fst s')) (tm_transportByTag (fst s'))"
  using assms
proof (cases rule: transport_step.cases)
  case (ts_start stage m w r m' w')
  note c = assms(2) [unfolded ts_start(1) fst_conv]
  from ts_start(3) have "consistent (tm_transports m') (tm_transportByTag m')"
  proof (cases rule: TransportManager_Start_cases)
    case (resolved w1)
    then show ?thesis
    proof (cases rule: resolveDefaultTransport_cases)
      case (added x w2)
      with consistent_add [OF c ts_start(4) [OF added(1)] refl] show ?thesis by simp
    qed (use c in simp)
  qed (use c in auto)
  then show ?thesis using ts_start(2) by simp
next
  case (ts_create t k opts m w r m' w')
  note c = assms(2) [unfolded ts_create(1) fst_conv]
  from ts_create(4) have "consistent (tm_transports m') (tm_transportByTag m')"
  proof (cases rule: TransportManager_Create_cases)
    case (new x w1)
    with consistent_add [OF c new(2) registryTagsD [OF ts_create(3) new(1)]] show ?thesis by simp
  next
    case (replaced x w1 y)
    with consistent_replace [OF c replaced(2) registryTagsD [OF ts_create(3) replaced(1)]] show ?thesis by simp
  qed (use c in simp)
  then show ?thesis using ts_create(2) by simp
next
  case (ts_remove t m w r m' w')
  note c = assms(2) [unfolded ts_remove(1) fst_conv]
  show ?thesis
  proof (cases "map_of (tm_transportByTag m) t")
    case None
    with ts_remove c show ?thesis by (simp add: TransportManager_Remove_def)
  next
    case (Some x)
    note r = consistent_remove [OF c Some]
    from TransportManager_Remove_lists [OF ts_remove(3) Some r(1)] r(3) ts_remove(2) show ?thesis by simp
  qed
qed

interpretation servers: tag_registry "\<lambda>s. tm_transports (fst s)" "\<lambda>s. tm_transportByTag (fst s)"
  "transport_step call registry fallback" "\<lambda>s. lostObject (tm_transports (fst s)) (tm_transportByTag (fst s))"
  by unfold_locales (auto intro: transport_step_consistent dest: consistent_not_lost)

end
