(* ===== verification/Manager_Theorems.thy ===== *)
theory Manager_Theorems
  imports Manager_Facts
begin

text \<open>
  The properties of the managers: outbounds start behind their dependencies, lists and indices agree, and what becomes of the
  default DNS server.
\<close>

section \<open>Sample objects\<close>

definition lifecycleCaps :: capabilities where
  "lifecycleCaps = \<lparr> cp_Lifecycle = True, cp_PreStart = False, cp_Start = False, cp_PostStart = False, cp_Closer = True \<rparr>"

definition sampleObject :: "nat \<Rightarrow> string \<Rightarrow> tag \<Rightarrow> tag list \<Rightarrow> managed" where
  "sampleObject i k t ds = \<lparr> mg_id = i, mg_Type = k, mg_Tag = t, mg_Dependencies = ds, mg_caps = lifecycleCaps \<rparr>"

text \<open>A registry that numbers its objects, and a caller that records the calls.\<close>

definition sampleRegistry :: "(tag list, (tag \<times> call) list) creator" where
  "sampleRegistry t k ds w = (if k = ''bad'' then Inl (E_New ''unknown type'') else Inr (sampleObject (length w) k t ds), w)"

definition sampleCall :: "(tag \<times> call) list caller" where
  "sampleCall x c w = (None, w @ [(mg_Tag x, c)])"

definition sampleOutbounds :: outbound_manager where
  "sampleOutbounds = insertOutbound ''proxy'' (sampleObject 0 ''vless'' ''proxy'' [''hop''])
     (insertOutbound ''hop'' (sampleObject 1 ''socks'' ''hop'' []) (newOutboundManager ''''))"

definition sampleServers :: transport_manager where
  "sampleServers = snd (insertTransport ''local'' (sampleObject 1 ''udp'' ''local'' [])
     (snd (insertTransport ''remote'' (sampleObject 0 ''https'' ''remote'' [''local'']) (NewTransportManager ''''))))"

section \<open>Order of starting\<close>

lemma outboundLoop_starts:
  assumes "\<And>c w. c \<in> {CallStart StartStateStart, CallSimpleStart} \<Longrightarrow> fst (call x c w) = None"
  shows "fst (sl_start (outboundLoop call) x w) = None"
  using assms by (simp add: outboundLoop_def)

text \<open>C33: The outbound manager always gets to an end in the stage that starts outbounds and endpoints. When the objects
  have different tags and each single start succeeds, either it has started all of them once, each behind its
  dependencies, or no such order exists and the error names a real cycle of dependencies or a dependency that is no outbound.
\<close>

theorem outbounds_start_in_order:
  assumes "\<not> (om_started m \<and> StartStateStart \<le> om_stage m)"
    "resolveDefaultOutbound fallback endpoint (m\<lparr>om_started := True, om_stage := StartStateStart\<rparr>) w = (Inr m1, w1)"
    "consistent (om_outbounds m1) (om_outboundByTag m1)" "distinct (map mg_Tag (om_outbounds m1 @ mn_list endpoint))"
    "\<And>x c w. x \<in> set (om_outbounds m1 @ mn_list endpoint) \<Longrightarrow> c \<in> {CallStart StartStateStart, CallSimpleStart} \<Longrightarrow>
      fst (call x c w) = None"
  shows "(\<exists>order. mset order = mset (om_outbounds m1 @ mn_list endpoint) \<and> orderedFrom [] order \<and>
      OutboundManager_Start call fallback endpoint StartStateStart m w = (Ret (), m1, runAll (outboundLoop call) order w1)) \<or>
    \<not> orderable (om_outbounds m1 @ mn_list endpoint) \<and>
    (\<exists>e w2. OutboundManager_Start call fallback endpoint StartStateStart m w = (Err e, m1, w2) \<and>
      explains ''outbound'' (om_outboundByTag m1) (om_outbounds m1 @ mn_list endpoint) e)"
proof -
  let ?xs = "om_outbounds m1 @ mn_list endpoint"
  have start: "OutboundManager_Start call fallback endpoint StartStateStart m w =
      (case startLoop (outboundLoop call) (om_outboundByTag m1) ?xs [] w1 of (r, w2) \<Rightarrow> (r, m1, w2))"
    using assms(2) unfolding OutboundManager_Start_def startOutbounds_def if_not_P [OF assms(1)] by simp
  have index: "map_of (om_outboundByTag m1) t = Some x \<Longrightarrow> x \<in> set ?xs \<and> mg_Tag x = t" for t x
    using consistent_lookup [OF assms(3)] by auto
  have starts: "fst (sl_start (outboundLoop call) x w) = None" if "x \<in> set ?xs" for x w
    by (rule outboundLoop_starts) (rule assms(5) [OF that])
  have noun: "sl_noun (outboundLoop call) = ''outbound''" by (simp add: outboundLoop_def)
  from startLoop_outcome [where byTag = "om_outboundByTag m1" and sl = "outboundLoop call" and old = "[]" and started = "[]" and w = w1,
    OF assms(4) index starts]
  consider order where "startLoop (outboundLoop call) (om_outboundByTag m1) ?xs [] w1 = (Ret (), runAll (outboundLoop call) order w1)"
      "mset order = mset ?xs" "orderedFrom [] order"
  | e w2 where "\<not> orderable ?xs" "startLoop (outboundLoop call) (om_outboundByTag m1) ?xs [] w1 = (Err e, w2)"
      "explains ''outbound'' (om_outboundByTag m1) ?xs e"
    unfolding noun by auto
  then show ?thesis unfolding start by cases auto
qed

theorem outbounds_start_in_order_witness:
  "let xs = om_outbounds sampleOutbounds; r = OutboundManager_Start sampleCall (\<lambda>w. (Inl (E_New ''no''), w)) newManager StartStateStart sampleOutbounds []
   in (\<exists>order. mset order = mset xs \<and> orderedFrom [] order \<and>
        r = (Ret (), sampleOutbounds\<lparr>om_started := True, om_stage := StartStateStart\<rparr>, runAll (outboundLoop sampleCall) order [])) \<or>
      \<not> orderable xs \<and> (\<exists>e w2. r = (Err e, sampleOutbounds\<lparr>om_started := True, om_stage := StartStateStart\<rparr>, w2) \<and>
        explains ''outbound'' (om_outboundByTag sampleOutbounds) xs e)"
proof -
  let ?m1 = "sampleOutbounds\<lparr>om_started := True, om_stage := StartStateStart\<rparr>"
  let ?f = "\<lambda>w. (Inl (E_New ''no''), w)"
  have 1: "\<not> (om_started sampleOutbounds \<and> StartStateStart \<le> om_stage sampleOutbounds)" by code_simp
  have 2: "resolveDefaultOutbound ?f newManager ?m1 [] = (Inr ?m1, [] :: (tag \<times> call) list)"
    by (simp add: resolveDefaultOutbound_def sampleOutbounds_def insertOutbound_def newOutboundManager_def)
  have 3: "consistent (om_outbounds ?m1) (om_outboundByTag ?m1)" by code_simp
  have 4: "distinct (map mg_Tag (om_outbounds ?m1 @ mn_list newManager))" by code_simp
  have "mn_list newManager = []" by (simp add: newManager_def)
  with outbounds_start_in_order [OF 1 2 3 4, of sampleCall] show ?thesis
    by (simp add: sampleCall_def Let_def)
qed

section \<open>Lists and indices\<close>

lemma OutboundManager_no_panic:
  assumes "\<not> lostObject (om_outbounds m) (om_outboundByTag m)"
  shows "fst (OutboundManager_Remove call t m w) \<noteq> Panic s" "fst (OutboundManager_Create call registry t k opts m w) \<noteq> Panic s"
proof -
  have found: "x \<in> set (om_outbounds m)" if "map_of (om_outboundByTag m) t = Some x" for x
    using assms that by (auto simp: lostObject_def)
  show "fst (OutboundManager_Remove call t m w) \<noteq> Panic s"
  proof (cases "map_of (om_outboundByTag m) t")
    case (Some x)
    with found [OF Some] show ?thesis
      by (simp add: OutboundManager_Remove_def Let_def errorOutcome_def split: option.split prod.split)
  qed (simp add: OutboundManager_Remove_def)
  show "fst (OutboundManager_Create call registry t k opts m w) \<noteq> Panic s"
  proof (cases "map_of (om_outboundByTag m) t")
    case (Some x)
    with found [OF Some] show ?thesis by (simp add: OutboundManager_Create_def split: option.split prod.split sum.split)
  qed (simp add: OutboundManager_Create_def split: option.split prod.split sum.split)
qed

text \<open>C34: Whatever starts, creations and removals an outbound manager has seen since it was made, its list and its index hold the
  same outbounds under different tags, a lookup finds exactly the listed outbound with the tag, and neither a
  removal nor a creation stops with the panic about a lost index. The registry gives objects the tag they are asked
  for, and the fallback has a tag that is not in use.
\<close>

theorem outbound_lookup_agrees:
  assumes "(outbound_step call registry fallback)\<^sup>*\<^sup>* (newOutboundManager d, w0) (m, w)"
  shows "distinct (map mg_Tag (om_outbounds m)) \<and>
    (\<forall>t x. map_of (om_outboundByTag m) t = Some x \<longleftrightarrow> x \<in> set (om_outbounds m) \<and> mg_Tag x = t) \<and>
    fst (OutboundManager_Remove call t m w) \<noteq> Panic s \<and>
    fst (OutboundManager_Create call registry t k opts m w) \<noteq> Panic s"
proof -
  have "\<not> lostObject (om_outbounds m) (om_outboundByTag m) \<and> distinct (map mg_Tag (om_outbounds m)) \<and>
      (\<forall>t x. map_of (om_outboundByTag m) t = Some x \<longleftrightarrow> x \<in> set (om_outbounds m) \<and> mg_Tag x = t)"
    using outbounds.reachable_registry [OF assms] by (simp add: newOutboundManager_def)
  then show ?thesis by (intro conjI OutboundManager_no_panic) blast+
qed

lemma sampleRegistry_tags: "registryTags sampleRegistry"
  by (auto simp: registryTags_def sampleRegistry_def sampleObject_def split: if_split_asm)

theorem outbound_lookup_agrees_witness:
  "fst (OutboundManager_Remove sampleCall ''hop''
     (fst (snd (OutboundManager_Create sampleCall sampleRegistry ''hop'' ''socks'' [] (newOutboundManager '''') []))) []) \<noteq> Panic ''invalid inbound index''"
proof -
  let ?c = "OutboundManager_Create sampleCall sampleRegistry ''hop'' ''socks'' [] (newOutboundManager '''') []"
  have "outbound_step sampleCall sampleRegistry (\<lambda>w. (Inl ErrInvalid, w)) (newOutboundManager '''', [])
      (fst (snd ?c), snd (snd ?c))"
    by (rule os_create [OF sampleRegistry_tags, where t = "''hop''" and k = "''socks''" and opts = "[]" and r = "fst ?c"]) simp
  from outbound_lookup_agrees [OF r_into_rtranclp, OF this]
  have "fst (OutboundManager_Remove sampleCall ''hop'' (fst (snd ?c)) (snd (snd ?c))) \<noteq> Panic ''invalid inbound index''" by blast
  moreover have "snd (snd ?c) = []" by code_simp
  ultimately show ?thesis by simp
qed

section \<open>The default DNS server\<close>

inductive setup_step ::
  "'w caller \<Rightarrow> ('o, 'w) creator \<Rightarrow> ('w \<Rightarrow> (rule_error + managed) \<times> 'w) \<Rightarrow> transport_manager \<times> 'w \<Rightarrow> transport_manager \<times> 'w \<Rightarrow> bool"
  for call registry fallback where
  su_start: "TransportManager_Start call fallback stage m w = (r, m', w') \<Longrightarrow> setup_step call registry fallback (m, w) (m', w')"
| su_create: "TransportManager_Create call registry t k opts m w = (r, m', w') \<Longrightarrow> setup_step call registry fallback (m, w) (m', w')"
| su_close: "TransportManager_Close call m w = (r, m', w') \<Longrightarrow> setup_step call registry fallback (m, w) (m', w')"

definition serverRoles :: "transport_manager \<Rightarrow> bool" where
  "serverRoles m \<longleftrightarrow>
     (case tm_defaultTransport m of None \<Rightarrow> True | Some x \<Rightarrow> mg_Type x \<noteq> DNSTypeFakeIP) \<and>
     (case tm_fakeIPTransport m of None \<Rightarrow> True | Some x \<Rightarrow> mg_Type x = DNSTypeFakeIP)"

lemma insertTransport_roles:
  assumes "serverRoles m" shows "serverRoles (snd (insertTransport t x m))"
  using assms by (simp add: insertTransport_def serverRoles_def Let_def)

lemma setup_step_roles:
  assumes "setup_step call registry fallback s s'" "serverRoles (fst s)"
    "\<And>w x w1. fallback w = (Inr x, w1) \<Longrightarrow> mg_Type x \<noteq> DNSTypeFakeIP"
  shows "serverRoles (fst s')"
  using assms(1)
proof (cases rule: setup_step.cases)
  case (su_start stage m w r m' w')
  note ok = assms(2) [unfolded su_start(1) fst_conv]
  from su_start(3) have "serverRoles m'"
  proof (cases rule: TransportManager_Start_cases)
    case (resolved w1)
    then show ?thesis
      by (cases rule: resolveDefaultTransport_cases) (use ok assms(3) in \<open>auto simp: serverRoles_def\<close>)
  qed (use ok in \<open>auto simp: serverRoles_def\<close>)
  then show ?thesis using su_start(2) by simp
next
  case (su_create t k opts m w r m' w')
  note ok = assms(2) [unfolded su_create(1) fst_conv]
  from su_create(3) have "serverRoles m'"
  proof (cases rule: TransportManager_Create_cases)
    case (replaced x w1 y)
    have "serverRoles (m\<lparr>tm_transports := remove1 y (tm_transports m)\<rparr>)" using ok by (simp add: serverRoles_def)
    then show ?thesis unfolding replaced(3) by (rule insertTransport_roles)
  qed (use ok insertTransport_roles in auto)
  then show ?thesis using su_create(2) by simp
next
  case (su_close m w r m' w')
  then show ?thesis using assms(2)
    by (auto simp: TransportManager_Close_def serverRoles_def split: if_split_asm prod.split_asm)
qed

text \<open>C35: Through any sequence of starts, creations and closings of DNS servers, failed ones included, the default server
  is never a FakeIP server and the server kept as the FakeIP server is one. The fallback for a missing default is no
  FakeIP server.
\<close>

theorem default_server_not_fakeip:
  assumes "(setup_step call registry fallback)\<^sup>*\<^sup>* (NewTransportManager d, w0) (m, w)"
    "\<And>w x w1. fallback w = (Inr x, w1) \<Longrightarrow> mg_Type x \<noteq> DNSTypeFakeIP"
  shows "(case TransportManager_Default m of None \<Rightarrow> True | Some x \<Rightarrow> mg_Type x \<noteq> DNSTypeFakeIP) \<and>
    (case TransportManager_FakeIP m of None \<Rightarrow> True | Some x \<Rightarrow> mg_Type x = DNSTypeFakeIP)"
proof -
  have "serverRoles (fst (m, w))" using assms(1)
    by (induction rule: rtranclp_induct)
      (simp add: serverRoles_def NewTransportManager_def, rule setup_step_roles [OF _ _ assms(2)])
  then show ?thesis by (simp add: serverRoles_def TransportManager_Default_def TransportManager_FakeIP_def)
qed

theorem default_server_not_fakeip_witness:
  "case TransportManager_Default (fst (snd (TransportManager_Create sampleCall sampleRegistry ''fake'' DNSTypeFakeIP [] (NewTransportManager '''') [])))
   of None \<Rightarrow> True | Some x \<Rightarrow> mg_Type x \<noteq> DNSTypeFakeIP"
proof -
  let ?c = "TransportManager_Create sampleCall sampleRegistry ''fake'' DNSTypeFakeIP [] (NewTransportManager '''') []"
  have "setup_step sampleCall sampleRegistry (\<lambda>w. (Inl ErrInvalid, w)) (NewTransportManager '''', []) (fst (snd ?c), snd (snd ?c))"
    by (rule su_create [where r = "fst ?c"]) simp
  from default_server_not_fakeip [OF r_into_rtranclp, OF this] show ?thesis by simp
qed

text \<open>C36: Removing the default DNS server while others remain does the opposite of what its message says. When the next server
  is an ordinary one, the call fails with the message that the default cannot be FakeIP, and leaves as default a
  server that is no longer listed. When the next server is a FakeIP server, it becomes the default.
\<close>

theorem remove_default_server:
  assumes "map_of (tm_transportByTag m) t = Some x" "x \<in> set (tm_transports m)" "tm_defaultTransport m = Some x"
    "remove1 x (tm_transports m) = y # ys" "dependBy (tm_dependByTag m) t = []"
  shows "case TransportManager_Remove call t m w of (r, m', w') \<Rightarrow>
    TransportManager_Transport m' t = None \<and> tm_transports m' = y # ys \<and>
    (if mg_Type y = DNSTypeFakeIP then r = Ret () \<and> TransportManager_Default m' = Some y
     else r = Err fakeIPDefaultError \<and> TransportManager_Default m' = Some x \<and> w' = w)"
  using assms
  by (auto simp: TransportManager_Remove_def TransportManager_Transport_def TransportManager_Default_def nextDefault_def
      indexDelete_def map_of_eq_None_iff Let_def split: prod.splits if_splits)

theorem remove_default_server_witness:
  "case TransportManager_Remove sampleCall ''remote'' sampleServers [] of (r, m', w') \<Rightarrow>
     r = Err fakeIPDefaultError \<and> TransportManager_Default m' = Some (sampleObject 0 ''https'' ''remote'' [''local'']) \<and>
     TransportManager_Transport m' ''remote'' = None"
proof -
  let ?x = "sampleObject 0 ''https'' ''remote'' [''local'']"
  have 1: "map_of (tm_transportByTag sampleServers) ''remote'' = Some ?x" by code_simp
  have 2: "?x \<in> set (tm_transports sampleServers)" by code_simp
  have 3: "tm_defaultTransport sampleServers = Some ?x" by code_simp
  have 4: "remove1 ?x (tm_transports sampleServers) = [sampleObject 1 ''udp'' ''local'' []]" by code_simp
  have 5: "dependBy (tm_dependByTag sampleServers) ''remote'' = []" by code_simp
  have 6: "mg_Type (sampleObject 1 ''udp'' ''local'' []) \<noteq> DNSTypeFakeIP" by code_simp
  show ?thesis using remove_default_server [OF 1 2 3 4 5, where call = sampleCall and w = "[]"] 6 by (simp split: prod.split_asm prod.split)
qed

section \<open>Removal of an object in use\<close>

text \<open>C37: When other outbounds depend on an outbound, its removal fails with a message that names them, but the outbound
  is gone from the list and the index all the same, it is not closed, it may no longer be the default, and removing it
  again only reports an unknown tag.
\<close>

theorem remove_used_outbound:
  assumes "consistent (om_outbounds m) (om_outboundByTag m)" "map_of (om_outboundByTag m) t = Some x"
    "dependBy (om_dependByTag m) t \<noteq> []"
  shows "\<exists>m'. OutboundManager_Remove call t m w = (Err (dependedError ''outbound'' t (dependBy (om_dependByTag m) t)), m', w) \<and>
    OutboundManager_Remove call t m' w = (Err ErrInvalid, m', w) \<and>
    set (om_outbounds m') = set (om_outbounds m) - {x} \<and> OutboundManager_Default m' \<noteq> Some x"
proof -
  note r = consistent_remove [OF assms(1,2)]
  have d: "distinct (om_outbounds m)" using assms(1) by (simp add: consistent_def distinct_map)
  let ?m = "m\<lparr>om_outboundByTag := indexDelete t (om_outboundByTag m), om_outbounds := remove1 x (om_outbounds m)\<rparr>"
  let ?m' = "if om_defaultOutbound m = Some x
     then ?m\<lparr>om_defaultOutbound := (case remove1 x (om_outbounds m) of [] \<Rightarrow> None | y # _ \<Rightarrow> Some y)\<rparr> else ?m"
  have rem: "OutboundManager_Remove call t m w = (Err (dependedError ''outbound'' t (dependBy (om_dependByTag m) t)), ?m', w)"
    using assms(2,3) r(1) by (simp add: OutboundManager_Remove_def Let_def)
  have gone: "map_of (om_outboundByTag ?m') t = None" by (auto simp: indexDelete_def map_of_eq_None_iff)
  have set: "set (om_outbounds ?m') = set (om_outbounds m) - {x}" using d by simp
  have "om_defaultOutbound ?m' \<noteq> Some x"
  proof (cases "remove1 x (om_outbounds m)")
    case (Cons y ys)
    then have "y \<in> set (om_outbounds m) - {x}" using d by (metis list.set_intros(1) set_remove1_eq)
    then show ?thesis using Cons by simp
  qed simp
  moreover have "OutboundManager_Remove call t ?m' w = (Err ErrInvalid, ?m', w)"
    unfolding OutboundManager_Remove_def gone by simp
  ultimately show ?thesis using rem set unfolding OutboundManager_Default_def by blast
qed

theorem remove_used_outbound_witness:
  "\<exists>m'. OutboundManager_Remove sampleCall ''hop'' sampleOutbounds [] =
      (Err (dependedError ''outbound'' ''hop'' [''proxy'']), m', []) \<and> OutboundManager_Default m' \<noteq> Some (sampleObject 1 ''socks'' ''hop'' [])"
proof -
  have 1: "consistent (om_outbounds sampleOutbounds) (om_outboundByTag sampleOutbounds)" by code_simp
  have 2: "map_of (om_outboundByTag sampleOutbounds) ''hop'' = Some (sampleObject 1 ''socks'' ''hop'' [])" by code_simp
  have 3: "dependBy (om_dependByTag sampleOutbounds) ''hop'' = [''proxy'']" by code_simp
  from remove_used_outbound [OF 1 2, of sampleCall "[]"] show ?thesis unfolding 3 by blast
qed

end
