(* ===== verification/Spec2Isabelle.thy ===== *)
theory Spec2Isabelle
  imports Rule_Theorems FakeIP_Theorems DNS_Client_Theorems DNS_Router_Theorems Manager_Theorems
begin

text \<open>
  A verification development for the Go program in \<^verbatim>\<open>src/\<close>, a universal proxy platform.

  \<^bold>\<open>The program and its parts.\<close> An inbound accepts a connection and fills in its metadata
  (\<^verbatim>\<open>adapter/inbound.go\<close>); the router (\<^verbatim>\<open>route/\<close>) runs its rules over the metadata, in order, and an
  action of the first matching rule decides what happens: route to an outbound, reject, sniff,
  resolve, hijack DNS. Rules are built from the configuration (\<^verbatim>\<open>option/\<close>, \<^verbatim>\<open>route/rule/\<close>) and may
  include rule-sets, which are loaded from files or fetched and updated.

  \<^bold>\<open>Theories.\<close> The model keeps the names of the code; one theory per part, facts apart from definitions
  where a part is large.

  \<^item> \<open>Prelude\<close>: collections, Go maps, fallible loops, decimal text.
  \<^item> \<open>Net_Addr\<close>: the part of Go's \<^verbatim>\<open>net/netip\<close> that the code uses.
  \<^item> \<open>Match_State\<close>: \<^verbatim>\<open>route/rule/match_state.go\<close>; the interface \<open>match_states\<close> between bit sets and the evaluator.
  \<^item> \<open>Inbound_Context\<close>: \<^verbatim>\<open>adapter/inbound.go\<close>, and the parameters \<open>lib\<close> (third-party and textual library
    functions) and \<open>net_env\<close> (the running system).
  \<^item> \<open>Rule_Items\<close>, \<open>Rule_Item_Match\<close>, \<open>Rule_Item_Facts\<close>: the conditions, \<^verbatim>\<open>route/rule/rule_item_*.go\<close>.
  \<^item> \<open>Rule_Action\<close>, \<open>Rule_Action_Facts\<close>: \<^verbatim>\<open>route/rule/rule_action.go\<close>, \<^verbatim>\<open>option/rule_action.go\<close>.
  \<^item> \<open>Rule_Abstract\<close>, \<open>Rule_Semantics\<close>, \<open>Rule_Merge\<close>: \<^verbatim>\<open>route/rule/rule_abstract.go\<close>, its meaning, and the
    meaning of included rule-sets; the contract \<open>state_evaluator\<close> of everything that can be evaluated.
  \<^item> \<open>Rule_Options\<close>, \<open>Rule_Build\<close>, \<open>Rule_Headless\<close>, \<open>Rule_DNS\<close>, \<open>Rule_Build_Facts\<close>: the constructors.
  \<^item> \<open>Rule_Set\<close>, \<open>Rule_Set_Facts\<close>: rule-set objects, reference counts, updates.
  \<^item> \<open>Samples\<close>, \<open>Rule_Theorems\<close>: a concrete instance of the parameters and the properties of the rules.

  \<^bold>\<open>Conventions.\<close> A struct is a record, an enumeration or interface a datatype. Errors are values; an
  operation that can also panic returns an \<open>outcome\<close>. An operation that changes an object returns
  the new object. A nil slice and an empty slice are the same list, as in the code that only asks
  for the length. Times are integers in nanoseconds. Code that is not under \<^verbatim>\<open>src/\<close> is a parameter.

  \<^bold>\<open>Not modelled.\<close> Network I/O, operating system interfaces, the JSON codec, and the third-party
  protocol implementations.
\<close>

end
